(* ===== verification/Prelude.thy ===== *)
theory Prelude
  imports Main
    "HOL-Library.State_Monad"
    "HOL-Library.List_Lexorder"
    "HOL-Library.Char_ord"
    "HOL-Library.AList"
begin

text \<open>
  The vocabulary every component shares: Go slices, maps and strings, Go error values with
  their unwrapping chain, and the effect layer in which the reconcilers run.

  Go strings are byte sequences, so \<open>string\<close> (a list of 8-bit characters) and its bytewise
  lexicographic order are Go's. A Go map is an association list with distinct keys: no model
  function depends on the order of the keys. A nil slice and an empty slice are both \<open>[]\<close>.
\<close>

section \<open>Collections of facts\<close>

named_theorems effect_simps \<open>evaluation of effectful operations\<close>
named_theorems yields_intros \<open>rules that decompose a trace property along the program\<close>
named_theorems keeps_intros \<open>the same with an invariant of the world\<close>

section \<open>Slices and maps\<close>

type_synonym ('k, 'v) gomap = "('k \<times> 'v) list"

text \<open>Indexing a Go map of slices: a missing key reads as the nil slice.\<close>

definition mget :: "('k, 'v list) gomap \<Rightarrow> 'k \<Rightarrow> 'v list" where
  "mget m k = (case map_of m k of None \<Rightarrow> [] | Some v \<Rightarrow> v)"

definition mset_key :: "('k, 'v) gomap \<Rightarrow> 'k \<Rightarrow> 'v \<Rightarrow> ('k, 'v) gomap" where
  "mset_key m k v = AList.update k v m"

definition mkeys :: "('k, 'v) gomap \<Rightarrow> 'k list" where
  "mkeys m = map fst m"

definition mdelete :: "('k, 'v) gomap \<Rightarrow> 'k \<Rightarrow> ('k, 'v) gomap" where
  "mdelete m k = AList.delete k m"

definition map_wf :: "('k, 'v) gomap \<Rightarrow> bool" where
  "map_wf m \<longleftrightarrow> distinct (mkeys m)"

lemma mget_Nil [simp]: "mget [] k = []"
  by (simp add: mget_def)

lemma mget_set [simp]: "mget (mset_key m k v) k' = (if k' = k then v else mget m k')"
  by (simp add: mget_def mset_key_def update_conv')

lemma mkeys_Nil [simp]: "mkeys [] = []"
  by (simp add: mkeys_def)

lemma set_mkeys_set [simp]: "set (mkeys (mset_key m k v)) = insert k (set (mkeys m))"
  by (auto simp: mkeys_def mset_key_def update_keys)

lemma map_wf_Nil [simp]: "map_wf []"
  by (simp add: map_wf_def)

lemma map_wf_set [simp, intro]: "map_wf m \<Longrightarrow> map_wf (mset_key m k v)"
  by (simp add: map_wf_def mkeys_def mset_key_def distinct_update)

lemma mget_delete [simp]: "mget (mdelete m k) k' = (if k' = k then [] else mget m k')"
  by (simp add: mget_def mdelete_def delete_conv')

lemma set_mkeys_delete [simp]: "set (mkeys (mdelete m k)) = set (mkeys m) - {k}"
  by (auto simp: mkeys_def mdelete_def AList.delete_keys)

lemma mget_not_key [simp]: "k \<notin> set (mkeys m) \<Longrightarrow> mget m k = []"
  by (auto simp: mget_def mkeys_def map_of_eq_None_iff split: option.splits)
     (metis map_of_SomeD image_eqI fst_conv)

lemma mget_nonempty_key: "x \<in> set (mget m k) \<Longrightarrow> k \<in> set (mkeys m)"
  by (cases "k \<in> set (mkeys m)") auto

lemma mkeys_empty_iff [simp]: "mkeys m = [] \<longleftrightarrow> m = []"
  by (simp add: mkeys_def)

text \<open>A loop invariant of a fold.\<close>

lemma foldl_inv:
  "P st \<Longrightarrow> (\<And>st x. x \<in> set xs \<Longrightarrow> P st \<Longrightarrow> P (f st x)) \<Longrightarrow> P (foldl f st xs)"
  by (induction xs arbitrary: st) auto

lemma split_at_iff:
  "pre @ c # post = xs @ ys \<longleftrightarrow>
     (\<exists>vs. xs = pre @ c # vs \<and> post = vs @ ys) \<or> (\<exists>us. pre = xs @ us \<and> ys = us @ c # post)"
  by (auto simp: append_eq_append_conv2 Cons_eq_append_conv)

lemma split_skip: "pre @ c # post = xs @ ys \<Longrightarrow> c \<notin> set xs \<Longrightarrow> \<exists>us. pre = xs @ us \<and> ys = us @ c # post"
  by (auto simp: split_at_iff)

lemma split_before: "pre @ c # post = xs @ ys \<Longrightarrow> c \<notin> set ys \<Longrightarrow> \<exists>vs. xs = pre @ c # vs \<and> post = vs @ ys"
  by (auto simp: split_at_iff)

lemma split_Cons: "pre @ c # post = x # ys \<Longrightarrow> c \<noteq> x \<Longrightarrow> \<exists>us. pre = x # us \<and> ys = us @ c # post"
  by (cases pre) auto

lemma split_second:
  "pre @ c # post = x # y # ws \<Longrightarrow> c \<noteq> x \<Longrightarrow> c \<notin> set ws \<Longrightarrow> pre = [x] \<and> c = y"
  by (cases pre; cases "tl pre") auto

text \<open>A property of each element of a list and what comes before it.\<close>

definition guarded :: "('c list \<Rightarrow> 'c \<Rightarrow> bool) \<Rightarrow> 'c list \<Rightarrow> bool" where
  "guarded P xs \<longleftrightarrow> (\<forall>pre c post. xs = pre @ c # post \<longrightarrow> P pre c)"

lemma guarded_Nil [simp]: "guarded P []"
  by (simp add: guarded_def)

lemma guarded_append [simp]: "guarded P (xs @ ys) \<longleftrightarrow> guarded P xs \<and> guarded (\<lambda>pre. P (xs @ pre)) ys"
  unfolding guarded_def eq_commute [of "_ @ _" "_ @ _ # _"] split_at_iff by blast

lemma guarded_Cons [simp]: "guarded P (c # xs) \<longleftrightarrow> P [] c \<and> guarded (\<lambda>pre. P (c # pre)) xs"
proof -
  have "guarded P [c] \<longleftrightarrow> P [] c" by (auto simp: guarded_def Cons_eq_append_conv)
  with guarded_append [of P "[c]" xs] show ?thesis by simp
qed

lemma guarded_mono: "guarded P xs \<Longrightarrow> (\<And>pre c. P pre c \<Longrightarrow> Q pre c) \<Longrightarrow> guarded Q xs"
  by (auto simp: guarded_def)

lemma guarded_all: "(\<And>c pre. c \<in> set xs \<Longrightarrow> P pre c) \<Longrightarrow> guarded P xs"
  by (auto simp: guarded_def)

lemma guardedD: "guarded P xs \<Longrightarrow> xs = pre @ c # post \<Longrightarrow> P pre c"
  by (auto simp: guarded_def)

lemma find_mem: "find P xs = Some x \<Longrightarrow> x \<in> set xs \<and> P x"
  by (induction xs) (auto split: if_splits)

section \<open>Strings\<close>

subsection \<open>strings.TrimSpace\<close>

text \<open>
  The UTF-8 encodings of the code points with Unicode's White_Space property, which is what
  \<^verbatim>\<open>unicode.IsSpace\<close> tests. No encoding is a prefix or a suffix of another one, and lead and
  continuation bytes are disjoint, so matching bytes at either end of a string is decoding
  its first or last rune.
\<close>

definition space_runes :: "string list" where
  "space_runes =
     map (\<lambda>c. [c]) [CHR 0x09, CHR 0x0A, CHR 0x0B, CHR 0x0C, CHR 0x0D, CHR 0x20] @
     [[CHR 0xC2, CHR 0x85], [CHR 0xC2, CHR 0xA0], [CHR 0xE1, CHR 0x9A, CHR 0x80]] @
     map (\<lambda>c. [CHR 0xE2, CHR 0x80, c])
       [CHR 0x80, CHR 0x81, CHR 0x82, CHR 0x83, CHR 0x84, CHR 0x85, CHR 0x86, CHR 0x87,
        CHR 0x88, CHR 0x89, CHR 0x8A, CHR 0xA8, CHR 0xA9, CHR 0xAF] @
     [[CHR 0xE2, CHR 0x81, CHR 0x9F], [CHR 0xE3, CHR 0x80, CHR 0x80]]"

definition leading :: "string list \<Rightarrow> string \<Rightarrow> nat" where
  "leading rs s = (case find (\<lambda>r. r \<noteq> [] \<and> take (length r) s = r) rs of
     None \<Rightarrow> 0 | Some r \<Rightarrow> length r)"

lemma leading_le: "leading rs s \<le> length s"
  by (auto simp: leading_def find_Some_iff split: option.splits)
     (metis length_take min.cobounded1)

function trim_leading :: "string list \<Rightarrow> string \<Rightarrow> string" where
  "trim_leading rs s =
     (if leading rs s = 0 then s else trim_leading rs (drop (leading rs s) s))"
  by pat_completeness auto
termination
proof (relation "measure (\<lambda>(rs, s). length s)", goal_cases)
  case (2 rs s)
  then show ?case using leading_le [of rs s] by auto
qed simp

declare trim_leading.simps [simp del]

definition TrimSpace :: "string \<Rightarrow> string" where
  "TrimSpace s =
     rev (trim_leading (map rev space_runes) (rev (trim_leading space_runes s)))"

lemma leading_Nil [simp]: "leading rs [] = 0"
  using leading_le [of rs "[]"] by simp

lemma trim_leading_Nil [simp]: "trim_leading rs [] = []"
  by (simp add: trim_leading.simps)

lemma leading_trim_leading [simp]: "leading rs (trim_leading rs s) = 0"
  by (induction rs s rule: trim_leading.induct) (subst trim_leading.simps, simp)

lemma trim_leading_idem [simp]: "trim_leading rs (trim_leading rs s) = trim_leading rs s"
  by (simp add: trim_leading.simps [of rs "trim_leading rs s"])

lemma trim_leading_fixpoint: "leading rs s = 0 \<Longrightarrow> trim_leading rs s = s"
  by (simp add: trim_leading.simps)

lemma TrimSpace_Nil [simp]: "TrimSpace [] = []"
  by (simp add: TrimSpace_def)

lemma trim_leading_drop: "\<exists>n. trim_leading rs s = drop n s"
proof (induction rs s rule: trim_leading.induct)
  case (1 rs s)
  show ?case
  proof (cases "leading rs s = 0")
    case True
    then show ?thesis by (intro exI [of _ 0]) (simp add: trim_leading_fixpoint)
  next
    case False
    with 1 obtain n where "trim_leading rs (drop (leading rs s) s) = drop n (drop (leading rs s) s)"
      by auto
    with False show ?thesis
      by (intro exI [of _ "n + leading rs s"]) (simp add: trim_leading.simps [of rs s])
  qed
qed

lemma leading_eq_0_iff:
  "leading rs s = 0 \<longleftrightarrow> (\<forall>r \<in> set rs. r \<noteq> [] \<longrightarrow> take (length r) s \<noteq> r)"
proof (cases "find (\<lambda>r. r \<noteq> [] \<and> take (length r) s = r) rs")
  case None
  moreover from None have "\<forall>r \<in> set rs. r \<noteq> [] \<longrightarrow> take (length r) s \<noteq> r"
    by (auto simp: find_None_iff)
  ultimately show ?thesis by (simp add: leading_def)
next
  case (Some r)
  moreover from Some have "r \<in> set rs \<and> r \<noteq> [] \<and> take (length r) s = r"
    by (auto simp: find_Some_iff)
  ultimately show ?thesis by (auto simp: leading_def)
qed

lemma leading_take: "leading rs s = 0 \<Longrightarrow> leading rs (take k s) = 0"
  unfolding leading_eq_0_iff
  by (metis append_take_drop_id length_take min.cobounded1 min_def take_all take_take)

lemma TrimSpace_take: "\<exists>n. TrimSpace s = take n (trim_leading space_runes s)"
proof -
  let ?u = "trim_leading space_runes s"
  obtain n where "trim_leading (map rev space_runes) (rev ?u) = drop n (rev ?u)"
    using trim_leading_drop by blast
  then have "TrimSpace s = take (length ?u - n) ?u"
    by (simp add: TrimSpace_def rev_drop)
  then show ?thesis ..
qed

lemma TrimSpace_idem [simp]: "TrimSpace (TrimSpace s) = TrimSpace s"
proof -
  obtain n where n: "TrimSpace s = take n (trim_leading space_runes s)"
    using TrimSpace_take by blast
  have "leading space_runes (TrimSpace s) = 0"
    unfolding n by (rule leading_take) simp
  then have "trim_leading space_runes (TrimSpace s) = TrimSpace s"
    by (rule trim_leading_fixpoint)
  then show ?thesis
    by (simp add: TrimSpace_def)
qed

subsection \<open>strings.ToLower and strings.EqualFold\<close>

text \<open>
  Both have an ASCII path, modelled exactly, and fall back to the Unicode case tables when a
  byte is not ASCII. Those tables are data of the Go distribution: \<open>unicode\<close> carries them as
  parameters, and every theorem holds for any tables.
\<close>

record unicode =
  Map_ToLower :: "string \<Rightarrow> string"
  Simple_Fold :: "string \<Rightarrow> string \<Rightarrow> bool"
  Quote_Unicode :: "string \<Rightarrow> string"

definition isASCII :: "string \<Rightarrow> bool" where
  "isASCII s \<longleftrightarrow> list_all (\<lambda>c. of_char c < (128::nat)) s"

definition ascii_lower :: "char \<Rightarrow> char" where
  "ascii_lower c =
     (if 65 \<le> (of_char c :: nat) \<and> (of_char c :: nat) \<le> 90 then char_of (of_char c + 32 :: nat) else c)"

definition ToLower :: "unicode \<Rightarrow> string \<Rightarrow> string" where
  "ToLower uc s = (if isASCII s then map ascii_lower s else Map_ToLower uc s)"

definition EqualFold :: "unicode \<Rightarrow> string \<Rightarrow> string \<Rightarrow> bool" where
  "EqualFold uc s t =
     (if isASCII s \<and> isASCII t then map ascii_lower s = map ascii_lower t
      else Simple_Fold uc s t)"

lemma EqualFold_ascii:
  "isASCII s \<Longrightarrow> isASCII t \<Longrightarrow> EqualFold uc s t \<longleftrightarrow> ToLower uc s = ToLower uc t"
  by (simp add: EqualFold_def ToLower_def)

subsection \<open>Rendering\<close>

fun show_nat :: "nat \<Rightarrow> string" where
  "show_nat n =
     (if n < 10 then [char_of (48 + n)] else show_nat (n div 10) @ [char_of (48 + n mod 10)])"

declare show_nat.simps [simp del]

definition show_int :: "int \<Rightarrow> string" where
  "show_int i = (if i < 0 then CHR ''-'' # show_nat (nat (- i)) else show_nat (nat i))"

text \<open>
  The verb \<^verbatim>\<open>%q\<close>: a quoted Go string literal. ASCII characters are printed, escaped by name or
  as \<^verbatim>\<open>\x..\<close>; which other runes are printable is in the Unicode tables.
\<close>

definition hex_digit :: "nat \<Rightarrow> char" where
  "hex_digit n = char_of (if n < 10 then 48 + n else 87 + n)"

definition quote_ascii :: "char \<Rightarrow> string" where
  "quote_ascii c =
     (let n = of_char c :: nat
      in if n = 34 \<or> n = 92 then [CHR 0x5C, c]
         else if 32 \<le> n \<and> n < 127 then [c]
         else case map_of [(7, CHR ''a''), (8, CHR ''b''), (12, CHR ''f''), (10, CHR ''n''),
                           (13, CHR ''r''), (9, CHR ''t''), (11, CHR ''v'')] n of
           Some e \<Rightarrow> [CHR 0x5C, e]
         | None \<Rightarrow> [CHR 0x5C, CHR ''x'', hex_digit (n div 16), hex_digit (n mod 16)])"

definition Quote :: "unicode \<Rightarrow> string \<Rightarrow> string" where
  "Quote uc s =
     (if isASCII s then [CHR 0x22] @ concat (map quote_ascii s) @ [CHR 0x22] else Quote_Unicode uc s)"

text \<open>\<^verbatim>\<open>strings.Join\<close>.\<close>

fun join :: "string \<Rightarrow> string list \<Rightarrow> string" where
  "join sep [] = []"
| "join sep [s] = s"
| "join sep (s # ss) = s @ sep @ join sep ss"

text \<open>The verb \<^verbatim>\<open>%v\<close> on a slice of strings.\<close>

definition show_strings :: "string list \<Rightarrow> string" where
  "show_strings xs = ''['' @ join '' '' xs @ '']''"

section \<open>Parsed URLs\<close>

text \<open>What the code reads of a parsed URL. \<open>URL_User\<close> is the presence of user information.\<close>

record URL =
  URL_Scheme :: string
  URL_Host :: string
  URL_User :: bool
  URL_Fragment :: string

section \<open>Effects\<close>

text \<open>
  A reconciler talks to services outside the repository: the Kubernetes API server, the
  OpenZiti controller, Microsoft Graph, the clock. Their state is an opaque \<open>world\<close>, and each
  call is a function that a parameter supplies: it takes the arguments and the world and
  gives the response and the next world, so a response may depend on everything that
  happened before and on changes nobody here made. Every call that matters to a property is
  recorded, with its arguments and its response, at the end of \<open>trace\<close>.
\<close>

record ('w, 'c) sys =
  world :: 'w
  trace :: "'c list"

type_synonym ('w, 'c, 'a) io = "(('w, 'c) sys, 'a) state"

text \<open>A call that is recorded: \<open>mk r\<close> is the record of the call with response \<open>r\<close>.\<close>

definition call :: "('a \<Rightarrow> 'c) \<Rightarrow> ('w \<Rightarrow> 'a \<times> 'w) \<Rightarrow> ('w, 'c, 'a) io" where
  "call mk f = State (\<lambda>s. let (r, w) = f (world s)
     in (r, s\<lparr>world := w, trace := trace s @ [mk r]\<rparr>))"

text \<open>A read of the clock, of a context or of the environment, not recorded.\<close>

definition ask :: "('w \<Rightarrow> 'a \<times> 'w) \<Rightarrow> ('w, 'c, 'a) io" where
  "ask f = State (\<lambda>s. let (r, w) = f (world s) in (r, s\<lparr>world := w\<rparr>))"

lemma run_call [effect_simps]:
  "run_state (call mk f) s =
     (fst (f (world s)), s\<lparr>world := snd (f (world s)), trace := trace s @ [mk (fst (f (world s)))]\<rparr>)"
  by (simp add: call_def split_beta)

lemma run_ask [effect_simps]:
  "run_state (ask f) s = (fst (f (world s)), s\<lparr>world := snd (f (world s))\<rparr>)"
  by (simp add: ask_def split_beta)

subsection \<open>Trace properties\<close>

text \<open>
  \<open>yields m Q\<close>: from every state, \<open>m\<close> only appends to the trace, and the calls it appended
  and its result satisfy \<open>Q\<close>. The rules below follow the program's structure, so a property
  of a handler's calls is proved by applying them and then discharging first-order goals.
\<close>

definition yields :: "('w, 'c, 'a) io \<Rightarrow> ('c list \<Rightarrow> 'a \<Rightarrow> bool) \<Rightarrow> bool" where
  "yields m Q \<longleftrightarrow> (\<forall>s. \<exists>xs. trace (snd (run_state m s)) = trace s @ xs \<and> Q xs (fst (run_state m s)))"

lemma yieldsD:
  "yields m Q \<Longrightarrow> run_state m s = (a, s') \<Longrightarrow> \<exists>xs. trace s' = trace s @ xs \<and> Q xs a"
  unfolding yields_def by (metis fst_conv snd_conv)

lemma yields_return [yields_intros]: "Q [] a \<Longrightarrow> yields (State_Monad.return a) Q"
  by (simp add: yields_def)

lemma yields_call [yields_intros]: "(\<And>r. Q [mk r] r) \<Longrightarrow> yields (call mk f) Q"
  by (simp add: yields_def effect_simps)

lemma yields_ask [yields_intros]: "(\<And>r. Q [] r) \<Longrightarrow> yields (ask f) Q"
  by (simp add: yields_def effect_simps)

lemma yields_bind [yields_intros]:
  assumes "yields m (\<lambda>xs a. yields (f a) (\<lambda>ys b. Q (xs @ ys) b))"
  shows "yields (State_Monad.bind m f) Q"
  unfolding yields_def
proof
  fix s
  obtain a s' where m: "run_state m s = (a, s')" by force
  with assms obtain xs where xs: "trace s' = trace s @ xs" "yields (f a) (\<lambda>ys b. Q (xs @ ys) b)"
    using yieldsD by fastforce
  obtain b s'' where f: "run_state (f a) s' = (b, s'')" by force
  with xs obtain ys where "trace s'' = trace s' @ ys" "Q (xs @ ys) b"
    using yieldsD by fastforce
  with xs m f show "\<exists>zs. trace (snd (run_state (State_Monad.bind m f) s)) = trace s @ zs \<and>
      Q zs (fst (run_state (State_Monad.bind m f) s))"
    by (intro exI [of _ "xs @ ys"]) simp
qed

lemma yields_mono: "yields m Q \<Longrightarrow> (\<And>xs a. Q xs a \<Longrightarrow> R xs a) \<Longrightarrow> yields m R"
  unfolding yields_def by blast

lemma yields_conj: "yields m Q \<Longrightarrow> yields m R \<Longrightarrow> yields m (\<lambda>xs a. Q xs a \<and> R xs a)"
  unfolding yields_def by (metis same_append_eq)

lemma yields_if [yields_intros]:
  "(b \<Longrightarrow> yields m Q) \<Longrightarrow> (\<not> b \<Longrightarrow> yields n Q) \<Longrightarrow> yields (if b then m else n) Q"
  by simp

lemma yields_case_sum [yields_intros]:
  "(\<And>e. x = Inl e \<Longrightarrow> yields (f e) Q) \<Longrightarrow> (\<And>a. x = Inr a \<Longrightarrow> yields (g a) Q) \<Longrightarrow>
   yields (case x of Inl e \<Rightarrow> f e | Inr a \<Rightarrow> g a) Q"
  by (cases x) auto

lemma yields_case_option [yields_intros]:
  "(x = None \<Longrightarrow> yields m Q) \<Longrightarrow> (\<And>a. x = Some a \<Longrightarrow> yields (f a) Q) \<Longrightarrow>
   yields (case x of None \<Rightarrow> m | Some a \<Rightarrow> f a) Q"
  by (cases x) auto

lemma yields_case_prod [yields_intros]:
  "(\<And>a b. x = (a, b) \<Longrightarrow> yields (f a b) Q) \<Longrightarrow> yields (case x of (a, b) \<Rightarrow> f a b) Q"
  by (cases x) auto

lemma yields_let [yields_intros]: "(\<And>y. y = x \<Longrightarrow> yields (f y) Q) \<Longrightarrow> yields (let y = x in f y) Q"
  by simp

subsection \<open>Invariants of the world\<close>

text \<open>
  \<open>keeps I m Q\<close>: from a world with the invariant \<open>I\<close>, \<open>m\<close> leads to one, and the calls it
  appended and its result satisfy \<open>Q\<close>.
\<close>

definition keeps :: "('w \<Rightarrow> bool) \<Rightarrow> ('w, 'c, 'a) io \<Rightarrow> ('c list \<Rightarrow> 'a \<Rightarrow> bool) \<Rightarrow> bool" where
  "keeps I m Q \<longleftrightarrow> (\<forall>s. I (world s) \<longrightarrow> I (world (snd (run_state m s))) \<and>
     (\<exists>xs. trace (snd (run_state m s)) = trace s @ xs \<and> Q xs (fst (run_state m s))))"

lemma keepsD:
  "keeps I m Q \<Longrightarrow> I (world s) \<Longrightarrow> run_state m s = (a, s') \<Longrightarrow> I (world s') \<and> (\<exists>xs. trace s' = trace s @ xs \<and> Q xs a)"
  unfolding keeps_def by (metis fst_conv snd_conv)

lemma keeps_return [keeps_intros]: "Q [] a \<Longrightarrow> keeps I (State_Monad.return a) Q"
  by (simp add: keeps_def)

lemma keeps_call [keeps_intros]:
  "(\<And>w. I w \<Longrightarrow> I (snd (f w)) \<and> Q [mk (fst (f w))] (fst (f w))) \<Longrightarrow> keeps I (call mk f) Q"
  by (simp add: keeps_def effect_simps)

lemma keeps_ask [keeps_intros]: "(\<And>w. I w \<Longrightarrow> I (snd (f w)) \<and> Q [] (fst (f w))) \<Longrightarrow> keeps I (ask f) Q"
  by (simp add: keeps_def effect_simps)

lemma keeps_bind [keeps_intros]:
  assumes "keeps I m (\<lambda>xs a. keeps I (f a) (\<lambda>ys b. Q (xs @ ys) b))"
  shows "keeps I (State_Monad.bind m f) Q"
  unfolding keeps_def
proof (intro allI impI)
  fix s :: "('a, 'b) sys"
  assume I: "I (world s)"
  obtain a s1 where m: "run_state m s = (a, s1)" by force
  from keepsD [OF assms I m] obtain xs where xs: "I (world s1)" "trace s1 = trace s @ xs"
    "keeps I (f a) (\<lambda>ys b. Q (xs @ ys) b)" by blast
  obtain b s2 where f: "run_state (f a) s1 = (b, s2)" by force
  from keepsD [OF xs(3,1) f] obtain ys where "I (world s2)" "trace s2 = trace s1 @ ys" "Q (xs @ ys) b" by blast
  with xs m f show "I (world (snd (run_state (State_Monad.bind m f) s))) \<and>
      (\<exists>zs. trace (snd (run_state (State_Monad.bind m f) s)) = trace s @ zs \<and> Q zs (fst (run_state (State_Monad.bind m f) s)))"
    by (intro conjI exI [of _ "xs @ ys"]) simp_all
qed

lemma keeps_mono: "keeps I m Q \<Longrightarrow> (\<And>xs a. Q xs a \<Longrightarrow> R xs a) \<Longrightarrow> keeps I m R"
  unfolding keeps_def by blast

lemma keeps_if [keeps_intros]:
  "(b \<Longrightarrow> keeps I m Q) \<Longrightarrow> (\<not> b \<Longrightarrow> keeps I n Q) \<Longrightarrow> keeps I (if b then m else n) Q"
  by simp

lemma keeps_case_sum [keeps_intros]:
  "(\<And>e. x = Inl e \<Longrightarrow> keeps I (f e) Q) \<Longrightarrow> (\<And>a. x = Inr a \<Longrightarrow> keeps I (g a) Q) \<Longrightarrow>
   keeps I (case x of Inl e \<Rightarrow> f e | Inr a \<Rightarrow> g a) Q"
  by (cases x) auto

lemma keeps_case_option [keeps_intros]:
  "(x = None \<Longrightarrow> keeps I m Q) \<Longrightarrow> (\<And>a. x = Some a \<Longrightarrow> keeps I (f a) Q) \<Longrightarrow>
   keeps I (case x of None \<Rightarrow> m | Some a \<Rightarrow> f a) Q"
  by (cases x) auto

lemma keeps_case_prod [keeps_intros]:
  "(\<And>a b. x = (a, b) \<Longrightarrow> keeps I (f a b) Q) \<Longrightarrow> keeps I (case x of (a, b) \<Rightarrow> f a b) Q"
  by (cases x) auto

lemma keeps_let [keeps_intros]: "(\<And>y. y = x \<Longrightarrow> keeps I (f y) Q) \<Longrightarrow> keeps I (let y = x in f y) Q"
  by simp

end
