(* ===== verification/Errors.thy ===== *)
theory Errors
  imports Prelude
begin

text \<open>
  Go error values. \<^verbatim>\<open>fmt.Errorf("...: %w", err)\<close> keeps the wrapped error in a chain that
  \<^verbatim>\<open>errors.Is\<close> and \<^verbatim>\<open>errors.As\<close> walk; \<^verbatim>\<open>errors.New\<close> and \<^verbatim>\<open>fmt.Errorf\<close> without \<^verbatim>\<open>%w\<close>
  make a leaf. The sentinel errors of \<^verbatim>\<open>internal/entra/errors.go\<close>,
  \<^verbatim>\<open>internal/rolesync/planner.go\<close> and \<^verbatim>\<open>context\<close> are constructors of their own, and so are
  the typed errors the code takes apart: \<open>GraphError\<close>, \<open>TokenError\<close>, the errors of the OpenZiti
  REST client (which have a \<^verbatim>\<open>Code()\<close> method) and Kubernetes not-found errors. \<open>Panic\<close> is a
  dereferenced nil pointer: the handler ends there. \<open>Diverges\<close> is no value of the program: it
  stands for a paging loop that has not ended within the pages the model allows it.
\<close>

type_synonym duration = int \<comment> \<open>nanoseconds\<close>
type_synonym time = int \<comment> \<open>nanoseconds since an epoch\<close>

record GraphError =
  Graph_StatusCode :: int
  Graph_Code :: string
  Graph_Message :: string
  Graph_RetryAfter :: duration

record TokenError =
  Token_StatusCode :: int
  Token_Code :: string
  Token_Message :: string
  Token_RetryAfter :: duration
  Token_transient :: bool

datatype error =
    New string
  | Errorf_w string error
  | Canceled
  | DeadlineExceeded
  | ErrServicePrincipalNotFound
  | ErrLimitedUserData
  | ErrNoUserRoles
  | Graph GraphError
  | Token TokenError
  | Coded int string
  | KubeNotFound string
  | Panic string
  | Diverges

section \<open>errors.Is, errors.As\<close>

fun errors_Is :: "error \<Rightarrow> error \<Rightarrow> bool" where
  "errors_Is (Errorf_w m e) t \<longleftrightarrow> Errorf_w m e = t \<or> errors_Is e t"
| "errors_Is e t \<longleftrightarrow> e = t"

fun errors_As_Graph :: "error \<Rightarrow> GraphError option" where
  "errors_As_Graph (Errorf_w m e) = errors_As_Graph e"
| "errors_As_Graph (Graph g) = Some g"
| "errors_As_Graph _ = None"

fun errors_As_Token :: "error \<Rightarrow> TokenError option" where
  "errors_As_Token (Errorf_w m e) = errors_As_Token e"
| "errors_As_Token (Token t) = Some t"
| "errors_As_Token _ = None"

fun errors_As_coder :: "error \<Rightarrow> int option" where
  "errors_As_coder (Errorf_w m e) = errors_As_coder e"
| "errors_As_coder (Coded c m) = Some c"
| "errors_As_coder _ = None"

text \<open>\<^verbatim>\<open>apierrors.IsNotFound\<close> unwraps with \<^verbatim>\<open>errors.As\<close>.\<close>

fun IsNotFound :: "error \<Rightarrow> bool" where
  "IsNotFound (Errorf_w m e) = IsNotFound e"
| "IsNotFound (KubeNotFound m) = True"
| "IsNotFound _ = False"

lemma errors_As_Token_imp_not_Graph: "errors_As_Token e = Some t \<Longrightarrow> errors_As_Graph e = None"
  by (induction e rule: errors_As_Token.induct) auto

section \<open>Error()\<close>

definition GraphError_Error :: "GraphError \<Rightarrow> string" where
  "GraphError_Error e =
     ''Graph HTTP '' @ show_int (Graph_StatusCode e) @ '' '' @ Graph_Code e @ '': '' @ Graph_Message e"

definition TokenError_Error :: "TokenError \<Rightarrow> string" where
  "TokenError_Error e = ''Entra token '' @ Token_Code e @ '': '' @ Token_Message e"

definition TokenError_Transient :: "TokenError \<Rightarrow> bool" where
  "TokenError_Transient e \<longleftrightarrow>
     Token_transient e \<or> Token_StatusCode e = 429 \<or> Token_StatusCode e \<ge> 500 \<or>
     Token_Code e = ''temporarily_unavailable'' \<or> Token_Code e = ''server_error''"

fun Error :: "error \<Rightarrow> string" where
  "Error (New m) = m"
| "Error (Errorf_w m e) = m @ '': '' @ Error e"
| "Error Canceled = ''context canceled''"
| "Error DeadlineExceeded = ''context deadline exceeded''"
| "Error ErrServicePrincipalNotFound = ''entra application service principal not found''"
| "Error ErrLimitedUserData = ''graph user data is incomplete; grant User.ReadBasic.All''"
| "Error ErrNoUserRoles = ''entra application has no roles allowing User''"
| "Error (Graph g) = GraphError_Error g"
| "Error (Token t) = TokenError_Error t"
| "Error (Coded c m) = m"
| "Error (KubeNotFound m) = m"
| "Error (Panic m) = ''panic: '' @ m"
| "Error Diverges = []"

end
