(* ===== verification/Directory.thy ===== *)
theory Directory
  imports Errors
begin

text \<open>
  The data of \<^verbatim>\<open>internal/entra/directory.go\<close>, \<^verbatim>\<open>internal/openziti/client\<close> and
  \<^verbatim>\<open>internal/rolesync\<close> that collection, planning and the controllers exchange: the snapshot of
  the Entra directory and the OpenZiti objects.
\<close>

section \<open>Entra directory snapshots\<close>

record AppRole =
  AppRole_ID :: string
  AppRole_Value :: string
  AllowedMemberTypes :: "string list"
  IsEnabled :: bool

record ServicePrincipal =
  ServicePrincipal_ID :: string
  AppRoles :: "AppRole list"

record AppRoleAssignment =
  PrincipalID :: string
  PrincipalType :: string
  AppRoleID :: string

record User =
  User_ID :: string
  User_DisplayName :: string
  User_Mail :: string
  UserPrincipalName :: string

text \<open>The \<^verbatim>\<open>Directory\<close> interface: each method reads the world and may change it.\<close>

record 'w Directory =
  GetServicePrincipal :: "string \<Rightarrow> 'w \<Rightarrow> (error + ServicePrincipal option) \<times> 'w"
  ListAppRoleAssignedTo :: "string \<Rightarrow> 'w \<Rightarrow> (error + AppRoleAssignment list) \<times> 'w"
  ListGroupUsers :: "string \<Rightarrow> 'w \<Rightarrow> (error + User list) \<times> 'w"

section \<open>OpenZiti identities\<close>

record Identity =
  Identity_ID :: string
  Identity_Name :: string
  Identity_Type :: string
  RoleAttributes :: "string list"
  CreateOTT :: bool
  ExternalID :: string

end
