(* ===== verification/Entra_Errors.thy ===== *)
theory Entra_Errors
  imports Directory "HOL-Library.Sublist"
begin

text \<open>
  \<^verbatim>\<open>internal/entra/errors.go\<close>: what the operator keeps of a failed token request or of a failed
  Graph request. Messages are cleaned of secrets and bounded in length before they reach a
  status, an event or a log, and the server's \<^verbatim>\<open>Retry-After\<close> becomes a duration.
\<close>

section \<open>Library functions on strings\<close>

text \<open>\<^verbatim>\<open>strings.ReplaceAll\<close> with a non-empty \<open>old\<close>: occurrences from the left that do not overlap.\<close>

function ReplaceAll :: "string \<Rightarrow> string \<Rightarrow> string \<Rightarrow> string" where
  "ReplaceAll old new s =
     (if old = [] \<or> s = [] then s
      else if take (length old) s = old then new @ ReplaceAll old new (drop (length old) s)
      else hd s # ReplaceAll old new (tl s))"
  by pat_completeness auto
termination
  by (relation "measure (\<lambda>(old, new, s). length s)") (auto simp: neq_Nil_conv)

declare ReplaceAll.simps [simp del]

text \<open>\<^verbatim>\<open>strings.Fields\<close>: the maximal runs without a space rune; \<open>word\<close> is the run being read.\<close>

definition emit :: "string \<Rightarrow> string list" where
  "emit word = (if word = [] then [] else [word])"

function fields_from :: "string \<Rightarrow> string \<Rightarrow> string list" where
  "fields_from word s =
     (if s = [] then emit word
      else if leading space_runes s \<noteq> 0
      then emit word @ fields_from [] (drop (leading space_runes s) s)
      else fields_from (word @ [hd s]) (tl s))"
  by pat_completeness auto
termination
  by (relation "measure (\<lambda>(word, s). length s)") (auto simp: neq_Nil_conv)

declare fields_from.simps [simp del]

definition Fields :: "string \<Rightarrow> string list" where
  "Fields s = fields_from [] s"

text \<open>\<^verbatim>\<open>strings.Index\<close>, and the cut at an index the code makes when it is not negative.\<close>

fun Index :: "string \<Rightarrow> string \<Rightarrow> nat option" where
  "Index s needle =
     (if take (length needle) s = needle then Some 0
      else case s of [] \<Rightarrow> None | c # cs \<Rightarrow> map_option Suc (Index cs needle))"

declare Index.simps [simp del]

text \<open>\<^verbatim>\<open>regexp.MustCompile(`AADSTS[0-9]+`).FindString\<close>: the leftmost match, as long as possible.\<close>

definition is_digit :: "char \<Rightarrow> bool" where
  "is_digit c \<longleftrightarrow> 48 \<le> (of_char c :: nat) \<and> (of_char c :: nat) \<le> 57"

fun aadCode_FindString :: "string \<Rightarrow> string" where
  "aadCode_FindString [] = []"
| "aadCode_FindString (c # cs) =
     (let digits = takeWhile is_digit (drop 6 (c # cs))
      in if take 6 (c # cs) = ''AADSTS'' \<and> digits \<noteq> [] then ''AADSTS'' @ digits
         else aadCode_FindString cs)"

text \<open>\<^verbatim>\<open>strconv.ParseInt(s, 10, 64)\<close>: an optional sign and digits, within the range of \<^verbatim>\<open>int64\<close>.\<close>

definition parse_digits :: "string \<Rightarrow> nat" where
  "parse_digits s = foldl (\<lambda>n c. 10 * n + (of_char c - 48)) 0 s"

definition ParseInt64 :: "string \<Rightarrow> int option" where
  "ParseInt64 s =
     (let (neg, digits) = (case s of [] \<Rightarrow> (False, [])
        | c # cs \<Rightarrow> if c = CHR ''+'' then (False, cs) else if c = CHR ''-'' then (True, cs) else (False, s));
          n = int (parse_digits digits); v = if neg then - n else n
      in if digits = [] \<or> \<not> list_all is_digit digits then None
         else if - (2 ^ 63) \<le> v \<and> v \<le> 2 ^ 63 - 1 then Some v else None)"

section \<open>sanitize\<close>

definition redacted :: string where "redacted = ''[redacted]''"

fun redact :: "string \<Rightarrow> string list \<Rightarrow> string" where
  "redact s [] = s"
| "redact s (secret # secrets) = redact (if secret \<noteq> [] then ReplaceAll secret redacted s else s) secrets"

definition sanitize :: "string \<Rightarrow> string list \<Rightarrow> string" where
  "sanitize s secrets =
     (let s = join '' '' (Fields (redact s secrets))
      in if length s > 512 then take 512 s else s)"

section \<open>Retry-After\<close>

text \<open>Durations and seconds are \<^verbatim>\<open>int64\<close>; \<open>int64\<close> is the wrap-around of their arithmetic.\<close>

definition int64 :: "int \<Rightarrow> int" where
  "int64 x = (x + 2 ^ 63) mod 2 ^ 64 - 2 ^ 63"

definition MaxDuration :: int where "MaxDuration = 2 ^ 63 - 1"
definition Second :: int where "Second = 1000000000"

text \<open>\<^verbatim>\<open>time.Time.Sub\<close> saturates.\<close>

definition Time_Sub :: "time \<Rightarrow> time \<Rightarrow> duration" where
  "Time_Sub t u = max (- MaxDuration - 1) (min MaxDuration (t - u))"

text \<open>What the code reads of an \<^verbatim>\<open>http.Response\<close>; \<^verbatim>\<open>http.ParseTime\<close> is a parameter.\<close>

record Response =
  StatusCode :: int
  Header_RetryAfter :: string
  Body :: string

definition responseRetryAfter :: "(string \<Rightarrow> time option) \<Rightarrow> Response \<Rightarrow> time \<Rightarrow> duration" where
  "responseRetryAfter ParseTime resp now =
     (if StatusCode resp \<noteq> 429 \<and> StatusCode resp \<noteq> 503 then 0
      else
        let value = Header_RetryAfter resp;
            by_time = (case ParseTime value of
              Some retry \<Rightarrow> if retry > now then Time_Sub retry now else 0
            | None \<Rightarrow> 0)
        in case ParseInt64 value of
             Some seconds \<Rightarrow>
               if seconds > 0 \<and> seconds \<le> MaxDuration div Second then int64 (seconds * Second) else by_time
           | None \<Rightarrow> by_time)"

section \<open>Errors of token requests and of Graph requests\<close>

text \<open>
  \<^verbatim>\<open>encoding/json\<close> and \<^verbatim>\<open>http.StatusText\<close> are parameters: a decoder gives the fields it filled,
  which are empty when the body is not what it expects.
\<close>

record token_body =
  TB_Code :: string
  TB_Description :: string
  TB_AccessToken :: string
  TB_RefreshToken :: string
  TB_IDToken :: string

record graph_body =
  GB_Code :: string
  GB_Message :: string

record RetrieveError =
  Retrieve_Body :: string
  Retrieve_Response :: "Response option"

text \<open>The error of \<^verbatim>\<open>TokenSource.Token\<close>: an \<^verbatim>\<open>oauth2.RetrieveError\<close> or another one.\<close>

datatype token_failure = Retrieve RetrieveError | Other error

record wire_lib =
  Unmarshal_token :: "string \<Rightarrow> token_body"
  Decode_graph_error :: "string \<Rightarrow> graph_body"
  StatusText :: "int \<Rightarrow> string"
  ParseTime :: "string \<Rightarrow> time option"

definition cut_at :: "string \<Rightarrow> string \<Rightarrow> string" where
  "cut_at description marker = (case Index description marker of Some i \<Rightarrow> take i description | None \<Rightarrow> description)"

definition cut_sentence :: "string \<Rightarrow> string" where
  "cut_sentence description = (case Index description ''. '' of Some i \<Rightarrow> take (i + 1) description | None \<Rightarrow> description)"

definition safeTokenError :: "wire_lib \<Rightarrow> token_failure \<Rightarrow> string \<Rightarrow> time \<Rightarrow> error" where
  "safeTokenError wl err secret now =
     (case err of
        Other err \<Rightarrow>
          if errors_Is err Canceled then Canceled
          else if errors_Is err DeadlineExceeded then DeadlineExceeded
          else New ''entra token request failed''
      | Retrieve retrieve \<Rightarrow>
          let body = Unmarshal_token wl (Retrieve_Body retrieve);
              code = aadCode_FindString (TB_Description body);
              code = (if code = [] then TB_Code body else code);
              description = foldl cut_at (TB_Description body) [''Trace ID:'', ''Correlation ID:'', ''Timestamp:''];
              description = cut_sentence description;
              secrets = [secret, TB_AccessToken body, TB_RefreshToken body, TB_IDToken body]
          in Token \<lparr>
               Token_StatusCode = (case Retrieve_Response retrieve of None \<Rightarrow> 0 | Some resp \<Rightarrow> StatusCode resp),
               Token_Code = sanitize code secrets, Token_Message = sanitize description secrets,
               Token_RetryAfter = (case Retrieve_Response retrieve of None \<Rightarrow> 0
                 | Some resp \<Rightarrow> responseRetryAfter (ParseTime wl) resp now),
               Token_transient = (TB_Code body = ''temporarily_unavailable'' \<or> TB_Code body = ''server_error'')\<rparr>)"

definition responseError :: "wire_lib \<Rightarrow> string \<Rightarrow> Response \<Rightarrow> string \<Rightarrow> time \<Rightarrow> error" where
  "responseError wl clientSecret resp token now =
     (let body = Decode_graph_error wl (Body resp);
          code = sanitize (GB_Code body) [clientSecret, token];
          message = sanitize (GB_Message body) [clientSecret, token];
          message = (if message = [] then StatusText wl (StatusCode resp) else message)
      in Graph \<lparr>Graph_StatusCode = StatusCode resp, Graph_Code = code, Graph_Message = message,
           Graph_RetryAfter = responseRetryAfter (ParseTime wl) resp now\<rparr>)"

section \<open>What redaction removes\<close>

text \<open>
  A secret that cannot be confused with the replacement: it is not empty, has neither a
  bracket nor a space, and is no part of the word between the brackets.
\<close>

definition plain_secret :: "string \<Rightarrow> bool" where
  "plain_secret x \<longleftrightarrow> x \<noteq> [] \<and> CHR ''['' \<notin> set x \<and> CHR '']'' \<notin> set x \<and> CHR '' '' \<notin> set x \<and> \<not> sublist x ''redacted''"

lemma sublist_across:
  assumes "sublist x (ys @ b # zs)" "b \<notin> set x"
  shows "sublist x ys \<or> sublist x zs"
proof -
  from assms(1) have "sublist x ys \<or> sublist x (b # zs) \<or> (\<exists>x1 x2. x = x1 @ x2 \<and> suffix x1 ys \<and> prefix x2 (b # zs))"
    by (simp add: sublist_append)
  then show ?thesis
  proof (elim disjE exE conjE)
    assume "sublist x (b # zs)"
    then show ?thesis using assms(2) by (cases x) (auto simp: sublist_Cons_right)
  next
    fix x1 x2
    assume x: "x = x1 @ x2" "suffix x1 ys" "prefix x2 (b # zs)"
    then have "x2 = []" using assms(2) by (cases x2) auto
    with x show ?thesis by (simp add: suffix_imp_sublist)
  qed simp
qed

lemma sublist_redacted:
  assumes "sublist x (redacted @ r)" "plain_secret x"
  shows "sublist x r"
proof -
  have "sublist x ([] @ CHR ''['' # (''redacted'' @ CHR '']'' # r))"
    using assms(1) by (simp add: redacted_def)
  from sublist_across [OF this] assms(2) have "sublist x (''redacted'' @ CHR '']'' # r)"
    by (auto simp: plain_secret_def)
  from sublist_across [OF this] assms(2) show ?thesis by (auto simp: plain_secret_def)
qed

text \<open>Up to the first replacement, the result is the text itself.\<close>

lemma ReplaceAll_start:
  "\<exists>u v. ReplaceAll old redacted s = u @ v \<and> prefix u s \<and> (v = [] \<or> (\<exists>w. v = CHR ''['' # w))"
proof (induction old redacted s rule: ReplaceAll.induct)
  case (1 old s)
  consider (empty) "old = [] \<or> s = []" | (hit) "old \<noteq> [] \<and> s \<noteq> []" "take (length old) s = old"
    | (skip) c cs where "old \<noteq> []" "s = c # cs" "take (length old) s \<noteq> old"
    by (metis list.exhaust)
  then show ?case
  proof cases
    case empty
    then show ?thesis by (intro exI [of _ s] exI [of _ "[]"]) (auto simp: ReplaceAll.simps)
  next
    case hit
    then have "ReplaceAll old redacted s = [] @ redacted @ ReplaceAll old redacted (drop (length old) s)"
      by (simp add: ReplaceAll.simps)
    then show ?thesis by (intro exI [of _ "[]"] exI) (auto simp: redacted_def)
  next
    case (skip c cs)
    with skip 1(2) obtain u v where "ReplaceAll old redacted cs = u @ v" "prefix u cs" "v = [] \<or> (\<exists>w. v = CHR ''['' # w)"
      by auto
    with skip show ?thesis
      by (intro exI [of _ "c # u"] exI [of _ v]) (simp add: ReplaceAll.simps)
  qed
qed

lemma prefix_before_bracket:
  assumes "prefix x (c # ReplaceAll old redacted cs)" "plain_secret x"
  shows "prefix x (c # cs)"
proof -
  obtain u v where uv: "ReplaceAll old redacted cs = u @ v" "prefix u cs" "v = [] \<or> (\<exists>w. v = CHR ''['' # w)"
    using ReplaceAll_start by blast
  have "prefix x (c # u)"
  proof (rule ccontr)
    assume "\<not> prefix x (c # u)"
    with assms(1) uv(1) obtain y where "x = (c # u) @ y" "y \<noteq> []" "prefix y v"
      by (metis append_Cons prefix_append self_append_conv prefix_order.refl)
    with uv(3) assms(2) show False by (cases y) (auto simp: plain_secret_def)
  qed
  with uv(2) show ?thesis by (meson prefix_order.trans Cons_prefix_Cons)
qed

text \<open>Redacting one secret does not bring another one into the text, and removes that one.\<close>

lemma ReplaceAll_sublist:
  "sublist x (ReplaceAll old redacted s) \<Longrightarrow> plain_secret x \<Longrightarrow> sublist x s"
proof (induction old redacted s rule: ReplaceAll.induct)
  case (1 old s)
  consider (empty) "old = [] \<or> s = []" | (hit) "old \<noteq> [] \<and> s \<noteq> []" "take (length old) s = old"
    | (skip) c cs where "old \<noteq> []" "s = c # cs" "take (length old) s \<noteq> old"
    by (metis list.exhaust)
  then show ?case
  proof cases
    case empty
    with "1.prems"(1) show ?thesis by (simp add: ReplaceAll.simps split: if_splits)
  next
    case hit
    with "1.prems" have "sublist x (ReplaceAll old redacted (drop (length old) s))"
      by (simp add: ReplaceAll.simps [of old _ s] sublist_redacted)
    with hit "1.hyps"(1) "1.prems"(2) have "sublist x (drop (length old) s)" by simp
    then show ?thesis by (metis append_take_drop_id sublist_append)
  next
    case (skip c cs)
    with "1.prems"(1) have "prefix x (c # ReplaceAll old redacted cs) \<or> sublist x (ReplaceAll old redacted cs)"
      by (simp add: ReplaceAll.simps [of old _ "c # cs"] sublist_Cons_right)
    with skip "1.hyps"(2) "1.prems"(2) show ?thesis
      using prefix_before_bracket by (auto simp: sublist_Cons_right)
  qed
qed

lemma ReplaceAll_removes: "plain_secret x \<Longrightarrow> \<not> sublist x (ReplaceAll x redacted s)"
proof (induction x redacted s rule: ReplaceAll.induct)
  case (1 x s)
  then have x: "x \<noteq> []" by (simp add: plain_secret_def)
  consider (empty) "s = []" | (hit) "s \<noteq> []" "take (length x) s = x" | (skip) c cs where "s = c # cs" "take (length x) s \<noteq> x"
    by (metis list.exhaust)
  then show ?case
  proof cases
    case empty
    with x show ?thesis by (simp add: ReplaceAll.simps)
  next
    case hit
    with x "1.hyps"(1) "1.prems" show ?thesis
      using sublist_redacted by (auto simp: ReplaceAll.simps [of x _ s])
  next
    case (skip c cs)
    with x have "\<not> prefix x (c # cs)" by (auto simp: prefix_def)
    moreover have "ReplaceAll x redacted s = c # ReplaceAll x redacted cs" using skip x by (simp add: ReplaceAll.simps [of x _ "c # cs"])
    ultimately show ?thesis
      using skip x "1.hyps"(2) "1.prems" prefix_before_bracket by (auto simp: sublist_Cons_right)
  qed
qed

lemma redact_sublist: "sublist x (redact s secrets) \<Longrightarrow> plain_secret x \<Longrightarrow> sublist x s"
  by (induction s secrets rule: redact.induct) (auto dest: ReplaceAll_sublist split: if_splits)

lemma redact_removes: "x \<in> set secrets \<Longrightarrow> plain_secret x \<Longrightarrow> \<not> sublist x (redact s secrets)"
proof (induction s secrets rule: redact.induct)
  case (2 s secret secrets)
  show ?case
  proof (cases "x = secret")
    case True
    with 2(3) have "\<not> sublist x (if secret \<noteq> [] then ReplaceAll secret redacted s else s)"
      by (simp add: ReplaceAll_removes plain_secret_def)
    with 2(3) show ?thesis using redact_sublist by auto
  next
    case False
    with 2 show ?thesis by simp
  qed
qed simp

lemma fields_sublist: "f \<in> set (fields_from word s) \<Longrightarrow> sublist f (word @ s)"
proof (induction word s rule: fields_from.induct)
  case (1 word s)
  consider (empty) "s = []" | (space) "s \<noteq> []" "leading space_runes s \<noteq> 0" | (char) c cs where "s = c # cs" "leading space_runes s = 0"
    by (metis list.exhaust)
  then show ?case
  proof cases
    case empty
    with "1.prems" show ?thesis by (simp add: fields_from.simps emit_def split: if_splits)
  next
    case space
    with "1.prems" have "f \<in> set (emit word) \<or> f \<in> set (fields_from [] (drop (leading space_runes s) s))"
      by (simp add: fields_from.simps [of word s])
    with space "1.IH"(1) have "sublist f word \<or> sublist f (drop (leading space_runes s) s)"
      by (auto simp: emit_def split: if_splits)
    then show ?thesis by (metis append_take_drop_id sublist_append)
  next
    case (char c cs)
    with "1.prems" have "f \<in> set (fields_from (word @ [c]) cs)" by (simp add: fields_from.simps [of word "c # cs"])
    with char "1.IH"(2) show ?thesis by simp
  qed
qed

lemma join_sublist:
  "sublist x (join '' '' fs) \<Longrightarrow> CHR '' '' \<notin> set x \<Longrightarrow> x \<noteq> [] \<Longrightarrow> \<exists>f \<in> set fs. sublist x f"
proof (induction "'' ''" fs rule: join.induct)
  case (3 f g fs)
  then have "sublist x (f @ CHR '' '' # join '' '' (g # fs))" by simp
  from sublist_across [OF this] 3 show ?case by auto
qed simp_all

lemma sanitize_sublist:
  assumes "sublist x (sanitize s secrets)" "plain_secret x"
  shows "sublist x (redact s secrets)"
proof -
  let ?j = "join '' '' (Fields (redact s secrets))"
  have "sublist x ?j" using assms(1) by (auto simp: sanitize_def Let_def split: if_splits) (metis append_take_drop_id sublist_append)
  then obtain f where "f \<in> set (Fields (redact s secrets))" "sublist x f"
    using join_sublist assms(2) unfolding plain_secret_def by blast
  with fields_sublist [of f "[]"] show ?thesis
    unfolding Fields_def by (metis append_Nil sublist_order.order_trans)
qed

lemma sanitize_removes: "x \<in> set secrets \<Longrightarrow> plain_secret x \<Longrightarrow> \<not> sublist x (sanitize s secrets)"
  using sanitize_sublist redact_removes by blast

lemma sanitize_length: "length (sanitize s secrets) \<le> 512"
  by (simp add: sanitize_def Let_def)

text \<open>
  C22: Secrets do not reach an error message. The code and the message of a token error contain
  neither the client secret nor a token of the response body, and those of a Graph error
  neither the client secret nor the bearer token (for secrets that are plain text without
  spaces and brackets; the status text stands in for an empty Graph message). Each has at most
  512 bytes.
\<close>

theorem error_messages_redacted:
  assumes "plain_secret x"
  shows "(\<forall>t. safeTokenError wl (Retrieve e) secret now = Token t \<and>
      x \<in> {secret, TB_AccessToken (Unmarshal_token wl (Retrieve_Body e)), TB_RefreshToken (Unmarshal_token wl (Retrieve_Body e)),
        TB_IDToken (Unmarshal_token wl (Retrieve_Body e))} \<longrightarrow>
      \<not> sublist x (Token_Code t) \<and> \<not> sublist x (Token_Message t) \<and> length (Token_Code t) \<le> 512 \<and> length (Token_Message t) \<le> 512) \<and>
    (\<forall>g. responseError wl secret resp bearer now = Graph g \<and> x \<in> {secret, bearer} \<longrightarrow>
      \<not> sublist x (Graph_Code g) \<and> length (Graph_Code g) \<le> 512 \<and>
      (Graph_Message g = StatusText wl (StatusCode resp) \<or> \<not> sublist x (Graph_Message g) \<and> length (Graph_Message g) \<le> 512))"
  using assms by (auto simp: safeTokenError_def responseError_def Let_def sanitize_removes sanitize_length split: if_splits)

section \<open>Bounds of Retry-After\<close>

lemma int64_exact: "- (2 ^ 63) \<le> x \<Longrightarrow> x \<le> 2 ^ 63 - 1 \<Longrightarrow> int64 x = x"
  by (simp add: int64_def)

lemma seconds_fit: "0 < n \<Longrightarrow> n \<le> MaxDuration div Second \<Longrightarrow> int64 (n * Second) = n * Second \<and> 0 < n * Second \<and> n * Second \<le> MaxDuration"
  by (intro conjI int64_exact) (auto simp: MaxDuration_def Second_def)

text \<open>
  C38: A Retry-After is a non-negative duration that fits: it is positive only for the statuses
  429 and 503, the product of the seconds never wraps around, and a header with a positive
  number of seconds that fits gives exactly that many seconds.
\<close>

theorem responseRetryAfter_bounds:
  "0 \<le> responseRetryAfter pt resp now \<and> responseRetryAfter pt resp now \<le> MaxDuration \<and>
   (responseRetryAfter pt resp now = 0 \<or> StatusCode resp = 429 \<or> StatusCode resp = 503) \<and>
   (ParseInt64 (Header_RetryAfter resp) = Some n \<and> 0 < n \<and> n \<le> MaxDuration div Second \<and> StatusCode resp \<in> {429, 503} \<longrightarrow>
      responseRetryAfter pt resp now = n * Second)"
proof -
  have sub: "retry > now \<Longrightarrow> 0 \<le> Time_Sub retry now \<and> Time_Sub retry now \<le> MaxDuration" for retry
    by (simp add: Time_Sub_def MaxDuration_def)
  have "0 \<le> MaxDuration" by (simp add: MaxDuration_def)
  with sub show ?thesis
    unfolding responseRetryAfter_def Let_def by (auto split: option.splits dest: seconds_fit)
qed

end
