(* ===== verification/Entra_Client.thy ===== *)
theory Entra_Client
  imports Entra_Errors
begin

text \<open>
  \<^verbatim>\<open>internal/entra/client.go\<close>, \<^verbatim>\<open>paging.go\<close> and \<^verbatim>\<open>validation.go\<close>: the Graph client behind the
  \<^verbatim>\<open>Directory\<close> interface. Every answer is checked for completeness before it is used, and the
  bearer token only travels to the configured origin.
\<close>

section \<open>Wire types and their validation\<close>

text \<open>A pointer or a raw message that may be absent is an \<open>option\<close>.\<close>

record graphRole =
  Wire_Role :: AppRole
  Wire_IsEnabled :: "bool option"

record graphServicePrincipal =
  Wire_ID :: string
  Wire_AppRoles :: "graphRole list option"

text \<open>\<open>Wire_Mail\<close> is the raw JSON text of the field, empty when it is absent.\<close>

record graphMember =
  Wire_User :: User
  Wire_Type :: string
  Wire_Mail :: string

fun snapshotRoles :: "AppRole list \<Rightarrow> graphRole list \<Rightarrow> error + AppRole list" where
  "snapshotRoles roles [] = Inr roles"
| "snapshotRoles roles (wire # wires) =
     (case (if AppRole_ID (Wire_Role wire) = [] \<or> AppRole_Value (Wire_Role wire) = [] \<or>
               length (AllowedMemberTypes (Wire_Role wire)) = 0 then None else Wire_IsEnabled wire) of
        None \<Rightarrow> Inl (New ''incomplete Graph app role'')
      | Some enabled \<Rightarrow>
          if list_ex (\<lambda>kind. kind \<noteq> ''User'' \<and> kind \<noteq> ''Application'') (AllowedMemberTypes (Wire_Role wire))
          then Inl (New ''unknown Graph app role member type'')
          else snapshotRoles (roles @ [(Wire_Role wire)\<lparr>IsEnabled := enabled\<rparr>]) wires)"

definition snapshot :: "graphServicePrincipal \<Rightarrow> error + ServicePrincipal" where
  "snapshot p =
     (case Wire_AppRoles p of
        None \<Rightarrow> Inl (New ''incomplete Graph service principal'')
      | Some wires \<Rightarrow>
          if Wire_ID p = [] then Inl (New ''incomplete Graph service principal'')
          else map_sum id (\<lambda>roles. \<lparr>ServicePrincipal_ID = Wire_ID p, AppRoles = roles\<rparr>) (snapshotRoles [] wires))"

fun validateAssignments :: "AppRoleAssignment list \<Rightarrow> error option" where
  "validateAssignments [] = None"
| "validateAssignments (assignment # assignments) =
     (if PrincipalID assignment = [] \<or> AppRoleID assignment = []
      then Some (New ''incomplete Graph app role assignment'')
      else if PrincipalType assignment \<in> {''Group'', ''User'', ''ServicePrincipal''} then validateAssignments assignments
      else Some (New ''missing or unknown Graph assignment principal type''))"

definition skipped_types :: "string list" where
  "skipped_types = [''#microsoft.graph.group'', ''#microsoft.graph.device'', ''#microsoft.graph.servicePrincipal'',
     ''#microsoft.graph.orgContact'']"

text \<open>\<open>unmarshal raw old\<close> is \<^verbatim>\<open>json.Unmarshal\<close> into a string that holds \<open>old\<close>.\<close>

fun groupUsers_from ::
  "(string \<Rightarrow> string \<Rightarrow> string option) \<Rightarrow> User list \<Rightarrow> graphMember list \<Rightarrow> error + User list" where
  "groupUsers_from unmarshal users [] = Inr users"
| "groupUsers_from unmarshal users (member # ms) =
     (if User_ID (Wire_User member) = [] then Inl (New ''incomplete Graph group member'')
      else if Wire_Type member \<in> set skipped_types then groupUsers_from unmarshal users ms
      else if Wire_Type member \<noteq> ''#microsoft.graph.user'' then Inl (New ''missing or unknown Graph group member type'')
      else if UserPrincipalName (Wire_User member) = [] then Inl ErrLimitedUserData
      else case (if length (Wire_Mail member) = 0 then None else unmarshal (Wire_Mail member) (User_Mail (Wire_User member))) of
          None \<Rightarrow> Inl (New ''missing or invalid Graph user mail'')
        | Some mail \<Rightarrow> groupUsers_from unmarshal (users @ [(Wire_User member)\<lparr>User_Mail := mail\<rparr>]) ms)"

definition groupUsers :: "(string \<Rightarrow> string \<Rightarrow> string option) \<Rightarrow> graphMember list \<Rightarrow> error + User list" where
  "groupUsers unmarshal ms = groupUsers_from unmarshal [] ms"

section \<open>The client\<close>

text \<open>\<^verbatim>\<open>url.PathEscape\<close>: every byte that may not stand in a path segment becomes \<^verbatim>\<open>%XX\<close>.\<close>

definition upper_hex :: "nat \<Rightarrow> char" where
  "upper_hex n = char_of (if n < 10 then 48 + n else 55 + n)"

definition segment_char :: "char \<Rightarrow> bool" where
  "segment_char c \<longleftrightarrow>
     (let n = of_char c :: nat
      in 48 \<le> n \<and> n \<le> 57 \<or> 65 \<le> n \<and> n \<le> 90 \<or> 97 \<le> n \<and> n \<le> 122) \<or> c \<in> set ''-_.~$&+:=@''"

definition PathEscape :: "string \<Rightarrow> string" where
  "PathEscape s = concat (map (\<lambda>c. if segment_char c then [c]
     else [CHR ''%'', upper_hex (of_char c div 16), upper_hex (of_char c mod 16)]) s)"

text \<open>A JSON document decoded into \<open>'a\<close>, or what \<^verbatim>\<open>Decode\<close> reports.\<close>

datatype 'a decoded = Invalid | Trailing 'a | Decoded 'a

record 'a graphPage =
  Page_Value :: "'a list option"
  Page_Next :: string

record clientcredentials =
  Config_ClientID :: string
  Config_ClientSecret :: string
  Config_TokenURL :: string
  Config_Scopes :: "string list"

text \<open>
  What is outside the repository: the token source of \<^verbatim>\<open>oauth2\<close>, the HTTP transport, the
  clock, the context, and the parsers of \<^verbatim>\<open>net/url\<close> and \<^verbatim>\<open>encoding/json\<close>.
\<close>

record 'w platform =
  TokenSource_Token :: "clientcredentials \<Rightarrow> 'w \<Rightarrow> (token_failure + string) \<times> 'w"
  http_Do :: "string \<Rightarrow> string \<Rightarrow> 'w \<Rightarrow> Response option \<times> 'w"
  NewRequest_ok :: "string \<Rightarrow> bool"
  time_Now :: "'w \<Rightarrow> time \<times> 'w"
  context_Err :: "'w \<Rightarrow> error option \<times> 'w"
  url_Parse :: "string \<Rightarrow> URL option"
  wire :: wire_lib
  Decode_principal :: "string \<Rightarrow> graphServicePrincipal decoded"
  Decode_assignments :: "string \<Rightarrow> AppRoleAssignment graphPage decoded"
  Decode_members :: "string \<Rightarrow> graphMember graphPage decoded"
  Unmarshal_string :: "string \<Rightarrow> string \<Rightarrow> string option"

record directory =
  directory_config :: clientcredentials
  directory_baseURL :: string

definition graphURL :: string where "graphURL = ''https://graph.microsoft.com/v1.0''"

text \<open>\<^verbatim>\<open>strings.TrimRight(s, "/")\<close>.\<close>

definition TrimRight_slash :: "string \<Rightarrow> string" where
  "TrimRight_slash s = rev (dropWhile (\<lambda>c. c = CHR ''/'') (rev s))"

definition newDirectory :: "string \<Rightarrow> string \<Rightarrow> string \<Rightarrow> string \<Rightarrow> string \<Rightarrow> directory" where
  "newDirectory tenantID clientID clientSecret optGraphURL optLoginURL =
     (let base = (if optGraphURL = [] then graphURL else optGraphURL);
          login = (if optLoginURL = [] then ''https://login.microsoftonline.com'' else optLoginURL)
      in \<lparr>directory_config = \<lparr>Config_ClientID = clientID, Config_ClientSecret = clientSecret,
            Config_TokenURL = login @ ''/'' @ PathEscape tenantID @ ''/oauth2/v2.0/token'',
            Config_Scopes = [''https://graph.microsoft.com/.default'']\<rparr>,
          directory_baseURL = TrimRight_slash base\<rparr>)"

datatype gcall =
    G_Token clientcredentials "token_failure + string"
  | G_Do string string "Response option"

definition token :: "'w platform \<Rightarrow> directory \<Rightarrow> ('w, gcall, error + string) io" where
  "token g d = do {
     tok \<leftarrow> call (G_Token (directory_config d)) (TokenSource_Token g (directory_config d));
     case tok of
       Inl err \<Rightarrow> do {
         now \<leftarrow> ask (time_Now g);
         State_Monad.return (Inl (safeTokenError (wire g) err (Config_ClientSecret (directory_config d)) now))
       }
     | Inr access \<Rightarrow> State_Monad.return (Inr access)
   }"

definition validEndpoint :: "'w platform \<Rightarrow> directory \<Rightarrow> string \<Rightarrow> bool" where
  "validEndpoint g d endpoint =
     (case url_Parse g endpoint of
        None \<Rightarrow> False
      | Some u \<Rightarrow>
          (case url_Parse g (directory_baseURL d) of
             None \<Rightarrow> False
           | Some base \<Rightarrow> URL_Scheme u = URL_Scheme base \<and> URL_Host u = URL_Host base \<and> \<not> URL_User u \<and> URL_Fragment u = []))"

definition graph_get ::
  "'w platform \<Rightarrow> directory \<Rightarrow> (string \<Rightarrow> 'a decoded) \<Rightarrow> string \<Rightarrow> ('w, gcall, error + 'a) io" where
  "graph_get g d decode endpoint = (
     if \<not> validEndpoint g d endpoint
     then State_Monad.return (Inl (New ''graph endpoint is outside the allowed origin''))
     else do {
       tok \<leftarrow> token g d;
       case tok of
         Inl err \<Rightarrow> State_Monad.return (Inl err)
       | Inr access \<Rightarrow>
           if \<not> NewRequest_ok g endpoint then State_Monad.return (Inl (New ''invalid Graph request''))
           else do {
             resp \<leftarrow> call (G_Do endpoint access) (http_Do g endpoint access);
             case resp of
               None \<Rightarrow> do {
                 err \<leftarrow> ask (context_Err g);
                 State_Monad.return (Inl (case err of Some err \<Rightarrow> err | None \<Rightarrow> New ''graph request failed''))
               }
             | Some resp \<Rightarrow>
                 if StatusCode resp \<noteq> 200 then do {
                   now \<leftarrow> ask (time_Now g);
                   State_Monad.return (Inl (responseError (wire g) (Config_ClientSecret (directory_config d)) resp access now))
                 } else State_Monad.return (case decode (Body resp) of
                     Invalid \<Rightarrow> Inl (New ''invalid Graph JSON response'')
                   | Trailing _ \<Rightarrow> Inl (New ''graph response has trailing data'')
                   | Decoded out \<Rightarrow> Inr out)
           }
     })"

text \<open>
  \<^verbatim>\<open>readPages\<close>: \<open>get\<close> reads one page and changes the state, \<open>seen\<close> holds the endpoints already
  read. The result is \<open>None\<close> when the loop does not end.
\<close>

partial_function (option) readPages ::
  "(string \<Rightarrow> 's \<Rightarrow> (error + 'a graphPage) \<times> 's) \<Rightarrow> string list \<Rightarrow> 'a list \<Rightarrow> string \<Rightarrow> 's
     \<Rightarrow> ((error + 'a list) \<times> 's) option" where
  "readPages get seen result endpoint s =
     (if endpoint = [] then Some (Inr result, s)
      else if endpoint \<in> set seen then Some (Inl (New ''graph pagination cycle''), s)
      else case get endpoint s of
        (Inl err, s) \<Rightarrow> Some (Inl err, s)
      | (Inr page, s) \<Rightarrow>
          (case Page_Value page of
             None \<Rightarrow> Some (Inl (New ''graph page has no value array''), s)
           | Some items \<Rightarrow> readPages get (endpoint # seen) (result @ items) (Page_Next page) s))"

section \<open>The operations of the Directory interface\<close>

definition Graph_GetServicePrincipal ::
  "'w platform \<Rightarrow> directory \<Rightarrow> string \<Rightarrow> ('w, gcall, error + ServicePrincipal) io" where
  "Graph_GetServicePrincipal g d appID = do {
     result \<leftarrow> graph_get g d (Decode_principal g)
       (directory_baseURL d @ ''/servicePrincipals(appId='' @ [CHR 0x27] @ PathEscape appID @ [CHR 0x27] @ '')?$select=id,appRoles'');
     State_Monad.return (case result of
         Inl err \<Rightarrow> (case errors_As_Graph err of
             Some ge \<Rightarrow> if Graph_StatusCode ge = 404 then Inl ErrServicePrincipalNotFound else Inl err
           | None \<Rightarrow> Inl err)
       | Inr found \<Rightarrow> snapshot found)
   }"

definition Graph_ListAppRoleAssignedTo ::
  "'w platform \<Rightarrow> directory \<Rightarrow> string \<Rightarrow> ('w, gcall) sys \<Rightarrow> ((error + AppRoleAssignment list) \<times> ('w, gcall) sys) option" where
  "Graph_ListAppRoleAssignedTo g d ident s =
     map_option (map_prod (\<lambda>r. case r of
         Inl err \<Rightarrow> Inl err
       | Inr assignments \<Rightarrow> (case validateAssignments assignments of Some err \<Rightarrow> Inl err | None \<Rightarrow> Inr assignments)) id)
       (readPages (\<lambda>endpoint. run_state (graph_get g d (Decode_assignments g) endpoint)) [] []
          (directory_baseURL d @ ''/servicePrincipals/'' @ PathEscape ident @ ''/appRoleAssignedTo'') s)"

definition Graph_ListGroupUsers ::
  "'w platform \<Rightarrow> directory \<Rightarrow> string \<Rightarrow> ('w, gcall) sys \<Rightarrow> ((error + User list) \<times> ('w, gcall) sys) option" where
  "Graph_ListGroupUsers g d ident s =
     map_option (map_prod (\<lambda>r. case r of Inl err \<Rightarrow> Inl err | Inr ms \<Rightarrow> groupUsers (Unmarshal_string g) ms) id)
       (readPages (\<lambda>endpoint. run_state (graph_get g d (Decode_members g) endpoint)) [] []
          (directory_baseURL d @ ''/groups/'' @ PathEscape ident @ ''/members'') s)"

section \<open>Complete answers\<close>

text \<open>What the three validators accept, and what they then return.\<close>

definition complete_role :: "graphRole \<Rightarrow> bool" where
  "complete_role w \<longleftrightarrow> AppRole_ID (Wire_Role w) \<noteq> [] \<and> AppRole_Value (Wire_Role w) \<noteq> [] \<and> Wire_IsEnabled w \<noteq> None \<and>
     AllowedMemberTypes (Wire_Role w) \<noteq> [] \<and> set (AllowedMemberTypes (Wire_Role w)) \<subseteq> {''User'', ''Application''}"

definition plain_role :: "graphRole \<Rightarrow> AppRole" where
  "plain_role w = (Wire_Role w)\<lparr>IsEnabled := (Wire_IsEnabled w = Some True)\<rparr>"

lemma known_kinds:
  "list_ex (\<lambda>kind. kind \<noteq> ''User'' \<and> kind \<noteq> ''Application'') kinds \<longleftrightarrow> \<not> set kinds \<subseteq> {''User'', ''Application''}"
  by (auto simp: list_ex_iff)

lemma snapshotRoles_iff:
  "snapshotRoles roles wires = Inr rs \<longleftrightarrow> list_all complete_role wires \<and> rs = roles @ map plain_role wires"
proof (induction wires arbitrary: roles)
  case (Cons w wires)
  show ?case
  proof (cases "complete_role w")
    case True
    then obtain b where "Wire_IsEnabled w = Some b" by (auto simp: complete_role_def)
    moreover have "plain_role w = (Wire_Role w)\<lparr>IsEnabled := b\<rparr>" using calculation by (simp add: plain_role_def)
    ultimately show ?thesis using True Cons.IH by (simp add: complete_role_def known_kinds)
  next
    case False
    then show ?thesis
      by (cases "Wire_IsEnabled w") (auto simp: complete_role_def [of w] known_kinds)
  qed
qed auto

definition complete_assignment :: "AppRoleAssignment \<Rightarrow> bool" where
  "complete_assignment a \<longleftrightarrow> PrincipalID a \<noteq> [] \<and> AppRoleID a \<noteq> [] \<and> PrincipalType a \<in> {''Group'', ''User'', ''ServicePrincipal''}"

lemma validateAssignments_iff: "validateAssignments as = None \<longleftrightarrow> list_all complete_assignment as"
  by (induction as) (simp_all add: complete_assignment_def)

text \<open>A member that is not a user is skipped; a user needs a principal name and a readable mail.\<close>

definition user_of :: "(string \<Rightarrow> string \<Rightarrow> string option) \<Rightarrow> graphMember \<Rightarrow> User option" where
  "user_of unmarshal m =
     (if Wire_Type m \<in> set skipped_types then None
      else map_option (\<lambda>mail. (Wire_User m)\<lparr>User_Mail := mail\<rparr>) (unmarshal (Wire_Mail m) (User_Mail (Wire_User m))))"

definition complete_member :: "(string \<Rightarrow> string \<Rightarrow> string option) \<Rightarrow> graphMember \<Rightarrow> bool" where
  "complete_member unmarshal m \<longleftrightarrow> User_ID (Wire_User m) \<noteq> [] \<and>
     (Wire_Type m \<in> set skipped_types \<or>
      Wire_Type m = ''#microsoft.graph.user'' \<and> UserPrincipalName (Wire_User m) \<noteq> [] \<and> Wire_Mail m \<noteq> [] \<and>
        unmarshal (Wire_Mail m) (User_Mail (Wire_User m)) \<noteq> None)"

lemma groupUsers_from_iff:
  "groupUsers_from unmarshal users ms = Inr us \<longleftrightarrow>
     list_all (complete_member unmarshal) ms \<and> us = users @ List.map_filter (user_of unmarshal) ms"
proof (induction ms arbitrary: users)
  case (Cons m ms)
  show ?case
  proof (cases "complete_member unmarshal m")
    case True
    show ?thesis
    proof (cases "Wire_Type m \<in> set skipped_types")
      case skip: True
      with True Cons.IH show ?thesis by (simp add: complete_member_def user_of_def map_filter_simps)
    next
      case False
      with True obtain mail where "unmarshal (Wire_Mail m) (User_Mail (Wire_User m)) = Some mail"
        by (auto simp: complete_member_def)
      with True False Cons.IH show ?thesis by (simp add: complete_member_def user_of_def map_filter_simps)
    qed
  next
    case False
    then show ?thesis by (auto simp: complete_member_def split: option.splits)
  qed
qed (auto simp: map_filter_simps)

section \<open>Paging\<close>

text \<open>
  The pages behind a sequence of next links: each request changes the state and names the next
  endpoint; the last page names none.
\<close>

inductive page_chain ::
  "(string \<Rightarrow> 's \<Rightarrow> (error + 'a graphPage) \<times> 's) \<Rightarrow> 's \<Rightarrow> string \<Rightarrow> string list \<Rightarrow> 'a list list \<Rightarrow> 's \<Rightarrow> bool"
  for get where
  chain_end: "page_chain get s [] [] [] s"
| chain_page: "endpoint \<noteq> [] \<Longrightarrow> get endpoint s = (Inr page, s1) \<Longrightarrow> Page_Value page = Some items \<Longrightarrow>
    page_chain get s1 (Page_Next page) links pages s' \<Longrightarrow>
    page_chain get s endpoint (endpoint # links) (items # pages) s'"

inductive_cases page_chain_emptyE: "page_chain get s [] links pages s'"
inductive_cases page_chain_linkE: "page_chain get s (c # cs) links pages s'"

lemma readPages_chain:
  assumes "readPages get seen result endpoint s = Some (r, s')" "r = Inr final"
  shows "\<exists>links pages. page_chain get s endpoint links pages s' \<and> distinct links \<and> set links \<inter> set seen = {} \<and>
     final = result @ concat pages"
  using assms
proof (induction get seen result endpoint s "(r, s')" arbitrary: r s'
    rule: readPages.raw_induct [rotated, consumes 1, case_names step])
  case (step rp get seen result endpoint s)
  show ?case
  proof (cases "endpoint = []")
    case True
    with step(2,3) show ?thesis
      by (intro exI [of _ "[]"]) (auto intro: chain_end)
  next
    case False
    with step(2,3) obtain page s1 items where page: "get endpoint s = (Inr page, s1)"
        "Page_Value page = Some items" "endpoint \<notin> set seen"
        "rp get (endpoint # seen) (result @ items) (Page_Next page) s1 = Some (r, s')"
      by (auto split: if_splits prod.splits sum.splits option.splits)
    from step(1) [OF this(4) step(3)] obtain links pages where
      "page_chain get s1 (Page_Next page) links pages s'" "distinct links" "set links \<inter> set (endpoint # seen) = {}"
      "final = (result @ items) @ concat pages" by blast
    with page False show ?thesis
      by (intro exI [of _ "endpoint # links"] exI [of _ "items # pages"]) (auto intro: chain_page)
  qed
qed

lemma chain_readPages:
  "page_chain get s endpoint links pages s' \<Longrightarrow> distinct links \<Longrightarrow> set links \<inter> set seen = {} \<Longrightarrow>
   readPages get seen result endpoint s = Some (Inr (result @ concat pages), s')"
proof (induction arbitrary: seen result rule: page_chain.induct)
  case (chain_page endpoint s page s1 items links pages s')
  then have "readPages get (endpoint # seen) (result @ items) (Page_Next page) s1 =
      Some (Inr ((result @ items) @ concat pages), s')"
    by (intro chain_page.IH) auto
  with chain_page show ?case by (subst readPages.simps) simp
qed (simp add: readPages.simps)

text \<open>
  A list is read exactly when following the next links from the first endpoint leads, without
  visiting an endpoint twice, through pages that all carry values to one without a next link.
\<close>

lemma readPages_all:
  "readPages get [] [] endpoint s = Some (Inr final, s') \<longleftrightarrow>
   (\<exists>links pages. page_chain get s endpoint links pages s' \<and> distinct links \<and> final = concat pages)"
  using readPages_chain [of get "[]" "[]" endpoint s "Inr final" s'] chain_readPages [of get s endpoint _ _ s' "[]" "[]"] by auto

lemma readPages_ends:
  assumes "finite S" "\<And>e s page s1. get e s = (Inr page, s1) \<Longrightarrow> Page_Next page \<in> S"
  shows "\<exists>r s'. readPages get seen result endpoint s = Some (r, s')"
proof (induction "card (S - set seen) + (if endpoint \<in> S then 0 else 1)" arbitrary: seen result endpoint s rule: less_induct)
  case less
  show ?case
  proof (cases "endpoint = [] \<or> endpoint \<in> set seen")
    case True
    then show ?thesis by (subst readPages.simps) auto
  next
    case False
    obtain x s1 where get: "get endpoint s = (x, s1)" by force
    show ?thesis
    proof (cases x)
      case (Inl err)
      with False get show ?thesis by (subst readPages.simps) simp
    next
      case (Inr page)
      have next_in: "Page_Next page \<in> S" using assms(2) get Inr by blast
      have "card (S - set (endpoint # seen)) < card (S - set seen) + (if endpoint \<in> S then 0 else 1)"
      proof (cases "endpoint \<in> S")
        case True
        with False have "S - set (endpoint # seen) \<subset> S - set seen" by auto
        from psubset_card_mono [OF finite_Diff [OF assms(1)] this] True show ?thesis by (simp only: if_True add_0_right)
      next
        case False
        then have "S - set (endpoint # seen) = S - set seen" by auto
        with False show ?thesis by simp
      qed
      with next_in have "card (S - set (endpoint # seen)) + (if Page_Next page \<in> S then 0 else 1)
          < card (S - set seen) + (if endpoint \<in> S then 0 else 1)" by simp
      from less.hyps [OF this] False get Inr show ?thesis
        by (subst readPages.simps) (auto split: option.splits)
    qed
  qed
qed

text \<open>
  C37: Paging ends. Whatever the pages say, if their next links come from a finite set of
  endpoints, \<^verbatim>\<open>readPages\<close> returns: a repeated link is reported as a cycle instead of being
  followed for ever.
\<close>

theorem readPages_terminates:
  assumes "finite S" "\<And>e s page s1. get e s = (Inr page, s1) \<Longrightarrow> Page_Next page \<in> S"
  shows "\<exists>r s'. readPages get [] [] endpoint s = Some (r, s')"
  by (rule readPages_ends [OF assms])

section \<open>Where the bearer token goes\<close>

fun at_origin :: "'w platform \<Rightarrow> directory \<Rightarrow> gcall \<Rightarrow> bool" where
  "at_origin g d (G_Do endpoint access resp) = validEndpoint g d endpoint"
| "at_origin g d (G_Token config answer) = True"

definition to_origin :: "'w platform \<Rightarrow> directory \<Rightarrow> gcall list \<Rightarrow> bool" where
  "to_origin g d xs \<longleftrightarrow> list_all (at_origin g d) xs"

lemma to_origin_simps [simp]:
  "to_origin g d []" "to_origin g d (xs @ ys) \<longleftrightarrow> to_origin g d xs \<and> to_origin g d ys"
  "to_origin g d (c # xs) \<longleftrightarrow> at_origin g d c \<and> to_origin g d xs"
  by (simp_all add: to_origin_def)

lemma to_originD: "to_origin g d xs \<Longrightarrow> G_Do endpoint access resp \<in> set xs \<Longrightarrow> validEndpoint g d endpoint"
  by (auto simp: to_origin_def list_all_iff)

lemma validEndpointD:
  "validEndpoint g d endpoint \<Longrightarrow> \<exists>u base. url_Parse g endpoint = Some u \<and> url_Parse g (directory_baseURL d) = Some base \<and>
     URL_Scheme u = URL_Scheme base \<and> URL_Host u = URL_Host base \<and> \<not> URL_User u \<and> URL_Fragment u = []"
  by (auto simp: validEndpoint_def split: option.splits)

lemma graph_get_origin: "yields (graph_get g d decode endpoint) (\<lambda>xs res. to_origin g d xs)"
  unfolding graph_get_def token_def by (intro yields_intros) simp_all

lemma readPages_origin:
  assumes "readPages (\<lambda>endpoint. run_state (graph_get g d decode endpoint)) seen result endpoint s = Some (r, s')"
  shows "\<exists>xs. trace s' = trace s @ xs \<and> to_origin g d xs"
  using assms
proof (induction "\<lambda>endpoint. run_state (graph_get g d decode endpoint)" seen result endpoint s "(r, s')" arbitrary: r s'
    rule: readPages.raw_induct [rotated, consumes 1, case_names step])
  case (step rp seen result endpoint s)
  obtain x s1 where get: "run_state (graph_get g d decode endpoint) s = (x, s1)" by force
  then obtain xs where xs: "trace s1 = trace s @ xs" "to_origin g d xs" using yieldsD [OF graph_get_origin] by blast
  have "s' = s \<or> s' = s1 \<or> (\<exists>seen result endpoint. rp (\<lambda>endpoint. run_state (graph_get g d decode endpoint)) seen result endpoint s1 = Some (r, s'))"
    using step(2) get by (auto split: if_splits sum.splits option.splits)
  with step(1) obtain ys where "s' = s \<or> trace s' = trace s1 @ ys \<and> to_origin g d ys" by fastforce
  with xs show ?case by (metis append.assoc append_Nil2 to_origin_simps(1,2))
qed

text \<open>
  The bearer token is sent to the configured origin only. Every HTTP request of the three
  directory operations goes to an endpoint whose scheme and host are those of the base URL,
  without user information and without fragment, whatever next links the server answers.
\<close>

theorem token_sent_to_origin:
  assumes "(\<exists>r. run_state (Graph_GetServicePrincipal g d ident) s = (r, s')) \<or>
      (\<exists>r. Graph_ListAppRoleAssignedTo g d ident s = Some (r, s')) \<or> (\<exists>r. Graph_ListGroupUsers g d ident s = Some (r, s'))"
  shows "\<exists>xs. trace s' = trace s @ xs \<and> (\<forall>endpoint access resp. G_Do endpoint access resp \<in> set xs \<longrightarrow>
    (\<exists>u base. url_Parse g endpoint = Some u \<and> url_Parse g (directory_baseURL d) = Some base \<and>
      URL_Scheme u = URL_Scheme base \<and> URL_Host u = URL_Host base \<and> \<not> URL_User u \<and> URL_Fragment u = []))"
proof -
  have one: "yields (Graph_GetServicePrincipal g d ident) (\<lambda>xs res. to_origin g d xs)"
    unfolding Graph_GetServicePrincipal_def by (intro yields_intros yields_mono [OF graph_get_origin]) simp
  from assms have "\<exists>xs. trace s' = trace s @ xs \<and> to_origin g d xs"
    using yieldsD [OF one] by (auto simp: Graph_ListAppRoleAssignedTo_def Graph_ListGroupUsers_def intro: readPages_origin)
  then show ?thesis using to_originD validEndpointD by meson
qed

section \<open>Snapshots\<close>

lemma checked_result_iff:
  "map_option (map_prod (\<lambda>r. case r of Inl e \<Rightarrow> Inl e | Inr x \<Rightarrow> f x) id) p = Some (Inr y, s') \<longleftrightarrow>
   (\<exists>x. p = Some (Inr x, s') \<and> f x = Inr y)"
proof (cases p)
  case (Some a)
  obtain r s1 where "a = (r, s1)" by force
  with Some show ?thesis by (cases r) auto
qed simp

lemma Graph_ListGroupUsers_iff:
  "Graph_ListGroupUsers g d ident s = Some (Inr users, s') \<longleftrightarrow>
   (\<exists>ms. readPages (\<lambda>endpoint. run_state (graph_get g d (Decode_members g) endpoint)) [] []
      (directory_baseURL d @ ''/groups/'' @ PathEscape ident @ ''/members'') s = Some (Inr ms, s') \<and>
    groupUsers (Unmarshal_string g) ms = Inr users)"
  unfolding Graph_ListGroupUsers_def checked_result_iff ..

lemma Graph_ListAppRoleAssignedTo_iff:
  "Graph_ListAppRoleAssignedTo g d ident s = Some (Inr as, s') \<longleftrightarrow>
   readPages (\<lambda>endpoint. run_state (graph_get g d (Decode_assignments g) endpoint)) [] []
      (directory_baseURL d @ ''/servicePrincipals/'' @ PathEscape ident @ ''/appRoleAssignedTo'') s = Some (Inr as, s') \<and>
    validateAssignments as = None"
  unfolding Graph_ListAppRoleAssignedTo_def checked_result_iff by (auto split: option.splits)

text \<open>
  C35: The lists of the directory are complete snapshots or errors. \<^verbatim>\<open>ListGroupUsers\<close> returns a
  list exactly when all pages were read, none twice, and every member on them has an id and a
  known type, and every user a principal name and a readable mail; the list then holds the
  users of all pages in order. \<^verbatim>\<open>ListAppRoleAssignedTo\<close> returns exactly the assignments of all
  pages when each has a principal id, a role id and a known principal type.
\<close>

theorem Directory_snapshots:
  "(Graph_ListGroupUsers g d ident s = Some (Inr users, s') \<longleftrightarrow>
     (\<exists>links pages. page_chain (\<lambda>endpoint. run_state (graph_get g d (Decode_members g) endpoint)) s
          (directory_baseURL d @ ''/groups/'' @ PathEscape ident @ ''/members'') links pages s' \<and> distinct links \<and>
        list_all (complete_member (Unmarshal_string g)) (concat pages) \<and>
        users = List.map_filter (user_of (Unmarshal_string g)) (concat pages))) \<and>
   (Graph_ListAppRoleAssignedTo g d ident s = Some (Inr as, s') \<longleftrightarrow>
     (\<exists>links pages. page_chain (\<lambda>endpoint. run_state (graph_get g d (Decode_assignments g) endpoint)) s
          (directory_baseURL d @ ''/servicePrincipals/'' @ PathEscape ident @ ''/appRoleAssignedTo'') links pages s' \<and> distinct links \<and>
        list_all complete_assignment (concat pages) \<and> as = concat pages))"
  unfolding Graph_ListGroupUsers_iff Graph_ListAppRoleAssignedTo_iff readPages_all groupUsers_def groupUsers_from_iff
    validateAssignments_iff by auto

text \<open>
  C36: A service principal is a complete snapshot or an error: \<^verbatim>\<open>snapshot\<close> returns one exactly when
  the answer has an id and a list of roles, each with an id, a value, an explicit enabled flag
  and member types among User and Application; it then has the same roles in order, each with
  the flag of the answer.
\<close>

theorem snapshot_iff:
  "snapshot p = Inr sp \<longleftrightarrow> Wire_ID p \<noteq> [] \<and> (\<exists>wires. Wire_AppRoles p = Some wires \<and> list_all complete_role wires \<and>
     sp = \<lparr>ServicePrincipal_ID = Wire_ID p, AppRoles = map plain_role wires\<rparr>)"
proof (cases "Wire_AppRoles p")
  case (Some wires)
  show ?thesis
  proof (cases "snapshotRoles [] wires")
    case (Inl err)
    with snapshotRoles_iff [of "[]" wires "map plain_role wires"] Some show ?thesis by (auto simp: snapshot_def)
  next
    case (Inr roles)
    with snapshotRoles_iff [of "[]" wires roles] Some show ?thesis by (auto simp: snapshot_def)
  qed
qed (simp add: snapshot_def)

end
