(* ===== verification/Entra_Samples.thy ===== *)
theory Entra_Samples
  imports Entra_Client
begin

text \<open>
  Sample answers of the login service and of Graph, on which the theorems about the Entra
  client are applied: a token error that quotes the secret, a throttled response, and a group
  whose members come on two pages, the second of which links back.
\<close>

section \<open>Errors\<close>

definition wire0 :: wire_lib where
  "wire0 = \<lparr>Unmarshal_token = (\<lambda>body. \<lparr>TB_Code = ''invalid_client'', TB_Description = ''AADSTS7000215: bad secret s3cret. Trace ID: 1'',
       TB_AccessToken = [], TB_RefreshToken = [], TB_IDToken = []\<rparr>),
     Decode_graph_error = (\<lambda>body. \<lparr>GB_Code = ''TooMany'', GB_Message = ''slow down''\<rparr>),
     StatusText = (\<lambda>_. ''status''), ParseTime = (\<lambda>_. None)\<rparr>"

definition retrieve0 :: RetrieveError where
  "retrieve0 = \<lparr>Retrieve_Body = ''{}'', Retrieve_Response = None\<rparr>"

definition token_error0 :: TokenError where
  "token_error0 = \<lparr>Token_StatusCode = 0, Token_Code = ''AADSTS7000215'', Token_Message = ''AADSTS7000215: bad secret [redacted].'',
     Token_RetryAfter = 0, Token_transient = False\<rparr>"

lemma token_error0: "safeTokenError wire0 (Retrieve retrieve0) ''s3cret'' 0 = Token token_error0"
  by code_simp

lemma plain0: "plain_secret ''s3cret''"
  by code_simp

theorem error_messages_redacted_witness:
  "plain_secret ''s3cret'' \<and> safeTokenError wire0 (Retrieve retrieve0) ''s3cret'' 0 = Token token_error0 \<and>
   \<not> sublist ''s3cret'' (Token_Message token_error0)"
  using error_messages_redacted [OF plain0, of wire0 retrieve0 "''s3cret''" 0] token_error0 plain0 by auto

definition throttled :: Response where
  "throttled = \<lparr>StatusCode = 429, Header_RetryAfter = ''17'', Body = []\<rparr>"

lemma throttled_seconds: "ParseInt64 (Header_RetryAfter throttled) = Some 17" "(17 :: int) \<le> MaxDuration div Second"
  "StatusCode throttled = 429"
  by code_simp+

theorem responseRetryAfter_bounds_witness: "responseRetryAfter (ParseTime wire0) throttled 5 = 17 * Second"
  using responseRetryAfter_bounds [of "ParseTime wire0" throttled 5 17] throttled_seconds by simp

section \<open>Paging\<close>

definition member0 :: "string \<Rightarrow> graphMember" where
  "member0 name = \<lparr>Wire_User = \<lparr>User_ID = name, User_DisplayName = name, User_Mail = [], UserPrincipalName = name\<rparr>,
     Wire_Type = ''#microsoft.graph.user'', Wire_Mail = ''m''\<rparr>"

text \<open>The body \<open>''1''\<close> is the first page; the second page, any other body, links back to the first.\<close>

definition first_endpoint :: string where "first_endpoint = ''https://g/v1/groups/g1/members''"

definition decode_members0 :: "string \<Rightarrow> graphMember graphPage decoded" where
  "decode_members0 body = Decoded (if body = ''1''
     then \<lparr>Page_Value = Some [member0 ''ann''], Page_Next = ''https://g/v1/more''\<rparr>
     else \<lparr>Page_Value = Some [], Page_Next = first_endpoint\<rparr>)"

definition platform0 :: "unit platform" where
  "platform0 = \<lparr>TokenSource_Token = (\<lambda>_ w. (Inr ''t'', w)),
     http_Do = (\<lambda>endpoint _ w. (Some \<lparr>StatusCode = 200, Header_RetryAfter = [],
       Body = (if endpoint = first_endpoint then ''1'' else ''2'')\<rparr>, w)),
     NewRequest_ok = (\<lambda>_. True), time_Now = (\<lambda>w. (0, w)), context_Err = (\<lambda>w. (None, w)),
     url_Parse = (\<lambda>s. Some \<lparr>URL_Scheme = ''https'', URL_Host = ''g'', URL_User = False, URL_Fragment = []\<rparr>),
     wire = wire0, Decode_principal = (\<lambda>_. Invalid), Decode_assignments = (\<lambda>_. Invalid),
     Decode_members = decode_members0, Unmarshal_string = (\<lambda>raw _. Some raw)\<rparr>"

definition directory0 :: directory where
  "directory0 = newDirectory ''tenant'' ''client'' ''s3cret'' ''https://g/v1/'' []"

definition get0 :: "string \<Rightarrow> (unit, gcall) sys \<Rightarrow> (error + graphMember graphPage) \<times> (unit, gcall) sys" where
  "get0 endpoint = run_state (graph_get platform0 directory0 (Decode_members platform0) endpoint)"

lemma get0_next: "get0 e s = (Inr page, s1) \<Longrightarrow> Page_Next page \<in> {''https://g/v1/more'', first_endpoint}"
  by (auto simp: get0_def graph_get_def token_def validEndpoint_def effect_simps platform0_def decode_members0_def split: if_splits)

theorem readPages_terminates_witness: "\<exists>r s'. readPages get0 [] [] first_endpoint \<lparr>world = (), trace = []\<rparr> = Some (r, s')"
  by (rule readPages_terminates [of "{''https://g/v1/more'', first_endpoint}" get0]) (simp, erule get0_next)

definition page0 :: Response where
  "page0 = \<lparr>StatusCode = 200, Header_RetryAfter = [], Body = ''1''\<rparr>"

text \<open>The two pages are read, and the link back to the first one is an error.\<close>

lemma group0: "\<exists>s'. Graph_ListGroupUsers platform0 directory0 ''g1'' \<lparr>world = (), trace = []\<rparr> =
    Some (Inl (New ''graph pagination cycle''), s') \<and> G_Do first_endpoint ''t'' (Some page0) \<in> set (trace s')"
proof -
  have "directory_baseURL directory0 = ''https://g/v1''" "PathEscape ''g1'' = ''g1''" "first_endpoint \<noteq> ''https://g/v1/more''"
    by code_simp+
  moreover have get: "get0 e s = (Inr (case decode_members0 (if e = first_endpoint then ''1'' else ''2'') of Decoded p \<Rightarrow> p),
      s\<lparr>trace := trace s @ [G_Token (directory_config directory0) (Inr ''t''),
        G_Do e ''t'' (Some (page0\<lparr>Body := if e = first_endpoint then ''1'' else ''2''\<rparr>))]\<rparr>)" for e s
    by (cases s) (simp add: get0_def graph_get_def token_def validEndpoint_def effect_simps platform0_def decode_members0_def page0_def)
  ultimately show ?thesis
    unfolding Graph_ListGroupUsers_def get0_def [symmetric]
    by (simp add: first_endpoint_def [symmetric] readPages.simps get decode_members0_def page0_def)
       (simp add: first_endpoint_def)
qed

theorem token_sent_to_origin_witness:
  "\<exists>xs u. G_Do first_endpoint ''t'' (Some page0) \<in> set xs \<and> url_Parse platform0 first_endpoint = Some u \<and> URL_Host u = ''g''"
proof -
  obtain s' where s': "Graph_ListGroupUsers platform0 directory0 ''g1'' \<lparr>world = (), trace = []\<rparr> = Some (Inl (New ''graph pagination cycle''), s')"
    "G_Do first_endpoint ''t'' (Some page0) \<in> set (trace s')" using group0 by blast
  have "\<exists>r. Graph_ListGroupUsers platform0 directory0 ''g1'' \<lparr>world = (), trace = []\<rparr> = Some (r, s')" using s'(1) by blast
  from token_sent_to_origin [OF disjI2 [OF disjI2 [OF this]]] s'(2) obtain u base where
    "url_Parse platform0 first_endpoint = Some u" "url_Parse platform0 (directory_baseURL directory0) = Some base"
    "URL_Host u = URL_Host base" by simp blast
  moreover from this(2) have "URL_Host base = ''g''" by (auto simp: platform0_def)
  ultimately show ?thesis using s'(2) by auto
qed

end
