(* ===== verification/Role_Sets.thy ===== *)
theory Role_Sets
  imports Prelude
begin

text \<open>
  Sets of role attributes as the program stores them. Two routines turn a slice into the
  canonical slice of its elements: \<^verbatim>\<open>sortedSet\<close> of \<^verbatim>\<open>internal/rolesync/ownership.go\<close>, which
  goes through a Go map, and the sort-and-compact of \<^verbatim>\<open>sameRoleSet\<close> and \<^verbatim>\<open>roleChanges\<close> in
  \<^verbatim>\<open>internal/controller\<close> and of \<^verbatim>\<open>RouterPolicies\<close>. The locale \<open>canonical\<close> is the contract
  both provide and the clients rely on.
\<close>

section \<open>The contract\<close>

locale canonical =
  fixes canon :: "'a list \<Rightarrow> 'a list"
  assumes set_canon: "set (canon xs) = set xs"
    and canon_cong: "set xs = set ys \<Longrightarrow> canon xs = canon ys"
begin

lemma canon_eq_iff: "canon xs = canon ys \<longleftrightarrow> set xs = set ys"
  using set_canon canon_cong by metis

lemma canon_idem: "canon (canon xs) = canon xs"
  by (rule canon_cong) (rule set_canon)

lemma canon_mem: "x \<in> set (canon xs) \<longleftrightarrow> x \<in> set xs"
  by (simp add: set_canon)

lemma canon_perm: "set ys = set xs \<Longrightarrow> canon (ys @ xs) = canon xs"
  by (rule canon_cong) auto

end

section \<open>The two routines\<close>

text \<open>
  \<^verbatim>\<open>sortedSet\<close> enters every element of every list into a map, collects the keys in whatever
  order the runtime iterates them and sorts. \<open>remdups\<close> is one such enumeration; \<open>sorted_any_order\<close>
  says that the result is the same for all of them.
\<close>

definition sortedSet :: "string list list \<Rightarrow> string list" where
  "sortedSet values = sort (remdups (concat values))"

text \<open>\<^verbatim>\<open>slices.Compact\<close> of a sorted slice; \<^verbatim>\<open>slices.Compact\<close> drops adjacent repetitions.\<close>

definition sortCompact :: "string list \<Rightarrow> string list" where
  "sortCompact xs = remdups_adj (sort xs)"

definition sameRoleSet :: "string list \<Rightarrow> string list \<Rightarrow> bool" where
  "sameRoleSet a b \<longleftrightarrow> remdups_adj (sort a) = remdups_adj (sort b)"

lemma set_sortedSet [simp]: "set (sortedSet xss) = \<Union> (set ` set xss)"
  by (simp add: sortedSet_def)

lemma sorted_sortedSet [simp]: "sorted (sortedSet xss)"
  by (simp add: sortedSet_def)

lemma distinct_sortedSet [simp]: "distinct (sortedSet xss)"
  by (simp add: sortedSet_def)

lemma sorted_any_order: "distinct ys \<Longrightarrow> set ys = \<Union> (set ` set xss) \<Longrightarrow> sort ys = sortedSet xss"
  by (intro sorted_distinct_set_unique) (simp_all add: sortedSet_def)

lemma sortedSet_cong: "\<Union> (set ` set xss) = \<Union> (set ` set yss) \<Longrightarrow> sortedSet xss = sortedSet yss"
  by (intro sorted_distinct_set_unique) simp_all

lemma sortedSet_Nil [simp]: "sortedSet [] = []" "sortedSet [[]] = []"
  by (simp_all add: sortedSet_def)

lemma sortedSet_fixpoint: "sorted xs \<Longrightarrow> distinct xs \<Longrightarrow> sortedSet [xs] = xs"
  by (intro sorted_distinct_set_unique) simp_all

lemma sortedSet_sortedSet [simp]: "sortedSet [sortedSet xss] = sortedSet xss"
  by (rule sortedSet_fixpoint) simp_all

lemma sortedSet_eq_Nil_iff: "sortedSet xss = [] \<longleftrightarrow> (\<forall>xs \<in> set xss. xs = [])"
  by (simp flip: set_empty)

lemma distinct_remdups_adj_sorted: "sorted xs \<Longrightarrow> distinct (remdups_adj xs)"
  by (induction xs rule: remdups_adj.induct) (auto simp: order_le_less)

lemma sorted_sortCompact [simp]: "sorted (sortCompact xs)"
  by (simp add: sortCompact_def)

lemma distinct_sortCompact [simp]: "distinct (sortCompact xs)"
  by (simp add: sortCompact_def distinct_remdups_adj_sorted)

lemma set_sortCompact [simp]: "set (sortCompact xs) = set xs"
  by (simp add: sortCompact_def)

interpretation sset: canonical "\<lambda>xs. sortedSet [xs]"
  by unfold_locales (auto intro: sortedSet_cong)

interpretation scompact: canonical sortCompact
  by unfold_locales (auto intro: sorted_distinct_set_unique)

lemma sortCompact_eq_sortedSet: "sortCompact xs = sortedSet [xs]"
  by (intro sorted_distinct_set_unique) simp_all

lemma sameRoleSet_iff [simp]: "sameRoleSet a b \<longleftrightarrow> set a = set b"
  unfolding sameRoleSet_def by (fold sortCompact_def) (rule scompact.canon_eq_iff)

end
