(* ===== verification/Ownership.thy ===== *)
theory Ownership
  imports Role_Sets Errors "HOL-Library.Product_Lexorder"
begin

text \<open>
  \<^verbatim>\<open>internal/rolesync/ownership.go\<close>: which role sync owns an attribute value. Each sync records
  the attributes it manages in its status; the earliest recorded claim wins, ties are broken
  by namespace and name, and a value nobody recorded goes to the sync that asks.
\<close>

section \<open>Data\<close>

record ResourceKey =
  Key_Namespace :: string
  Key_Name :: string

record SyncClaim =
  Claim_Resource :: ResourceKey
  Claim_CreationTimestamp :: time
  ManagedAttributes :: "string list"

record IdentityOwner =
  Owner_Resource :: ResourceKey
  IdentityID :: string
  IdentityName :: string

record OwnershipInput =
  Self :: SyncClaim
  Candidates :: "string list"
  Others :: "SyncClaim list"

record OwnershipResult =
  Owners :: "(string, ResourceKey) gomap"
  Conflicts :: "string list"

section \<open>Choosing the first element of an order\<close>

text \<open>The inner loop of \<^verbatim>\<open>ResolveOwnership\<close>: scan, skip the ineligible, keep the best so far.\<close>

fun pick :: "('a \<Rightarrow> 'a \<Rightarrow> bool) \<Rightarrow> ('a \<Rightarrow> bool) \<Rightarrow> 'a option \<Rightarrow> 'a list \<Rightarrow> 'a option" where
  "pick before eligible winner [] = winner"
| "pick before eligible winner (c # cs) =
     (if \<not> eligible c then pick before eligible winner cs
      else case winner of
        None \<Rightarrow> pick before eligible (Some c) cs
      | Some w \<Rightarrow>
          if before c w then pick before eligible (Some c) cs
          else pick before eligible (Some w) cs)"

text \<open>What the loop needs of the comparison: a strict weak order.\<close>

locale claim_order =
  fixes before :: "'a \<Rightarrow> 'a \<Rightarrow> bool"
  assumes irrefl: "\<not> before a a"
    and trans: "before a b \<Longrightarrow> before b c \<Longrightarrow> before a c"
    and weak: "\<not> before a b \<Longrightarrow> \<not> before b c \<Longrightarrow> \<not> before a c"
begin

lemma asym: "before a b \<Longrightarrow> \<not> before b a"
  using irrefl trans by blast

lemma pick_start:
  "pick before p (Some w) cs = Some x \<Longrightarrow> (x = w \<or> x \<in> set cs \<and> p x) \<and> \<not> before w x \<and>
     (\<forall>c \<in> set cs. p c \<longrightarrow> \<not> before c x)"
proof (induction cs arbitrary: w)
  case Nil
  then show ?case by (simp add: irrefl)
next
  case (Cons c cs)
  show ?case
  proof (cases "p c \<and> before c w")
    case True
    with Cons.prems have "pick before p (Some c) cs = Some x" by simp
    from Cons.IH [OF this] True show ?thesis using asym weak by (metis list.set_intros set_ConsD)
  next
    case False
    with Cons.prems have "pick before p (Some w) cs = Some x" by (auto split: if_splits)
    from Cons.IH [OF this] False show ?thesis using weak by (metis list.set_intros(2) set_ConsD)
  qed
qed

lemma pick_ne_None [simp]: "pick before p (Some w) cs \<noteq> None"
  by (induction cs arbitrary: w) auto

lemma pick_None: "pick before p None cs = None \<longleftrightarrow> (\<forall>c \<in> set cs. \<not> p c)"
  by (induction cs) auto

lemma pick_Some:
  "pick before p None cs = Some x \<Longrightarrow> x \<in> set cs \<and> p x \<and> (\<forall>c \<in> set cs. p c \<longrightarrow> \<not> before c x)"
proof (induction cs)
  case Nil
  then show ?case by simp
next
  case (Cons c cs)
  show ?case
  proof (cases "p c")
    case True
    with Cons.prems have "pick before p (Some c) cs = Some x" by simp
    from pick_start [OF this] True show ?thesis by auto
  qed (use Cons in auto)
qed

text \<open>Where incomparable elements are equal, the scan order does not matter.\<close>

lemma pick_unique:
  assumes "set cs = set ds"
    and total: "\<And>a b. a \<in> set cs \<Longrightarrow> b \<in> set cs \<Longrightarrow> a \<noteq> b \<Longrightarrow> before a b \<or> before b a"
  shows "pick before p None cs = pick before p None ds"
proof (cases "pick before p None cs")
  case None
  with assms(1) have "pick before p None ds = None" by (simp add: pick_None)
  with None show ?thesis by simp
next
  case (Some x)
  with assms(1) have "pick before p None ds \<noteq> None" using pick_Some [OF Some] by (auto simp: pick_None)
  then obtain y where y: "pick before p None ds = Some y" by auto
  have "x = y" using pick_Some [OF Some] pick_Some [OF y] total assms(1) by blast
  with Some y show ?thesis by simp
qed

end

section \<open>The operations\<close>

definition claimBefore :: "SyncClaim \<Rightarrow> SyncClaim \<Rightarrow> bool" where
  "claimBefore a b =
     (if Claim_CreationTimestamp a \<noteq> Claim_CreationTimestamp b
      then Claim_CreationTimestamp a < Claim_CreationTimestamp b
      else if Key_Namespace (Claim_Resource a) \<noteq> Key_Namespace (Claim_Resource b)
      then Key_Namespace (Claim_Resource a) < Key_Namespace (Claim_Resource b)
      else Key_Name (Claim_Resource a) < Key_Name (Claim_Resource b))"

definition claim_owner :: "OwnershipInput \<Rightarrow> string \<Rightarrow> ResourceKey" where
  "claim_owner input value =
     (case pick claimBefore (\<lambda>claim. value \<in> set (ManagedAttributes claim)) None
             (Self input # Others input) of
        None \<Rightarrow> Claim_Resource (Self input)
      | Some winner \<Rightarrow> Claim_Resource winner)"

definition ResolveOwnership :: "OwnershipInput \<Rightarrow> OwnershipResult" where
  "ResolveOwnership input =
     foldl (\<lambda>result value.
        let owner = claim_owner input value;
            result = result\<lparr>Owners := mset_key (Owners result) value owner\<rparr>
        in if owner \<noteq> Claim_Resource (Self input)
           then result\<lparr>Conflicts := Conflicts result @ [value]\<rparr> else result)
      \<lparr>Owners = [], Conflicts = []\<rparr> (sortedSet [Candidates input])"

section \<open>Correctness\<close>

definition claim_rank :: "SyncClaim \<Rightarrow> time \<times> string \<times> string" where
  "claim_rank c =
     (Claim_CreationTimestamp c, Key_Namespace (Claim_Resource c), Key_Name (Claim_Resource c))"

lemma claimBefore_rank: "claimBefore a b \<longleftrightarrow> claim_rank a < claim_rank b"
  by (auto simp: claimBefore_def claim_rank_def less_prod_def' order_less_le)

interpretation claims: claim_order claimBefore
  by unfold_locales (auto simp: claimBefore_rank)

text \<open>The syncs of a cluster have distinct keys.\<close>

definition claims_wf :: "OwnershipInput \<Rightarrow> bool" where
  "claims_wf input \<longleftrightarrow> inj_on Claim_Resource (set (Self input # Others input))"

lemma claims_total:
  assumes "inj_on Claim_Resource S" "a \<in> S" "b \<in> S" "a \<noteq> b"
  shows "claimBefore a b \<or> claimBefore b a"
proof -
  have "Claim_Resource a \<noteq> Claim_Resource b" using assms by (auto dest: inj_onD)
  then have "claim_rank a \<noteq> claim_rank b" by (auto simp: claim_rank_def)
  then show ?thesis by (auto simp: claimBefore_rank)
qed

lemma ResolveOwnership_fold:
  fixes input :: OwnershipInput
  defines "step \<equiv> \<lambda>result value.
        let owner = claim_owner input value;
            result = result\<lparr>Owners := mset_key (Owners result) value owner\<rparr>
        in if owner \<noteq> Claim_Resource (Self input)
           then result\<lparr>Conflicts := Conflicts result @ [value]\<rparr> else result"
  shows "Conflicts (foldl step r vs) =
           Conflicts r @ filter (\<lambda>v. claim_owner input v \<noteq> Claim_Resource (Self input)) vs"
    and "map_of (Owners (foldl step r vs)) v =
           (if v \<in> set vs then Some (claim_owner input v) else map_of (Owners r) v)"
proof (induction vs arbitrary: r)
  case (Cons x vs)
  case 1
  show ?case by (simp add: Cons.IH(1)) (simp add: step_def Let_def)
  case 2
  show ?case
    by (simp add: Cons.IH(2)) (simp add: step_def Let_def mset_key_def update_conv')
qed simp_all

lemma Conflicts_ResolveOwnership:
  "Conflicts (ResolveOwnership input) =
     filter (\<lambda>v. claim_owner input v \<noteq> Claim_Resource (Self input)) (sortedSet [Candidates input])"
  by (simp add: ResolveOwnership_def ResolveOwnership_fold)

lemma Owners_ResolveOwnership:
  "map_of (Owners (ResolveOwnership input)) v =
     (if v \<in> set (Candidates input) then Some (claim_owner input v) else None)"
  by (simp add: ResolveOwnership_def ResolveOwnership_fold)

lemma claim_owner_self_iff:
  assumes "claims_wf input"
  shows "claim_owner input v = Claim_Resource (Self input) \<longleftrightarrow>
    (\<forall>c \<in> set (Others input). c \<noteq> Self input \<and> v \<in> set (ManagedAttributes c) \<longrightarrow>
       v \<in> set (ManagedAttributes (Self input)) \<and> claimBefore (Self input) c)"
proof -
  let ?p = "\<lambda>c. v \<in> set (ManagedAttributes c)"
  let ?cs = "Self input # Others input"
  from assms have inj: "inj_on Claim_Resource (set ?cs)" by (simp add: claims_wf_def)
  show ?thesis
  proof (cases "pick claimBefore ?p None ?cs")
    case None
    moreover from None have "\<forall>c \<in> set ?cs. \<not> ?p c" by (simp only: claims.pick_None)
    ultimately show ?thesis by (auto simp: claim_owner_def simp del: pick.simps)
  next
    case (Some w)
    note w = claims.pick_Some [OF Some]
    have "claim_owner input v = Claim_Resource (Self input) \<longleftrightarrow> w = Self input"
      using inj w Some by (auto simp: claim_owner_def inj_on_def simp del: pick.simps)
    also have "\<dots> \<longleftrightarrow> (\<forall>c \<in> set (Others input). c \<noteq> Self input \<and> ?p c \<longrightarrow>
        ?p (Self input) \<and> claimBefore (Self input) c)"
      using w claims_total [OF inj] claims.irrefl by (metis list.set_intros set_ConsD)
    finally show ?thesis .
  qed
qed

text \<open>
  C25: A candidate is reported as a conflict exactly when some other sync has recorded it and
  either this sync has not recorded it or the other one is older, by creation time, then
  namespace, then name. So a recorded
  owner is displaced only by an earlier recorded claim, never by age alone.
\<close>

theorem ResolveOwnership_conflict_iff:
  assumes "claims_wf input"
  shows "v \<in> set (Conflicts (ResolveOwnership input)) \<longleftrightarrow>
    v \<in> set (Candidates input) \<and>
    (\<exists>c \<in> set (Others input). c \<noteq> Self input \<and> v \<in> set (ManagedAttributes c) \<and>
       (v \<in> set (ManagedAttributes (Self input)) \<longrightarrow> claim_rank c < claim_rank (Self input)))"
proof -
  from assms have inj: "inj_on Claim_Resource (set (Self input # Others input))"
    by (simp add: claims_wf_def)
  have tot: "\<not> claimBefore (Self input) c \<longleftrightarrow> claimBefore c (Self input)"
    if "c \<in> set (Others input)" "c \<noteq> Self input" for c
    using claims_total [OF inj, of c "Self input"] claims.asym that by auto
  show ?thesis
    using tot by (auto simp: Conflicts_ResolveOwnership claim_owner_self_iff [OF assms] simp flip: claimBefore_rank)
qed

text \<open>
  C3: Agreement. Two syncs that look at the same recorded claims, in whatever order they were
  listed, name the same owner for a value that somebody recorded; so two distinct syncs
  never both find a recorded value free of conflict, and at most one of them writes it.
\<close>

theorem ResolveOwnership_exclusive:
  assumes "claims_wf a" "claims_wf b"
    and same: "set (Self a # Others a) = set (Self b # Others b)"
    and "Claim_Resource (Self a) \<noteq> Claim_Resource (Self b)"
    and recorded: "c \<in> set (Self a # Others a)" "v \<in> set (ManagedAttributes c)"
    and "v \<in> set (Candidates a)" "v \<in> set (Candidates b)"
  shows "map_of (Owners (ResolveOwnership a)) v = map_of (Owners (ResolveOwnership b)) v \<and>
    (v \<in> set (Conflicts (ResolveOwnership a)) \<or> v \<in> set (Conflicts (ResolveOwnership b)))"
proof -
  let ?p = "\<lambda>c. v \<in> set (ManagedAttributes c)"
  have inj: "inj_on Claim_Resource (set (Self a # Others a))"
    using assms(1) by (simp only: claims_wf_def)
  have "pick claimBefore ?p None (Self a # Others a) = pick claimBefore ?p None (Self b # Others b)"
    by (intro claims.pick_unique [OF same] claims_total [OF inj])
  moreover have "pick claimBefore ?p None (Self a # Others a) \<noteq> None"
    unfolding claims.pick_None using recorded by blast
  ultimately have "claim_owner a v = claim_owner b v"
    by (auto simp: claim_owner_def simp del: pick.simps)
  with assms show ?thesis
    by (auto simp: Owners_ResolveOwnership Conflicts_ResolveOwnership)
qed

end
