(* ===== verification/Ziti_Types.thy ===== *)
theory Ziti_Types
  imports Directory
begin

text \<open>
  The OpenZiti objects of \<^verbatim>\<open>internal/openziti/client/client.go\<close> and the \<^verbatim>\<open>Client\<close> interface the
  services and controllers call. An operation reads and changes the world; a nil pointer
  without an error is \<open>Inr None\<close>.
\<close>

record Service =
  Service_ID :: string
  Service_Name :: string
  Service_RoleAttributes :: "string list"
  Service_ConfigIDs :: "string list"

text \<open>The values the program puts into a config payload (\<^verbatim>\<open>map[string]any\<close>).\<close>

datatype payload_value =
    Strings "string list"
  | Text string
  | Int32 int
  | Ranges "(string, int) gomap list"

record ServiceConfig =
  Config_ID :: string
  Config_Name :: string
  Config_Type :: string
  Config_Payload :: "(string, payload_value) gomap"

record EdgeRouter =
  EdgeRouter_ID :: string
  EdgeRouter_Name :: string

record AccessPolicy =
  AccessPolicy_ID :: string
  AccessPolicy_Name :: string
  AccessPolicy_Type :: string
  AccessPolicy_IdentityRoles :: "string list"
  AccessPolicy_ServiceRoles :: "string list"
  IdentityRolesRaw :: "string list"
  ServiceRolesRaw :: "string list"
  AccessPolicy_Semantic :: string

record ServiceEdgeRouterPolicy =
  SERP_ID :: string
  SERP_Name :: string
  EdgeRouterRoles :: "string list"
  SERP_ServiceRoles :: "string list"
  SERP_Semantic :: string

record 'w Client =
  GetIdentity :: "string \<Rightarrow> 'w \<Rightarrow> (error + Identity option) \<times> 'w"
  FindIdentityByName :: "string \<Rightarrow> 'w \<Rightarrow> (error + Identity option) \<times> 'w"
  ListIdentities :: "'w \<Rightarrow> (error + Identity list) \<times> 'w"
  CreateIdentity :: "Identity \<Rightarrow> 'w \<Rightarrow> (error + Identity option) \<times> 'w"
  UpdateIdentity :: "Identity \<Rightarrow> 'w \<Rightarrow> (error + Identity option) \<times> 'w"
  PatchIdentityRoleAttributes :: "string \<Rightarrow> string list \<Rightarrow> 'w \<Rightarrow> error option \<times> 'w"
  DeleteIdentity :: "string \<Rightarrow> 'w \<Rightarrow> error option \<times> 'w"
  GetEnrollmentJWT :: "string \<Rightarrow> 'w \<Rightarrow> (error + string) \<times> 'w"
  GetService :: "string \<Rightarrow> 'w \<Rightarrow> (error + Service option) \<times> 'w"
  FindServiceByName :: "string \<Rightarrow> 'w \<Rightarrow> (error + Service option) \<times> 'w"
  CreateService :: "Service \<Rightarrow> 'w \<Rightarrow> (error + Service option) \<times> 'w"
  UpdateService :: "Service \<Rightarrow> 'w \<Rightarrow> (error + Service option) \<times> 'w"
  DeleteService :: "string \<Rightarrow> 'w \<Rightarrow> error option \<times> 'w"
  GetConfig :: "string \<Rightarrow> 'w \<Rightarrow> (error + ServiceConfig option) \<times> 'w"
  CreateConfig :: "ServiceConfig \<Rightarrow> 'w \<Rightarrow> (error + ServiceConfig option) \<times> 'w"
  UpdateConfig :: "ServiceConfig \<Rightarrow> 'w \<Rightarrow> (error + ServiceConfig option) \<times> 'w"
  DeleteConfig :: "string \<Rightarrow> 'w \<Rightarrow> error option \<times> 'w"
  FindEdgeRouterByName :: "string \<Rightarrow> 'w \<Rightarrow> (error + EdgeRouter option) \<times> 'w"
  GetAccessPolicy :: "string \<Rightarrow> 'w \<Rightarrow> (error + AccessPolicy option) \<times> 'w"
  FindAccessPolicyByName :: "string \<Rightarrow> 'w \<Rightarrow> (error + AccessPolicy option) \<times> 'w"
  CreateAccessPolicy :: "AccessPolicy \<Rightarrow> 'w \<Rightarrow> (error + AccessPolicy option) \<times> 'w"
  UpdateAccessPolicy :: "AccessPolicy \<Rightarrow> 'w \<Rightarrow> (error + AccessPolicy option) \<times> 'w"
  DeleteAccessPolicy :: "string \<Rightarrow> 'w \<Rightarrow> error option \<times> 'w"
  GetServiceEdgeRouterPolicy :: "string \<Rightarrow> 'w \<Rightarrow> (error + ServiceEdgeRouterPolicy option) \<times> 'w"
  FindServiceEdgeRouterPolicyByName :: "string \<Rightarrow> 'w \<Rightarrow> (error + ServiceEdgeRouterPolicy option) \<times> 'w"
  CreateServiceEdgeRouterPolicy ::
    "ServiceEdgeRouterPolicy \<Rightarrow> 'w \<Rightarrow> (error + ServiceEdgeRouterPolicy option) \<times> 'w"
  UpdateServiceEdgeRouterPolicy ::
    "ServiceEdgeRouterPolicy \<Rightarrow> 'w \<Rightarrow> (error + ServiceEdgeRouterPolicy option) \<times> 'w"
  DeleteServiceEdgeRouterPolicy :: "string \<Rightarrow> 'w \<Rightarrow> error option \<times> 'w"

end
