(* ===== verification/Api_Types.thy ===== *)
theory Api_Types
  imports Ownership Ziti_Types
begin

text \<open>
  The custom resources of \<^verbatim>\<open>api/v1alpha1\<close> and the Kubernetes metadata they carry. A pointer
  that may be nil is an \<open>option\<close>; the deletion timestamp is zero when it is \<open>None\<close>.
\<close>

section \<open>Shared parts\<close>

record ObjectMeta =
  Meta_Namespace :: string
  Meta_Name :: string
  UID :: string
  ResourceVersion :: string
  Generation :: int
  CreationTimestamp :: time
  DeletionTimestamp :: "time option"
  Finalizers :: "string list"

definition ObjectKey :: "ObjectMeta \<Rightarrow> ResourceKey" where
  "ObjectKey m = \<lparr>Key_Namespace = Meta_Namespace m, Key_Name = Meta_Name m\<rparr>"

datatype ConditionStatus = ConditionTrue | ConditionFalse | ConditionUnknown

record Condition =
  Cond_Type :: string
  Cond_Status :: ConditionStatus
  Cond_Reason :: string
  Cond_Message :: string
  Cond_ObservedGeneration :: int
  LastTransitionTime :: time

definition ConditionTypeReady :: string where "ConditionTypeReady = ''Ready''"
definition ConditionTypeReconciling :: string where "ConditionTypeReconciling = ''Reconciling''"
definition ConditionTypeDegraded :: string where "ConditionTypeDegraded = ''Degraded''"

record CommonStatus =
  Status_ID :: string
  Conditions :: "Condition list"
  ObservedGeneration :: int
  LastError :: string

section \<open>ZitiIdentity\<close>

record EnrollmentSpec =
  CreateJWTSecret :: bool
  Enrollment_JWTSecretName :: string

record ZitiIdentitySpec =
  IdentitySpec_Name :: string
  IdentitySpec_Type :: string
  IdentitySpec_RoleAttributes :: "string list"
  Enrollment :: EnrollmentSpec

record ZitiIdentityStatus =
  IdentityStatus_Common :: CommonStatus
  JWTSecretName :: string

record ZitiIdentity =
  ZI_Meta :: ObjectMeta
  ZI_Spec :: ZitiIdentitySpec
  ZI_Status :: ZitiIdentityStatus

section \<open>ZitiService\<close>

record PortRange =
  Low :: int
  High :: int

record InterceptConfigSpec =
  Protocols :: "string list"
  Addresses :: "string list"
  PortRanges :: "PortRange list"

record HostConfigSpec =
  Host_Protocol :: string
  Host_Address :: string
  Host_Port :: int

record ZitiServiceConfigsSpec =
  Configs_Intercept :: InterceptConfigSpec
  Configs_Host :: HostConfigSpec

record ServiceRouterSpec =
  Router_Name :: string
  AdditionalAllowedEdgeRouterNames :: "string list"

record ZitiServiceSpec =
  ServiceSpec_Name :: string
  ServiceSpec_RoleAttributes :: "string list"
  Router :: "ServiceRouterSpec option"
  Configs :: ZitiServiceConfigsSpec

record ZitiServiceConfigIDs =
  InterceptID :: string
  HostID :: string

record ZitiServiceStatus =
  ServiceStatus_Common :: CommonStatus
  ConfigIDs :: ZitiServiceConfigIDs
  BindPolicyID :: string
  ServiceEdgeRouterPolicyID :: string

record ZitiService =
  ZS_Meta :: ObjectMeta
  ZS_Spec :: ZitiServiceSpec
  ZS_Status :: ZitiServiceStatus

section \<open>ZitiAccessPolicy\<close>

definition AccessPolicyTypeDial :: string where "AccessPolicyTypeDial = ''Dial''"
definition AccessPolicyTypeBind :: string where "AccessPolicyTypeBind = ''Bind''"

record SelectorSpec =
  MatchNames :: "string list"
  MatchRoleAttributes :: "string list"

record ZitiAccessPolicySpec =
  PolicySpec_Type :: string
  IdentitySelector :: SelectorSpec
  ServiceSelector :: SelectorSpec

record ZitiAccessPolicyStatus =
  PolicyStatus_Common :: CommonStatus
  ResolvedIdentityCount :: int
  ResolvedServiceCount :: int

record ZitiAccessPolicy =
  ZAP_Meta :: ObjectMeta
  ZAP_Spec :: ZitiAccessPolicySpec
  ZAP_Status :: ZitiAccessPolicyStatus

section \<open>ZitiEntraRoleSync\<close>

record ZitiEntraRoleSyncSpec =
  TenantID :: string
  AppID :: string
  CredentialsSecretRef :: string
  Spec_UserProperty :: string
  Interval :: string

record EntraUnmatchedMember =
  Entra_ID :: string
  Entra_DisplayName :: string
  Entra_ExternalID :: string
  Entra_Reason :: string

record ZitiEntraRoleSyncStatus =
  SyncStatus_Common :: CommonStatus
  LastSyncTime :: "time option"
  Status_ManagedAttributes :: "string list"
  Status_MatchedIdentities :: nat
  Status_IdentitiesUpdated :: nat
  Status_MembersWithoutIdentity :: nat
  Status_UnmatchedMembers :: "EntraUnmatchedMember list"

record ZitiEntraRoleSync =
  ZERS_Meta :: ObjectMeta
  ZERS_Spec :: ZitiEntraRoleSyncSpec
  ZERS_Status :: ZitiEntraRoleSyncStatus

end
