(* ===== verification/Reconcile_Helpers.thy ===== *)
theory Reconcile_Helpers
  imports Api_Types "HOL-Library.Sublist"
begin

text \<open>
  \<^verbatim>\<open>internal/controller/reconcile_helpers.go\<close>: conditions, finalizers, events and the
  normalisation of error messages. The Kubernetes libraries are parameters: \<open>apimeta\<close> holds the
  two condition functions of \<^verbatim>\<open>k8s.io/apimachinery\<close> that the code calls, and \<open>apimeta_ok\<close> states
  what their documentation promises.
\<close>

section \<open>Results and the libraries\<close>

text \<open>\<^verbatim>\<open>ctrl.Result\<close>.\<close>

record Result =
  Requeue :: bool
  RequeueAfter :: duration

definition zero_Result :: Result where
  "zero_Result = \<lparr>Requeue = False, RequeueAfter = 0\<rparr>"

record apimeta =
  FindStatusCondition :: "Condition list \<Rightarrow> string \<Rightarrow> Condition option"
  apimeta_SetStatusCondition :: "Condition list \<Rightarrow> Condition \<Rightarrow> Condition list"

text \<open>Two conditions that agree but for the transition time.\<close>

definition same_condition :: "Condition \<Rightarrow> Condition \<Rightarrow> bool" where
  "same_condition c d \<longleftrightarrow>
     Cond_Type c = Cond_Type d \<and> Cond_Status c = Cond_Status d \<and> Cond_Reason c = Cond_Reason d \<and>
     Cond_Message c = Cond_Message d \<and> Cond_ObservedGeneration c = Cond_ObservedGeneration d"

text \<open>
  Setting a condition makes the lookup of its type return it (its transition time may be an
  older one) and leaves the conditions of other types alone.
\<close>

definition apimeta_ok :: "apimeta \<Rightarrow> bool" where
  "apimeta_ok lib \<longleftrightarrow>
     (\<forall>cs c. \<exists>d. FindStatusCondition lib (apimeta_SetStatusCondition lib cs c) (Cond_Type c) = Some d \<and>
        same_condition d c) \<and>
     (\<forall>cs c t. t \<noteq> Cond_Type c \<longrightarrow>
        FindStatusCondition lib (apimeta_SetStatusCondition lib cs c) t = FindStatusCondition lib cs t)"

section \<open>Conditions and finalizers\<close>

definition SetStatusCondition :: "apimeta \<Rightarrow> CommonStatus \<Rightarrow> Condition \<Rightarrow> CommonStatus" where
  "SetStatusCondition lib status condition =
     (let conditions = Conditions status;
          condition = (case FindStatusCondition lib conditions (Cond_Type condition) of
              None \<Rightarrow> condition
            | Some existing \<Rightarrow>
                if Cond_Status existing = Cond_Status condition \<and>
                   Cond_Reason existing = Cond_Reason condition \<and>
                   Cond_Message existing = Cond_Message condition \<and>
                   Cond_ObservedGeneration existing = Cond_ObservedGeneration condition
                then condition\<lparr>LastTransitionTime := LastTransitionTime existing\<rparr>
                else condition)
      in status\<lparr>Conditions := apimeta_SetStatusCondition lib conditions condition\<rparr>)"

definition RemoveStatusCondition :: "CommonStatus \<Rightarrow> string \<Rightarrow> CommonStatus" where
  "RemoveStatusCondition status conditionType =
     status\<lparr>Conditions := filter (\<lambda>condition. Cond_Type condition \<noteq> conditionType) (Conditions status)\<rparr>"

definition EnsureFinalizer :: "ObjectMeta \<Rightarrow> string \<Rightarrow> bool \<times> ObjectMeta" where
  "EnsureFinalizer obj finalizer =
     (if finalizer \<in> set (Finalizers obj) then (False, obj)
      else (True, obj\<lparr>Finalizers := Finalizers obj @ [finalizer]\<rparr>))"

definition RemoveFinalizer :: "ObjectMeta \<Rightarrow> string \<Rightarrow> bool \<times> ObjectMeta" where
  "RemoveFinalizer obj finalizer =
     (if finalizer \<notin> set (Finalizers obj) then (False, obj)
      else (True, obj\<lparr>Finalizers := filter (\<lambda>existing. existing \<noteq> finalizer) (Finalizers obj)\<rparr>))"

definition IgnoreNotFound :: "error option \<Rightarrow> error option" where
  "IgnoreNotFound err = (case err of None \<Rightarrow> None | Some e \<Rightarrow> if IsNotFound e then None else Some e)"

definition RequeueWithError :: "error \<Rightarrow> Result \<times> error option" where
  "RequeueWithError err = (zero_Result, Some err)"

section \<open>Messages\<close>

text \<open>
  \<^verbatim>\<open>requestIDPattern\<close>: a backslash or a double quote, the word \<^verbatim>\<open>requestId\<close>, a backslash or a quote,
  a colon, white space, a backslash or a quote (group 1), one or more other characters, a
  backslash or a quote (group 2). The classes that follow each other are disjoint, so the
  leftmost greedy match is found without backtracking. \<open>match_request_id s\<close> is the match at the
  start of \<open>s\<close>: group 1, group 2 and the rest.
\<close>

definition quote_char :: "char \<Rightarrow> bool" where
  "quote_char c \<longleftrightarrow> c = CHR 0x5C \<or> c = CHR 0x22"

definition regex_space :: "char \<Rightarrow> bool" where
  "regex_space c \<longleftrightarrow> c \<in> {CHR 0x09, CHR 0x0A, CHR 0x0C, CHR 0x0D, CHR 0x20}"

definition match_request_id :: "string \<Rightarrow> (string \<times> char \<times> string) option" where
  "match_request_id s =
     (case s of [] \<Rightarrow> None | q1 # s1 \<Rightarrow>
        if quote_char q1 \<and> take 9 s1 = ''requestId'' then
          (case drop 9 s1 of
             q2 # colon # s2 \<Rightarrow>
               if quote_char q2 \<and> colon = CHR '':'' then
                 (case dropWhile regex_space s2 of
                    q3 # s3 \<Rightarrow>
                      if quote_char q3 \<and> takeWhile (\<lambda>c. \<not> quote_char c) s3 \<noteq> [] then
                        (case dropWhile (\<lambda>c. \<not> quote_char c) s3 of
                           q4 # s4 \<Rightarrow>
                             Some (q1 # ''requestId'' @ [q2, colon] @ takeWhile regex_space s2 @ [q3], q4, s4)
                         | [] \<Rightarrow> None)
                      else None
                  | [] \<Rightarrow> None)
               else None
           | _ \<Rightarrow> None)
        else None)"

lemma length_dropWhile_Cons: "dropWhile P xs = y # ys \<Longrightarrow> length ys < length xs"
  using length_dropWhile_le [of P xs] by simp

lemma length_drop_Cons2: "drop n xs = y # z # ys \<Longrightarrow> length ys < length xs"
proof -
  assume "drop n xs = y # z # ys"
  then have "length (drop n xs) = Suc (Suc (length ys))" by simp
  then show ?thesis by simp
qed

lemma match_request_id_shorter: "match_request_id s = Some (g1, g2, rest) \<Longrightarrow> length rest < length s"
  by (auto simp: match_request_id_def split: list.splits if_splits
      dest!: length_dropWhile_Cons length_drop_Cons2)

text \<open>\<^verbatim>\<open>requestIDPattern.ReplaceAllString(message, "${1}<redacted>${2}")\<close>.\<close>

function normalizeReconcileErrorMessage :: "string \<Rightarrow> string" where
  "normalizeReconcileErrorMessage message =
     (case match_request_id message of
        Some (g1, g2, rest) \<Rightarrow> g1 @ ''<redacted>'' @ [g2] @ normalizeReconcileErrorMessage rest
      | None \<Rightarrow> (case message of [] \<Rightarrow> [] | c # cs \<Rightarrow> c # normalizeReconcileErrorMessage cs))"
  by pat_completeness auto
termination
  by (relation "measure length") (auto simp: match_request_id_shorter)

declare normalizeReconcileErrorMessage.simps [simp del]

section \<open>Failure status\<close>

definition hasMatchingFailureStatus ::
  "apimeta \<Rightarrow> CommonStatus \<Rightarrow> int \<Rightarrow> string \<Rightarrow> string \<Rightarrow> bool" where
  "hasMatchingFailureStatus lib status generation reason message =
     (if ObservedGeneration status \<noteq> generation \<or> LastError status \<noteq> message then False
      else case (FindStatusCondition lib (Conditions status) ConditionTypeReady,
                 FindStatusCondition lib (Conditions status) ConditionTypeReconciling,
                 FindStatusCondition lib (Conditions status) ConditionTypeDegraded) of
        (Some ready, Some reconciling, Some degraded) \<Rightarrow>
          Cond_Status ready = ConditionFalse \<and> Cond_Reason ready = reason \<and> Cond_Message ready = message \<and>
          Cond_Status reconciling = ConditionFalse \<and> Cond_Reason reconciling = reason \<and>
          Cond_Message reconciling = message \<and>
          Cond_Status degraded = ConditionTrue \<and> Cond_Reason degraded = reason \<and>
          Cond_Message degraded = message
      | _ \<Rightarrow> False)"

section \<open>Lemmas\<close>

subsection \<open>Conditions\<close>

lemma ConditionTypes_distinct [simp]:
  "ConditionTypeReady \<noteq> ConditionTypeReconciling" "ConditionTypeReady \<noteq> ConditionTypeDegraded"
  "ConditionTypeReconciling \<noteq> ConditionTypeReady" "ConditionTypeReconciling \<noteq> ConditionTypeDegraded"
  "ConditionTypeDegraded \<noteq> ConditionTypeReady" "ConditionTypeDegraded \<noteq> ConditionTypeReconciling"
  by (simp_all add: ConditionTypeReady_def ConditionTypeReconciling_def ConditionTypeDegraded_def)

lemma SetStatusCondition_frame [simp]:
  "Status_ID (SetStatusCondition lib st c) = Status_ID st"
  "ObservedGeneration (SetStatusCondition lib st c) = ObservedGeneration st"
  "LastError (SetStatusCondition lib st c) = LastError st"
  by (simp_all add: SetStatusCondition_def Let_def)

lemma SetStatusCondition_same:
  assumes "apimeta_ok lib"
  shows "\<exists>d. FindStatusCondition lib (Conditions (SetStatusCondition lib st c)) (Cond_Type c) = Some d \<and>
    same_condition d c"
proof -
  define c' where "c' = (case FindStatusCondition lib (Conditions st) (Cond_Type c) of
      None \<Rightarrow> c
    | Some existing \<Rightarrow>
        if Cond_Status existing = Cond_Status c \<and> Cond_Reason existing = Cond_Reason c \<and>
           Cond_Message existing = Cond_Message c \<and>
           Cond_ObservedGeneration existing = Cond_ObservedGeneration c
        then c\<lparr>LastTransitionTime := LastTransitionTime existing\<rparr> else c)"
  have c': "Cond_Type c' = Cond_Type c" "same_condition d c' \<Longrightarrow> same_condition d c" for d
    by (auto simp: c'_def same_condition_def split: option.splits)
  have set: "Conditions (SetStatusCondition lib st c) = apimeta_SetStatusCondition lib (Conditions st) c'"
    by (simp add: SetStatusCondition_def Let_def c'_def)
  from assms obtain d where
    "FindStatusCondition lib (apimeta_SetStatusCondition lib (Conditions st) c') (Cond_Type c') = Some d"
    "same_condition d c'"
    unfolding apimeta_ok_def by blast
  with c' show ?thesis unfolding set by auto
qed

lemma SetStatusCondition_other:
  assumes "apimeta_ok lib" "t \<noteq> Cond_Type c"
  shows "FindStatusCondition lib (Conditions (SetStatusCondition lib st c)) t =
    FindStatusCondition lib (Conditions st) t"
  using assms by (auto simp: apimeta_ok_def SetStatusCondition_def Let_def split: option.splits)

subsection \<open>Redaction\<close>

lemma match_request_id_needs: "match_request_id (c # s) \<noteq> None \<Longrightarrow> take 9 s = ''requestId''"
  by (auto simp: match_request_id_def split: if_splits)

lemma take_requestId_prefix:
  assumes "take 9 (pre @ q # s) = ''requestId''" "quote_char q"
  shows "sublist ''requestId'' pre"
proof -
  have "9 \<le> length pre"
  proof (rule ccontr)
    assume "\<not> 9 \<le> length pre"
    then have "q \<in> set (take 9 (pre @ q # s))" by (simp add: take_Cons')
    then have "q \<in> set ''requestId''" by (simp only: assms(1))
    with assms(2) show False by (auto simp: quote_char_def)
  qed
  with assms(1) have "take 9 pre = ''requestId''" by simp
  then show ?thesis by (metis sublist_take)
qed

lemma normalize_prefix:
  assumes "\<not> sublist ''requestId'' pre" "quote_char q"
  shows "normalizeReconcileErrorMessage (pre @ q # s) = pre @ normalizeReconcileErrorMessage (q # s)"
  using assms(1)
proof (induction pre)
  case (Cons c pre)
  then have "\<not> sublist ''requestId'' pre" by (metis sublist_Cons_right)
  note ih = Cons.IH [OF this]
  have none: "match_request_id (c # pre @ q # s) = None"
    using match_request_id_needs take_requestId_prefix [OF _ assms(2)] \<open>\<not> sublist ''requestId'' pre\<close>
    by blast
  have "normalizeReconcileErrorMessage (c # pre @ q # s) = c # normalizeReconcileErrorMessage (pre @ q # s)"
    by (subst normalizeReconcileErrorMessage.simps) (simp add: none)
  then show ?case unfolding ih by simp
qed simp

lemma match_request_id_id:
  assumes "ident \<noteq> []" "\<forall>c \<in> set ident. \<not> quote_char c"
  shows "match_request_id (CHR 0x22 # ''requestId'' @ [CHR 0x22, CHR '':'', CHR 0x22] @ ident @ CHR 0x22 # post) =
    Some (CHR 0x22 # ''requestId'' @ [CHR 0x22, CHR '':'', CHR 0x22], CHR 0x22, post)"
proof -
  have q: "quote_char (CHR 0x22)" "\<not> regex_space (CHR 0x22)"
    by (simp_all add: quote_char_def regex_space_def)
  have "takeWhile (\<lambda>c. \<not> quote_char c) (ident @ CHR 0x22 # post) = ident"
      "dropWhile (\<lambda>c. \<not> quote_char c) (ident @ CHR 0x22 # post) = CHR 0x22 # post"
    using assms(2) q by (simp_all add: takeWhile_append2 dropWhile_append2)
  with q assms(1) show ?thesis
    by (simp add: match_request_id_def)
qed

text \<open>A message around a request id, as the OpenZiti controller renders it in JSON.\<close>

definition request_message :: "string \<Rightarrow> string \<Rightarrow> string \<Rightarrow> string" where
  "request_message pre ident post =
     pre @ CHR 0x22 # ''requestId'' @ [CHR 0x22, CHR '':'', CHR 0x22] @ ident @ CHR 0x22 # post"

text \<open>
  Two error messages that differ only in the request id are normalised to the same text,
  whatever comes before (as long as it names no request id) and after; so a failure that
  repeats with a new request id is recognised as the same failure.
\<close>

theorem normalize_request_id:
  assumes "\<not> sublist ''requestId'' pre"
    and "a \<noteq> []" "\<forall>c \<in> set a. \<not> quote_char c" and "b \<noteq> []" "\<forall>c \<in> set b. \<not> quote_char c"
  shows "normalizeReconcileErrorMessage (request_message pre a post) =
    normalizeReconcileErrorMessage (request_message pre b post)"
proof -
  have q: "quote_char (CHR 0x22)" by (simp add: quote_char_def)
  have "normalizeReconcileErrorMessage (request_message pre ident post) = pre @ CHR 0x22 # ''requestId'' @
      [CHR 0x22, CHR '':'', CHR 0x22] @ ''<redacted>'' @ [CHR 0x22] @ normalizeReconcileErrorMessage post"
    if "ident \<noteq> []" "\<forall>c \<in> set ident. \<not> quote_char c" for ident
    unfolding request_message_def normalize_prefix [OF assms(1) q]
    by (subst normalizeReconcileErrorMessage.simps) (simp add: match_request_id_id [OF that, simplified])
  with assms show ?thesis by simp
qed

end
