(* ===== verification/Status_Marks.thy ===== *)
theory Status_Marks
  imports Reconcile_Helpers
begin

text \<open>
  The Kubernetes client as the reconcilers use it, and the two status writers every
  finalizing reconciler has: \<^verbatim>\<open>markReady\<close> and \<^verbatim>\<open>markFailed\<close>. The three reconcilers carry the
  same code with other types and another success message; here it is written once over the
  accessors of a resource, and each controller's theory instantiates it.
\<close>

section \<open>The Kubernetes client\<close>

text \<open>
  \<open>'r\<close> is the resource, \<open>'s\<close> its status. An update returns the object as the API server stored
  it. \<^verbatim>\<open>apiequality.Semantic.DeepEqual\<close> and the recorder are parameters.
\<close>

record ('r, 's, 'w) kube =
  Get :: "ResourceKey \<Rightarrow> 'w \<Rightarrow> (error + 'r) \<times> 'w"
  Update :: "'r \<Rightarrow> 'w \<Rightarrow> (error + 'r) \<times> 'w"
  Status_Update :: "'r \<Rightarrow> 'w \<Rightarrow> (error + 'r) \<times> 'w"
  Recorder_Event :: "string \<Rightarrow> string \<Rightarrow> string \<Rightarrow> 'w \<Rightarrow> unit \<times> 'w"
  has_Recorder :: bool
  Now :: "'w \<Rightarrow> time \<times> 'w"
  DeepEqual :: "'s \<Rightarrow> 's \<Rightarrow> bool"
  k_lib :: apimeta

datatype 'r kcall =
    KGet ResourceKey "error + 'r"
  | KUpdate 'r "error + 'r"
  | KStatus 'r "error + 'r"
  | KEvent string string string

text \<open>\<^verbatim>\<open>EmitEvent\<close> does nothing without a recorder. \<open>emb\<close> injects a Kubernetes call into the trace
  of the controller at hand.\<close>

definition EmitEvent ::
  "('r, 's, 'w) kube \<Rightarrow> ('r kcall \<Rightarrow> 'c) \<Rightarrow> string \<Rightarrow> string \<Rightarrow> string \<Rightarrow> ('w, 'c, unit) io" where
  "EmitEvent k emb eventType reason message =
     (if \<not> has_Recorder k then State_Monad.return ()
      else call (\<lambda>_. emb (KEvent eventType reason message)) (Recorder_Event k eventType reason message))"

definition EventTypeNormal :: string where "EventTypeNormal = ''Normal''"
definition EventTypeWarning :: string where "EventTypeWarning = ''Warning''"

lemma EventTypes_distinct [simp]: "EventTypeNormal \<noteq> EventTypeWarning"
  by (simp add: EventTypeNormal_def EventTypeWarning_def)

section \<open>Resources with a common status\<close>

record ('r, 's) resource =
  r_meta :: "'r \<Rightarrow> ObjectMeta"
  r_set_meta :: "ObjectMeta \<Rightarrow> 'r \<Rightarrow> 'r"
  r_status :: "'r \<Rightarrow> 's"
  r_common :: "'s \<Rightarrow> CommonStatus"
  r_set_common :: "CommonStatus \<Rightarrow> 's \<Rightarrow> 's"
  r_set_status :: "'s \<Rightarrow> 'r \<Rightarrow> 'r"

abbreviation common_of :: "('r, 's) resource \<Rightarrow> 'r \<Rightarrow> CommonStatus" where
  "common_of R obj \<equiv> r_common R (r_status R obj)"

definition with_common :: "('r, 's) resource \<Rightarrow> CommonStatus \<Rightarrow> 'r \<Rightarrow> 'r" where
  "with_common R c obj = r_set_status R (r_set_common R c (r_status R obj)) obj"

text \<open>The access laws of the embedded structs, which each resource type provides.\<close>

locale status_resource =
  fixes R :: "('r, 's) resource"
  assumes meta_set_meta: "r_meta R (r_set_meta R m obj) = m"
    and status_set_meta: "r_status R (r_set_meta R m obj) = r_status R obj"
    and status_set_status: "r_status R (r_set_status R s obj) = s"
    and meta_set_status: "r_meta R (r_set_status R s obj) = r_meta R obj"
    and common_set_common: "r_common R (r_set_common R c s) = c"
    and set_common_common: "r_set_common R (r_common R s) s = s"
    and set_set_common: "r_set_common R c (r_set_common R d s) = r_set_common R c s"
    and set_status_status: "r_set_status R (r_status R obj) obj = obj"
begin

lemma common_with_common [simp]: "r_common R (r_status R (with_common R c obj)) = c"
  by (simp add: with_common_def status_set_status common_set_common)

lemma meta_with_common [simp]: "r_meta R (with_common R c obj) = r_meta R obj"
  by (simp add: with_common_def meta_set_status)

lemma with_common_common [simp]: "with_common R (r_common R (r_status R obj)) obj = obj"
  by (simp add: with_common_def set_common_common set_status_status)

end

section \<open>The condition triples\<close>

definition mk_condition :: "string \<Rightarrow> ConditionStatus \<Rightarrow> string \<Rightarrow> string \<Rightarrow> int \<Rightarrow> time \<Rightarrow> Condition" where
  "mk_condition ty st reason message gen t =
     \<lparr>Cond_Type = ty, Cond_Status = st, Cond_Reason = reason, Cond_Message = message,
      Cond_ObservedGeneration = gen, LastTransitionTime = t\<rparr>"

definition readyStatus :: "apimeta \<Rightarrow> int \<Rightarrow> string \<Rightarrow> time \<Rightarrow> time \<Rightarrow> time \<Rightarrow> CommonStatus \<Rightarrow> CommonStatus" where
  "readyStatus lib gen message t1 t2 t3 status =
     (let status = status\<lparr>ObservedGeneration := gen, LastError := []\<rparr>;
          status = SetStatusCondition lib status
            (mk_condition ConditionTypeReady ConditionTrue ''Reconciled'' message gen t1);
          status = SetStatusCondition lib status
            (mk_condition ConditionTypeReconciling ConditionFalse ''Idle'' ''No reconciliation in progress'' gen t2)
      in SetStatusCondition lib status
           (mk_condition ConditionTypeDegraded ConditionFalse ''AsExpected'' ''No actionable reconciliation errors'' gen t3))"

definition failedStatus ::
  "apimeta \<Rightarrow> int \<Rightarrow> string \<Rightarrow> string \<Rightarrow> time \<Rightarrow> time \<Rightarrow> time \<Rightarrow> CommonStatus \<Rightarrow> CommonStatus" where
  "failedStatus lib gen reason message t1 t2 t3 status =
     (let status = status\<lparr>ObservedGeneration := gen, LastError := message\<rparr>;
          status = SetStatusCondition lib status
            (mk_condition ConditionTypeReady ConditionFalse reason message gen t1);
          status = SetStatusCondition lib status
            (mk_condition ConditionTypeReconciling ConditionFalse reason message gen t2)
      in SetStatusCondition lib status
           (mk_condition ConditionTypeDegraded ConditionTrue reason message gen t3))"

section \<open>markReady and markFailed\<close>

definition markReady ::
  "('r, 's) resource \<Rightarrow> ('r, 's, 'w) kube \<Rightarrow> ('r kcall \<Rightarrow> 'c) \<Rightarrow> string \<Rightarrow> 'r
     \<Rightarrow> ('w, 'c, error option \<times> 'r) io" where
  "markReady R k emb message obj = do {
     t1 \<leftarrow> ask (Now k);
     t2 \<leftarrow> ask (Now k);
     t3 \<leftarrow> ask (Now k);
     let obj = with_common R
       (readyStatus (k_lib k) (Generation (r_meta R obj)) message t1 t2 t3 (common_of R obj)) obj;
     r \<leftarrow> call (\<lambda>r. emb (KStatus obj r)) (Status_Update k obj);
     State_Monad.return (case r of Inl err \<Rightarrow> (Some err, obj) | Inr obj' \<Rightarrow> (None, obj'))
   }"

definition markFailed ::
  "('r, 's) resource \<Rightarrow> ('r, 's, 'w) kube \<Rightarrow> ('r kcall \<Rightarrow> 'c) \<Rightarrow> 'r \<Rightarrow> error \<Rightarrow> string \<Rightarrow> bool
     \<Rightarrow> ('w, 'c, Result \<times> error option) io" where
  "markFailed R k emb obj reconcileErr reason retryable = (
     let message = normalizeReconcileErrorMessage (Error reconcileErr);
         finish = (if retryable then RequeueWithError reconcileErr else (zero_Result, None))
     in if hasMatchingFailureStatus (k_lib k) (common_of R obj) (Generation (r_meta R obj)) reason message
     then State_Monad.return finish
     else do {
       let previous = r_status R obj;
       t1 \<leftarrow> ask (Now k);
       t2 \<leftarrow> ask (Now k);
       t3 \<leftarrow> ask (Now k);
       let obj = with_common R
         (failedStatus (k_lib k) (Generation (r_meta R obj)) reason message t1 t2 t3 (common_of R obj)) obj;
       if \<not> DeepEqual k previous (r_status R obj) then do {
         r \<leftarrow> call (\<lambda>r. emb (KStatus obj r)) (Status_Update k obj);
         case r of
           Inl err \<Rightarrow> State_Monad.return (zero_Result, Some err)
         | Inr _ \<Rightarrow> do {
             _ \<leftarrow> EmitEvent k emb EventTypeWarning reason message;
             State_Monad.return finish
           }
       } else State_Monad.return finish
     })"

section \<open>Lemmas\<close>

lemma mk_condition_simps [simp]:
  "Cond_Type (mk_condition ty st reason message gen t) = ty"
  "same_condition d (mk_condition ty st reason message gen t) \<longleftrightarrow>
     Cond_Type d = ty \<and> Cond_Status d = st \<and> Cond_Reason d = reason \<and> Cond_Message d = message \<and>
     Cond_ObservedGeneration d = gen"
  by (simp_all add: mk_condition_def same_condition_def)

text \<open>Reading the three conditions back after they were set in order.\<close>

lemma find_after_three:
  fixes st :: CommonStatus
  assumes ok: "apimeta_ok lib"
    and types: "Cond_Type a = ConditionTypeReady" "Cond_Type b = ConditionTypeReconciling"
      "Cond_Type c = ConditionTypeDegraded"
  defines "st' \<equiv> SetStatusCondition lib (SetStatusCondition lib (SetStatusCondition lib st a) b) c"
  shows "\<exists>d. FindStatusCondition lib (Conditions st') ConditionTypeReady = Some d \<and> same_condition d a"
    and "\<exists>d. FindStatusCondition lib (Conditions st') ConditionTypeReconciling = Some d \<and> same_condition d b"
    and "\<exists>d. FindStatusCondition lib (Conditions st') ConditionTypeDegraded = Some d \<and> same_condition d c"
  using SetStatusCondition_same [OF ok, of st a]
    SetStatusCondition_same [OF ok, of "SetStatusCondition lib st a" b]
    SetStatusCondition_same [OF ok, of "SetStatusCondition lib (SetStatusCondition lib st a) b" c]
  by (simp_all add: st'_def types SetStatusCondition_other [OF ok])

lemma EmitEvent_yields:
  "(has_Recorder k \<Longrightarrow> Q [emb (KEvent ty reason msg)] ()) \<Longrightarrow> (\<not> has_Recorder k \<Longrightarrow> Q [] ()) \<Longrightarrow>
   yields (EmitEvent k emb ty reason msg) Q"
  unfolding EmitEvent_def by (intro yields_intros) auto

lemma failedStatus_matches:
  assumes "apimeta_ok lib"
  shows "hasMatchingFailureStatus lib (failedStatus lib gen reason message t1 t2 t3 st) gen reason message"
  using find_after_three [OF assms, of
      "mk_condition ConditionTypeReady ConditionFalse reason message gen t1"
      "mk_condition ConditionTypeReconciling ConditionFalse reason message gen t2"
      "mk_condition ConditionTypeDegraded ConditionTrue reason message gen t3"
      "st\<lparr>ObservedGeneration := gen, LastError := message\<rparr>"]
  by (auto simp: failedStatus_def hasMatchingFailureStatus_def Let_def)

text \<open>
  What \<open>markFailed\<close> may do, as the calls it makes and its result: nothing at all, or one status
  write that records the failure, followed by one warning when it was stored.
\<close>

definition failed_obj ::
  "('r, 's) resource \<Rightarrow> ('r, 's, 'w) kube \<Rightarrow> 'r \<Rightarrow> string \<Rightarrow> string \<Rightarrow> 'r \<Rightarrow> bool" where
  "failed_obj R k obj reason msg obj' \<longleftrightarrow>
     r_meta R obj' = r_meta R obj \<and>
     hasMatchingFailureStatus (k_lib k) (common_of R obj') (Generation (r_meta R obj')) reason msg"

inductive failure_calls ::
  "('r, 's) resource \<Rightarrow> ('r, 's, 'w) kube \<Rightarrow> ('r kcall \<Rightarrow> 'c) \<Rightarrow> 'r \<Rightarrow> string \<Rightarrow> string
     \<Rightarrow> Result \<times> error option \<Rightarrow> 'c list \<Rightarrow> Result \<times> error option \<Rightarrow> bool"
  for R k emb obj reason msg fin where
  quiet: "failure_calls R k emb obj reason msg fin [] fin"
| rejected: "failed_obj R k obj reason msg obj' \<Longrightarrow>
    failure_calls R k emb obj reason msg fin [emb (KStatus obj' (Inl err))] (zero_Result, Some err)"
| announced: "failed_obj R k obj reason msg obj' \<Longrightarrow> has_Recorder k \<Longrightarrow>
    failure_calls R k emb obj reason msg fin
      [emb (KStatus obj' (Inr stored)), emb (KEvent EventTypeWarning reason msg)] fin"
| unannounced: "failed_obj R k obj reason msg obj' \<Longrightarrow> \<not> has_Recorder k \<Longrightarrow>
    failure_calls R k emb obj reason msg fin [emb (KStatus obj' (Inr stored))] fin"

inductive_cases failure_callsE: "failure_calls R k emb obj reason msg fin xs res"

definition failure_result :: "error \<Rightarrow> bool \<Rightarrow> Result \<times> error option" where
  "failure_result err retryable = (if retryable then RequeueWithError err else (zero_Result, None))"

context status_resource
begin

lemma failed_objI:
  "apimeta_ok (k_lib k) \<Longrightarrow>
   failed_obj R k obj reason msg
     (with_common R (failedStatus (k_lib k) (Generation (r_meta R obj)) reason msg t1 t2 t3 c) obj)"
  by (simp add: failed_obj_def failedStatus_matches)

lemma markFailed_yields:
  assumes "apimeta_ok (k_lib k)"
  shows "yields (markFailed R k emb obj e reason retryable)
    (failure_calls R k emb obj reason (normalizeReconcileErrorMessage (Error e)) (failure_result e retryable))"
  unfolding markFailed_def Let_def
  by (intro yields_intros EmitEvent_yields)
     (auto simp: failure_result_def intro: failure_calls.intros failed_objI [OF assms])

lemma markFailed_repeated:
  assumes "hasMatchingFailureStatus (k_lib k) (common_of R obj) (Generation (r_meta R obj)) reason
    (normalizeReconcileErrorMessage (Error e))"
  shows "markFailed R k emb obj e reason retryable =
    State_Monad.return (failure_result e retryable)"
  using assms by (simp add: markFailed_def Let_def failure_result_def)

end

section \<open>What markReady records\<close>

definition hasReadyStatus :: "apimeta \<Rightarrow> CommonStatus \<Rightarrow> int \<Rightarrow> bool" where
  "hasReadyStatus lib status generation \<longleftrightarrow>
     ObservedGeneration status = generation \<and> LastError status = [] \<and>
     (case (FindStatusCondition lib (Conditions status) ConditionTypeReady,
            FindStatusCondition lib (Conditions status) ConditionTypeReconciling,
            FindStatusCondition lib (Conditions status) ConditionTypeDegraded) of
        (Some ready, Some reconciling, Some degraded) \<Rightarrow>
          Cond_Status ready = ConditionTrue \<and> Cond_Status reconciling = ConditionFalse \<and>
          Cond_Status degraded = ConditionFalse \<and> Cond_ObservedGeneration ready = generation
      | _ \<Rightarrow> False)"

lemma readyStatus_ready:
  assumes "apimeta_ok lib"
  shows "hasReadyStatus lib (readyStatus lib gen message t1 t2 t3 st) gen"
  using find_after_three [OF assms, of
      "mk_condition ConditionTypeReady ConditionTrue ''Reconciled'' message gen t1"
      "mk_condition ConditionTypeReconciling ConditionFalse ''Idle'' ''No reconciliation in progress'' gen t2"
      "mk_condition ConditionTypeDegraded ConditionFalse ''AsExpected'' ''No actionable reconciliation errors'' gen t3"
      "st\<lparr>ObservedGeneration := gen, LastError := []\<rparr>"]
  by (auto simp: readyStatus_def hasReadyStatus_def Let_def)

lemma readyStatus_ID [simp]: "Status_ID (readyStatus lib gen message t1 t2 t3 st) = Status_ID st"
  by (simp add: readyStatus_def Let_def)

lemma ready_not_failed:
  "hasReadyStatus lib st gen \<Longrightarrow> \<not> hasMatchingFailureStatus lib st gen reason message"
  by (auto simp: hasReadyStatus_def hasMatchingFailureStatus_def split: option.splits)

definition ready_obj :: "('r, 's) resource \<Rightarrow> ('r, 's, 'w) kube \<Rightarrow> 'r \<Rightarrow> 'r \<Rightarrow> bool" where
  "ready_obj R k obj obj' \<longleftrightarrow>
     r_meta R obj' = r_meta R obj \<and>
     obj' = with_common R (common_of R obj') obj \<and>
     Status_ID (common_of R obj') = Status_ID (common_of R obj) \<and>
     hasReadyStatus (k_lib k) (common_of R obj') (Generation (r_meta R obj'))"

lemma ready_objE:
  assumes "ready_obj R k obj obj'"
  obtains c where "obj' = with_common R c obj" "Status_ID c = Status_ID (common_of R obj)" "common_of R obj' = c"
  using assms unfolding ready_obj_def by blast

inductive ready_calls ::
  "('r, 's) resource \<Rightarrow> ('r, 's, 'w) kube \<Rightarrow> ('r kcall \<Rightarrow> 'c) \<Rightarrow> 'r \<Rightarrow> 'c list \<Rightarrow> error option \<times> 'r \<Rightarrow> bool"
  for R k emb obj where
  ready_rejected: "ready_obj R k obj obj' \<Longrightarrow>
    ready_calls R k emb obj [emb (KStatus obj' (Inl err))] (Some err, obj')"
| ready_stored: "ready_obj R k obj obj' \<Longrightarrow>
    ready_calls R k emb obj [emb (KStatus obj' (Inr stored))] (None, stored)"

context status_resource
begin

lemma ready_objI:
  "apimeta_ok (k_lib k) \<Longrightarrow>
   ready_obj R k obj (with_common R (readyStatus (k_lib k) (Generation (r_meta R obj)) msg t1 t2 t3 (common_of R obj)) obj)"
  by (simp add: ready_obj_def readyStatus_ready)

lemma markReady_yields:
  assumes "apimeta_ok (k_lib k)"
  shows "yields (markReady R k emb msg obj) (ready_calls R k emb obj)"
  unfolding markReady_def Let_def
  by (intro yields_intros) (auto intro: ready_calls.intros ready_objI [OF assms] split: sum.splits)

end

text \<open>A failure never stores a ready status, and a success stores the object it was given.\<close>

context status_resource
begin

lemma markFailed_not_ready:
  assumes "apimeta_ok (k_lib k)" "inj emb"
  shows "yields (markFailed R k emb obj e reason retryable) (\<lambda>xs res. \<forall>obj' u. emb (KStatus obj' u) \<in> set xs \<longrightarrow>
    \<not> hasReadyStatus (k_lib k) (common_of R obj') (Generation (r_meta R obj')))"
  by (rule yields_mono [OF markFailed_yields [OF assms(1)]])
     (auto elim!: failure_callsE simp: failed_obj_def inj_eq [OF assms(2)] ready_not_failed)

lemma markReady_stores:
  assumes "apimeta_ok (k_lib k)" "inj emb"
  shows "yields (markReady R k emb msg obj) (\<lambda>xs res. \<forall>obj' u. emb (KStatus obj' u) \<in> set xs \<longrightarrow> ready_obj R k obj obj')"
  by (rule yields_mono [OF markReady_yields [OF assms(1)]])
     (auto elim!: ready_calls.cases simp: inj_eq [OF assms(2)])

end

section \<open>Status writers never touch the object itself\<close>

definition marks_only :: "('r kcall \<Rightarrow> 'c) \<Rightarrow> 'c list \<Rightarrow> bool" where
  "marks_only emb xs \<longleftrightarrow> (\<forall>c \<in> set xs. (\<exists>obj res. c = emb (KStatus obj res)) \<or> (\<exists>ty reason msg. c = emb (KEvent ty reason msg)))"

lemma marks_only_simps [simp]:
  "marks_only emb []" "marks_only emb (emb (KStatus obj res) # xs) \<longleftrightarrow> marks_only emb xs"
  "marks_only emb (emb (KEvent ty reason msg) # xs) \<longleftrightarrow> marks_only emb xs"
  "marks_only emb (xs @ ys) \<longleftrightarrow> marks_only emb xs \<and> marks_only emb ys"
  unfolding marks_only_def list.set set_append by blast+

lemma markFailed_marks: "yields (markFailed R k emb obj e reason retryable) (\<lambda>xs r. marks_only emb xs)"
  unfolding markFailed_def Let_def by (intro yields_intros EmitEvent_yields) simp_all

lemma markReady_marks: "yields (markReady R k emb msg obj) (\<lambda>xs r. marks_only emb xs)"
  unfolding markReady_def Let_def by (intro yields_intros) simp_all

text \<open>A failure stores the object it was given with other common fields only.\<close>

lemma markFailed_keeps:
  assumes "inj emb"
  shows "yields (markFailed R k emb obj e reason retryable) (\<lambda>xs res. \<forall>obj' u. emb (KStatus obj' u) \<in> set xs \<longrightarrow>
    (\<exists>c. obj' = with_common R c obj))"
  unfolding markFailed_def Let_def
  by (intro yields_intros EmitEvent_yields) (auto simp: inj_eq [OF assms])

definition no_update :: "('r kcall \<Rightarrow> 'c) \<Rightarrow> 'c list \<Rightarrow> bool" where
  "no_update emb xs \<longleftrightarrow> (\<forall>obj res. emb (KUpdate obj res) \<notin> set xs)"

lemma no_update_simps [simp]:
  "no_update emb []" "no_update emb (c # xs) \<longleftrightarrow> (\<forall>obj res. c \<noteq> emb (KUpdate obj res)) \<and> no_update emb xs"
  "no_update emb (xs @ ys) \<longleftrightarrow> no_update emb xs \<and> no_update emb ys"
  unfolding no_update_def list.set set_append by blast+

lemma marks_no_update:
  assumes "marks_only emb xs" "inj emb"
  shows "no_update emb xs"
  unfolding no_update_def
proof (intro allI notI)
  fix obj res
  assume "emb (KUpdate obj res) \<in> set xs"
  with assms show False unfolding marks_only_def by (metis inj_eq kcall.distinct(7) kcall.distinct(9))
qed

section \<open>The finalizer protocol\<close>

text \<open>
  The frame of a finalizing reconciler's \<^verbatim>\<open>Reconcile\<close>: read the object, add the finalizer and
  come back, or hand over to the deletion branch or to the body.
\<close>

definition reconcileFrame ::
  "('r, 's) resource \<Rightarrow> ('r, 's, 'w) kube \<Rightarrow> ('r kcall \<Rightarrow> 'c) \<Rightarrow> string
     \<Rightarrow> ('r \<Rightarrow> ('w, 'c, Result \<times> error option) io) \<Rightarrow> ('r \<Rightarrow> ('w, 'c, Result \<times> error option) io)
     \<Rightarrow> ResourceKey \<Rightarrow> ('w, 'c, Result \<times> error option) io" where
  "reconcileFrame R k emb finalizer reconcileDelete body key = do {
     r \<leftarrow> call (\<lambda>r. emb (KGet key r)) (Get k key);
     case r of
       Inl err \<Rightarrow> State_Monad.return (zero_Result, IgnoreNotFound (Some err))
     | Inr obj \<Rightarrow>
         if DeletionTimestamp (r_meta R obj) = None then (
           let (added, meta) = EnsureFinalizer (r_meta R obj) finalizer
           in if added then do {
                let obj = r_set_meta R meta obj;
                r \<leftarrow> call (\<lambda>r. emb (KUpdate obj r)) (Update k obj);
                State_Monad.return (case r of
                    Inl err \<Rightarrow> (zero_Result, Some err)
                  | Inr _ \<Rightarrow> (zero_Result\<lparr>Requeue := True\<rparr>, None))
              }
              else body obj)
         else reconcileDelete obj
   }"

text \<open>The frame of \<^verbatim>\<open>reconcileDelete\<close>: \<open>cleanup\<close> deletes the backend objects, then the finalizer goes.\<close>

definition deleteFrame ::
  "('r, 's) resource \<Rightarrow> ('r, 's, 'w) kube \<Rightarrow> ('r kcall \<Rightarrow> 'c) \<Rightarrow> string \<Rightarrow> string \<Rightarrow> string
     \<Rightarrow> ('r \<Rightarrow> ('w, 'c, error option \<times> 'r) io) \<Rightarrow> 'r \<Rightarrow> ('w, 'c, Result \<times> error option) io" where
  "deleteFrame R k emb finalizer reason message cleanup obj =
     (if finalizer \<notin> set (Finalizers (r_meta R obj)) then State_Monad.return (zero_Result, None)
      else do {
        (err, obj) \<leftarrow> cleanup obj;
        case err of
          Some err \<Rightarrow> State_Monad.return (zero_Result, Some err)
        | None \<Rightarrow> do {
            let obj = r_set_meta R (snd (RemoveFinalizer (r_meta R obj) finalizer)) obj;
            r \<leftarrow> call (\<lambda>r. emb (KUpdate obj r)) (Update k obj);
            case r of
              Inl err \<Rightarrow> State_Monad.return (zero_Result, Some err)
            | Inr _ \<Rightarrow> do {
                _ \<leftarrow> EmitEvent k emb EventTypeNormal reason message;
                State_Monad.return (zero_Result, None)
              }
          }
      })"

text \<open>
  What a controller promises for the protocol to hold: its body and its cleanup never write
  the object's metadata, and a cleanup that reports success has left the trace \<open>cleaned\<close>
  describes.
\<close>

locale finalizing = status_resource R
  for R :: "('r, 's) resource" +
  fixes emb :: "'r kcall \<Rightarrow> 'c"
    and kube_of :: "'x \<Rightarrow> ('r, 's, 'w) kube"
    and cleanup :: "'x \<Rightarrow> 'r \<Rightarrow> ('w, 'c, error option \<times> 'r) io"
    and body :: "'x \<Rightarrow> 'r \<Rightarrow> ('w, 'c, Result \<times> error option) io"
    and cleaned :: "'x \<Rightarrow> 'r \<Rightarrow> 'c list \<Rightarrow> bool"
  assumes emb_inj: "emb x = emb y \<longleftrightarrow> x = y"
    and cleanup_calls: "yields (cleanup env obj) (\<lambda>xs r.
      (\<forall>obj' res. emb (KUpdate obj' res) \<notin> set xs) \<and> r_meta R (snd r) = r_meta R obj \<and>
      (fst r = None \<longrightarrow> cleaned env obj xs))"
    and body_calls: "yields (body env obj) (\<lambda>xs r. \<forall>obj' res. emb (KUpdate obj' res) \<notin> set xs)"
begin

lemma deleteFrame_yields:
  "yields (deleteFrame R (kube_of env) emb fin reason msg (cleanup env) obj) (\<lambda>xs r.
     \<forall>obj' res. emb (KUpdate obj' res) \<in> set xs \<longrightarrow>
       (\<exists>ys. cleaned env obj ys \<and> prefix (ys @ [emb (KUpdate obj' res)]) xs \<and>
         Finalizers (r_meta R obj') = filter (\<lambda>f. f \<noteq> fin) (Finalizers (r_meta R obj))))"
  unfolding deleteFrame_def
  by (intro yields_intros EmitEvent_yields yields_mono [OF cleanup_calls])
     (auto simp: emb_inj RemoveFinalizer_def meta_set_meta Let_def prefix_def split: if_splits)

lemma reconcileFrame_yields:
  "yields (reconcileFrame R (kube_of env) emb fin (deleteFrame R (kube_of env) emb fin reason msg (cleanup env)) (body env) key) (\<lambda>xs r.
     \<forall>obj' res. emb (KUpdate obj' res) \<in> set xs \<longrightarrow>
       (\<exists>obj zs. xs = emb (KGet key (Inr obj)) # zs \<and>
         (zs = [emb (KUpdate obj' res)] \<and> DeletionTimestamp (r_meta R obj) = None \<and>
            Finalizers (r_meta R obj') = Finalizers (r_meta R obj) @ [fin] \<or>
          (\<exists>ys. DeletionTimestamp (r_meta R obj) \<noteq> None \<and> cleaned env obj ys \<and>
            prefix (ys @ [emb (KUpdate obj' res)]) zs \<and>
            Finalizers (r_meta R obj') = filter (\<lambda>f. f \<noteq> fin) (Finalizers (r_meta R obj))))))"
  unfolding reconcileFrame_def
  by (intro yields_intros yields_mono [OF deleteFrame_yields] yields_mono [OF body_calls])
     (auto simp: emb_inj EnsureFinalizer_def meta_set_meta split: if_splits)

end

end
