(* ===== verification/Scope.thy ===== *)
theory Scope
  imports Role_Sets Directory
begin

text \<open>
  \<^verbatim>\<open>internal/rolesync/scope.go\<close>: the application's roles and its group assignments become the
  values the sync manages and the values each group grants.
\<close>

section \<open>Definitions\<close>

definition defaultAccessRoleID :: string where
  "defaultAccessRoleID = ''00000000-0000-0000-0000-000000000000''"

record RoleScope =
  currentValues :: "string list"
  grantsByGroup :: "(string, string list) gomap"

definition GroupIDs :: "RoleScope \<Rightarrow> string list" where
  "GroupIDs s = sort (mkeys (grantsByGroup s))"

text \<open>The first loop of \<^verbatim>\<open>ResolveRoleScope\<close>: the current values and the enabled roles by id.\<close>

definition scopeRole ::
  "string list \<times> (string, string) gomap \<Rightarrow> AppRole \<Rightarrow> string list \<times> (string, string) gomap" where
  "scopeRole st role =
     (let (current, enabled) = st
      in if ''User'' \<notin> set (AllowedMemberTypes role) then (current, enabled)
         else (current @ [AppRole_Value role],
               if IsEnabled role then mset_key enabled (AppRole_ID role) (AppRole_Value role)
               else enabled))"

text \<open>The second loop: each enabled group assignment adds its role's value to the group.\<close>

definition scopeAssignment ::
  "(string, string) gomap \<Rightarrow> (string, string list) gomap \<Rightarrow> AppRoleAssignment
     \<Rightarrow> (string, string list) gomap" where
  "scopeAssignment enabled groups assignment =
     (case map_of enabled (AppRoleID assignment) of
        None \<Rightarrow> groups
      | Some value \<Rightarrow>
          if PrincipalType assignment \<noteq> ''Group'' \<or> AppRoleID assignment = defaultAccessRoleID
          then groups
          else mset_key groups (PrincipalID assignment)
                 (sortedSet [mget groups (PrincipalID assignment), [value]]))"

definition ResolveRoleScope ::
  "ServicePrincipal \<Rightarrow> AppRoleAssignment list \<Rightarrow> error + RoleScope" where
  "ResolveRoleScope sp assignments =
     (let (current, enabled) = foldl scopeRole ([], []) (AppRoles sp)
      in if current = [] then Inl ErrNoUserRoles
         else Inr \<lparr>currentValues = sortedSet [current],
                   grantsByGroup = foldl (scopeAssignment enabled) [] assignments\<rparr>)"

section \<open>The two loops\<close>

definition user_role :: "AppRole \<Rightarrow> bool" where
  "user_role role \<longleftrightarrow> ''User'' \<in> set (AllowedMemberTypes role)"

lemma fst_scopeRoles:
  "fst (foldl scopeRole st roles) = fst st @ map AppRole_Value (filter user_role roles)"
  by (induction roles arbitrary: st) (auto simp: scopeRole_def user_role_def split_beta)

lemma map_of_scopeRoles:
  assumes "distinct (map AppRole_ID roles)"
    and "\<forall>role \<in> set roles. map_of (snd st) (AppRole_ID role) = None"
  shows "map_of (snd (foldl scopeRole st roles)) k = Some v \<longleftrightarrow>
    map_of (snd st) k = Some v \<or>
    (\<exists>role \<in> set roles. user_role role \<and> IsEnabled role \<and> AppRole_ID role = k \<and> AppRole_Value role = v)"
  using assms
proof (induction roles arbitrary: st)
  case (Cons r rs)
  have snd_step: "map_of (snd (scopeRole st r)) =
      (if user_role r \<and> IsEnabled r then (map_of (snd st))(AppRole_ID r \<mapsto> AppRole_Value r) else map_of (snd st))"
    by (auto simp: scopeRole_def user_role_def split_beta mset_key_def update_conv')
  then have "\<forall>role \<in> set rs. map_of (snd (scopeRole st r)) (AppRole_ID role) = None"
    using Cons.prems by (auto simp: image_iff)
  then show ?case
    using Cons by (auto simp: snd_step)
qed simp

lemma enabled_value_current:
  "map_of (snd (foldl scopeRole st roles)) k = Some v \<Longrightarrow>
   map_of (snd st) k = Some v \<or> v \<in> set (map AppRole_Value (filter user_role roles))"
proof (induction roles arbitrary: st)
  case (Cons r rs)
  then have "map_of (snd (scopeRole st r)) k = Some v \<or> v \<in> set (map AppRole_Value (filter user_role rs))"
    by simp
  then show ?case
    by (auto simp: scopeRole_def user_role_def split_beta mset_key_def update_conv' split: if_splits)
qed simp

definition granting :: "(string, string) gomap \<Rightarrow> AppRoleAssignment \<Rightarrow> string \<Rightarrow> string \<Rightarrow> bool" where
  "granting enabled a g v \<longleftrightarrow>
     map_of enabled (AppRoleID a) = Some v \<and> PrincipalType a = ''Group'' \<and>
     AppRoleID a \<noteq> defaultAccessRoleID \<and> PrincipalID a = g"

lemma mget_scopeAssignments:
  "v \<in> set (mget (foldl (scopeAssignment enabled) groups as) g) \<longleftrightarrow>
   v \<in> set (mget groups g) \<or> (\<exists>a \<in> set as. granting enabled a g v)"
proof (induction as arbitrary: groups)
  case (Cons a as)
  have "v \<in> set (mget (scopeAssignment enabled groups a) g) \<longleftrightarrow>
      v \<in> set (mget groups g) \<or> granting enabled a g v"
    by (auto simp: scopeAssignment_def granting_def split: option.splits)
  with Cons.IH show ?case by auto
qed simp

definition grants_wf :: "(string, string list) gomap \<Rightarrow> bool" where
  "grants_wf m \<longleftrightarrow> map_wf m \<and> (\<forall>g \<in> set (mkeys m). mget m g \<noteq> [])"

lemma grants_wf_scopeAssignments:
  "grants_wf groups \<Longrightarrow> grants_wf (foldl (scopeAssignment enabled) groups as)"
proof (induction as arbitrary: groups)
  case (Cons a as)
  then have "grants_wf (scopeAssignment enabled groups a)"
    by (auto simp: scopeAssignment_def grants_wf_def sortedSet_eq_Nil_iff split: option.splits)
  with Cons.IH show ?case by simp
qed simp

section \<open>The scope a planner may rely on\<close>

definition scope_wf :: "RoleScope \<Rightarrow> bool" where
  "scope_wf s \<longleftrightarrow>
     grants_wf (grantsByGroup s) \<and> sorted (currentValues s) \<and> distinct (currentValues s) \<and>
     currentValues s \<noteq> [] \<and>
     (\<forall>g \<in> set (mkeys (grantsByGroup s)). set (mget (grantsByGroup s) g) \<subseteq> set (currentValues s))"

lemma set_GroupIDs [simp]: "set (GroupIDs s) = set (mkeys (grantsByGroup s))"
  by (simp add: GroupIDs_def)

lemma distinct_GroupIDs: "scope_wf s \<Longrightarrow> distinct (GroupIDs s)"
  by (simp add: GroupIDs_def scope_wf_def grants_wf_def map_wf_def)

lemma scope_grants_current:
  "scope_wf s \<Longrightarrow> v \<in> set (mget (grantsByGroup s) g) \<Longrightarrow> v \<in> set (currentValues s)"
  unfolding scope_wf_def using mget_nonempty_key by fastforce

lemma ResolveRoleScope_Inr:
  "ResolveRoleScope p as = Inr s \<longleftrightarrow>
     filter user_role (AppRoles p) \<noteq> [] \<and>
     s = \<lparr>currentValues = sortedSet [map AppRole_Value (filter user_role (AppRoles p))],
          grantsByGroup = foldl (scopeAssignment (snd (foldl scopeRole ([], []) (AppRoles p)))) [] as\<rparr>"
  using fst_scopeRoles [of "([], [])" "AppRoles p"]
  by (auto simp: ResolveRoleScope_def split_beta)

lemma resolved_scope_wf:
  assumes "ResolveRoleScope sp assignments = Inr s"
  shows "scope_wf s"
proof -
  let ?en = "snd (foldl scopeRole ([], []) (AppRoles sp))"
  from assms have s: "currentValues s = sortedSet [map AppRole_Value (filter user_role (AppRoles sp))]"
      "grantsByGroup s = foldl (scopeAssignment ?en) [] assignments"
      "filter user_role (AppRoles sp) \<noteq> []"
    by (auto simp: ResolveRoleScope_Inr)
  have "set (mget (grantsByGroup s) g) \<subseteq> set (currentValues s)" for g
    using enabled_value_current [of "([], [])"]
    by (fastforce simp: s mget_scopeAssignments granting_def)
  moreover have "grants_wf (grantsByGroup s)"
    unfolding s by (rule grants_wf_scopeAssignments) (simp add: grants_wf_def)
  ultimately show ?thesis
    using s by (auto simp: scope_wf_def sortedSet_eq_Nil_iff)
qed

text \<open>
  C28: A resolved scope is well formed: its current values are a sorted set, no group is listed
  without a grant, and every value a group grants is one of the current values, so the planner
  never grants a value outside the set it manages.
\<close>

theorem ResolveRoleScope_wf:
  assumes "ResolveRoleScope sp assignments = Inr s"
  shows "scope_wf s"
  using assms by (rule resolved_scope_wf)


end
