(* ===== verification/Planner.thy ===== *)
theory Planner
  imports Scope Ownership
begin

text \<open>
  \<^verbatim>\<open>internal/rolesync/matching.go\<close> and \<^verbatim>\<open>internal/rolesync/planner.go\<close>: from complete snapshots
  of the directory, the OpenZiti identities and the recorded claims, which identities to patch
  and with what. Loops over slices are folds whose accumulator is the set of variables the Go
  loop assigns.
\<close>

section \<open>Data\<close>

record Input =
  Scope :: RoleScope
  MembersByGroup :: "(string, User list) gomap"
  Identities :: "Identity list"
  IdentityOwners :: "IdentityOwner list"
  Input_Self :: SyncClaim
  OtherClaims :: "SyncClaim list"
  UserProperty :: string

record IdentityPatch =
  Patch_IdentityID :: string
  Patch_ExternalID :: string
  GrantedAttributes :: "string list"
  Patch_RoleAttributes :: "string list"

record RetirementHolder =
  Holder_IdentityID :: string
  Holder_Values :: "string list"

record UnmatchedMember =
  Unmatched_ID :: string
  Unmatched_DisplayName :: string
  Unmatched_ExternalID :: string
  Unmatched_Reason :: string

record PlanResult =
  CurrentValues :: "string list"
  ManagedValues :: "string list"
  Ownership :: OwnershipResult
  Patches :: "IdentityPatch list"
  RetirementHolders :: "RetirementHolder list"
  UnmatchedMembers :: "UnmatchedMember list"
  MatchedIdentities :: nat
  MembersWithoutIdentity :: nat
  WouldRemoveAll :: bool

definition zero_PlanResult :: PlanResult where
  "zero_PlanResult = \<lparr>CurrentValues = [], ManagedValues = [],
     Ownership = \<lparr>Owners = [], Conflicts = []\<rparr>, Patches = [], RetirementHolders = [],
     UnmatchedMembers = [], MatchedIdentities = 0, MembersWithoutIdentity = 0,
     WouldRemoveAll = False\<rparr>"

section \<open>Matching\<close>

fun IdentityOwned :: "Identity \<Rightarrow> IdentityOwner list \<Rightarrow> bool" where
  "IdentityOwned identity [] = False"
| "IdentityOwned identity (owner # owners) =
     (if IdentityID owner \<noteq> [] \<and> Identity_ID identity = IdentityID owner then True
      else if IdentityName owner \<noteq> [] \<and> Identity_Name identity = IdentityName owner then True
      else IdentityOwned identity owners)"

definition selectedProperty :: "User \<Rightarrow> string \<Rightarrow> string" where
  "selectedProperty user property =
     (if property = ''id'' then User_ID user
      else if property = ''userPrincipalName'' then UserPrincipalName user
      else User_Mail user)"

definition report :: "PlanResult \<Rightarrow> UnmatchedMember \<Rightarrow> PlanResult" where
  "report p member =
     (if length (UnmatchedMembers p) < 50
      then p\<lparr>UnmatchedMembers := UnmatchedMembers p @ [member]\<rparr> else p)"

text \<open>One iteration of the inner loop of \<^verbatim>\<open>memberGrants\<close>: the accumulator is
  \<open>(grants, missing, result)\<close>.\<close>

definition memberStep ::
  "unicode \<Rightarrow> Input \<Rightarrow> string \<Rightarrow> (string, string list) gomap \<times> string list \<times> PlanResult \<Rightarrow> User
     \<Rightarrow> (string, string list) gomap \<times> string list \<times> PlanResult" where
  "memberStep uc input grp st user =
     (let (grants, missing, result) = st;
          property = selectedProperty user (UserProperty input)
      in if property = [] then
           if User_ID user \<notin> set missing then
             (grants, User_ID user # missing,
              report result \<lparr>Unmatched_ID = User_ID user, Unmatched_DisplayName = User_DisplayName user,
                Unmatched_ExternalID = [], Unmatched_Reason = ''MissingProperty''\<rparr>)
           else (grants, missing, result)
         else let key = ToLower uc property
              in (mset_key grants key
                    (sortedSet [mget grants key, mget (grantsByGroup (Scope input)) grp]),
                  missing, result))"

definition memberGrants ::
  "unicode \<Rightarrow> Input \<Rightarrow> PlanResult \<Rightarrow> (string, string list) gomap \<times> PlanResult" where
  "memberGrants uc input result =
     (let (grants, missing, result) =
        foldl (\<lambda>st grp. foldl (memberStep uc input grp) st (mget (MembersByGroup input) grp))
          ([], [], result) (GroupIDs (Scope input))
      in (grants, result))"

definition indexStep ::
  "unicode \<Rightarrow> (string, Identity list) gomap \<Rightarrow> Identity \<Rightarrow> (string, Identity list) gomap" where
  "indexStep uc index identity =
     (if ExternalID identity \<noteq> []
      then let key = ToLower uc (ExternalID identity)
           in mset_key index key (mget index key @ [identity])
      else index)"

definition identityIndex :: "unicode \<Rightarrow> Identity list \<Rightarrow> (string, Identity list) gomap" where
  "identityIndex uc identities = foldl (indexStep uc) [] identities"

section \<open>Planning\<close>

definition retiredValues :: "string list \<Rightarrow> string list \<Rightarrow> string list" where
  "retiredValues managed current = filter (\<lambda>value. value \<notin> set current) managed"

definition eligibleIdentity ::
  "unicode \<Rightarrow> Identity \<Rightarrow> IdentityOwner list \<Rightarrow> (string, Identity list) gomap \<Rightarrow> PlanResult
     \<Rightarrow> bool \<times> PlanResult" where
  "eligibleIdentity uc identity owners index result =
     (if ExternalID identity = [] then (False, result)
      else let reason =
             (if IdentityOwned identity owners then ''ManagedByZitiIdentity''
              else if length (mget index (ToLower uc (ExternalID identity))) > 1
              then ''DuplicateIdentity'' else [])
        in if reason \<noteq> [] then
             (False, report result \<lparr>Unmatched_ID = Identity_ID identity,
                Unmatched_DisplayName = Identity_Name identity,
                Unmatched_ExternalID = ExternalID identity, Unmatched_Reason = reason\<rparr>)
           else (True, result))"

definition observeRetirement :: "PlanResult \<Rightarrow> Identity \<Rightarrow> string list \<Rightarrow> PlanResult" where
  "observeRetirement p identity retired =
     (let values = filter (\<lambda>value. value \<in> set (RoleAttributes identity)) retired
      in if values \<noteq> []
         then p\<lparr>RetirementHolders := RetirementHolders p @
                  [\<lparr>Holder_IdentityID = Identity_ID identity, Holder_Values = sortedSet [values]\<rparr>]\<rparr>
         else p)"

fun overlaps :: "string list \<Rightarrow> string list \<Rightarrow> bool" where
  "overlaps [] managed = False"
| "overlaps (value # values) managed = (if value \<in> set managed then True else overlaps values managed)"

definition MergeAttributes :: "string list \<Rightarrow> string list \<Rightarrow> string list \<Rightarrow> string list" where
  "MergeAttributes current managed granted =
     filter (\<lambda>value. value \<notin> set managed) current @ sortedSet [granted]"

text \<open>One iteration of the loop over identities in \<^verbatim>\<open>BuildPlan\<close>: the accumulator is
  \<open>(result, hadManaged, willHaveManaged)\<close>.\<close>

definition planStep ::
  "unicode \<Rightarrow> Input \<Rightarrow> string list \<Rightarrow> (string, string list) gomap \<Rightarrow> (string, Identity list) gomap
     \<Rightarrow> PlanResult \<times> bool \<times> bool \<Rightarrow> Identity \<Rightarrow> PlanResult \<times> bool \<times> bool" where
  "planStep uc input retired grants index st identity =
     (let (result, hadManaged, willHaveManaged) = st;
          result = observeRetirement result identity retired;
          (eligible, result) = eligibleIdentity uc identity (IdentityOwners input) index result
      in if \<not> eligible then (result, hadManaged, willHaveManaged)
         else
           let granted = mget grants (ToLower uc (ExternalID identity));
               result = (if granted \<noteq> []
                         then result\<lparr>MatchedIdentities := MatchedIdentities result + 1\<rparr> else result);
               next_attrs = MergeAttributes (RoleAttributes identity) (ManagedValues result) granted;
               hadManaged = (hadManaged \<or> overlaps (RoleAttributes identity) (ManagedValues result));
               willHaveManaged = (willHaveManaged \<or> overlaps next_attrs (ManagedValues result))
           in if sortedSet [RoleAttributes identity] \<noteq> sortedSet [next_attrs]
              then (result\<lparr>Patches := Patches result @
                      [\<lparr>Patch_IdentityID = Identity_ID identity, Patch_ExternalID = ExternalID identity,
                        GrantedAttributes = granted, Patch_RoleAttributes = next_attrs\<rparr>]\<rparr>,
                    hadManaged, willHaveManaged)
              else (result, hadManaged, willHaveManaged))"

definition BuildPlan :: "unicode \<Rightarrow> Input \<Rightarrow> error + PlanResult" where
  "BuildPlan uc input =
     (let current = currentValues (Scope input)
      in if current = [] then Inl ErrNoUserRoles
         else
           let self = Input_Self input;
               managed = sortedSet [current, ManagedAttributes self];
               result = zero_PlanResult\<lparr>CurrentValues := current, ManagedValues := managed,
                 Ownership := ResolveOwnership \<lparr>Self = self, Candidates = managed,
                                Others = OtherClaims input\<rparr>\<rparr>;
               retired = retiredValues (ManagedAttributes self) current;
               (grants, result) = memberGrants uc input result;
               index = identityIndex uc (Identities input);
               result = result\<lparr>MembersWithoutIdentity :=
                 length (filter (\<lambda>key. length (mget index key) = 0) (mkeys grants))\<rparr>;
               (result, hadManaged, willHaveManaged) =
                 foldl (planStep uc input retired grants index) (result, False, False) (Identities input);
               result = result\<lparr>WouldRemoveAll := hadManaged \<and> \<not> willHaveManaged\<rparr>
           in Inr (if Conflicts (Ownership result) \<noteq> [] then result\<lparr>Patches := []\<rparr> else result))"

section \<open>Matching: what the loops compute\<close>

lemma IdentityOwned_iff:
  "IdentityOwned i owners \<longleftrightarrow>
     (\<exists>o' \<in> set owners. IdentityID o' \<noteq> [] \<and> Identity_ID i = IdentityID o' \<or>
        IdentityName o' \<noteq> [] \<and> Identity_Name i = IdentityName o')"
  by (induction owners) auto

lemma overlaps_iff [simp]: "overlaps xs ys \<longleftrightarrow> set xs \<inter> set ys \<noteq> {}"
  by (induction xs) auto

lemma set_MergeAttributes [simp]:
  "set (MergeAttributes current managed granted) = (set current - set managed) \<union> set granted"
  by (auto simp: MergeAttributes_def)

lemma mget_identityIndex:
  "mget (foldl (indexStep uc) m is) k =
     mget m k @ filter (\<lambda>i. ExternalID i \<noteq> [] \<and> ToLower uc (ExternalID i) = k) is"
  by (induction "is" arbitrary: m) (auto simp: indexStep_def Let_def)

text \<open>The fields of a plan that reporting and the loops leave alone.\<close>

lemma report_frame [simp]:
  "CurrentValues (report p m) = CurrentValues p" "ManagedValues (report p m) = ManagedValues p"
  "Ownership (report p m) = Ownership p" "Patches (report p m) = Patches p"
  "RetirementHolders (report p m) = RetirementHolders p"
  "MatchedIdentities (report p m) = MatchedIdentities p"
  "MembersWithoutIdentity (report p m) = MembersWithoutIdentity p"
  "WouldRemoveAll (report p m) = WouldRemoveAll p"
  by (simp_all add: report_def)

lemma report_bound [simp]:
  "length (UnmatchedMembers p) \<le> 50 \<Longrightarrow> length (UnmatchedMembers (report p m)) \<le> 50"
  by (simp add: report_def)

definition same_plan :: "PlanResult \<Rightarrow> PlanResult \<Rightarrow> bool" where
  "same_plan p q \<longleftrightarrow>
     CurrentValues q = CurrentValues p \<and> ManagedValues q = ManagedValues p \<and>
     Ownership q = Ownership p \<and> MembersWithoutIdentity q = MembersWithoutIdentity p \<and>
     WouldRemoveAll q = WouldRemoveAll p \<and>
     (length (UnmatchedMembers p) \<le> 50 \<longrightarrow> length (UnmatchedMembers q) \<le> 50)"

definition same_writes :: "PlanResult \<Rightarrow> PlanResult \<Rightarrow> bool" where
  "same_writes p q \<longleftrightarrow> Patches q = Patches p \<and> RetirementHolders q = RetirementHolders p \<and>
     MatchedIdentities q = MatchedIdentities p"

lemma same_report [simp, intro]: "same_plan p q \<Longrightarrow> same_plan p (report q m)"
  "same_writes p q \<Longrightarrow> same_writes p (report q m)"
  by (auto simp: same_plan_def same_writes_def)

lemma same_refl [simp, intro]: "same_plan p p" "same_writes p p"
  by (auto simp: same_plan_def same_writes_def)

lemma same_plan_trans: "same_plan p q \<Longrightarrow> same_plan q r \<Longrightarrow> same_plan p r"
  by (auto simp: same_plan_def)

subsection \<open>memberGrants\<close>

text \<open>The key a member is matched by, when the selected property is present.\<close>

definition member_key :: "unicode \<Rightarrow> Input \<Rightarrow> string \<Rightarrow> User \<Rightarrow> bool" where
  "member_key uc input k u \<longleftrightarrow>
     selectedProperty u (UserProperty input) \<noteq> [] \<and>
     ToLower uc (selectedProperty u (UserProperty input)) = k"

abbreviation members :: "Input \<Rightarrow> string \<Rightarrow> User list" where
  "members input g \<equiv> mget (MembersByGroup input) g"

abbreviation granted_by :: "Input \<Rightarrow> string \<Rightarrow> string list" where
  "granted_by input g \<equiv> mget (grantsByGroup (Scope input)) g"

lemma memberStep_grants:
  "v \<in> set (mget (fst (memberStep uc input g st u)) k) \<longleftrightarrow>
     v \<in> set (mget (fst st) k) \<or> member_key uc input k u \<and> v \<in> set (granted_by input g)"
  by (auto simp: memberStep_def member_key_def split_beta Let_def)

lemma memberStep_keys:
  "k \<in> set (mkeys (fst (memberStep uc input g st u))) \<longleftrightarrow>
     k \<in> set (mkeys (fst st)) \<or> member_key uc input k u"
  by (auto simp: memberStep_def member_key_def split_beta Let_def)

lemma memberStep_frame:
  "map_wf (fst st) \<and> same_plan p (snd (snd st)) \<and> same_writes p (snd (snd st)) \<Longrightarrow>
   map_wf (fst (memberStep uc input g st u)) \<and> same_plan p (snd (snd (memberStep uc input g st u))) \<and>
   same_writes p (snd (snd (memberStep uc input g st u)))"
  by (auto simp: memberStep_def split_beta Let_def)

lemma membersLoop_grants:
  "v \<in> set (mget (fst (foldl (memberStep uc input g) st us)) k) \<longleftrightarrow>
     v \<in> set (mget (fst st) k) \<or> (\<exists>u \<in> set us. member_key uc input k u) \<and> v \<in> set (granted_by input g)"
  by (induction us arbitrary: st) (auto simp: memberStep_grants)

lemma membersLoop_keys:
  "k \<in> set (mkeys (fst (foldl (memberStep uc input g) st us))) \<longleftrightarrow>
     k \<in> set (mkeys (fst st)) \<or> (\<exists>u \<in> set us. member_key uc input k u)"
  by (induction us arbitrary: st) (auto simp: memberStep_keys)

lemma groupsLoop_grants:
  "v \<in> set (mget (fst (foldl (\<lambda>st g. foldl (memberStep uc input g) st (members input g)) st gs)) k) \<longleftrightarrow>
     v \<in> set (mget (fst st) k) \<or>
     (\<exists>g \<in> set gs. (\<exists>u \<in> set (members input g). member_key uc input k u) \<and> v \<in> set (granted_by input g))"
  by (induction gs arbitrary: st) (auto simp: membersLoop_grants)

lemma groupsLoop_keys:
  "k \<in> set (mkeys (fst (foldl (\<lambda>st g. foldl (memberStep uc input g) st (members input g)) st gs))) \<longleftrightarrow>
     k \<in> set (mkeys (fst st)) \<or>
     (\<exists>g \<in> set gs. \<exists>u \<in> set (members input g). member_key uc input k u)"
  by (induction gs arbitrary: st) (auto simp: membersLoop_keys)

text \<open>
  The grants of an external id are exactly the values of the groups that have a member
  whose selected property equals it up to case; a member without the property is not matched.
\<close>

theorem memberGrants_iff:
  "v \<in> set (mget (fst (memberGrants uc input result)) k) \<longleftrightarrow>
     (\<exists>g \<in> set (GroupIDs (Scope input)). \<exists>u \<in> set (members input g).
        selectedProperty u (UserProperty input) \<noteq> [] \<and>
        ToLower uc (selectedProperty u (UserProperty input)) = k \<and> v \<in> set (granted_by input g))"
  by (auto simp: memberGrants_def split_beta groupsLoop_grants member_key_def)

lemma memberGrants_keys:
  "k \<in> set (mkeys (fst (memberGrants uc input result))) \<longleftrightarrow>
     (\<exists>g \<in> set (GroupIDs (Scope input)). \<exists>u \<in> set (members input g). member_key uc input k u)"
  by (simp add: memberGrants_def split_beta groupsLoop_keys)

lemma memberGrants_frame:
  "map_wf (fst (memberGrants uc input p)) \<and> same_plan p (snd (memberGrants uc input p)) \<and>
   same_writes p (snd (memberGrants uc input p))"
proof -
  let ?P = "\<lambda>st. map_wf (fst st) \<and> same_plan p (snd (snd st)) \<and> same_writes p (snd (snd st))"
  have "?P (foldl (\<lambda>st g. foldl (memberStep uc input g) st (members input g)) ([], [], p)
          (GroupIDs (Scope input)))"
    by (intro foldl_inv [where P = ?P] memberStep_frame) auto
  then show ?thesis by (auto simp: memberGrants_def split_beta)
qed

subsection \<open>The loop over identities\<close>

text \<open>Which identities the planner may write: matched by a non-empty external id, not owned by
  a ZitiIdentity, and the only identity with that external id up to case.\<close>

definition eligible :: "unicode \<Rightarrow> Input \<Rightarrow> Identity \<Rightarrow> bool" where
  "eligible uc input i \<longleftrightarrow>
     ExternalID i \<noteq> [] \<and> \<not> IdentityOwned i (IdentityOwners input) \<and>
     length (filter (\<lambda>j. ExternalID j \<noteq> [] \<and> ToLower uc (ExternalID j) = ToLower uc (ExternalID i))
       (Identities input)) \<le> 1"

lemma eligibleIdentity_eligible:
  "fst (eligibleIdentity uc i (IdentityOwners input) (identityIndex uc (Identities input)) p)
     \<longleftrightarrow> eligible uc input i"
  by (auto simp: eligibleIdentity_def eligible_def identityIndex_def mget_identityIndex Let_def)

lemma eligibleIdentity_frame:
  "same_plan p (snd (eligibleIdentity uc i owners index p)) \<and>
   same_writes p (snd (eligibleIdentity uc i owners index p))"
  by (auto simp: eligibleIdentity_def Let_def)

definition planned_grant :: "unicode \<Rightarrow> (string, string list) gomap \<Rightarrow> Identity \<Rightarrow> string list" where
  "planned_grant uc grants i = mget grants (ToLower uc (ExternalID i))"

definition planned_attrs :: "unicode \<Rightarrow> (string, string list) gomap \<Rightarrow> string list \<Rightarrow> Identity \<Rightarrow> string list" where
  "planned_attrs uc grants managed i =
     MergeAttributes (RoleAttributes i) managed (planned_grant uc grants i)"

definition planned_patch :: "unicode \<Rightarrow> (string, string list) gomap \<Rightarrow> string list \<Rightarrow> Identity \<Rightarrow> IdentityPatch" where
  "planned_patch uc grants managed i =
     \<lparr>Patch_IdentityID = Identity_ID i, Patch_ExternalID = ExternalID i,
      GrantedAttributes = planned_grant uc grants i,
      Patch_RoleAttributes = planned_attrs uc grants managed i\<rparr>"

lemmas planned_defs = planned_grant_def planned_attrs_def planned_patch_def

lemma observeRetirement_frame [simp]:
  "same_plan p (observeRetirement p i rs)" "Patches (observeRetirement p i rs) = Patches p"
  "MatchedIdentities (observeRetirement p i rs) = MatchedIdentities p"
  "RetirementHolders (observeRetirement p i rs) = RetirementHolders p @
     (if set rs \<inter> set (RoleAttributes i) = {} then []
      else [\<lparr>Holder_IdentityID = Identity_ID i,
             Holder_Values = sortedSet [filter (\<lambda>v. v \<in> set (RoleAttributes i)) rs]\<rparr>])"
  by (auto simp: observeRetirement_def same_plan_def Let_def filter_empty_conv)

lemma planStep_result:
  fixes input uc grants
  defines "index \<equiv> identityIndex uc (Identities input)"
  assumes "planStep uc input retired grants index (p, had, will) i = (p', had', will')"
  shows "same_plan p p' \<and>
    Patches p' = Patches p @
      (if eligible uc input i \<and> set (RoleAttributes i) \<noteq> set (planned_attrs uc grants (ManagedValues p) i)
       then [planned_patch uc grants (ManagedValues p) i] else []) \<and>
    MatchedIdentities p' = MatchedIdentities p +
      (if eligible uc input i \<and> planned_grant uc grants i \<noteq> [] then 1 else 0) \<and>
    RetirementHolders p' = RetirementHolders (observeRetirement p i retired) \<and>
    had' = (had \<or> eligible uc input i \<and> set (RoleAttributes i) \<inter> set (ManagedValues p) \<noteq> {}) \<and>
    will' = (will \<or> eligible uc input i \<and>
      set (planned_attrs uc grants (ManagedValues p) i) \<inter> set (ManagedValues p) \<noteq> {})"
proof -
  obtain e q where eq: "eligibleIdentity uc i (IdentityOwners input) index (observeRetirement p i retired) = (e, q)"
    by force
  have e: "e \<longleftrightarrow> eligible uc input i"
    using eligibleIdentity_eligible [of uc i input "observeRetirement p i retired"] eq
    by (simp add: index_def)
  have q: "same_plan (observeRetirement p i retired) q" "same_writes (observeRetirement p i retired) q"
    using eligibleIdentity_frame [of "observeRetirement p i retired" uc i "IdentityOwners input" index] eq by auto
  then have pq: "same_plan p q" using same_plan_trans observeRetirement_frame(1) by blast
  then have m: "ManagedValues q = ManagedValues p" by (simp add: same_plan_def)
  show ?thesis
  proof (cases e)
    case False
    with assms(2) eq have "p' = q" "had' = had" "will' = will"
      by (auto simp: planStep_def)
    with False e q pq show ?thesis by (auto simp: same_writes_def simp del: observeRetirement_frame(4))
  next
    case True
    let ?g = "planned_grant uc grants i" and ?n = "planned_attrs uc grants (ManagedValues p) i"
    let ?q = "if ?g \<noteq> [] then q\<lparr>MatchedIdentities := MatchedIdentities q + 1\<rparr> else q"
    have mq: "ManagedValues ?q = ManagedValues p" by (simp add: m)
    have n: "MergeAttributes (RoleAttributes i) (ManagedValues ?q) ?g = ?n"
      by (simp only: mq planned_attrs_def)
    have "planStep uc input retired grants index (p, had, will) i =
      (if set (RoleAttributes i) \<noteq> set ?n
       then ?q\<lparr>Patches := Patches ?q @ [planned_patch uc grants (ManagedValues p) i]\<rparr> else ?q,
       had \<or> overlaps (RoleAttributes i) (ManagedValues p), will \<or> overlaps ?n (ManagedValues p))"
      unfolding planStep_def Let_def eq prod.case using True
      by (simp add: m sset.canon_eq_iff planned_patch_def planned_attrs_def planned_grant_def
          del: set_MergeAttributes)
    with assms(2) have res: "p' = (if set (RoleAttributes i) \<noteq> set ?n
       then ?q\<lparr>Patches := Patches ?q @ [planned_patch uc grants (ManagedValues p) i]\<rparr> else ?q)"
      "had' = (had \<or> overlaps (RoleAttributes i) (ManagedValues p))"
      "will' = (will \<or> overlaps ?n (ManagedValues p))"
      by simp_all
    show ?thesis
      unfolding res using True e q(2) pq
      by (simp add: same_writes_def same_plan_def del: observeRetirement_frame(4))
  qed
qed

text \<open>The whole loop, field by field. \<open>managed\<close> is fixed before the loop.\<close>

lemma planLoop:
  fixes input uc grants
  assumes "foldl (planStep uc input retired grants (identityIndex uc (Identities input))) (p, had, will) is
             = (p', had', will')"
    and "ManagedValues p = managed"
  shows "same_plan p p' \<and>
    Patches p' = Patches p @ map (planned_patch uc grants managed)
      (filter (\<lambda>i. eligible uc input i \<and> set (RoleAttributes i) \<noteq> set (planned_attrs uc grants managed i)) is) \<and>
    MatchedIdentities p' = MatchedIdentities p +
      length (filter (\<lambda>i. eligible uc input i \<and> planned_grant uc grants i \<noteq> []) is) \<and>
    RetirementHolders p' = RetirementHolders p @
      map (\<lambda>i. \<lparr>Holder_IdentityID = Identity_ID i,
                Holder_Values = sortedSet [filter (\<lambda>v. v \<in> set (RoleAttributes i)) retired]\<rparr>)
        (filter (\<lambda>i. set retired \<inter> set (RoleAttributes i) \<noteq> {}) is) \<and>
    had' = (had \<or> (\<exists>i \<in> set is. eligible uc input i \<and> set (RoleAttributes i) \<inter> set managed \<noteq> {})) \<and>
    will' = (will \<or> (\<exists>i \<in> set is. eligible uc input i \<and> set (planned_attrs uc grants managed i) \<inter> set managed \<noteq> {}))"
  using assms
proof (induction "is" arbitrary: p had will)
  case (Cons i "is")
  obtain q h w where st: "planStep uc input retired grants (identityIndex uc (Identities input)) (p, had, will) i = (q, h, w)"
    by (metis prod_cases3)
  note step = planStep_result [OF st]
  then have "ManagedValues q = managed" using Cons.prems(2) by (simp add: same_plan_def)
  with Cons.prems(1) st have
    tail: "foldl (planStep uc input retired grants (identityIndex uc (Identities input))) (q, h, w) is = (p', had', will')"
    by simp
  note ih = Cons.IH [OF tail \<open>ManagedValues q = managed\<close>]
  show ?case
    using step ih Cons.prems(2) same_plan_trans [of p q p'] by auto
qed simp

section \<open>BuildPlan\<close>

text \<open>The values the plan is built from, named once for the statements below.\<close>

definition plan_managed :: "Input \<Rightarrow> string list" where
  "plan_managed input = sortedSet [currentValues (Scope input), ManagedAttributes (Input_Self input)]"

definition plan_start :: "Input \<Rightarrow> PlanResult" where
  "plan_start input = zero_PlanResult\<lparr>CurrentValues := currentValues (Scope input),
     ManagedValues := plan_managed input,
     Ownership := ResolveOwnership \<lparr>Self = Input_Self input, Candidates = plan_managed input,
                    Others = OtherClaims input\<rparr>\<rparr>"

definition plan_grants :: "unicode \<Rightarrow> Input \<Rightarrow> (string, string list) gomap" where
  "plan_grants uc input = fst (memberGrants uc input (plan_start input))"

definition plan_conflicts :: "Input \<Rightarrow> string list" where
  "plan_conflicts input = Conflicts (ResolveOwnership
     \<lparr>Self = Input_Self input, Candidates = plan_managed input, Others = OtherClaims input\<rparr>)"

definition plan_retired :: "Input \<Rightarrow> string list" where
  "plan_retired input = retiredValues (ManagedAttributes (Input_Self input)) (currentValues (Scope input))"

lemma BuildPlan_Inl: "BuildPlan uc input = Inl e \<longleftrightarrow> e = ErrNoUserRoles \<and> currentValues (Scope input) = []"
  by (auto simp: BuildPlan_def Let_def split_beta)

lemma BuildPlan_Inr:
  assumes "BuildPlan uc input = Inr plan"
  defines "managed \<equiv> plan_managed input" and "grants \<equiv> plan_grants uc input"
  shows "currentValues (Scope input) \<noteq> [] \<and>
    CurrentValues plan = currentValues (Scope input) \<and> ManagedValues plan = managed \<and>
    Conflicts (Ownership plan) = plan_conflicts input \<and> length (UnmatchedMembers plan) \<le> 50 \<and>
    MembersWithoutIdentity plan =
      length (filter (\<lambda>k. mget (identityIndex uc (Identities input)) k = []) (mkeys grants)) \<and>
    MatchedIdentities plan =
      length (filter (\<lambda>i. eligible uc input i \<and> planned_grant uc grants i \<noteq> []) (Identities input)) \<and>
    RetirementHolders plan =
      map (\<lambda>i. \<lparr>Holder_IdentityID = Identity_ID i,
                Holder_Values = sortedSet [filter (\<lambda>v. v \<in> set (RoleAttributes i)) (plan_retired input)]\<rparr>)
        (filter (\<lambda>i. set (plan_retired input) \<inter> set (RoleAttributes i) \<noteq> {}) (Identities input)) \<and>
    (WouldRemoveAll plan \<longleftrightarrow>
      (\<exists>i \<in> set (Identities input). eligible uc input i \<and> set (RoleAttributes i) \<inter> set managed \<noteq> {}) \<and>
      (\<forall>i \<in> set (Identities input). eligible uc input i \<longrightarrow>
         set (planned_attrs uc grants managed i) \<inter> set managed = {})) \<and>
    Patches plan = (if plan_conflicts input \<noteq> [] then []
      else map (planned_patch uc grants managed)
        (filter (\<lambda>i. eligible uc input i \<and> set (RoleAttributes i) \<noteq> set (planned_attrs uc grants managed i))
          (Identities input)))"
proof -
  obtain gr q where mg: "memberGrants uc input (plan_start input) = (gr, q)" by force
  then have gr: "gr = grants" by (simp add: grants_def plan_grants_def)
  have q: "same_plan (plan_start input) q" "same_writes (plan_start input) q"
    using memberGrants_frame [of uc input "plan_start input"] mg by auto
  define q' where "q' = q\<lparr>MembersWithoutIdentity :=
    length (filter (\<lambda>k. length (mget (identityIndex uc (Identities input)) k) = 0) (mkeys gr))\<rparr>"
  obtain r h w where lp: "foldl (planStep uc input (plan_retired input) gr (identityIndex uc (Identities input)))
      (q', False, False) (Identities input) = (r, h, w)"
    by (metis prod_cases3)
  have mq: "ManagedValues q' = managed"
    using q by (simp add: q'_def same_plan_def plan_start_def managed_def)
  note loop = planLoop [OF lp mq]
  have plan: "currentValues (Scope input) \<noteq> []"
      "plan = (let result = r\<lparr>WouldRemoveAll := h \<and> \<not> w\<rparr>
               in if Conflicts (Ownership result) \<noteq> [] then result\<lparr>Patches := []\<rparr> else result)"
    using assms(1) mg lp
    by (auto simp: BuildPlan_def Let_def plan_start_def plan_managed_def plan_retired_def q'_def split: if_splits)
  have own: "Ownership r = ResolveOwnership \<lparr>Self = Input_Self input, Candidates = plan_managed input, Others = OtherClaims input\<rparr>"
    using q loop by (simp add: same_plan_def plan_start_def q'_def)
  show ?thesis
    using plan loop q own
    by (auto simp: Let_def gr same_plan_def same_writes_def plan_start_def q'_def zero_PlanResult_def
        managed_def plan_conflicts_def)
qed

lemma plan_grants_iff:
  "v \<in> set (mget (plan_grants uc input) k) \<longleftrightarrow>
     (\<exists>g \<in> set (GroupIDs (Scope input)). \<exists>u \<in> set (members input g). member_key uc input k u \<and>
        v \<in> set (granted_by input g))"
  by (auto simp: plan_grants_def memberGrants_def split_beta groupsLoop_grants)

lemma planned_grant_managed:
  "scope_wf (Scope input) \<Longrightarrow> set (planned_grant uc (plan_grants uc input) i) \<subseteq> set (plan_managed input)"
  by (auto simp: planned_grant_def plan_grants_iff plan_managed_def dest: scope_grants_current)

lemma filter_MergeAttributes:
  "set granted \<subseteq> set managed \<Longrightarrow>
   filter (\<lambda>v. v \<notin> set managed) (MergeAttributes current managed granted) =
   filter (\<lambda>v. v \<notin> set managed) current"
  by (auto simp: MergeAttributes_def filter_empty_conv)

lemma planned_patchE:
  assumes "BuildPlan uc input = Inr plan" "p \<in> set (Patches plan)"
  obtains i where "i \<in> set (Identities input)" "eligible uc input i" "Patch_IdentityID p = Identity_ID i"
    "Patch_ExternalID p = ExternalID i" "GrantedAttributes p = planned_grant uc (plan_grants uc input) i"
proof -
  have "Patches plan = (if plan_conflicts input \<noteq> [] then []
      else map (planned_patch uc (plan_grants uc input) (plan_managed input))
        (filter (\<lambda>i. eligible uc input i \<and> set (RoleAttributes i) \<noteq>
           set (planned_attrs uc (plan_grants uc input) (plan_managed input) i)) (Identities input)))"
    using BuildPlan_Inr [OF assms(1)] by blast
  with assms(2) obtain i where "i \<in> set (Identities input)" "eligible uc input i"
      "p = planned_patch uc (plan_grants uc input) (plan_managed input) i"
    by (auto split: if_splits)
  then show thesis using that by (simp add: planned_patch_def)
qed

text \<open>
  C1: Every patch is for an eligible identity of the snapshot, keeps the attributes nobody
  manages in their order, carries of the managed attributes exactly those the identity's
  directory memberships grant, and changes something.
\<close>

theorem BuildPlan_patch_sound:
  assumes plan: "BuildPlan uc input = Inr plan" and wf: "scope_wf (Scope input)"
    and p: "p \<in> set (Patches plan)"
  shows "\<exists>i \<in> set (Identities input).
    Patch_IdentityID p = Identity_ID i \<and> Patch_ExternalID p = ExternalID i \<and> eligible uc input i \<and>
    filter (\<lambda>v. v \<notin> set (ManagedValues plan)) (Patch_RoleAttributes p) =
      filter (\<lambda>v. v \<notin> set (ManagedValues plan)) (RoleAttributes i) \<and>
    (\<forall>v \<in> set (ManagedValues plan). v \<in> set (Patch_RoleAttributes p) \<longleftrightarrow>
       (\<exists>g \<in> set (GroupIDs (Scope input)). \<exists>u \<in> set (members input g).
          selectedProperty u (UserProperty input) \<noteq> [] \<and>
          ToLower uc (selectedProperty u (UserProperty input)) = ToLower uc (ExternalID i) \<and>
          v \<in> set (granted_by input g))) \<and>
    set (Patch_RoleAttributes p) \<noteq> set (RoleAttributes i)"
proof -
  note bp = BuildPlan_Inr [OF plan]
  from bp p obtain i where i: "i \<in> set (Identities input)" "eligible uc input i"
      "p = planned_patch uc (plan_grants uc input) (plan_managed input) i"
      "set (RoleAttributes i) \<noteq> set (planned_attrs uc (plan_grants uc input) (plan_managed input) i)"
    by (auto split: if_splits)
  have managed: "ManagedValues plan = plan_managed input" using bp by simp
  have sub: "set (planned_grant uc (plan_grants uc input) i) \<subseteq> set (plan_managed input)"
    by (rule planned_grant_managed [OF wf])
  then have "v \<in> set (Patch_RoleAttributes p) \<longleftrightarrow> v \<in> set (planned_grant uc (plan_grants uc input) i)"
    if "v \<in> set (plan_managed input)" for v
    using that by (auto simp: i planned_patch_def planned_attrs_def)
  with i sub show ?thesis
    by (intro bexI [of _ i])
       (auto simp: managed planned_patch_def planned_attrs_def filter_MergeAttributes
         planned_grant_def plan_grants_iff member_key_def)
qed

text \<open>
  C24: Nothing is missed. When no claim conflicts, an eligible identity either is patched or
  already holds, of the managed attributes, exactly the granted ones.
\<close>

theorem BuildPlan_patch_complete:
  assumes plan: "BuildPlan uc input = Inr plan" and wf: "scope_wf (Scope input)"
    and free: "Conflicts (Ownership plan) = []"
    and i: "i \<in> set (Identities input)" "eligible uc input i"
    and unpatched: "\<forall>p \<in> set (Patches plan). Patch_IdentityID p \<noteq> Identity_ID i"
  shows "\<forall>v \<in> set (ManagedValues plan). v \<in> set (RoleAttributes i) \<longleftrightarrow>
    (\<exists>g \<in> set (GroupIDs (Scope input)). \<exists>u \<in> set (members input g).
       selectedProperty u (UserProperty input) \<noteq> [] \<and>
       ToLower uc (selectedProperty u (UserProperty input)) = ToLower uc (ExternalID i) \<and>
       v \<in> set (granted_by input g))"
proof -
  note bp = BuildPlan_Inr [OF plan]
  let ?attrs = "planned_attrs uc (plan_grants uc input) (plan_managed input) i"
  have "set (RoleAttributes i) = set ?attrs"
  proof (rule ccontr)
    assume "set (RoleAttributes i) \<noteq> set ?attrs"
    with bp i free have "planned_patch uc (plan_grants uc input) (plan_managed input) i \<in> set (Patches plan)"
      by auto
    with unpatched show False by (auto simp: planned_patch_def)
  qed
  moreover have "v \<in> set ?attrs \<longleftrightarrow> v \<in> set (planned_grant uc (plan_grants uc input) i)"
    if "v \<in> set (plan_managed input)" for v
    using that planned_grant_managed [OF wf] by (auto simp: planned_attrs_def)
  ultimately show ?thesis
    using bp by (auto simp: planned_grant_def plan_grants_iff member_key_def)
qed

subsection \<open>Convergence\<close>

text \<open>The snapshot after every patch has been written.\<close>

definition apply_patch :: "IdentityPatch list \<Rightarrow> Identity \<Rightarrow> Identity" where
  "apply_patch ps i =
     (case find (\<lambda>p. Patch_IdentityID p = Identity_ID i) ps of
        None \<Rightarrow> i | Some p \<Rightarrow> i\<lparr>RoleAttributes := Patch_RoleAttributes p\<rparr>)"

lemma apply_patch_frame [simp]:
  "Identity_ID (apply_patch ps i) = Identity_ID i" "Identity_Name (apply_patch ps i) = Identity_Name i"
  "ExternalID (apply_patch ps i) = ExternalID i"
  by (auto simp: apply_patch_def split: option.splits)

lemma IdentityOwned_apply [simp]: "IdentityOwned (apply_patch ps i) owners \<longleftrightarrow> IdentityOwned i owners"
  by (simp add: IdentityOwned_iff)

lemma eligible_apply:
  "eligible uc (input\<lparr>Identities := map (apply_patch ps) (Identities input)\<rparr>) (apply_patch ps i)
     \<longleftrightarrow> eligible uc input i"
  by (simp add: eligible_def filter_map o_def)

lemma memberGrants_Identities [simp]:
  "memberGrants uc (input\<lparr>Identities := x\<rparr>) = memberGrants uc input"
proof -
  have "memberStep uc (input\<lparr>Identities := x\<rparr>) = memberStep uc input"
    by (intro ext) (simp add: memberStep_def Let_def split_beta)
  then show ?thesis by (intro ext) (simp add: memberGrants_def)
qed

lemma plan_Identities [simp]:
  "plan_managed (input\<lparr>Identities := x\<rparr>) = plan_managed input"
  "plan_grants uc (input\<lparr>Identities := x\<rparr>) = plan_grants uc input"
  "plan_conflicts (input\<lparr>Identities := x\<rparr>) = plan_conflicts input"
  by (simp_all add: plan_managed_def plan_grants_def plan_conflicts_def plan_start_def)

lemma planned_patch_id [simp]: "Patch_IdentityID (planned_patch uc g m i) = Identity_ID i"
  by (simp add: planned_patch_def)

lemma find_no_patch:
  "(\<forall>j \<in> set is. Identity_ID j \<noteq> k) \<Longrightarrow>
   find (\<lambda>p. Patch_IdentityID p = k) (map (planned_patch uc g m) (filter P is)) = None"
  by (induction "is") auto

lemma find_planned_patch:
  assumes "distinct (map Identity_ID is)" "i \<in> set is"
  shows "find (\<lambda>p. Patch_IdentityID p = Identity_ID i) (map (planned_patch uc g m) (filter P is)) =
    (if P i then Some (planned_patch uc g m i) else None)"
  using assms
proof (induction "is")
  case (Cons j "is")
  show ?case
  proof (cases "j = i")
    case True
    with Cons.prems have "find (\<lambda>p. Patch_IdentityID p = Identity_ID i) (map (planned_patch uc g m) (filter P is)) = None"
      by (intro find_no_patch) (auto simp: image_iff)
    with True show ?thesis by simp
  next
    case False
    with Cons show ?thesis by auto
  qed
qed simp

text \<open>
  C2: One pass is enough. After the patches of a plan are written, planning again from the
  same directory and claims yields no patch: the sync settles instead of oscillating.
\<close>

theorem BuildPlan_converges:
  assumes plan: "BuildPlan uc input = Inr plan" and wf: "scope_wf (Scope input)"
    and ids: "distinct (map Identity_ID (Identities input))"
  shows "\<exists>plan'. BuildPlan uc (input\<lparr>Identities := map (apply_patch (Patches plan)) (Identities input)\<rparr>) = Inr plan'
    \<and> Patches plan' = []"
proof -
  let ?in = "input\<lparr>Identities := map (apply_patch (Patches plan)) (Identities input)\<rparr>"
  note bp = BuildPlan_Inr [OF plan]
  then have "currentValues (Scope ?in) \<noteq> []" by simp
  then obtain plan' where plan': "BuildPlan uc ?in = Inr plan'"
    using BuildPlan_Inl by (cases "BuildPlan uc ?in") auto
  note bp' = BuildPlan_Inr [OF plan']
  have "set (RoleAttributes (apply_patch (Patches plan) i)) =
      set (planned_attrs uc (plan_grants uc input) (plan_managed input) (apply_patch (Patches plan) i))"
    if "i \<in> set (Identities input)" "eligible uc input i" "plan_conflicts input = []" for i
  proof -
    have "set (planned_grant uc (plan_grants uc input) i) \<subseteq> set (plan_managed input)"
      by (rule planned_grant_managed [OF wf])
    then show ?thesis
      using bp that find_planned_patch [OF ids that(1)]
      by (auto simp: apply_patch_def planned_patch_def planned_attrs_def planned_grant_def
          split: if_splits)
  qed
  with bp' eligible_apply [of uc "Patches plan" input] have "Patches plan' = []"
    by (auto simp: filter_empty_conv)
  with plan' show ?thesis by blast
qed

section \<open>Guards, counters and retirement\<close>

text \<open>
  C26: The plan is refused as removing everything exactly when some eligible identity holds a
  managed attribute and the directory grants no eligible identity any value.
\<close>

theorem BuildPlan_WouldRemoveAll_iff:
  assumes plan: "BuildPlan uc input = Inr plan" and wf: "scope_wf (Scope input)"
  shows "WouldRemoveAll plan \<longleftrightarrow>
    (\<exists>i \<in> set (Identities input). eligible uc input i \<and>
       (\<exists>v \<in> set (RoleAttributes i). v \<in> set (ManagedValues plan))) \<and>
    (\<forall>i \<in> set (Identities input). eligible uc input i \<longrightarrow>
       (\<forall>g \<in> set (GroupIDs (Scope input)). \<forall>u \<in> set (members input g).
          selectedProperty u (UserProperty input) \<noteq> [] \<longrightarrow>
          ToLower uc (selectedProperty u (UserProperty input)) \<noteq> ToLower uc (ExternalID i)))"
proof -
  note bp = BuildPlan_Inr [OF plan]
  have ne: "\<exists>v. v \<in> set (granted_by input g)" if "g \<in> set (GroupIDs (Scope input))" for g
  proof -
    have "granted_by input g \<noteq> []" using that wf by (simp add: scope_wf_def grants_wf_def)
    then show ?thesis by (cases "granted_by input g") auto
  qed
  have a: "set (planned_attrs uc (plan_grants uc input) (plan_managed input) i) \<inter> set (plan_managed input) =
      set (planned_grant uc (plan_grants uc input) i)" for i
    using planned_grant_managed [OF wf, of uc i] by (auto simp: planned_attrs_def)
  have b: "set (planned_grant uc (plan_grants uc input) i) = {} \<longleftrightarrow>
      (\<forall>g \<in> set (GroupIDs (Scope input)). \<forall>u \<in> set (members input g).
         \<not> member_key uc input (ToLower uc (ExternalID i)) u)" for i
    using ne by (auto simp: set_eq_iff planned_grant_def plan_grants_iff)
  have w: "WouldRemoveAll plan \<longleftrightarrow>
      (\<exists>i \<in> set (Identities input). eligible uc input i \<and> set (RoleAttributes i) \<inter> set (plan_managed input) \<noteq> {}) \<and>
      (\<forall>i \<in> set (Identities input). eligible uc input i \<longrightarrow>
         set (planned_attrs uc (plan_grants uc input) (plan_managed input) i) \<inter> set (plan_managed input) = {})"
    using bp by blast
  have m: "ManagedValues plan = plan_managed input" using bp by blast
  have d: "set (RoleAttributes i) \<inter> set (plan_managed input) \<noteq> {} \<longleftrightarrow>
      (\<exists>v \<in> set (RoleAttributes i). v \<in> set (plan_managed input))" for i by blast
  show ?thesis
    unfolding w m d a b member_key_def by blast
qed

text \<open>
  Every identity of the snapshot that holds a retired value is recorded as a holder of
  exactly the retired values it has, whether or not it is eligible for patching.
\<close>

theorem BuildPlan_holders:
  assumes plan: "BuildPlan uc input = Inr plan"
  shows "{(Holder_IdentityID h, v) | h v. h \<in> set (RetirementHolders plan) \<and> v \<in> set (Holder_Values h)} =
    {(Identity_ID i, v) | i v. i \<in> set (Identities input) \<and> v \<in> set (RoleAttributes i) \<and>
       v \<in> set (ManagedAttributes (Input_Self input)) \<and> v \<notin> set (currentValues (Scope input))}"
proof -
  let ?R = "plan_retired input"
  have rh: "RetirementHolders plan =
      map (\<lambda>i. \<lparr>Holder_IdentityID = Identity_ID i,
                Holder_Values = sortedSet [filter (\<lambda>v. v \<in> set (RoleAttributes i)) ?R]\<rparr>)
        (filter (\<lambda>i. set ?R \<inter> set (RoleAttributes i) \<noteq> {}) (Identities input))"
    using BuildPlan_Inr [OF plan] by simp
  have R: "v \<in> set ?R \<longleftrightarrow> v \<in> set (ManagedAttributes (Input_Self input)) \<and> v \<notin> set (currentValues (Scope input))"
    for v by (simp add: plan_retired_def retiredValues_def)
  have "{(Holder_IdentityID h, v) | h v. h \<in> set (RetirementHolders plan) \<and> v \<in> set (Holder_Values h)} =
      {(Identity_ID i, v) | i v. i \<in> set (Identities input) \<and> v \<in> set (RoleAttributes i) \<and> v \<in> set ?R}"
    unfolding rh set_map set_filter by force
  then show ?thesis by (simp only: R)
qed

text \<open>
  The counters count what their names say: the distinct external ids of members that no
  identity carries, and the eligible identities some member matches; the report never
  exceeds 50 entries.
\<close>

theorem BuildPlan_counters:
  assumes plan: "BuildPlan uc input = Inr plan" and wf: "scope_wf (Scope input)"
  shows "MembersWithoutIdentity plan =
      card {k. (\<exists>g \<in> set (GroupIDs (Scope input)). \<exists>u \<in> set (members input g).
                  selectedProperty u (UserProperty input) \<noteq> [] \<and>
                  ToLower uc (selectedProperty u (UserProperty input)) = k) \<and>
               (\<forall>i \<in> set (Identities input). ExternalID i = [] \<or> ToLower uc (ExternalID i) \<noteq> k)} \<and>
    MatchedIdentities plan \<le> length (filter (eligible uc input) (Identities input)) \<and>
    length (UnmatchedMembers plan) \<le> 50"
proof -
  note bp = BuildPlan_Inr [OF plan]
  let ?ks = "filter (\<lambda>k. mget (identityIndex uc (Identities input)) k = []) (mkeys (plan_grants uc input))"
  have "distinct ?ks"
    using memberGrants_frame [of uc input "plan_start input"] by (simp add: plan_grants_def map_wf_def)
  then have "length ?ks = card (set ?ks)" by (rule distinct_card [symmetric])
  also have "set ?ks = {k. (\<exists>g \<in> set (GroupIDs (Scope input)). \<exists>u \<in> set (members input g).
                  selectedProperty u (UserProperty input) \<noteq> [] \<and>
                  ToLower uc (selectedProperty u (UserProperty input)) = k) \<and>
               (\<forall>i \<in> set (Identities input). ExternalID i = [] \<or> ToLower uc (ExternalID i) \<noteq> k)}"
    by (auto simp: plan_grants_def memberGrants_keys member_key_def identityIndex_def mget_identityIndex
        filter_empty_conv)
  finally have "MembersWithoutIdentity plan = card \<dots>" using bp by simp
  moreover have "MatchedIdentities plan \<le> length (filter (eligible uc input) (Identities input))"
  proof -
    have "length (filter (\<lambda>i. eligible uc input i \<and> Q i) xs) \<le> length (filter (eligible uc input) xs)" for Q xs
      by (induction xs) auto
    with bp show ?thesis by simp
  qed
  ultimately show ?thesis using bp by simp
qed

end
