(* ===== verification/Retirement.thy ===== *)
theory Retirement
  imports Planner
begin

text \<open>
  \<^verbatim>\<open>internal/rolesync/retirement.go\<close>: from the outcomes of the write phase, what the sync may
  forget and what its status becomes. A value that left the application's roles is retired:
  the sync keeps claiming it until no observed identity holds it any more.
\<close>

section \<open>Definitions\<close>

definition reasonSynced :: string where
  "reasonSynced = ''Synced''"

datatype OutcomeKind = Observed | Patched | Deleted | Skipped | Failed | Conflicted

record IdentityOutcome =
  Outcome_IdentityID :: string
  Kind :: OutcomeKind
  Outcome_RoleAttributes :: "string list"
  Outcome_Err :: "error option"
  Outcome_ConflictValues :: "string list"

definition is_err :: "error option \<Rightarrow> error \<Rightarrow> bool" where
  "is_err err target = (case err of None \<Rightarrow> False | Some e \<Rightarrow> errors_Is e target)"

definition StopsWrites :: "IdentityOutcome \<Rightarrow> bool" where
  "StopsWrites out \<longleftrightarrow>
     Kind out = Conflicted \<or> is_err (Outcome_Err out) Canceled \<or> is_err (Outcome_Err out) DeadlineExceeded"

record CompletionInput =
  Plan :: PlanResult
  PreviousValues :: "string list"
  Outcomes :: "IdentityOutcome list"
  BlockReason :: string
  ClaimRecorded :: bool

record Completion =
  Completion_ManagedAttributes :: "string list"
  Ready :: bool
  Reason :: string
  AdvanceLastSyncTime :: bool
  IdentitiesUpdated :: nat
  Completion_Err :: "error option"
  Completion_ConflictValues :: "string list"

text \<open>One iteration over the outcomes in \<^verbatim>\<open>retirementPending\<close>.\<close>

definition holderStep ::
  "string list \<Rightarrow> (string, string list) gomap \<Rightarrow> IdentityOutcome \<Rightarrow> (string, string list) gomap" where
  "holderStep retired holders out =
     (case Kind out of
        Deleted \<Rightarrow> mdelete holders (Outcome_IdentityID out)
      | Failed \<Rightarrow> holders
      | Conflicted \<Rightarrow> holders
      | _ \<Rightarrow>
          let values = filter (\<lambda>value. value \<in> set (Outcome_RoleAttributes out)) retired
          in if values = [] then mdelete holders (Outcome_IdentityID out)
             else mset_key holders (Outcome_IdentityID out) (sortedSet [values]))"

definition seedHolder ::
  "(string, string list) gomap \<Rightarrow> RetirementHolder \<Rightarrow> (string, string list) gomap" where
  "seedHolder holders holder =
     mset_key holders (Holder_IdentityID holder)
       (sortedSet [mget holders (Holder_IdentityID holder), Holder_Values holder])"

definition retirementPending :: "CompletionInput \<Rightarrow> bool" where
  "retirementPending input =
     (let retired = filter (\<lambda>value. value \<notin> set (CurrentValues (Plan input))) (PreviousValues input);
          holders = foldl seedHolder [] (RetirementHolders (Plan input));
          holders = foldl (holderStep retired) holders (Outcomes input)
      in length holders > 0)"

text \<open>One iteration over the outcomes in \<^verbatim>\<open>Complete\<close>: the accumulator is \<open>(result, failed)\<close>.\<close>

definition completeStep :: "Completion \<times> bool \<Rightarrow> IdentityOutcome \<Rightarrow> Completion \<times> bool" where
  "completeStep st out =
     (let (result, failed) = st
      in case Kind out of
           Patched \<Rightarrow> (result\<lparr>IdentitiesUpdated := IdentitiesUpdated result + 1\<rparr>, failed)
         | Failed \<Rightarrow>
             (if Completion_Err result = None then result\<lparr>Completion_Err := Outcome_Err out\<rparr> else result, True)
         | Conflicted \<Rightarrow>
             (result\<lparr>Reason := ''Conflict'',
                Completion_ConflictValues :=
                  sortedSet [Completion_ConflictValues result, Outcome_ConflictValues out]\<rparr>, failed)
         | _ \<Rightarrow> (result, failed))"

definition Complete :: "CompletionInput \<Rightarrow> Completion" where
  "Complete input =
     (let result = \<lparr>Completion_ManagedAttributes = sortedSet [PreviousValues input], Ready = False,
            Reason = BlockReason input, AdvanceLastSyncTime = False, IdentitiesUpdated = 0,
            Completion_Err = None,
            Completion_ConflictValues = sortedSet [Conflicts (Ownership (Plan input))]\<rparr>
      in if \<not> ClaimRecorded input then result
         else
           let result = result\<lparr>Completion_ManagedAttributes := sortedSet [ManagedValues (Plan input)]\<rparr>;
               (result, failed) = foldl completeStep (result, False) (Outcomes input);
               result = (if failed then result\<lparr>Reason := ''ZitiError''\<rparr> else result)
           in if Reason result \<noteq> [] then result
              else if retirementPending input then result\<lparr>Reason := ''CleanupPending''\<rparr>
              else result\<lparr>Completion_ManagedAttributes := sortedSet [CurrentValues (Plan input)],
                     Ready := True, Reason := reasonSynced, AdvanceLastSyncTime := True\<rparr>)"

section \<open>Pending retirement\<close>

text \<open>The last outcome that tells what an identity holds now.\<close>

definition decisive :: "string \<Rightarrow> IdentityOutcome \<Rightarrow> bool" where
  "decisive ident out \<longleftrightarrow> Outcome_IdentityID out = ident \<and> Kind out \<notin> {Failed, Conflicted}"

definition last_seen :: "IdentityOutcome list \<Rightarrow> string \<Rightarrow> IdentityOutcome option" where
  "last_seen outs ident = find (decisive ident) (rev outs)"

definition holds :: "string list \<Rightarrow> IdentityOutcome \<Rightarrow> bool" where
  "holds retired out \<longleftrightarrow> Kind out \<noteq> Deleted \<and> set retired \<inter> set (Outcome_RoleAttributes out) \<noteq> {}"

lemma keys_holderStep:
  "k \<in> set (mkeys (holderStep retired m out)) \<longleftrightarrow>
     (if decisive k out then holds retired out else k \<in> set (mkeys m))"
  by (auto simp: holderStep_def decisive_def holds_def filter_empty_conv Let_def split: OutcomeKind.splits)

lemma keys_holderLoop:
  "k \<in> set (mkeys (foldl (holderStep retired) m outs)) \<longleftrightarrow>
     (case last_seen outs k of None \<Rightarrow> k \<in> set (mkeys m) | Some out \<Rightarrow> holds retired out)"
  by (induction outs rule: rev_induct) (simp_all add: last_seen_def keys_holderStep)

lemma keys_seedLoop:
  "set (mkeys (foldl seedHolder m hs)) = set (mkeys m) \<union> Holder_IdentityID ` set hs"
  by (induction hs arbitrary: m) (auto simp: seedHolder_def)

lemma retirementPending_iff:
  "retirementPending input \<longleftrightarrow>
     (\<exists>ident. case last_seen (Outcomes input) ident of
        None \<Rightarrow> \<exists>h \<in> set (RetirementHolders (Plan input)). Holder_IdentityID h = ident
      | Some out \<Rightarrow>
          holds (filter (\<lambda>v. v \<notin> set (CurrentValues (Plan input))) (PreviousValues input)) out)"
proof -
  have nonempty: "length m > 0 \<longleftrightarrow> (\<exists>k. k \<in> set (mkeys m))" for m :: "(string, string list) gomap"
    by (cases m) (auto simp: mkeys_def)
  show ?thesis
    unfolding retirementPending_def Let_def nonempty keys_holderLoop
    by (intro ex_cong1) (auto simp: keys_seedLoop split: option.splits)
qed

section \<open>Complete\<close>

lemma completeStep_fields:
  "snd (completeStep st out) = (snd st \<or> Kind out = Failed)"
  "IdentitiesUpdated (fst (completeStep st out)) =
     IdentitiesUpdated (fst st) + (if Kind out = Patched then 1 else 0)"
  "Reason (fst (completeStep st out)) = (if Kind out = Conflicted then ''Conflict'' else Reason (fst st))"
  "Completion_ManagedAttributes (fst (completeStep st out)) = Completion_ManagedAttributes (fst st)"
  "Ready (fst (completeStep st out)) = Ready (fst st)"
  "AdvanceLastSyncTime (fst (completeStep st out)) = AdvanceLastSyncTime (fst st)"
  by (cases "Kind out"; simp add: completeStep_def split_beta)+

lemma completeLoop:
  assumes "foldl completeStep (r, f) outs = (r', f')"
  shows "f' = (f \<or> (\<exists>out \<in> set outs. Kind out = Failed)) \<and>
    IdentitiesUpdated r' = IdentitiesUpdated r + length (filter (\<lambda>out. Kind out = Patched) outs) \<and>
    Reason r' = (if \<exists>out \<in> set outs. Kind out = Conflicted then ''Conflict'' else Reason r) \<and>
    Completion_ManagedAttributes r' = Completion_ManagedAttributes r \<and> Ready r' = Ready r \<and>
    AdvanceLastSyncTime r' = AdvanceLastSyncTime r"
  using assms
proof (induction outs arbitrary: r f)
  case (Cons out outs)
  obtain r1 f1 where st: "completeStep (r, f) out = (r1, f1)" by force
  with Cons.prems have "foldl completeStep (r1, f1) outs = (r', f')" by simp
  note ih = Cons.IH [OF this]
  note step = completeStep_fields [of "(r, f)" out, unfolded st fst_conv snd_conv]
  show ?case unfolding step using ih by (auto simp: step)
qed simp

lemma Complete_cases:
  defines "bad input \<equiv> \<exists>out \<in> set (Outcomes input). Kind out \<in> {Failed, Conflicted}"
  shows "Ready (Complete input) \<longleftrightarrow>
      ClaimRecorded input \<and> BlockReason input = [] \<and> \<not> bad input \<and> \<not> retirementPending input"
    and "Completion_ManagedAttributes (Complete input) =
      (if \<not> ClaimRecorded input then sortedSet [PreviousValues input]
       else if Ready (Complete input) then sortedSet [CurrentValues (Plan input)]
       else sortedSet [ManagedValues (Plan input)])"
    and "AdvanceLastSyncTime (Complete input) = Ready (Complete input)"
    and "Reason (Complete input) =
      (if \<not> ClaimRecorded input then BlockReason input
       else if \<exists>out \<in> set (Outcomes input). Kind out = Failed then ''ZitiError''
       else if \<exists>out \<in> set (Outcomes input). Kind out = Conflicted then ''Conflict''
       else if BlockReason input \<noteq> [] then BlockReason input
       else if retirementPending input then ''CleanupPending'' else reasonSynced)"
    and "ClaimRecorded input \<Longrightarrow>
      IdentitiesUpdated (Complete input) = length (filter (\<lambda>out. Kind out = Patched) (Outcomes input))"
proof -
  define r0 where "r0 = \<lparr>Completion_ManagedAttributes = sortedSet [ManagedValues (Plan input)], Ready = False,
    Reason = BlockReason input, AdvanceLastSyncTime = False, IdentitiesUpdated = 0,
    Completion_Err = None, Completion_ConflictValues = sortedSet [Conflicts (Ownership (Plan input))]\<rparr>"
  obtain r f where lp: "foldl completeStep (r0, False) (Outcomes input) = (r, f)" by force
  note loop = completeLoop [OF lp]
  have unrec: "\<not> ClaimRecorded input \<Longrightarrow> Complete input = r0\<lparr>Completion_ManagedAttributes := sortedSet [PreviousValues input]\<rparr>"
    by (simp add: Complete_def r0_def)
  have rec: "ClaimRecorded input \<Longrightarrow> Complete input =
    (let result = (if f then r\<lparr>Reason := ''ZitiError''\<rparr> else r)
     in if Reason result \<noteq> [] then result
        else if retirementPending input then result\<lparr>Reason := ''CleanupPending''\<rparr>
        else result\<lparr>Completion_ManagedAttributes := sortedSet [CurrentValues (Plan input)],
               Ready := True, Reason := reasonSynced, AdvanceLastSyncTime := True\<rparr>)"
    using lp by (simp add: Complete_def r0_def Let_def)
  note facts = unrec rec loop
  show "Ready (Complete input) \<longleftrightarrow>
      ClaimRecorded input \<and> BlockReason input = [] \<and> \<not> bad input \<and> \<not> retirementPending input"
    by (cases "ClaimRecorded input") (use facts in \<open>auto simp: Let_def r0_def bad_def\<close>)
  show "Completion_ManagedAttributes (Complete input) =
      (if \<not> ClaimRecorded input then sortedSet [PreviousValues input]
       else if Ready (Complete input) then sortedSet [CurrentValues (Plan input)]
       else sortedSet [ManagedValues (Plan input)])"
    by (cases "ClaimRecorded input") (use facts in \<open>auto simp: Let_def r0_def\<close>)
  show "AdvanceLastSyncTime (Complete input) = Ready (Complete input)"
    by (cases "ClaimRecorded input") (use facts in \<open>auto simp: Let_def r0_def\<close>)
  show "Reason (Complete input) =
      (if \<not> ClaimRecorded input then BlockReason input
       else if \<exists>out \<in> set (Outcomes input). Kind out = Failed then ''ZitiError''
       else if \<exists>out \<in> set (Outcomes input). Kind out = Conflicted then ''Conflict''
       else if BlockReason input \<noteq> [] then BlockReason input
       else if retirementPending input then ''CleanupPending'' else reasonSynced)"
    by (cases "ClaimRecorded input") (use facts in \<open>auto simp: Let_def r0_def\<close>)
  show "ClaimRecorded input \<Longrightarrow>
      IdentitiesUpdated (Complete input) = length (filter (\<lambda>out. Kind out = Patched) (Outcomes input))"
    using facts by (auto simp: Let_def r0_def)
qed

text \<open>
  C27: A sync is reported ready exactly when its claims were recorded, nothing blocked the run,
  no identity failed or conflicted, and no identity still holds a retired value; only then the
  recorded attributes shrink to the current ones and the last sync time advances.
\<close>

theorem Complete_ready_iff:
  "(Ready (Complete input) \<longleftrightarrow>
      ClaimRecorded input \<and> BlockReason input = [] \<and>
      (\<forall>out \<in> set (Outcomes input). Kind out \<noteq> Failed \<and> Kind out \<noteq> Conflicted) \<and>
      \<not> retirementPending input) \<and>
   AdvanceLastSyncTime (Complete input) = Ready (Complete input) \<and>
   (Ready (Complete input) \<longrightarrow> Reason (Complete input) = ''Synced'' \<and>
      Completion_ManagedAttributes (Complete input) = sortedSet [CurrentValues (Plan input)]) \<and>
   (\<not> Ready (Complete input) \<and> ClaimRecorded input \<longrightarrow>
      Completion_ManagedAttributes (Complete input) = sortedSet [ManagedValues (Plan input)])"
  using Complete_cases [of input] by (auto simp: reasonSynced_def)

lemma forgets_safely:
  assumes v: "v \<in> set (PreviousValues input)" "v \<notin> set (Completion_ManagedAttributes (Complete input))"
    and sub: "set (PreviousValues input) \<subseteq> set (ManagedValues (Plan input))"
    and h: "h \<in> set (RetirementHolders (Plan input))"
  shows "\<exists>out. last_seen (Outcomes input) (Holder_IdentityID h) = Some out \<and>
    (Kind out = Deleted \<or> v \<notin> set (Outcome_RoleAttributes out))"
proof -
  have ready: "Ready (Complete input)" and cur: "v \<notin> set (CurrentValues (Plan input))"
    using v sub Complete_cases(2) [of input] by (auto split: if_splits)
  then have "\<not> retirementPending input" by (simp add: Complete_cases(1))
  with h have "\<exists>out. last_seen (Outcomes input) (Holder_IdentityID h) = Some out \<and>
      \<not> holds (filter (\<lambda>v. v \<notin> set (CurrentValues (Plan input))) (PreviousValues input)) out"
    by (fastforce simp: retirementPending_iff split: option.splits)
  with v cur show ?thesis by (auto simp: holds_def)
qed

text \<open>
  C4: A claim is forgotten only when it is safe. If the attributes recorded after a run no
  longer contain a value that was recorded before, then for every identity the plan saw
  holding a retired value the last conclusive outcome is that it was deleted or that it was
  read or written without that value.
\<close>

theorem Complete_forgets_safely:
  assumes v: "v \<in> set (PreviousValues input)" "v \<notin> set (Completion_ManagedAttributes (Complete input))"
    and sub: "set (PreviousValues input) \<subseteq> set (ManagedValues (Plan input))"
    and h: "h \<in> set (RetirementHolders (Plan input))"
  shows "\<exists>out. last_seen (Outcomes input) (Holder_IdentityID h) = Some out \<and>
    (Kind out = Deleted \<or> v \<notin> set (Outcome_RoleAttributes out))"
  using assms by (rule forgets_safely)

end
