(* ===== verification/Sync_Reads.thy ===== *)
theory Sync_Reads
  imports Status_Marks Retirement
begin

text \<open>
  \<^verbatim>\<open>internal/controller/zitientrarolesync_reads.go\<close>: validation of a role sync's spec and the
  reads one run makes: the credentials, the Graph directory, the recorded claims, and the
  write that records the claims of this run. Beside it, the reconciler's struct with the
  services it calls, and the calls a run leaves in its trace.
\<close>

section \<open>The reconciler\<close>

type_synonym Secret_Data = "(string, string) gomap"

text \<open>
  \<^verbatim>\<open>ZitiEntraRoleSyncReconciler\<close>: the cached client, the uncached reader, the recorder, the
  OpenZiti client and the directory factory, all supplied from outside. \<open>ctx_Err\<close> reads the
  run's context, whose deadline the world knows. \<^verbatim>\<open>time.ParseDuration\<close> goes through floating
  point for fractions and is a parameter: \<open>None\<close> is an error.
\<close>

record 'w ZitiEntraRoleSyncReconciler =
  Sync_Client :: "(ZitiEntraRoleSync, ZitiEntraRoleSyncStatus, 'w) kube"
  Get_Secret :: "ResourceKey \<Rightarrow> 'w \<Rightarrow> (error + Secret_Data) \<times> 'w"
  APIReader_Get :: "ResourceKey \<Rightarrow> 'w \<Rightarrow> (error + ZitiEntraRoleSync) \<times> 'w"
  APIReader_List_Syncs :: "'w \<Rightarrow> (error + ZitiEntraRoleSync list) \<times> 'w"
  APIReader_List_Identities :: "'w \<Rightarrow> (error + ZitiIdentity list) \<times> 'w"
  Sync_ZitiClient :: "'w Client"
  DirectoryFactory :: "string \<Rightarrow> string \<Rightarrow> string \<Rightarrow> 'w Directory"
  ctx_Err :: "'w \<Rightarrow> error option \<times> 'w"
  ParseDuration :: "string \<Rightarrow> duration option"
  Sync_uc :: unicode

datatype rcall =
    Sync_Kube "ZitiEntraRoleSync kcall"
  | Secret_Get ResourceKey "error + Secret_Data"
  | Reader_Get ResourceKey "error + ZitiEntraRoleSync"
  | Reader_List_Syncs "error + ZitiEntraRoleSync list"
  | Reader_List_Identities "error + ZitiIdentity list"
  | Graph_ServicePrincipal string "error + ServicePrincipal option"
  | Graph_Assigned string "error + AppRoleAssignment list"
  | Graph_GroupUsers string "error + User list"
  | Ziti_List "error + Identity list"
  | Ziti_Get string "error + Identity option"
  | Ziti_Patch string "string list" "error option"

section \<open>Reasons and run results\<close>

definition syncReasonInvalidSpec :: string where "syncReasonInvalidSpec = ''InvalidSpec''"
definition syncReasonGraphError :: string where "syncReasonGraphError = ''GraphError''"
definition syncReasonConflict :: string where "syncReasonConflict = ''Conflict''"
definition syncReasonWouldRemoveAll :: string where "syncReasonWouldRemoveAll = ''WouldRemoveAll''"
definition syncReasonZitiError :: string where "syncReasonZitiError = ''ZitiError''"
definition syncReasonCleanupPending :: string where "syncReasonCleanupPending = ''CleanupPending''"
definition syncReasonSynced :: string where "syncReasonSynced = ''Synced''"

lemmas syncReasons = syncReasonInvalidSpec_def syncReasonGraphError_def syncReasonConflict_def
  syncReasonWouldRemoveAll_def syncReasonZitiError_def syncReasonCleanupPending_def syncReasonSynced_def

record syncRunResult =
  Run_Plan :: "PlanResult option"
  Run_Completion :: "Completion option"
  WritePhaseStarted :: bool
  Run_Reason :: string
  Run_Err :: "error option"
  Run_RetryAfter :: duration

definition zero_Run :: syncRunResult where
  "zero_Run = \<lparr>Run_Plan = None, Run_Completion = None, WritePhaseStarted = False, Run_Reason = [],
     Run_Err = None, Run_RetryAfter = 0\<rparr>"

section \<open>Validation\<close>

definition is_hex :: "char \<Rightarrow> bool" where
  "is_hex c \<longleftrightarrow> (let n = of_char c :: nat in 48 \<le> n \<and> n \<le> 57 \<or> 97 \<le> n \<and> n \<le> 102 \<or> 65 \<le> n \<and> n \<le> 70)"

text \<open>\<open>match_groups\<close> matches runs of hexadecimal digits of the given lengths separated by hyphens
  and then the end of the text.\<close>

fun match_groups :: "nat list \<Rightarrow> string \<Rightarrow> bool" where
  "match_groups [] s = (s = [])"
| "match_groups [n] s = (length s = n \<and> list_all is_hex s)"
| "match_groups (n # ns) s =
     (length (take n s) = n \<and> list_all is_hex (take n s) \<and>
      (case drop n s of [] \<Rightarrow> False | c # s' \<Rightarrow> c = CHR ''-'' \<and> match_groups ns s'))"

definition roleSyncGUID :: "string \<Rightarrow> bool" where
  "roleSyncGUID s = match_groups [8, 4, 4, 4, 12] s"

definition Minute :: duration where
  "Minute = 60 * 1000000000"

definition validateRoleSyncSpec ::
  "'w ZitiEntraRoleSyncReconciler \<Rightarrow> ZitiEntraRoleSync \<Rightarrow> duration \<times> error option" where
  "validateRoleSyncSpec r resource =
     (let spec = ZERS_Spec resource;
          interval = 10 * Minute;
          parsed = (if Interval spec \<noteq> [] then ParseDuration r (Interval spec) else Some interval)
      in case parsed of
           None \<Rightarrow> (interval, Some (New ''invalid sync interval''))
         | Some interval \<Rightarrow>
             if interval < Minute then (10 * Minute, Some (New ''sync interval must be at least 1m''))
             else if \<not> roleSyncGUID (TenantID spec) \<or> \<not> roleSyncGUID (AppID spec)
             then (interval, Some (New ''tenantId and appId must be GUIDs''))
             else if CredentialsSecretRef spec = []
             then (interval, Some (New ''credentials Secret name is required''))
             else if Spec_UserProperty spec \<in> {[], ''mail'', ''userPrincipalName'', ''id''}
             then (interval, None)
             else (interval, Some (New ''unsupported userProperty'')))"

section \<open>Reads\<close>

definition readDirectory ::
  "'w ZitiEntraRoleSyncReconciler \<Rightarrow> ZitiEntraRoleSync \<Rightarrow> ('w, rcall, error + 'w Directory) io" where
  "readDirectory r resource = do {
     let key = \<lparr>Key_Namespace = Meta_Namespace (ZERS_Meta resource),
                Key_Name = CredentialsSecretRef (ZERS_Spec resource)\<rparr>;
     secret \<leftarrow> call (Secret_Get key) (Get_Secret r key);
     State_Monad.return (case secret of
         Inl err \<Rightarrow> Inl (Errorf_w ''read Entra credentials Secret'' err)
       | Inr data \<Rightarrow>
           let ident = mget data ''clientId''; key = mget data ''clientSecret''
           in if ident = [] \<or> key = []
              then Inl (New ''credentials Secret requires clientId and clientSecret'')
              else Inr (DirectoryFactory r (TenantID (ZERS_Spec resource)) ident key))
   }"

definition zero_Input :: Input where
  "zero_Input = \<lparr>Scope = \<lparr>currentValues = [], grantsByGroup = []\<rparr>, MembersByGroup = [], Identities = [],
     IdentityOwners = [], Input_Self = \<lparr>Claim_Resource = \<lparr>Key_Namespace = [], Key_Name = []\<rparr>,
       Claim_CreationTimestamp = 0, ManagedAttributes = []\<rparr>, OtherClaims = [], UserProperty = []\<rparr>"

text \<open>The loop over the groups: an incomplete user ends it.\<close>

fun readGroups ::
  "'w Directory \<Rightarrow> Input \<Rightarrow> string list \<Rightarrow> ('w, rcall, error + Input) io" where
  "readGroups directory input [] = State_Monad.return (Inr input)"
| "readGroups directory input (ident # idents) = do {
     users \<leftarrow> call (Graph_GroupUsers ident) (ListGroupUsers directory ident);
     case users of
       Inl err \<Rightarrow> State_Monad.return (Inl err)
     | Inr users \<Rightarrow>
         if list_ex (\<lambda>user. UserPrincipalName user = []) users
         then State_Monad.return (Inl ErrLimitedUserData)
         else readGroups directory (input\<lparr>MembersByGroup := mset_key (MembersByGroup input) ident users\<rparr>) idents
   }"

definition readGraph ::
  "'w Directory \<Rightarrow> ZitiEntraRoleSync \<Rightarrow> ('w, rcall, error + Input) io" where
  "readGraph directory resource = do {
     let appID = AppID (ZERS_Spec resource);
     sp \<leftarrow> call (Graph_ServicePrincipal appID) (GetServicePrincipal directory appID);
     case sp of
       Inl err \<Rightarrow> State_Monad.return (Inl err)
     | Inr None \<Rightarrow> State_Monad.return (Inl (New ''graph returned no service principal''))
     | Inr (Some sp) \<Rightarrow> do {
         assignments \<leftarrow> call (Graph_Assigned (ServicePrincipal_ID sp))
           (ListAppRoleAssignedTo directory (ServicePrincipal_ID sp));
         case assignments of
           Inl err \<Rightarrow> State_Monad.return (Inl err)
         | Inr assignments \<Rightarrow>
             (case ResolveRoleScope sp assignments of
                Inl err \<Rightarrow> State_Monad.return (Inl err)
              | Inr scope \<Rightarrow> readGroups directory (zero_Input\<lparr>Scope := scope\<rparr>) (GroupIDs scope))
       }
   }"

definition graphRunFailure :: "error \<Rightarrow> syncRunResult" where
  "graphRunFailure err =
     (let result = zero_Run\<lparr>Run_Reason := syncReasonGraphError, Run_Err := Some err\<rparr>;
          result = (case errors_As_Graph err of None \<Rightarrow> result
                    | Some g \<Rightarrow> result\<lparr>Run_RetryAfter := Graph_RetryAfter g\<rparr>)
      in case errors_As_Token err of None \<Rightarrow> result
         | Some t \<Rightarrow> result\<lparr>Run_RetryAfter := Token_RetryAfter t\<rparr>)"

definition roleClaim :: "ZitiEntraRoleSync \<Rightarrow> SyncClaim" where
  "roleClaim resource =
     \<lparr>Claim_Resource = \<lparr>Key_Namespace = Meta_Namespace (ZERS_Meta resource), Key_Name = Meta_Name (ZERS_Meta resource)\<rparr>,
      Claim_CreationTimestamp = CreationTimestamp (ZERS_Meta resource),
      ManagedAttributes = Status_ManagedAttributes (ZERS_Status resource)\<rparr>"

definition readRoleSync ::
  "'w ZitiEntraRoleSyncReconciler \<Rightarrow> ZitiEntraRoleSync \<Rightarrow> ('w, rcall, error + ZitiEntraRoleSync) io" where
  "readRoleSync r resource = do {
     let key = ObjectKey (ZERS_Meta resource);
     current \<leftarrow> call (Reader_Get key) (APIReader_Get r key);
     State_Monad.return (case current of
         Inl err \<Rightarrow> Inl err
       | Inr current \<Rightarrow>
           if UID (ZERS_Meta current) \<noteq> UID (ZERS_Meta resource) \<or> DeletionTimestamp (ZERS_Meta current) \<noteq> None
           then Inl (New ''role sync resource was replaced or is deleting'')
           else Inr current)
   }"

definition otherClaims :: "ResourceKey \<Rightarrow> ZitiEntraRoleSync list \<Rightarrow> SyncClaim list" where
  "otherClaims key items = map roleClaim (filter (\<lambda>item. ObjectKey (ZERS_Meta item) \<noteq> key) items)"

definition identityOwner :: "ZitiIdentity \<Rightarrow> IdentityOwner" where
  "identityOwner identity =
     \<lparr>Owner_Resource = \<lparr>Key_Namespace = Meta_Namespace (ZI_Meta identity), Key_Name = Meta_Name (ZI_Meta identity)\<rparr>,
      IdentityID = Status_ID (IdentityStatus_Common (ZI_Status identity)),
      IdentityName = IdentitySpec_Name (ZI_Spec identity)\<rparr>"

definition readOwnership ::
  "'w ZitiEntraRoleSyncReconciler \<Rightarrow> ZitiEntraRoleSync
     \<Rightarrow> ('w, rcall, error + SyncClaim \<times> SyncClaim list \<times> IdentityOwner list) io" where
  "readOwnership r resource = do {
     self \<leftarrow> readRoleSync r resource;
     case self of
       Inl err \<Rightarrow> State_Monad.return (Inl err)
     | Inr self \<Rightarrow> do {
         let key = ObjectKey (ZERS_Meta resource);
         syncs \<leftarrow> call Reader_List_Syncs (APIReader_List_Syncs r);
         case syncs of
           Inl err \<Rightarrow> State_Monad.return (Inl err)
         | Inr syncs \<Rightarrow> do {
             identities \<leftarrow> call Reader_List_Identities (APIReader_List_Identities r);
             case identities of
               Inl err \<Rightarrow> State_Monad.return (Inl err)
             | Inr identities \<Rightarrow>
                 State_Monad.return (Inr (roleClaim self, otherClaims key syncs, map identityOwner identities))
           }
       }
   }"

section \<open>Recording the claims\<close>

text \<open>The caller's object is updated in place: the result carries it.\<close>

definition recordRoleClaims ::
  "'w ZitiEntraRoleSyncReconciler \<Rightarrow> ZitiEntraRoleSync \<Rightarrow> SyncClaim \<Rightarrow> string list
     \<Rightarrow> ('w, rcall, error option \<times> ZitiEntraRoleSync) io" where
  "recordRoleClaims r resource self values =
     (if sameRoleSet (ManagedAttributes self) values then State_Monad.return (None, resource)
      else do {
        current \<leftarrow> readRoleSync r resource;
        case current of
          Inl err \<Rightarrow> State_Monad.return (Some err, resource)
        | Inr current \<Rightarrow>
            if \<not> sameRoleSet (Status_ManagedAttributes (ZERS_Status current)) (ManagedAttributes self)
            then State_Monad.return (Some (New ''recorded claims changed during sync''), resource)
            else do {
              let current = current\<lparr>ZERS_Status := (ZERS_Status current)\<lparr>Status_ManagedAttributes := values\<rparr>\<rparr>;
              stored \<leftarrow> call (\<lambda>res. Sync_Kube (KStatus current res)) (Status_Update (Sync_Client r) current);
              State_Monad.return (case stored of
                  Inl err \<Rightarrow> (Some err, resource)
                | Inr stored \<Rightarrow>
                    (None, resource\<lparr>
                       ZERS_Meta := (ZERS_Meta resource)\<lparr>ResourceVersion := ResourceVersion (ZERS_Meta stored)\<rparr>,
                       ZERS_Status := (ZERS_Status resource)\<lparr>Status_ManagedAttributes := values\<rparr>\<rparr>))
            }
      })"

section \<open>What the reads establish\<close>

fun is_patch :: "rcall \<Rightarrow> bool" where
  "is_patch (Ziti_Patch ident attrs res) = True"
| "is_patch _ = False"

text \<open>What others can see of a run: patches, updates of the resource and warnings.\<close>

fun has_effect :: "rcall \<Rightarrow> bool" where
  "has_effect (Ziti_Patch ident attrs res) = True"
| "has_effect (Sync_Kube (KUpdate obj res)) = True"
| "has_effect (Sync_Kube (KStatus obj res)) = True"
| "has_effect (Sync_Kube (KEvent ty reason msg)) = (ty = EventTypeWarning)"
| "has_effect _ = False"

definition effect_free :: "rcall list \<Rightarrow> bool" where
  "effect_free xs \<longleftrightarrow> list_all (\<lambda>c. \<not> has_effect c) xs"

lemma effect_free_simps [simp]:
  "effect_free []" "effect_free (c # xs) \<longleftrightarrow> \<not> has_effect c \<and> effect_free xs"
  "effect_free (xs @ ys) \<longleftrightarrow> effect_free xs \<and> effect_free ys"
  by (simp_all add: effect_free_def)

lemma is_patch_write: "is_patch c \<Longrightarrow> has_effect c"
  by (cases c) auto

text \<open>The object the API server returned is the instance the run started from, and it lives.\<close>

definition same_instance :: "ZitiEntraRoleSync \<Rightarrow> ZitiEntraRoleSync \<Rightarrow> bool" where
  "same_instance resource current \<longleftrightarrow>
     UID (ZERS_Meta current) = UID (ZERS_Meta resource) \<and> DeletionTimestamp (ZERS_Meta current) = None"

text \<open>The fresh view of the cluster's claims: the three calls and what they say.\<close>

inductive ownership_view ::
  "ZitiEntraRoleSync \<Rightarrow> rcall list \<Rightarrow> SyncClaim \<Rightarrow> SyncClaim list \<Rightarrow> IdentityOwner list \<Rightarrow> bool"
  for resource where
  "same_instance resource current \<Longrightarrow>
   ownership_view resource
     [Reader_Get (ObjectKey (ZERS_Meta resource)) (Inr current), Reader_List_Syncs (Inr syncs),
      Reader_List_Identities (Inr identities)]
     (roleClaim current) (otherClaims (ObjectKey (ZERS_Meta resource)) syncs) (map identityOwner identities)"

inductive_cases ownership_viewE: "ownership_view resource xs self others owners"

lemma ownership_view_reads: "ownership_view resource xs self others owners \<Longrightarrow> effect_free xs"
  by (auto elim: ownership_viewE)

lemma readRoleSync_yields:
  "yields (readRoleSync r resource) (\<lambda>xs res.
     \<exists>got. xs = [Reader_Get (ObjectKey (ZERS_Meta resource)) got] \<and>
       (\<forall>current. res = Inr current \<longrightarrow> got = Inr current \<and> same_instance resource current))"
  unfolding readRoleSync_def Let_def
  by (intro yields_intros) (auto simp: same_instance_def split: sum.splits if_splits)

lemma readOwnership_yields:
  "yields (readOwnership r resource) (\<lambda>xs res. effect_free xs \<and>
     (\<forall>self others owners. res = Inr (self, others, owners) \<longrightarrow> ownership_view resource xs self others owners))"
  unfolding readOwnership_def Let_def
  by (intro yields_intros yields_mono [OF readRoleSync_yields]) (auto intro: ownership_view.intros)

lemma readDirectory_yields: "yields (readDirectory r resource) (\<lambda>xs res. effect_free xs)"
  unfolding readDirectory_def Let_def by (intro yields_intros) auto

text \<open>
  The graph snapshot of a successful read is the one its calls describe: the scope of the
  service principal and its assignments, and for every group of the scope the users listed.
\<close>

fun group_reads :: "string list \<Rightarrow> rcall list \<Rightarrow> (string, User list) gomap \<Rightarrow> bool" where
  "group_reads [] xs ms = (xs = [])"
| "group_reads (g # gs) (Graph_GroupUsers g' (Inr users) # xs) ms =
     (g' = g \<and> mget ms g = users \<and> list_all (\<lambda>u. UserPrincipalName u \<noteq> []) users \<and> group_reads gs xs ms)"
| "group_reads (g # gs) _ ms = False"

definition graph_view :: "string \<Rightarrow> rcall list \<Rightarrow> Input \<Rightarrow> bool" where
  "graph_view appID xs input \<longleftrightarrow> (\<exists>sp assignments ys.
     xs = Graph_ServicePrincipal appID (Inr (Some sp)) # Graph_Assigned (ServicePrincipal_ID sp) (Inr assignments) # ys \<and>
     ResolveRoleScope sp assignments = Inr (Scope input) \<and>
     group_reads (GroupIDs (Scope input)) ys (MembersByGroup input))"

lemma readGroups_yields:
  "distinct gs \<Longrightarrow> yields (readGroups directory input gs) (\<lambda>xs res. effect_free xs \<and>
     (case res of Inl err \<Rightarrow> True
      | Inr input' \<Rightarrow> Scope input' = Scope input \<and> group_reads gs xs (MembersByGroup input') \<and>
          (\<forall>k. k \<notin> set gs \<longrightarrow> mget (MembersByGroup input') k = mget (MembersByGroup input) k)))"
proof (induction gs arbitrary: input)
  case (Cons g gs)
  then have "distinct gs" and g: "g \<notin> set gs" by simp_all
  note ih = Cons.IH [OF this(1)]
  show ?case
    unfolding readGroups.simps
    by (intro yields_intros yields_mono [OF ih]) (auto simp: g list_ex_iff list_all_iff split: sum.splits)
qed (auto intro: yields_return)

lemma readGraph_yields:
  "yields (readGraph directory resource) (\<lambda>xs res. effect_free xs \<and>
     (\<forall>input. res = Inr input \<longrightarrow> graph_view (AppID (ZERS_Spec resource)) xs input))"
  unfolding readGraph_def Let_def
  by (intro yields_intros yields_mono [OF readGroups_yields])
     (auto simp: graph_view_def dest: resolved_scope_wf distinct_GroupIDs split: sum.splits)

lemma graph_view_wf: "graph_view appID xs input \<Longrightarrow> scope_wf (Scope input)"
  by (auto simp: graph_view_def dest: resolved_scope_wf)

text \<open>Recording: nothing to do, a failure without a successful write, or one stored write.\<close>

inductive record_calls ::
  "ZitiEntraRoleSync \<Rightarrow> SyncClaim \<Rightarrow> string list \<Rightarrow> rcall list \<Rightarrow> error option \<Rightarrow> bool"
  for resource self vals where
  already: "set (ManagedAttributes self) = set vals \<Longrightarrow> record_calls resource self vals [] None"
| refused: "effect_free xs \<Longrightarrow> record_calls resource self vals xs (Some err)"
| rejected: "same_instance resource current \<Longrightarrow>
    set (Status_ManagedAttributes (ZERS_Status current)) = set (ManagedAttributes self) \<Longrightarrow>
    obj = current\<lparr>ZERS_Status := (ZERS_Status current)\<lparr>Status_ManagedAttributes := vals\<rparr>\<rparr> \<Longrightarrow>
    record_calls resource self vals
      [Reader_Get (ObjectKey (ZERS_Meta resource)) (Inr current), Sync_Kube (KStatus obj (Inl err))] (Some err)"
| recorded: "same_instance resource current \<Longrightarrow>
    set (Status_ManagedAttributes (ZERS_Status current)) = set (ManagedAttributes self) \<Longrightarrow>
    obj = current\<lparr>ZERS_Status := (ZERS_Status current)\<lparr>Status_ManagedAttributes := vals\<rparr>\<rparr> \<Longrightarrow>
    record_calls resource self vals
      [Reader_Get (ObjectKey (ZERS_Meta resource)) (Inr current), Sync_Kube (KStatus obj (Inr stored))] None"

inductive_cases record_calls_NoneE: "record_calls resource self vals xs None"

definition same_object :: "ZitiEntraRoleSync \<Rightarrow> ZitiEntraRoleSync \<Rightarrow> bool" where
  "same_object a b \<longleftrightarrow> ObjectKey (ZERS_Meta a) = ObjectKey (ZERS_Meta b) \<and>
     UID (ZERS_Meta a) = UID (ZERS_Meta b) \<and> Generation (ZERS_Meta a) = Generation (ZERS_Meta b) \<and>
     ZERS_Spec a = ZERS_Spec b"

lemma ObjectKey_ResourceVersion [simp]: "ObjectKey (meta\<lparr>ResourceVersion := v\<rparr>) = ObjectKey meta"
  by (simp add: ObjectKey_def)

lemma recordRoleClaims_yields:
  "yields (recordRoleClaims r resource self vals) (\<lambda>xs res.
     record_calls resource self vals xs (fst res) \<and> same_object (snd res) resource)"
  unfolding recordRoleClaims_def Let_def
  by (intro yields_intros yields_mono [OF readRoleSync_yields])
     (auto simp: same_object_def intro: record_calls.intros split: sum.splits)

end
