(* ===== verification/Sync_Writes.thy ===== *)
theory Sync_Writes
  imports Sync_Reads
begin

text \<open>
  \<^verbatim>\<open>internal/controller/zitientrarolesync_writes.go\<close>: the write phase. Each planned patch is
  checked again against the current identity, claims and owners right before it is sent.
\<close>

section \<open>Definitions\<close>

definition roleChanges :: "string list \<Rightarrow> string list \<Rightarrow> string list \<times> string list" where
  "roleChanges before after =
     (let added = filter (\<lambda>value. value \<notin> set before) after;
          removed = filter (\<lambda>value. value \<notin> set after) before
      in (sortCompact added, sortCompact removed))"

definition zero_Outcome :: IdentityOutcome where
  "zero_Outcome = \<lparr>Outcome_IdentityID = [], Kind = Failed, Outcome_RoleAttributes = [], Outcome_Err = None,
     Outcome_ConflictValues = []\<rparr>"

definition applyRolePatch ::
  "'w ZitiEntraRoleSyncReconciler \<Rightarrow> ZitiEntraRoleSync \<Rightarrow> PlanResult \<Rightarrow> IdentityPatch
     \<Rightarrow> ('w, rcall, IdentityOutcome) io" where
  "applyRolePatch r resource plan patch = do {
     let outcome = zero_Outcome\<lparr>Outcome_IdentityID := Patch_IdentityID patch, Kind := Failed\<rparr>;
     fresh \<leftarrow> call (Ziti_Get (Patch_IdentityID patch)) (GetIdentity (Sync_ZitiClient r) (Patch_IdentityID patch));
     case fresh of
       Inl err \<Rightarrow> State_Monad.return (outcome\<lparr>Outcome_Err := Some err\<rparr>)
     | Inr fresh \<Rightarrow> do {
         let outcome = (case fresh of None \<Rightarrow> outcome
           | Some fresh \<Rightarrow> outcome\<lparr>Outcome_RoleAttributes := RoleAttributes fresh\<rparr>);
         ownership \<leftarrow> readOwnership r resource;
         case ownership of
           Inl err \<Rightarrow> State_Monad.return (outcome\<lparr>Outcome_Err := Some err\<rparr>)
         | Inr (self, others, owners) \<Rightarrow> (
             let ownership = ResolveOwnership \<lparr>Self = self, Candidates = ManagedValues plan, Others = others\<rparr>
             in if Conflicts ownership \<noteq> []
                then State_Monad.return (outcome\<lparr>Kind := Conflicted, Outcome_ConflictValues := Conflicts ownership\<rparr>)
                else case fresh of
                  None \<Rightarrow> State_Monad.return (outcome\<lparr>Kind := Deleted\<rparr>)
                | Some fresh \<Rightarrow>
                    if IdentityOwned fresh owners \<or> ExternalID fresh = [] \<or>
                       \<not> EqualFold (Sync_uc r) (ExternalID fresh) (Patch_ExternalID patch)
                    then State_Monad.return (outcome\<lparr>Kind := Skipped\<rparr>)
                    else (
                      let next_attrs = MergeAttributes (RoleAttributes fresh) (ManagedValues plan) (GrantedAttributes patch)
                      in if sameRoleSet (RoleAttributes fresh) next_attrs
                         then State_Monad.return (outcome\<lparr>Kind := Observed\<rparr>)
                         else do {
                           err \<leftarrow> ask (ctx_Err r);
                           case err of
                             Some err \<Rightarrow> State_Monad.return (outcome\<lparr>Outcome_Err := Some err\<rparr>)
                           | None \<Rightarrow> do {
                               err \<leftarrow> call (Ziti_Patch (Patch_IdentityID patch) next_attrs)
                                 (PatchIdentityRoleAttributes (Sync_ZitiClient r) (Patch_IdentityID patch) next_attrs);
                               case err of
                                 Some err \<Rightarrow> State_Monad.return (outcome\<lparr>Outcome_Err := Some err\<rparr>)
                               | None \<Rightarrow> do {
                                   let outcome = outcome\<lparr>Kind := Patched, Outcome_RoleAttributes := next_attrs\<rparr>;
                                   let (added, removed) = roleChanges (RoleAttributes fresh) next_attrs;
                                   _ \<leftarrow> EmitEvent (Sync_Client r) Sync_Kube EventTypeNormal ''RoleAttributesUpdated''
                                     (''Identity '' @ Patch_IdentityID patch @ '' (externalId='' @
                                      Quote (Sync_uc r) (ExternalID fresh) @ ''): added='' @ show_strings added @
                                      '' removed='' @ show_strings removed);
                                   State_Monad.return outcome
                                 }
                             }
                         }))
       }
   }"

text \<open>The loop of \<^verbatim>\<open>writeRolePlan\<close> over the patches that are left.\<close>

fun writePatches ::
  "'w ZitiEntraRoleSyncReconciler \<Rightarrow> ZitiEntraRoleSync \<Rightarrow> PlanResult \<Rightarrow> IdentityOutcome list \<Rightarrow> IdentityPatch list
     \<Rightarrow> ('w, rcall, IdentityOutcome list) io" where
  "writePatches r resource plan outcomes [] = do {
     err \<leftarrow> ask (ctx_Err r);
     State_Monad.return (case err of None \<Rightarrow> outcomes
       | Some err \<Rightarrow> outcomes @ [zero_Outcome\<lparr>Kind := Failed, Outcome_Err := Some err\<rparr>])
   }"
| "writePatches r resource plan outcomes (patch # patches) = do {
     err \<leftarrow> ask (ctx_Err r);
     case err of
       Some err \<Rightarrow> State_Monad.return (outcomes @
         [zero_Outcome\<lparr>Outcome_IdentityID := Patch_IdentityID patch, Kind := Failed, Outcome_Err := Some err\<rparr>])
     | None \<Rightarrow> do {
         outcome \<leftarrow> applyRolePatch r resource plan patch;
         let outcomes = outcomes @ [outcome];
         if StopsWrites outcome then State_Monad.return outcomes
         else writePatches r resource plan outcomes patches
       }
   }"

definition writeRolePlan ::
  "'w ZitiEntraRoleSyncReconciler \<Rightarrow> ZitiEntraRoleSync \<Rightarrow> PlanResult \<Rightarrow> ('w, rcall, IdentityOutcome list) io" where
  "writeRolePlan r resource plan = writePatches r resource plan [] (Patches plan)"

section \<open>One patch\<close>

lemma roleChanges_spec:
  "set (fst (roleChanges before after)) = set after - set before"
  "set (snd (roleChanges before after)) = set before - set after"
  by (auto simp: roleChanges_def)

text \<open>
  What must have been observed when a patch is sent: the calls of this run that come right
  before it are a read of the identity and a fresh view of the claims and owners; they show no
  conflict on any managed value, an identity no \<^verbatim>\<open>ZitiIdentity\<close> owns, with the external id of
  the plan, and the attributes sent are the fresh ones with the managed part replaced.
\<close>

inductive checked_patch ::
  "unicode \<Rightarrow> ZitiEntraRoleSync \<Rightarrow> PlanResult \<Rightarrow> IdentityPatch \<Rightarrow> rcall list \<Rightarrow> string list \<Rightarrow> bool"
  for uc resource plan patch where
  "ownership_view resource view self others owners \<Longrightarrow>
   Conflicts (ResolveOwnership \<lparr>Self = self, Candidates = ManagedValues plan, Others = others\<rparr>) = [] \<Longrightarrow>
   \<not> IdentityOwned fresh owners \<Longrightarrow> ExternalID fresh \<noteq> [] \<Longrightarrow>
   EqualFold uc (ExternalID fresh) (Patch_ExternalID patch) \<Longrightarrow>
   attrs = MergeAttributes (RoleAttributes fresh) (ManagedValues plan) (GrantedAttributes patch) \<Longrightarrow>
   set (RoleAttributes fresh) \<noteq> set attrs \<Longrightarrow>
   checked_patch uc resource plan patch (Ziti_Get (Patch_IdentityID patch) (Inr (Some fresh)) # view) attrs"

inductive_cases checked_patchE: "checked_patch uc resource plan patch xs attrs"

text \<open>The calls of one \<open>applyRolePatch\<close> and the outcome they justify.\<close>

inductive patch_calls ::
  "unicode \<Rightarrow> ZitiEntraRoleSync \<Rightarrow> PlanResult \<Rightarrow> IdentityPatch \<Rightarrow> rcall list \<Rightarrow> IdentityOutcome \<Rightarrow> bool"
  for uc resource plan patch where
  failed: "effect_free xs \<Longrightarrow> Kind out = Failed \<Longrightarrow>
    patch_calls uc resource plan patch xs out"
| conflicted: "effect_free xs \<Longrightarrow> Kind out = Conflicted \<Longrightarrow>
    patch_calls uc resource plan patch xs out"
| gone: "effect_free xs \<Longrightarrow> Kind out = Deleted \<Longrightarrow>
    patch_calls uc resource plan patch (Ziti_Get (Patch_IdentityID patch) (Inr None) # xs) out"
| skipped: "ownership_view resource view self others owners \<Longrightarrow>
    IdentityOwned fresh owners \<or> ExternalID fresh = [] \<or> \<not> EqualFold uc (ExternalID fresh) (Patch_ExternalID patch) \<Longrightarrow>
    Kind out = Skipped \<Longrightarrow> Outcome_RoleAttributes out = RoleAttributes fresh \<Longrightarrow>
    patch_calls uc resource plan patch (Ziti_Get (Patch_IdentityID patch) (Inr (Some fresh)) # view) out"
| observed: "effect_free xs \<Longrightarrow> Kind out = Observed \<Longrightarrow> Outcome_RoleAttributes out = RoleAttributes fresh \<Longrightarrow>
    set (RoleAttributes fresh) = set (MergeAttributes (RoleAttributes fresh) (ManagedValues plan) (GrantedAttributes patch)) \<Longrightarrow>
    patch_calls uc resource plan patch (Ziti_Get (Patch_IdentityID patch) (Inr (Some fresh)) # xs) out"
| refused: "checked_patch uc resource plan patch xs attrs \<Longrightarrow> Kind out = Failed \<Longrightarrow> Outcome_Err out = Some err \<Longrightarrow>
    patch_calls uc resource plan patch (xs @ [Ziti_Patch (Patch_IdentityID patch) attrs (Some err)]) out"
| sent: "checked_patch uc resource plan patch xs attrs \<Longrightarrow> Kind out = Patched \<Longrightarrow>
    Outcome_RoleAttributes out = attrs \<Longrightarrow> effect_free ys \<Longrightarrow>
    patch_calls uc resource plan patch (xs @ Ziti_Patch (Patch_IdentityID patch) attrs None # ys) out"

inductive_cases patch_callsE: "patch_calls uc resource plan patch xs out"

lemma patch_callsI:
  assumes "ownership_view resource view self others owners"
    and "Conflicts (ResolveOwnership \<lparr>Self = self, Candidates = ManagedValues plan, Others = others\<rparr>) = []"
    and "\<not> IdentityOwned fresh owners" "ExternalID fresh \<noteq> []"
      "EqualFold uc (ExternalID fresh) (Patch_ExternalID patch)"
    and "set (RoleAttributes fresh) \<noteq> set (MergeAttributes (RoleAttributes fresh) (ManagedValues plan) (GrantedAttributes patch))"
  shows "Kind out = Failed \<Longrightarrow> Outcome_Err out = Some err \<Longrightarrow>
      patch_calls uc resource plan patch (Ziti_Get (Patch_IdentityID patch) (Inr (Some fresh)) # view @
        [Ziti_Patch (Patch_IdentityID patch)
          (MergeAttributes (RoleAttributes fresh) (ManagedValues plan) (GrantedAttributes patch)) (Some err)]) out"
    and "Kind out = Patched \<Longrightarrow>
      Outcome_RoleAttributes out = MergeAttributes (RoleAttributes fresh) (ManagedValues plan) (GrantedAttributes patch) \<Longrightarrow>
      effect_free ys \<Longrightarrow>
      patch_calls uc resource plan patch (Ziti_Get (Patch_IdentityID patch) (Inr (Some fresh)) # view @
        Ziti_Patch (Patch_IdentityID patch)
          (MergeAttributes (RoleAttributes fresh) (ManagedValues plan) (GrantedAttributes patch)) None # ys) out"
  using refused [OF checked_patch.intros [OF assms(1-5) refl assms(6)], of out err]
    sent [OF checked_patch.intros [OF assms(1-5) refl assms(6)], of out ys] by simp_all

lemma applyRolePatch_yields:
  "yields (applyRolePatch r resource plan patch) (\<lambda>xs out.
     patch_calls (Sync_uc r) resource plan patch xs out \<and> Outcome_IdentityID out = Patch_IdentityID patch \<and>
     (Outcome_Err out = None \<or> Kind out = Failed))"
  unfolding applyRolePatch_def Let_def
  by (intro yields_intros EmitEvent_yields yields_mono [OF readOwnership_yields])
     (auto simp: zero_Outcome_def simp del: set_MergeAttributes split: option.splits
       intro: failed conflicted gone skipped observed patch_callsI)

section \<open>The write phase\<close>

text \<open>
  The outcomes of the write phase in order, each with its calls; a failure of the context adds
  an outcome without calls. \<open>writePatches\<close> goes on only while no outcome stops it.
\<close>

inductive write_calls ::
  "unicode \<Rightarrow> ZitiEntraRoleSync \<Rightarrow> PlanResult \<Rightarrow> IdentityPatch list \<Rightarrow> rcall list \<Rightarrow> IdentityOutcome list \<Rightarrow> bool"
  for uc resource plan where
  finished: "write_calls uc resource plan [] [] []"
| expired: "Kind out = Failed \<Longrightarrow> Outcome_Err out \<noteq> None \<Longrightarrow> write_calls uc resource plan patches [] [out]"
| stopped: "patch_calls uc resource plan patch xs out \<Longrightarrow> Outcome_IdentityID out = Patch_IdentityID patch \<Longrightarrow>
    StopsWrites out \<and> Kind out \<in> {Failed, Conflicted} \<Longrightarrow> write_calls uc resource plan (patch # patches) xs [out]"
| further: "patch_calls uc resource plan patch xs out \<Longrightarrow> Outcome_IdentityID out = Patch_IdentityID patch \<Longrightarrow>
    \<not> StopsWrites out \<Longrightarrow> write_calls uc resource plan patches ys outs \<Longrightarrow>
    write_calls uc resource plan (patch # patches) (xs @ ys) (out # outs)"

lemma writePatches_yields:
  "yields (writePatches r resource plan outs patches) (\<lambda>xs res.
     \<exists>new. res = outs @ new \<and> write_calls (Sync_uc r) resource plan patches xs new)"
proof (induction patches arbitrary: outs)
  case Nil
  show ?case
    unfolding writePatches.simps
    by (intro yields_intros) (auto simp: zero_Outcome_def intro: write_calls.intros split: option.splits)
next
  case (Cons patch patches)
  show ?case
    unfolding writePatches.simps Let_def
    by (intro yields_intros yields_mono [OF applyRolePatch_yields] yields_mono [OF Cons.IH])
       (auto simp: zero_Outcome_def StopsWrites_def is_err_def intro!: write_calls.intros)
qed

lemma writeRolePlan_yields:
  "yields (writeRolePlan r resource plan) (write_calls (Sync_uc r) resource plan (Patches plan))"
  unfolding writeRolePlan_def using writePatches_yields [of r resource plan "[]" "Patches plan"] by simp

section \<open>What the trace of a write phase shows\<close>

lemma checked_patch_reads: "checked_patch uc resource plan patch xs attrs \<Longrightarrow> effect_free xs"
  by (auto elim!: checked_patchE dest: ownership_view_reads)

lemma effect_free_patch: "effect_free xs \<Longrightarrow> Ziti_Patch ident attrs res \<notin> set xs"
  by (auto simp: effect_free_def list_all_iff)

lemma patch_calls_patch:
  assumes "patch_calls uc resource plan patch xs out" "xs = pre @ Ziti_Patch ident attrs res # post"
  shows "ident = Patch_IdentityID patch \<and> checked_patch uc resource plan patch pre attrs"
  using assms
proof (cases rule: patch_calls.cases)
  case (refused ys attrs' err)
  with assms(2) checked_patch_reads [OF refused(2)] show ?thesis
    by (auto simp: append_eq_append_conv2 append_eq_Cons_conv Cons_eq_append_conv dest: effect_free_patch)
next
  case (sent ys attrs' zs)
  with assms(2) checked_patch_reads [OF sent(2)] show ?thesis
    by (auto simp: append_eq_append_conv2 append_eq_Cons_conv Cons_eq_append_conv dest: effect_free_patch)
qed (use assms(2) in \<open>auto simp: Cons_eq_append_conv dest!: ownership_view_reads dest: effect_free_patch\<close>)

lemma write_calls_patch:
  "write_calls uc resource plan patches xs outs \<Longrightarrow> xs = pre @ Ziti_Patch ident attrs res # post \<Longrightarrow>
   \<exists>patch \<in> set patches. \<exists>ys zs. ident = Patch_IdentityID patch \<and> pre = ys @ zs \<and>
     checked_patch uc resource plan patch zs attrs"
proof (induction arbitrary: pre rule: write_calls.induct)
  case (stopped patch xs out patches)
  from patch_calls_patch [OF stopped(1,4)] show ?case by fastforce
next
  case (further patch xs out patches ys outs)
  from further.prems consider
      us where "xs = pre @ Ziti_Patch ident attrs res # us"
    | us where "pre = xs @ us" "ys = us @ Ziti_Patch ident attrs res # post"
    by (auto simp: append_eq_append_conv2 Cons_eq_append_conv append_eq_Cons_conv)
  then show ?case
  proof cases
    case 1
    from patch_calls_patch [OF further(1) this] show ?thesis by fastforce
  next
    case 2
    from further.IH [OF 2(2)] 2(1) show ?thesis by fastforce
  qed
qed auto

text \<open>What an outcome says about an identity was seen in the calls.\<close>

definition evidence :: "rcall list \<Rightarrow> IdentityOutcome \<Rightarrow> bool" where
  "evidence xs out \<longleftrightarrow>
     (case Kind out of
        Deleted \<Rightarrow> Ziti_Get (Outcome_IdentityID out) (Inr None) \<in> set xs
      | Patched \<Rightarrow> Ziti_Patch (Outcome_IdentityID out) (Outcome_RoleAttributes out) None \<in> set xs
      | Failed \<Rightarrow> True
      | Conflicted \<Rightarrow> True
      | _ \<Rightarrow> (\<exists>fresh. Ziti_Get (Outcome_IdentityID out) (Inr (Some fresh)) \<in> set xs \<and>
                Outcome_RoleAttributes out = RoleAttributes fresh))"

lemma evidence_mono: "evidence xs out \<Longrightarrow> set xs \<subseteq> set ys \<Longrightarrow> evidence ys out"
  by (auto simp: evidence_def split: OutcomeKind.splits)

lemma patch_calls_evidence:
  "patch_calls uc resource plan patch xs out \<Longrightarrow> Outcome_IdentityID out = Patch_IdentityID patch \<Longrightarrow> evidence xs out"
  by (erule patch_callsE) (auto simp: evidence_def)

lemma write_calls_evidence:
  "write_calls uc resource plan patches xs outs \<Longrightarrow> out \<in> set outs \<Longrightarrow> evidence xs out"
  by (induction rule: write_calls.induct)
     (auto simp: evidence_def [of "[]"] dest: patch_calls_evidence intro: evidence_mono)

text \<open>The write phase touches nothing of the resource and warns about nothing.\<close>

lemma effect_free_absent: "effect_free xs \<Longrightarrow> has_effect c \<Longrightarrow> c \<notin> set xs"
  by (auto simp: effect_free_def list_all_iff)

lemma effect_free_status: "effect_free xs \<Longrightarrow> Sync_Kube (KStatus obj res) \<notin> set xs"
  by (rule effect_free_absent) simp_all

lemma patch_calls_absent:
  "patch_calls uc resource plan patch xs out \<Longrightarrow> has_effect c \<Longrightarrow> \<not> is_patch c \<Longrightarrow> c \<notin> set xs"
  by (erule patch_callsE) (auto simp: effect_free_absent dest!: checked_patch_reads ownership_view_reads)

lemma write_calls_absent:
  "write_calls uc resource plan patches xs outs \<Longrightarrow> has_effect c \<Longrightarrow> \<not> is_patch c \<Longrightarrow> c \<notin> set xs"
  by (induction rule: write_calls.induct) (auto simp: patch_calls_absent)

lemma write_calls_no_status:
  "write_calls uc resource plan patches xs outs \<Longrightarrow> Sync_Kube (KStatus obj res) \<notin> set xs"
  by (rule write_calls_absent) simp_all

end
