(* ===== verification/Sync_Status.thy ===== *)
theory Sync_Status
  imports Sync_Writes
begin

text \<open>
  \<^verbatim>\<open>internal/controller/zitientrarolesync_status.go\<close>: what a run leaves in the resource's
  status, which event it emits, and when the resource is reconciled again.
\<close>

section \<open>Definitions\<close>

fun copyUnmatched :: "EntraUnmatchedMember list \<Rightarrow> UnmatchedMember list \<Rightarrow> EntraUnmatchedMember list" where
  "copyUnmatched acc [] = acc"
| "copyUnmatched acc (member # rest) =
     (if length acc = 50 then acc
      else copyUnmatched (acc @ [\<lparr>Entra_ID = Unmatched_ID member, Entra_DisplayName = Unmatched_DisplayName member,
        Entra_ExternalID = Unmatched_ExternalID member, Entra_Reason = Unmatched_Reason member\<rparr>]) rest)"

definition updateRoleSyncCounters ::
  "ZitiEntraRoleSyncStatus \<Rightarrow> PlanResult \<Rightarrow> Completion \<Rightarrow> ZitiEntraRoleSyncStatus" where
  "updateRoleSyncCounters status plan completion =
     status\<lparr>Status_MatchedIdentities := MatchedIdentities plan,
       Status_IdentitiesUpdated := IdentitiesUpdated completion,
       Status_MembersWithoutIdentity := MembersWithoutIdentity plan,
       Status_UnmatchedMembers := copyUnmatched [] (UnmatchedMembers plan)\<rparr>"

definition setRoleSyncConditions ::
  "'w ZitiEntraRoleSyncReconciler \<Rightarrow> ZitiEntraRoleSyncStatus \<Rightarrow> int \<Rightarrow> string \<Rightarrow> string \<Rightarrow> bool
     \<Rightarrow> ('w, rcall, ZitiEntraRoleSyncStatus) io" where
  "setRoleSyncConditions r status generation reason message ready = do {
     let k = Sync_Client r;
     let (readyStatus, degradedStatus) =
       (if ready then (ConditionTrue, ConditionFalse) else (ConditionFalse, ConditionTrue));
     let (reconcilingReason, degradedReason) =
       (if ready then (''Reconciled'', ''AsExpected'') else (reason, reason));
     t1 \<leftarrow> ask (Now k);
     let common = SetStatusCondition (k_lib k) (SyncStatus_Common status)
       (mk_condition ConditionTypeReady readyStatus reason message generation t1);
     t2 \<leftarrow> ask (Now k);
     let common = SetStatusCondition (k_lib k) common
       (mk_condition ConditionTypeReconciling ConditionFalse reconcilingReason message generation t2);
     t3 \<leftarrow> ask (Now k);
     let common = SetStatusCondition (k_lib k) common
       (mk_condition ConditionTypeDegraded degradedStatus degradedReason message generation t3);
     State_Monad.return (status\<lparr>SyncStatus_Common := common\<rparr>)
   }"

definition roleSyncMessage :: "syncRunResult \<Rightarrow> string" where
  "roleSyncMessage result =
     (case Run_Err result of
        Some err \<Rightarrow> normalizeReconcileErrorMessage (Error err)
      | None \<Rightarrow>
          let reason = Run_Reason result
          in if reason = syncReasonSynced then ''Entra role attributes are synchronized''
             else if reason = syncReasonCleanupPending then ''Retired attributes remain on skipped identities''
             else if reason = syncReasonWouldRemoveAll
             then ''Refusing to remove every managed attribute from eligible identities''
             else if reason = syncReasonConflict then
               (case Run_Completion result of
                  Some completion \<Rightarrow>
                    ''Attributes owned by another role sync: '' @ join '', '' (Completion_ConflictValues completion)
                | None \<Rightarrow> ''Another role sync owns a managed attribute'')
             else reason)"

definition persistSyncResult ::
  "'w ZitiEntraRoleSyncReconciler \<Rightarrow> ZitiEntraRoleSync \<Rightarrow> syncRunResult
     \<Rightarrow> ('w, rcall, error option \<times> ZitiEntraRoleSync) io" where
  "persistSyncResult r resource result = do {
     current \<leftarrow> readRoleSync r resource;
     case current of
       Inl err \<Rightarrow> State_Monad.return (Some err, resource)
     | Inr current \<Rightarrow> do {
         let previous = ZERS_Status current;
         let generation = Generation (ZERS_Meta resource);
         let ready = (case Run_Completion result of None \<Rightarrow> False | Some c \<Rightarrow> Ready c);
         let message = roleSyncMessage result;
         let repeatedFailure = (\<not> ready \<and>
           hasMatchingFailureStatus (k_lib (Sync_Client r)) (SyncStatus_Common previous) generation (Run_Reason result) message);
         let status = previous\<lparr>SyncStatus_Common := (SyncStatus_Common previous)\<lparr>Status_ID := [],
           ObservedGeneration := generation, LastError := (if \<not> ready then message else [])\<rparr>\<rparr>;
         status \<leftarrow> (case Run_Completion result of
             None \<Rightarrow> State_Monad.return status
           | Some c \<Rightarrow> do {
               let status = status\<lparr>Status_ManagedAttributes := Completion_ManagedAttributes c\<rparr>;
               if AdvanceLastSyncTime c then do {
                 now \<leftarrow> ask (Now (Sync_Client r));
                 State_Monad.return (status\<lparr>LastSyncTime := Some now\<rparr>)
               } else State_Monad.return status
             });
         let status = (case (Run_Plan result, Run_Completion result) of
             (Some plan, Some c) \<Rightarrow> if WritePhaseStarted result then updateRoleSyncCounters status plan c else status
           | _ \<Rightarrow> status);
         status \<leftarrow> setRoleSyncConditions r status generation (Run_Reason result) message ready;
         let current = current\<lparr>ZERS_Status := status\<rparr>;
         stored \<leftarrow> (if \<not> DeepEqual (Sync_Client r) previous status
           then call (\<lambda>res. Sync_Kube (KStatus current res)) (Status_Update (Sync_Client r) current)
           else State_Monad.return (Inr current));
         case stored of
           Inl err \<Rightarrow> State_Monad.return (Some err, resource)
         | Inr current \<Rightarrow> do {
             let resource = resource\<lparr>ZERS_Status := ZERS_Status current,
               ZERS_Meta := (ZERS_Meta resource)\<lparr>ResourceVersion := ResourceVersion (ZERS_Meta current)\<rparr>\<rparr>;
             if \<not> ready \<and> \<not> repeatedFailure then do {
               _ \<leftarrow> EmitEvent (Sync_Client r) Sync_Kube EventTypeWarning (Run_Reason result) message;
               State_Monad.return (None, resource)
             } else State_Monad.return (None, resource)
           }
       }
   }"

definition retryResult :: "duration \<Rightarrow> string \<Rightarrow> error option \<Rightarrow> duration \<Rightarrow> Result \<times> error option" where
  "retryResult interval reason err retryAfter =
     (let later = (zero_Result\<lparr>RequeueAfter := interval\<rparr>, None);
          failed = (zero_Result, Some (case err of Some e \<Rightarrow> e | None \<Rightarrow> New (''role sync failed: '' @ reason)));
          limited = (\<lambda>status. if (status = 429 \<or> status = 503) \<and> retryAfter > 0
                              then (zero_Result\<lparr>RequeueAfter := retryAfter\<rparr>, None) else failed);
          graph = (\<lambda>status. case Option.bind err errors_As_Graph of
              None \<Rightarrow> limited status
            | Some g \<Rightarrow> if Graph_StatusCode g = 401 \<or> Graph_StatusCode g = 403 then later
                        else limited (Graph_StatusCode g))
      in if reason \<in> {syncReasonSynced, syncReasonCleanupPending, syncReasonInvalidSpec, syncReasonConflict,
                      syncReasonWouldRemoveAll} then later
         else if reason = syncReasonGraphError then
           (if is_err err ErrServicePrincipalNotFound \<or> is_err err ErrLimitedUserData \<or> is_err err ErrNoUserRoles
            then later
            else case Option.bind err errors_As_Token of
                None \<Rightarrow> graph 0
              | Some token \<Rightarrow> if \<not> TokenError_Transient token then later else graph (Token_StatusCode token))
         else failed)"

section \<open>Scheduling\<close>

text \<open>Whatever the run's reason, the resource is scheduled again: after a positive delay or
  through an error, which the work queue retries.\<close>

definition rescheduled :: "Result \<times> error option \<Rightarrow> bool" where
  "rescheduled res \<longleftrightarrow> snd res \<noteq> None \<or> RequeueAfter (fst res) > 0"

lemma retryResult_cases:
  "retryResult interval reason err retryAfter = (zero_Result\<lparr>RequeueAfter := interval\<rparr>, None) \<or>
   retryResult interval reason err retryAfter = (zero_Result\<lparr>RequeueAfter := retryAfter\<rparr>, None) \<and> retryAfter > 0 \<and>
     reason = syncReasonGraphError \<or>
   (\<exists>e. retryResult interval reason err retryAfter = (zero_Result, Some e) \<and> (\<forall>x. err = Some x \<longrightarrow> e = x))"
  by (auto simp: retryResult_def Let_def split: option.splits)

lemma retryResult_rescheduled: "interval > 0 \<Longrightarrow> rescheduled (retryResult interval reason err retryAfter)"
  using retryResult_cases [of interval reason err retryAfter] by (auto simp: rescheduled_def)

lemma validateRoleSyncSpec_interval: "Minute \<le> fst (validateRoleSyncSpec r resource)"
  by (auto simp: validateRoleSyncSpec_def Let_def Minute_def split: option.splits)

section \<open>The stored status\<close>

lemma copyUnmatched_length: "length acc \<le> 50 \<Longrightarrow> length (copyUnmatched acc ms) \<le> 50"
  by (induction acc ms rule: copyUnmatched.induct) auto

definition run_ready :: "syncRunResult \<Rightarrow> bool" where
  "run_ready result \<longleftrightarrow> (\<exists>c. Run_Completion result = Some c \<and> Ready c)"

text \<open>The status a run stores, given the one it read.\<close>

definition result_status ::
  "apimeta \<Rightarrow> int \<Rightarrow> syncRunResult \<Rightarrow> ZitiEntraRoleSyncStatus \<Rightarrow> ZitiEntraRoleSyncStatus \<Rightarrow> bool" where
  "result_status lib generation result old new \<longleftrightarrow>
     (if run_ready result then hasReadyStatus lib (SyncStatus_Common new) generation
      else hasMatchingFailureStatus lib (SyncStatus_Common new) generation (Run_Reason result) (roleSyncMessage result)) \<and>
     Status_ManagedAttributes new =
       (case Run_Completion result of None \<Rightarrow> Status_ManagedAttributes old | Some c \<Rightarrow> Completion_ManagedAttributes c) \<and>
     (LastSyncTime new \<noteq> LastSyncTime old \<longrightarrow> (\<exists>c. Run_Completion result = Some c \<and> AdvanceLastSyncTime c)) \<and>
     (if WritePhaseStarted result \<and> Run_Plan result \<noteq> None \<and> Run_Completion result \<noteq> None
      then Status_IdentitiesUpdated new = IdentitiesUpdated (the (Run_Completion result)) \<and>
        Status_MatchedIdentities new = MatchedIdentities (the (Run_Plan result)) \<and>
        length (Status_UnmatchedMembers new) \<le> 50
      else Status_IdentitiesUpdated new = Status_IdentitiesUpdated old \<and>
        Status_MatchedIdentities new = Status_MatchedIdentities old \<and>
        Status_UnmatchedMembers new = Status_UnmatchedMembers old)"

lemma setRoleSyncConditions_yields:
  assumes ok: "apimeta_ok (k_lib (Sync_Client r))"
    and st: "ObservedGeneration (SyncStatus_Common status) = generation"
      "LastError (SyncStatus_Common status) = (if ready then [] else message)"
  shows "yields (setRoleSyncConditions r status generation reason message ready) (\<lambda>xs new. xs = [] \<and>
    (\<exists>common. new = status\<lparr>SyncStatus_Common := common\<rparr> \<and>
      (if ready then hasReadyStatus (k_lib (Sync_Client r)) common generation
       else hasMatchingFailureStatus (k_lib (Sync_Client r)) common generation reason message)))"
proof -
  let ?lib = "k_lib (Sync_Client r)"
  let ?three = "\<lambda>a b c. SetStatusCondition ?lib (SetStatusCondition ?lib (SetStatusCondition ?lib (SyncStatus_Common status) a) b) c"
  have T: "hasReadyStatus ?lib (?three
        (mk_condition ConditionTypeReady ConditionTrue reason message generation t1)
        (mk_condition ConditionTypeReconciling ConditionFalse ''Reconciled'' message generation t2)
        (mk_condition ConditionTypeDegraded ConditionFalse ''AsExpected'' message generation t3)) generation"
    if ready for t1 t2 t3
    using find_after_three [OF ok, of
      "mk_condition ConditionTypeReady ConditionTrue reason message generation t1"
      "mk_condition ConditionTypeReconciling ConditionFalse ''Reconciled'' message generation t2"
      "mk_condition ConditionTypeDegraded ConditionFalse ''AsExpected'' message generation t3"
      "SyncStatus_Common status"] st that
    by (auto simp: hasReadyStatus_def)
  have F: "hasMatchingFailureStatus ?lib (?three
        (mk_condition ConditionTypeReady ConditionFalse reason message generation t1)
        (mk_condition ConditionTypeReconciling ConditionFalse reason message generation t2)
        (mk_condition ConditionTypeDegraded ConditionTrue reason message generation t3)) generation reason message"
    if "\<not> ready" for t1 t2 t3
    using find_after_three [OF ok, of
      "mk_condition ConditionTypeReady ConditionFalse reason message generation t1"
      "mk_condition ConditionTypeReconciling ConditionFalse reason message generation t2"
      "mk_condition ConditionTypeDegraded ConditionTrue reason message generation t3"
      "SyncStatus_Common status"] st that
    by (auto simp: hasMatchingFailureStatus_def)
  from T F show ?thesis
    unfolding setRoleSyncConditions_def Let_def
    by (intro yields_intros) auto
qed

section \<open>Persisting a run\<close>

text \<open>The warning a run emits: none when it is ready or when the failure was already recorded.\<close>

definition run_warning ::
  "'w ZitiEntraRoleSyncReconciler \<Rightarrow> int \<Rightarrow> syncRunResult \<Rightarrow> ZitiEntraRoleSyncStatus \<Rightarrow> rcall list" where
  "run_warning r generation result old =
     (if \<not> run_ready result \<and> has_Recorder (Sync_Client r) \<and>
         \<not> hasMatchingFailureStatus (k_lib (Sync_Client r)) (SyncStatus_Common old) generation
             (Run_Reason result) (roleSyncMessage result)
      then [Sync_Kube (KEvent EventTypeWarning (Run_Reason result) (roleSyncMessage result))] else [])"

inductive persist_calls ::
  "'w ZitiEntraRoleSyncReconciler \<Rightarrow> ZitiEntraRoleSync \<Rightarrow> syncRunResult \<Rightarrow> rcall list \<Rightarrow> error option \<Rightarrow> bool"
  for r resource result where
  unread: "persist_calls r resource result [Reader_Get (ObjectKey (ZERS_Meta resource)) got] (Some err)"
| rejected: "same_instance resource current \<Longrightarrow>
    result_status (k_lib (Sync_Client r)) (Generation (ZERS_Meta resource)) result (ZERS_Status current) new \<Longrightarrow>
    persist_calls r resource result
      [Reader_Get (ObjectKey (ZERS_Meta resource)) (Inr current),
       Sync_Kube (KStatus (current\<lparr>ZERS_Status := new\<rparr>) (Inl err))] (Some err)"
| unchanged: "same_instance resource current \<Longrightarrow>
    result_status (k_lib (Sync_Client r)) (Generation (ZERS_Meta resource)) result (ZERS_Status current) new \<Longrightarrow>
    DeepEqual (Sync_Client r) (ZERS_Status current) new \<Longrightarrow>
    ws = run_warning r (Generation (ZERS_Meta resource)) result (ZERS_Status current) \<Longrightarrow>
    persist_calls r resource result (Reader_Get (ObjectKey (ZERS_Meta resource)) (Inr current) # ws) None"
| stored: "same_instance resource current \<Longrightarrow>
    result_status (k_lib (Sync_Client r)) (Generation (ZERS_Meta resource)) result (ZERS_Status current) new \<Longrightarrow>
    ws = run_warning r (Generation (ZERS_Meta resource)) result (ZERS_Status current) \<Longrightarrow>
    persist_calls r resource result
      (Reader_Get (ObjectKey (ZERS_Meta resource)) (Inr current) #
       Sync_Kube (KStatus (current\<lparr>ZERS_Status := new\<rparr>) (Inr stored)) # ws) None"

inductive_cases persist_callsE: "persist_calls r resource result xs err"

text \<open>The assignments to the status before the conditions are set.\<close>

definition base_status ::
  "int \<Rightarrow> syncRunResult \<Rightarrow> ZitiEntraRoleSyncStatus \<Rightarrow> time option \<Rightarrow> ZitiEntraRoleSyncStatus" where
  "base_status generation result old t =
     (let status = old\<lparr>SyncStatus_Common := (SyncStatus_Common old)\<lparr>Status_ID := [],
            ObservedGeneration := generation, LastError := (if run_ready result then [] else roleSyncMessage result)\<rparr>\<rparr>;
          status = (case Run_Completion result of None \<Rightarrow> status
            | Some c \<Rightarrow> status\<lparr>Status_ManagedAttributes := Completion_ManagedAttributes c,
                LastSyncTime := (if AdvanceLastSyncTime c then t else LastSyncTime old)\<rparr>)
      in case (Run_Plan result, Run_Completion result) of
             (Some plan, Some c) \<Rightarrow> if WritePhaseStarted result then updateRoleSyncCounters status plan c else status
           | _ \<Rightarrow> status)"

lemma base_status_result:
  assumes "if run_ready result then hasReadyStatus lib common generation
    else hasMatchingFailureStatus lib common generation (Run_Reason result) (roleSyncMessage result)"
  shows "result_status lib generation result old ((base_status generation result old t)\<lparr>SyncStatus_Common := common\<rparr>)"
  using assms
  by (auto simp: result_status_def base_status_def updateRoleSyncCounters_def copyUnmatched_length Let_def
      split: option.splits)

lemma base_statusI:
  "run_ready result \<Longrightarrow> hasReadyStatus lib common generation \<Longrightarrow>
   result_status lib generation result old ((base_status generation result old t)\<lparr>SyncStatus_Common := common\<rparr>)"
  "\<not> run_ready result \<Longrightarrow>
   hasMatchingFailureStatus lib common generation (Run_Reason result) (roleSyncMessage result) \<Longrightarrow>
   result_status lib generation result old ((base_status generation result old t)\<lparr>SyncStatus_Common := common\<rparr>)"
  by (simp_all add: base_status_result)

lemma base_status_common:
  "ObservedGeneration (SyncStatus_Common (base_status generation result old t)) = generation"
  "LastError (SyncStatus_Common (base_status generation result old t)) =
     (if run_ready result then [] else roleSyncMessage result)"
  by (auto simp: base_status_def updateRoleSyncCounters_def Let_def split: option.splits)

lemma persistSyncResult_base:
  "persistSyncResult r resource result = do {
     current \<leftarrow> readRoleSync r resource;
     case current of
       Inl err \<Rightarrow> State_Monad.return (Some err, resource)
     | Inr current \<Rightarrow> do {
         let generation = Generation (ZERS_Meta resource);
         t \<leftarrow> (case Run_Completion result of None \<Rightarrow> State_Monad.return None
           | Some c \<Rightarrow> if AdvanceLastSyncTime c then do { now \<leftarrow> ask (Now (Sync_Client r)); State_Monad.return (Some now) }
                       else State_Monad.return None);
         status \<leftarrow> setRoleSyncConditions r (base_status generation result (ZERS_Status current) t) generation
           (Run_Reason result) (roleSyncMessage result) (run_ready result);
         let current' = current\<lparr>ZERS_Status := status\<rparr>;
         stored \<leftarrow> (if \<not> DeepEqual (Sync_Client r) (ZERS_Status current) status
           then call (\<lambda>res. Sync_Kube (KStatus current' res)) (Status_Update (Sync_Client r) current')
           else State_Monad.return (Inr current'));
         case stored of
           Inl err \<Rightarrow> State_Monad.return (Some err, resource)
         | Inr stored \<Rightarrow> do {
             let resource = resource\<lparr>ZERS_Status := ZERS_Status stored,
               ZERS_Meta := (ZERS_Meta resource)\<lparr>ResourceVersion := ResourceVersion (ZERS_Meta stored)\<rparr>\<rparr>;
             if \<not> run_ready result \<and> \<not> (\<not> run_ready result \<and>
                 hasMatchingFailureStatus (k_lib (Sync_Client r)) (SyncStatus_Common (ZERS_Status current)) generation
                   (Run_Reason result) (roleSyncMessage result)) then do {
               _ \<leftarrow> EmitEvent (Sync_Client r) Sync_Kube EventTypeWarning (Run_Reason result) (roleSyncMessage result);
               State_Monad.return (None, resource)
             } else State_Monad.return (None, resource)
           }
       }
   }"
proof -
  have ready: "(case Run_Completion result of None \<Rightarrow> False | Some c \<Rightarrow> Ready c) = run_ready result"
    by (simp add: run_ready_def split: option.splits)
  show ?thesis
    unfolding persistSyncResult_def base_status_def Let_def ready
    by (cases "Run_Completion result"; cases "Run_Plan result") (auto intro!: arg_cong [of _ _ "State_Monad.bind _"] ext split: sum.splits)
qed

lemma persistSyncResult_yields:
  assumes "apimeta_ok (k_lib (Sync_Client r))"
  shows "yields (persistSyncResult r resource result) (\<lambda>xs res. persist_calls r resource result xs (fst res))"
  unfolding persistSyncResult_base Let_def
  by (intro yields_intros EmitEvent_yields yields_mono [OF readRoleSync_yields]
      yields_mono [OF setRoleSyncConditions_yields [OF assms base_status_common]])
     (auto simp: run_warning_def intro: persist_calls.intros base_statusI split: if_splits)

end
