(* ===== verification/Sync_Controller.thy ===== *)
theory Sync_Controller
  imports Sync_Status
begin

text \<open>
  \<^verbatim>\<open>internal/controller/zitientrarolesync_controller.go\<close>: one run of a role sync and its
  \<^verbatim>\<open>Reconcile\<close>. The properties describe the calls a whole reconciliation makes, in order, with
  the responses they got, for every behaviour of the services outside.
\<close>

section \<open>Definitions\<close>

definition runSync ::
  "'w ZitiEntraRoleSyncReconciler \<Rightarrow> ZitiEntraRoleSync \<Rightarrow> ('w, rcall, syncRunResult \<times> ZitiEntraRoleSync) io" where
  "runSync r resource =
     (case snd (validateRoleSyncSpec r resource) of
        Some err \<Rightarrow> State_Monad.return (zero_Run\<lparr>Run_Reason := syncReasonInvalidSpec, Run_Err := Some err\<rparr>, resource)
      | None \<Rightarrow> do {
          directory \<leftarrow> readDirectory r resource;
          case directory of
            Inl err \<Rightarrow> State_Monad.return (zero_Run\<lparr>Run_Reason := syncReasonInvalidSpec, Run_Err := Some err\<rparr>, resource)
          | Inr directory \<Rightarrow> do {
              input \<leftarrow> readGraph directory resource;
              case input of
                Inl err \<Rightarrow> State_Monad.return (graphRunFailure err, resource)
              | Inr input \<Rightarrow> do {
                  identities \<leftarrow> call Ziti_List (ListIdentities (Sync_ZitiClient r));
                  case identities of
                    Inl err \<Rightarrow> State_Monad.return (zero_Run\<lparr>Run_Reason := syncReasonZitiError, Run_Err := Some err\<rparr>, resource)
                  | Inr identities \<Rightarrow> do {
                      ownership \<leftarrow> readOwnership r resource;
                      case ownership of
                        Inl err \<Rightarrow> State_Monad.return (zero_Run\<lparr>Run_Reason := syncReasonZitiError, Run_Err := Some err\<rparr>, resource)
                      | Inr (self, others, owners) \<Rightarrow> (
                          let input = input\<lparr>Identities := identities, Input_Self := self, OtherClaims := others,
                                IdentityOwners := owners, UserProperty := Spec_UserProperty (ZERS_Spec resource)\<rparr>
                          in case BuildPlan (Sync_uc r) input of
                               Inl err \<Rightarrow> State_Monad.return (graphRunFailure err, resource)
                             | Inr plan \<Rightarrow> (
                                 let result = zero_Run\<lparr>Run_Plan := Some plan\<rparr>;
                                     completionInput = \<lparr>Plan = plan, PreviousValues = ManagedAttributes self,
                                       Outcomes = [],
                                       BlockReason = (if Conflicts (Ownership plan) \<noteq> [] then syncReasonConflict
                                         else if WouldRemoveAll plan then syncReasonWouldRemoveAll else []),
                                       ClaimRecorded = False\<rparr>
                                 in if BlockReason completionInput \<noteq> [] then (
                                      let completion = Complete completionInput
                                      in State_Monad.return (result\<lparr>Run_Completion := Some completion,
                                           Run_Reason := Reason completion\<rparr>, resource))
                                    else do {
                                      (err, resource) \<leftarrow> recordRoleClaims r resource self (ManagedValues plan);
                                      case err of
                                        Some err \<Rightarrow> State_Monad.return (result\<lparr>Run_Reason := syncReasonZitiError,
                                          Run_Err := Some err\<rparr>, resource)
                                      | None \<Rightarrow> do {
                                          outcomes \<leftarrow> writeRolePlan r resource plan;
                                          let completion = Complete (completionInput\<lparr>ClaimRecorded := True, Outcomes := outcomes\<rparr>);
                                          State_Monad.return (result\<lparr>WritePhaseStarted := True, Run_Completion := Some completion,
                                            Run_Reason := Reason completion, Run_Err := Completion_Err completion\<rparr>, resource)
                                        }
                                    }))
                    }
                }
            }
        })"

definition Sync_Reconcile ::
  "'w ZitiEntraRoleSyncReconciler \<Rightarrow> ResourceKey \<Rightarrow> ('w, rcall, Result \<times> error option) io" where
  "Sync_Reconcile r key = do {
     got \<leftarrow> call (\<lambda>res. Sync_Kube (KGet key res)) (Get (Sync_Client r) key);
     case got of
       Inl err \<Rightarrow> State_Monad.return (zero_Result, IgnoreNotFound (Some err))
     | Inr resource \<Rightarrow>
         if DeletionTimestamp (ZERS_Meta resource) \<noteq> None then State_Monad.return (zero_Result, None)
         else do {
           let interval = fst (validateRoleSyncSpec r resource);
           (result, resource) \<leftarrow> runSync r resource;
           (err, resource) \<leftarrow> persistSyncResult r resource result;
           case err of
             Some err \<Rightarrow> State_Monad.return (zero_Result, Some err)
           | None \<Rightarrow> State_Monad.return (retryResult interval (Run_Reason result) (Run_Err result) (Run_RetryAfter result))
         }
   }"

section \<open>The calls of a run\<close>

text \<open>
  The snapshot a plan is built from, as the calls that took it: the directory, the identities
  and the view of the claims, and the input they make.
\<close>

inductive snapshot_calls :: "ZitiEntraRoleSync \<Rightarrow> rcall list \<Rightarrow> Input \<Rightarrow> bool" for resource where
  "effect_free cs \<Longrightarrow> graph_view (AppID (ZERS_Spec resource)) gs g \<Longrightarrow>
   ownership_view resource os self others owners \<Longrightarrow>
   input = g\<lparr>Identities := identities, Input_Self := self, OtherClaims := others, IdentityOwners := owners,
     UserProperty := Spec_UserProperty (ZERS_Spec resource)\<rparr> \<Longrightarrow>
   snapshot_calls resource (cs @ gs @ Ziti_List (Inr identities) # os) input"

inductive_cases snapshot_callsE: "snapshot_calls resource xs input"

definition block_reason :: "PlanResult \<Rightarrow> string" where
  "block_reason plan = (if Conflicts (Ownership plan) \<noteq> [] then syncReasonConflict
     else if WouldRemoveAll plan then syncReasonWouldRemoveAll else [])"

definition completion_of :: "PlanResult \<Rightarrow> SyncClaim \<Rightarrow> bool \<Rightarrow> IdentityOutcome list \<Rightarrow> Completion" where
  "completion_of plan self recorded outs =
     Complete \<lparr>Plan = plan, PreviousValues = ManagedAttributes self, Outcomes = outs,
       BlockReason = block_reason plan, ClaimRecorded = recorded\<rparr>"

text \<open>The four ways a run goes: it never gets a plan, the plan is blocked, the claims are not
  recorded, or the write phase runs.\<close>

inductive run_calls ::
  "unicode \<Rightarrow> ZitiEntraRoleSync \<Rightarrow> rcall list \<Rightarrow> syncRunResult \<Rightarrow> bool" for uc resource where
  no_plan: "effect_free xs \<Longrightarrow> Run_Completion result = None \<Longrightarrow> run_calls uc resource xs result"
| blocked: "snapshot_calls resource xs input \<Longrightarrow> BuildPlan uc input = Inr plan \<Longrightarrow> block_reason plan \<noteq> [] \<Longrightarrow>
    Run_Plan result = Some plan \<Longrightarrow> Run_Completion result = Some (completion_of plan (Input_Self input) False []) \<Longrightarrow>
    \<not> WritePhaseStarted result \<Longrightarrow> run_calls uc resource xs result"
| unrecorded: "snapshot_calls resource xs input \<Longrightarrow> BuildPlan uc input = Inr plan \<Longrightarrow> block_reason plan = [] \<Longrightarrow>
    record_calls resource (Input_Self input) (ManagedValues plan) ys (Some err) \<Longrightarrow>
    Run_Completion result = None \<Longrightarrow> run_calls uc resource (xs @ ys) result"
| written: "snapshot_calls resource xs input \<Longrightarrow> BuildPlan uc input = Inr plan \<Longrightarrow> block_reason plan = [] \<Longrightarrow>
    record_calls resource (Input_Self input) (ManagedValues plan) ys None \<Longrightarrow>
    same_object resource' resource \<Longrightarrow>
    write_calls uc resource' plan (Patches plan) zs outs \<Longrightarrow>
    Run_Plan result = Some plan \<Longrightarrow> Run_Completion result = Some (completion_of plan (Input_Self input) True outs) \<Longrightarrow>
    WritePhaseStarted result \<Longrightarrow> run_calls uc resource (xs @ ys @ zs) result"

inductive_cases run_callsE: "run_calls uc resource xs result"

lemma Completion_graphRunFailure [simp]: "Run_Completion (graphRunFailure err) = None"
  by (simp add: graphRunFailure_def Let_def zero_Run_def split: option.splits)

lemma same_object_refl [simp]: "same_object a a"
  by (simp add: same_object_def)

lemma run_callsI:
  assumes "effect_free cs" "graph_view (AppID (ZERS_Spec resource)) gs g" "ownership_view resource os self others owners"
    and "input = g\<lparr>Identities := identities, Input_Self := self, OtherClaims := others, IdentityOwners := owners,
      UserProperty := Spec_UserProperty (ZERS_Spec resource)\<rparr>"
    and "BuildPlan uc input = Inr plan"
  shows "block_reason plan \<noteq> [] \<Longrightarrow> Run_Plan result = Some plan \<Longrightarrow>
      Run_Completion result = Some (completion_of plan self False []) \<Longrightarrow> \<not> WritePhaseStarted result \<Longrightarrow>
      run_calls uc resource (cs @ gs @ Ziti_List (Inr identities) # os) result"
    and "block_reason plan = [] \<Longrightarrow> record_calls resource self (ManagedValues plan) ys (Some err) \<Longrightarrow>
      Run_Completion result = None \<Longrightarrow>
      run_calls uc resource (cs @ gs @ Ziti_List (Inr identities) # os @ ys) result"
    and "block_reason plan = [] \<Longrightarrow> record_calls resource self (ManagedValues plan) ys None \<Longrightarrow>
      same_object resource' resource \<Longrightarrow> write_calls uc resource' plan (Patches plan) zs outs \<Longrightarrow>
      Run_Plan result = Some plan \<Longrightarrow> Run_Completion result = Some (completion_of plan self True outs) \<Longrightarrow>
      WritePhaseStarted result \<Longrightarrow>
      run_calls uc resource (cs @ gs @ Ziti_List (Inr identities) # os @ ys @ zs) result"
  using blocked [OF snapshot_calls.intros [OF assms(1-4)] assms(5), of result]
    unrecorded [OF snapshot_calls.intros [OF assms(1-4)] assms(5), of ys err result]
    written [OF snapshot_calls.intros [OF assms(1-4)] assms(5), of ys resource' zs outs result] assms(4)
  by simp_all

lemma runSync_yields:
  "yields (runSync r resource) (\<lambda>xs res. run_calls (Sync_uc r) resource xs (fst res) \<and> same_object (snd res) resource)"
  unfolding runSync_def Let_def block_reason_def [symmetric]
  apply (intro yields_intros yields_mono [OF readDirectory_yields] yields_mono [OF readGraph_yields]
     yields_mono [OF readOwnership_yields] yields_mono [OF recordRoleClaims_yields] yields_mono [OF writeRolePlan_yields])
  apply (simp_all add: zero_Run_def no_plan)
    apply (elim conjE, rule run_callsI(1) [OF _ _ _ refl], simp_all add: completion_of_def)
   apply (elim conjE, rule run_callsI(3) [OF _ _ _ refl], assumption+, simp_all add: completion_of_def)
  apply (elim conjE, rule run_callsI(2) [OF _ _ _ refl], simp_all)
  done

section \<open>The calls of a reconciliation\<close>

inductive sync_calls ::
  "'w ZitiEntraRoleSyncReconciler \<Rightarrow> ResourceKey \<Rightarrow> rcall list \<Rightarrow> Result \<times> error option \<Rightarrow> bool" for r key where
  unavailable: "sync_calls r key [Sync_Kube (KGet key (Inl err))] (zero_Result, IgnoreNotFound (Some err))"
| deleting: "DeletionTimestamp (ZERS_Meta resource) \<noteq> None \<Longrightarrow>
    sync_calls r key [Sync_Kube (KGet key (Inr resource))] (zero_Result, None)"
| unsaved: "DeletionTimestamp (ZERS_Meta resource) = None \<Longrightarrow> run_calls (Sync_uc r) resource xs result \<Longrightarrow>
    same_object resource' resource \<Longrightarrow> persist_calls r resource' result ys (Some err) \<Longrightarrow>
    sync_calls r key (Sync_Kube (KGet key (Inr resource)) # xs @ ys) (zero_Result, Some err)"
| saved: "DeletionTimestamp (ZERS_Meta resource) = None \<Longrightarrow> run_calls (Sync_uc r) resource xs result \<Longrightarrow>
    same_object resource' resource \<Longrightarrow> persist_calls r resource' result ys None \<Longrightarrow>
    sync_calls r key (Sync_Kube (KGet key (Inr resource)) # xs @ ys)
      (retryResult (fst (validateRoleSyncSpec r resource)) (Run_Reason result) (Run_Err result) (Run_RetryAfter result))"

lemma Sync_Reconcile_yields:
  assumes "apimeta_ok (k_lib (Sync_Client r))"
  shows "yields (Sync_Reconcile r key) (sync_calls r key)"
  unfolding Sync_Reconcile_def Let_def
  by (intro yields_intros yields_mono [OF runSync_yields] yields_mono [OF persistSyncResult_yields [OF assms]])
     (auto intro: sync_calls.intros)

lemma Sync_Reconcile_calls:
  assumes "apimeta_ok (k_lib (Sync_Client r))" "run_state (Sync_Reconcile r key) s = (res, s')"
    and "trace s' = trace s @ xs"
  shows "sync_calls r key xs res"
  using yieldsD [OF Sync_Reconcile_yields [OF assms(1)] assms(2)] assms(3) by auto

text \<open>Every reconciliation that ran splits into the run and the persisting calls.\<close>

lemma sync_calls_run:
  assumes "sync_calls r key zs res" "c \<in> set zs" "has_effect c"
  obtains resource xs result resource' ys err where "zs = Sync_Kube (KGet key (Inr resource)) # xs @ ys"
    "run_calls (Sync_uc r) resource xs result" "same_object resource' resource"
    "persist_calls r resource' result ys err"
  using assms by (cases rule: sync_calls.cases) auto

lemma persist_calls_no_patch: "persist_calls r resource result xs err \<Longrightarrow> Ziti_Patch ident attrs e \<notin> set xs"
  by (auto elim!: persist_callsE simp: run_warning_def)

lemma same_object_views:
  assumes "same_object a b"
  shows "ownership_view a = ownership_view b" "checked_patch uc a = checked_patch uc b"
proof -
  have same: "same_instance a = same_instance b" "ObjectKey (ZERS_Meta a) = ObjectKey (ZERS_Meta b)"
    using assms by (auto simp: same_object_def same_instance_def fun_eq_iff)
  show v: "ownership_view a = ownership_view b"
    by (auto simp: fun_eq_iff ownership_view.simps same)
  show "checked_patch uc a = checked_patch uc b"
    by (auto simp: fun_eq_iff checked_patch.simps v)
qed

lemma snapshot_calls_reads: "snapshot_calls resource xs input \<Longrightarrow> effect_free xs"
proof (erule snapshot_callsE)
  fix cs gs g os self others owners identities
  assume a: "xs = cs @ gs @ Ziti_List (Inr identities) # os" "effect_free cs"
    "graph_view (AppID (ZERS_Spec resource)) gs g" "ownership_view resource os self others owners"
  have "effect_free ys" if "group_reads is ys ms" for "is" ys ms
    using that by (induction "is" ys ms rule: group_reads.induct) auto
  with a show "effect_free xs" by (auto simp: graph_view_def dest: ownership_view_reads)
qed

lemma snapshot_calls_wf: "snapshot_calls resource xs input \<Longrightarrow> scope_wf (Scope input)"
  by (erule snapshot_callsE) (auto dest: graph_view_wf)

lemma snapshot_self:
  "snapshot_calls resource xs input \<Longrightarrow>
   \<exists>current. Reader_Get (ObjectKey (ZERS_Meta resource)) (Inr current) \<in> set xs \<and> Input_Self input = roleClaim current"
  by (erule snapshot_callsE, erule ownership_viewE) auto

lemma record_calls_no_patch: "record_calls resource self vals xs err \<Longrightarrow> Ziti_Patch ident attrs e \<notin> set xs"
  by (auto elim!: record_calls.cases dest: effect_free_patch)

section \<open>Patches\<close>

text \<open>Where a patch stands in the trace of a reconciliation.\<close>

lemma sync_calls_patch:
  assumes "sync_calls r key zs res" "zs = pre @ Ziti_Patch ident attrs e # post"
  shows "\<exists>resource snap recs mid check input plan patch.
    pre = Sync_Kube (KGet key (Inr resource)) # snap @ recs @ mid @ check \<and>
    snapshot_calls resource snap input \<and> BuildPlan (Sync_uc r) input = Inr plan \<and> block_reason plan = [] \<and>
    record_calls resource (Input_Self input) (ManagedValues plan) recs None \<and>
    patch \<in> set (Patches plan) \<and> ident = Patch_IdentityID patch \<and>
    checked_patch (Sync_uc r) resource plan patch check attrs"
proof -
  have "Ziti_Patch ident attrs e \<in> set zs" by (simp add: assms(2))
  then obtain resource xs result resource' ys err
    where zs: "zs = Sync_Kube (KGet key (Inr resource)) # xs @ ys"
      and run: "run_calls (Sync_uc r) resource xs result" and per: "persist_calls r resource' result ys err"
    using sync_calls_run [OF assms(1)] by (metis has_effect.simps(1))
  obtain pre' post' where
    pre: "pre = Sync_Kube (KGet key (Inr resource)) # pre'" and xs: "xs = pre' @ Ziti_Patch ident attrs e # post'"
    using split_Cons [OF zs [unfolded assms(2)]] split_before persist_calls_no_patch [OF per, of ident attrs e]
    by (metis rcall.distinct(19))
  from run show ?thesis
  proof (cases rule: run_calls.cases)
    case (written snap input plan recs resource2 zs' outs)
    have "Ziti_Patch ident attrs e \<notin> set (snap @ recs)"
      using written(2,5) by (simp add: effect_free_patch snapshot_calls_reads record_calls_no_patch)
    with split_skip [of pre' _ post' "snap @ recs" zs'] written(1) xs
    obtain us where us: "pre' = snap @ recs @ us" "zs' = us @ Ziti_Patch ident attrs e # post'"
      by (metis append.assoc)
    from write_calls_patch [OF written(7) us(2)] obtain patch mid check where
      "patch \<in> set (Patches plan)" "ident = Patch_IdentityID patch" "us = mid @ check"
      "checked_patch (Sync_uc r) resource2 plan patch check attrs" by blast
    with written us pre show ?thesis
      unfolding same_object_views(2) [OF written(6)] by blast
  next
    case (unrecorded snap input plan recs err)
    with xs effect_free_patch [OF snapshot_calls_reads [OF unrecorded(2)], of ident attrs e]
      record_calls_no_patch [OF unrecorded(5), of ident attrs e] show ?thesis
      by (metis Un_iff in_set_conv_decomp set_append)
  qed (use xs in \<open>auto dest!: effect_free_patch [of _ ident attrs e] snapshot_calls_reads\<close>)
qed

text \<open>
  C7: No identity is patched on stale knowledge. Whenever a reconciliation sends a patch, the
  calls it made before are, in order: the read of the resource, a complete snapshot, the
  recording of the claims, the earlier patches, and right before the patch a read of that very
  identity and of the claims and owners in the cluster. The plan built from the snapshot had
  no conflict and did not remove everything; the patch is one of its patches; and the fresh
  reads show no conflicting claim on any managed value and an identity that no \<^verbatim>\<open>ZitiIdentity\<close>
  owns and whose external id is still the planned one.
\<close>

theorem Sync_Reconcile_patch_checked:
  assumes "apimeta_ok (k_lib (Sync_Client r))" "run_state (Sync_Reconcile r key) s = (res, s')"
    and "trace s' = trace s @ pre @ Ziti_Patch ident attrs e # post"
  shows "\<exists>resource snap recs mid fresh view input plan patch self others owners.
    pre = Sync_Kube (KGet key (Inr resource)) # snap @ recs @ mid @ Ziti_Get ident (Inr (Some fresh)) # view \<and>
    snapshot_calls resource snap input \<and> BuildPlan (Sync_uc r) input = Inr plan \<and>
    Conflicts (Ownership plan) = [] \<and> \<not> WouldRemoveAll plan \<and>
    record_calls resource (Input_Self input) (ManagedValues plan) recs None \<and>
    patch \<in> set (Patches plan) \<and> ident = Patch_IdentityID patch \<and>
    ownership_view resource view self others owners \<and>
    Conflicts (ResolveOwnership \<lparr>Self = self, Candidates = ManagedValues plan, Others = others\<rparr>) = [] \<and>
    \<not> IdentityOwned fresh owners \<and> EqualFold (Sync_uc r) (ExternalID fresh) (Patch_ExternalID patch)"
proof -
  have "sync_calls r key (pre @ Ziti_Patch ident attrs e # post) res"
    by (rule Sync_Reconcile_calls [OF assms(1,2)]) (simp add: assms(3))
  from sync_calls_patch [OF this refl] obtain resource snap recs mid check input plan patch where
    p: "pre = Sync_Kube (KGet key (Inr resource)) # snap @ recs @ mid @ check"
      "snapshot_calls resource snap input" "BuildPlan (Sync_uc r) input = Inr plan" "block_reason plan = []"
      "record_calls resource (Input_Self input) (ManagedValues plan) recs None"
      "patch \<in> set (Patches plan)" "ident = Patch_IdentityID patch"
      "checked_patch (Sync_uc r) resource plan patch check attrs" by blast
  have "Conflicts (Ownership plan) = []" "\<not> WouldRemoveAll plan"
    using p(4) by (auto simp: block_reason_def syncReasons split: if_splits)
  with p show ?thesis
    by (elim checked_patchE) blast
qed

text \<open>
  C8: A sync changes only what it has claimed. Every attribute that a patch adds to an
  identity or removes from it was, before the patch was sent, recorded as managed by this sync
  in the cluster: the claims read for the snapshot were already these, or a status update with
  them was accepted. All other attributes stay, in their order.
\<close>

theorem Sync_Reconcile_claims_first:
  assumes "apimeta_ok (k_lib (Sync_Client r))" "run_state (Sync_Reconcile r key) s = (res, s')"
    and "trace s' = trace s @ pre @ Ziti_Patch ident attrs e # post"
  shows "\<exists>fresh managed. Ziti_Get ident (Inr (Some fresh)) \<in> set pre \<and>
    filter (\<lambda>v. v \<notin> set managed) attrs = filter (\<lambda>v. v \<notin> set managed) (RoleAttributes fresh) \<and>
    ((\<exists>k current. Reader_Get k (Inr current) \<in> set pre \<and> set (Status_ManagedAttributes (ZERS_Status current)) = set managed) \<or>
     (\<exists>obj stored. Sync_Kube (KStatus obj (Inr stored)) \<in> set pre \<and> Status_ManagedAttributes (ZERS_Status obj) = managed))"
proof -
  have "sync_calls r key (pre @ Ziti_Patch ident attrs e # post) res"
    by (rule Sync_Reconcile_calls [OF assms(1,2)]) (simp add: assms(3))
  from sync_calls_patch [OF this refl] obtain resource snap recs mid check input plan patch where
    p: "pre = Sync_Kube (KGet key (Inr resource)) # snap @ recs @ mid @ check"
      "snapshot_calls resource snap input" "BuildPlan (Sync_uc r) input = Inr plan"
      "record_calls resource (Input_Self input) (ManagedValues plan) recs None"
      "patch \<in> set (Patches plan)" "ident = Patch_IdentityID patch"
      "checked_patch (Sync_uc r) resource plan patch check attrs" by blast
  from p(7) obtain fresh view where "check = Ziti_Get (Patch_IdentityID patch) (Inr (Some fresh)) # view"
      and merged: "attrs = MergeAttributes (RoleAttributes fresh) (ManagedValues plan) (GrantedAttributes patch)"
    by (elim checked_patchE) blast
  with p(1,6) have fresh: "Ziti_Get ident (Inr (Some fresh)) \<in> set pre" by simp
  have "set (GrantedAttributes patch) \<subseteq> set (ManagedValues plan)"
    using planned_patchE [OF p(3,5)] planned_grant_managed [OF snapshot_calls_wf [OF p(2)]] BuildPlan_Inr [OF p(3)]
    by metis
  with merged have attrs: "filter (\<lambda>v. v \<notin> set (ManagedValues plan)) attrs =
      filter (\<lambda>v. v \<notin> set (ManagedValues plan)) (RoleAttributes fresh)"
    by (simp add: filter_MergeAttributes)
  obtain k current where "Reader_Get k (Inr current) \<in> set snap" "Input_Self input = roleClaim current"
    using snapshot_self [OF p(2)] by blast
  with p(4,1) have "(\<exists>k current. Reader_Get k (Inr current) \<in> set pre \<and>
        set (Status_ManagedAttributes (ZERS_Status current)) = set (ManagedValues plan)) \<or>
      (\<exists>obj stored. Sync_Kube (KStatus obj (Inr stored)) \<in> set pre \<and>
        Status_ManagedAttributes (ZERS_Status obj) = ManagedValues plan)"
    by (elim record_calls_NoneE) (force simp: roleClaim_def)+
  with attrs fresh show ?thesis by blast
qed

section \<open>Status writes\<close>

text \<open>A call that shows an identity without a value.\<close>

fun seen_without :: "string \<Rightarrow> string \<Rightarrow> rcall \<Rightarrow> bool" where
  "seen_without v ident (Ziti_Get i (Inr None)) \<longleftrightarrow> i = ident"
| "seen_without v ident (Ziti_Get i (Inr (Some fresh))) \<longleftrightarrow> i = ident \<and> v \<notin> set (RoleAttributes fresh)"
| "seen_without v ident (Ziti_Patch i attrs None) \<longleftrightarrow> i = ident \<and> v \<notin> set attrs"
| "seen_without v ident _ \<longleftrightarrow> False"

lemma evidence_seen_without:
  assumes "evidence xs out" "decisive ident out" "Kind out = Deleted \<or> v \<notin> set (Outcome_RoleAttributes out)"
  shows "\<exists>c \<in> set xs. seen_without v ident c"
proof (cases "Kind out")
  case Deleted
  with assms have "Ziti_Get ident (Inr None) \<in> set xs" by (simp add: evidence_def decisive_def)
  then show ?thesis by (intro bexI) simp_all
next
  case Patched
  with assms have "Ziti_Patch ident (Outcome_RoleAttributes out) None \<in> set xs" "v \<notin> set (Outcome_RoleAttributes out)"
    by (simp_all add: evidence_def decisive_def)
  then show ?thesis by (intro bexI) simp_all
qed (use assms in \<open>force simp: evidence_def decisive_def\<close>)+

lemma last_seen_decisive: "last_seen outs ident = Some out \<Longrightarrow> out \<in> set outs \<and> decisive ident out"
  unfolding last_seen_def by (drule find_mem) simp

lemma completion_managed:
  "set (Completion_ManagedAttributes (completion_of plan self False outs)) = set (ManagedAttributes self)"
  by (simp add: completion_of_def Complete_cases(2))

lemma completion_forgets:
  assumes plan: "BuildPlan uc input = Inr plan"
    and w: "write_calls uc resource plan patches zs outs"
    and v: "v \<in> set (ManagedAttributes (Input_Self input))"
      "v \<notin> set (Completion_ManagedAttributes (completion_of plan (Input_Self input) True outs))"
    and i: "i \<in> set (Identities input)" "v \<in> set (RoleAttributes i)"
  shows "\<exists>c \<in> set zs. seen_without v (Identity_ID i) c"
proof -
  let ?ci = "\<lparr>Plan = plan, PreviousValues = ManagedAttributes (Input_Self input), Outcomes = outs,
    BlockReason = block_reason plan, ClaimRecorded = True\<rparr>"
  note bp = BuildPlan_Inr [OF plan]
  have m: "ManagedValues plan = plan_managed input" and c: "CurrentValues plan = currentValues (Scope input)"
    and h: "RetirementHolders plan =
      map (\<lambda>i. \<lparr>Holder_IdentityID = Identity_ID i,
                Holder_Values = sortedSet [filter (\<lambda>v. v \<in> set (RoleAttributes i)) (plan_retired input)]\<rparr>)
        (filter (\<lambda>i. set (plan_retired input) \<inter> set (RoleAttributes i) \<noteq> {}) (Identities input))"
    using bp by blast+
  have nv: "v \<notin> set (Completion_ManagedAttributes (Complete ?ci))" using v(2) by (simp add: completion_of_def)
  with v(1) have "v \<notin> set (currentValues (Scope input))"
    by (auto simp: Complete_cases(2) [of ?ci] m c plan_managed_def split: if_splits)
  with v(1) have "v \<in> set (plan_retired input)" by (simp add: plan_retired_def retiredValues_def)
  with i have "\<exists>h \<in> set (RetirementHolders plan). Holder_IdentityID h = Identity_ID i" unfolding h by force
  then obtain hd where hd: "hd \<in> set (RetirementHolders plan)" "Holder_IdentityID hd = Identity_ID i" ..
  have "\<exists>out. last_seen (Outcomes ?ci) (Holder_IdentityID hd) = Some out \<and>
      (Kind out = Deleted \<or> v \<notin> set (Outcome_RoleAttributes out))"
    by (rule forgets_safely) (use v(1) nv hd(1) in \<open>auto simp: m plan_managed_def\<close>)
  then obtain out where out: "last_seen outs (Identity_ID i) = Some out"
      "Kind out = Deleted \<or> v \<notin> set (Outcome_RoleAttributes out)"
    using hd(2) by auto
  from last_seen_decisive [OF out(1)] have "out \<in> set outs" "decisive (Identity_ID i) out" by auto
  with write_calls_evidence [OF w] out(2) show ?thesis by (blast intro: evidence_seen_without)
qed

definition forgets_only_seen :: "Input \<Rightarrow> string list \<Rightarrow> rcall list \<Rightarrow> bool" where
  "forgets_only_seen input recorded calls \<longleftrightarrow>
     (\<forall>v \<in> set (ManagedAttributes (Input_Self input)). v \<notin> set recorded \<longrightarrow>
        (\<forall>i \<in> set (Identities input). v \<in> set (RoleAttributes i) \<longrightarrow>
           (\<exists>c \<in> set calls. seen_without v (Identity_ID i) c)))"

lemma run_completion_forgets:
  assumes "run_calls uc resource xs result" "Run_Completion result = Some c"
  shows "\<exists>snap input rest. xs = snap @ rest \<and> snapshot_calls resource snap input \<and>
    forgets_only_seen input (Completion_ManagedAttributes c) rest"
  using assms(1)
proof (cases rule: run_calls.cases)
  case (blocked input plan)
  then have "forgets_only_seen input (Completion_ManagedAttributes c) []"
    using assms(2) by (simp add: forgets_only_seen_def completion_managed)
  with blocked show ?thesis by (metis append_Nil2)
next
  case (written snap input plan recs resource2 zs outs)
  have "forgets_only_seen input (Completion_ManagedAttributes c) (recs @ zs)"
    using completion_forgets [OF written(3,7)] written(9) assms(2) by (fastforce simp: forgets_only_seen_def)
  with written show ?thesis by blast
qed (use assms(2) in simp_all)

lemma record_calls_status:
  assumes "record_calls resource self vals xs err" "xs = pre @ Sync_Kube (KStatus obj st) # post"
  shows "\<exists>k current. pre = [Reader_Get k (Inr current)] \<and>
    obj = current\<lparr>ZERS_Status := (ZERS_Status current)\<lparr>Status_ManagedAttributes := vals\<rparr>\<rparr>"
  using assms
proof (cases rule: record_calls.cases)
  case (refused)
  then show ?thesis using assms(2) by (auto dest: effect_free_status [of _ obj st])
qed (use assms(2) in \<open>auto simp: Cons_eq_append_conv\<close>)

text \<open>A status update of the run itself is the one that records the claims.\<close>

lemma run_status_split:
  assumes "run_calls uc resource xs result" "xs = pre @ Sync_Kube (KStatus obj st) # post"
  obtains snap input plan recs err us vs where "pre = snap @ us" "snapshot_calls resource snap input"
    "BuildPlan uc input = Inr plan" "record_calls resource (Input_Self input) (ManagedValues plan) recs err"
    "recs = us @ Sync_Kube (KStatus obj st) # vs"
  using assms(1)
proof (cases rule: run_calls.cases)
  case (no_plan)
  then show thesis using assms(2) by (auto dest: effect_free_status [of _ obj st])
next
  case (blocked input plan)
  then show thesis using assms(2) by (auto dest!: snapshot_calls_reads effect_free_status [of _ obj st])
next
  case (unrecorded snap input plan recs err)
  have "Sync_Kube (KStatus obj st) \<notin> set snap"
    using unrecorded(2) by (simp add: snapshot_calls_reads effect_free_status)
  with split_skip [of pre _ post snap recs] unrecorded(1) assms(2)
  obtain us where us: "pre = snap @ us" "recs = us @ Sync_Kube (KStatus obj st) # post"
    by metis
  from that [OF us(1) unrecorded(2,3,5) us(2)] show thesis .
next
  case (written snap input plan recs resource2 zs outs)
  have "Sync_Kube (KStatus obj st) \<notin> set snap" "Sync_Kube (KStatus obj st) \<notin> set zs"
    using written(2,7) by (simp_all add: snapshot_calls_reads effect_free_status write_calls_no_status)
  note absent = this
  from written(1) assms(2) have "pre @ Sync_Kube (KStatus obj st) # post = snap @ recs @ zs" by simp
  from split_skip [OF this absent(1)] obtain us where
    "pre = snap @ us" and us': "us @ Sync_Kube (KStatus obj st) # post = recs @ zs" by auto
  with split_before [OF us' absent(2)] obtain vs where
    us: "pre = snap @ us" "recs = us @ Sync_Kube (KStatus obj st) # vs" by blast
  from that [OF us(1) written(2,3,5) us(2)] show thesis .
qed

lemma run_status_keeps:
  assumes "run_calls uc resource xs result" "xs = pre @ Sync_Kube (KStatus obj st) # post"
  shows "\<exists>snap input rest. pre = snap @ rest \<and> snapshot_calls resource snap input \<and>
    set (ManagedAttributes (Input_Self input)) \<subseteq> set (Status_ManagedAttributes (ZERS_Status obj))"
proof -
  from run_status_split [OF assms] obtain snap input plan recs err us vs where
    split: "pre = snap @ us" "snapshot_calls resource snap input" "BuildPlan uc input = Inr plan"
      "record_calls resource (Input_Self input) (ManagedValues plan) recs err" "recs = us @ Sync_Kube (KStatus obj st) # vs" .
  from record_calls_status [OF split(4,5)] have "Status_ManagedAttributes (ZERS_Status obj) = ManagedValues plan" by auto
  with BuildPlan_Inr [OF split(3)] have "set (ManagedAttributes (Input_Self input)) \<subseteq> set (Status_ManagedAttributes (ZERS_Status obj))"
    by (simp add: plan_managed_def)
  with split(1,2) show ?thesis by blast
qed

lemma persist_status:
  assumes "persist_calls r resource result xs err" "xs = pre @ Sync_Kube (KStatus obj st) # post"
  shows "\<exists>current. pre = [Reader_Get (ObjectKey (ZERS_Meta resource)) (Inr current)] \<and>
    result_status (k_lib (Sync_Client r)) (Generation (ZERS_Meta resource)) result (ZERS_Status current) (ZERS_Status obj)"
  using assms(1)
proof (cases rule: persist_calls.cases)
  case (unread got err)
  then show ?thesis using split_Cons [OF assms(2) [symmetric, unfolded unread(1)]] by simp
next
  case (rejected current new err)
  then show ?thesis using split_second [OF assms(2) [symmetric, unfolded rejected(1)]] by auto
next
  case (unchanged current new ws)
  then have "Sync_Kube (KStatus obj st) \<notin> set xs" by (simp add: run_warning_def)
  then show ?thesis by (simp add: assms(2))
next
  case (stored current new ws st')
  then have "Sync_Kube (KStatus obj st) \<notin> set ws" by (simp add: run_warning_def)
  then show ?thesis using split_second [OF assms(2) [symmetric, unfolded stored(1)]] stored by auto
qed

lemma persist_status_forgets:
  assumes run: "run_calls (Sync_uc r) resource xs result" and per: "persist_calls r resource' result ys err"
    and ys: "ys = us @ Sync_Kube (KStatus obj st) # vs"
  shows "(\<exists>k current. Reader_Get k (Inr current) \<in> set us \<and>
      Status_ManagedAttributes (ZERS_Status obj) = Status_ManagedAttributes (ZERS_Status current)) \<or>
    (\<exists>snap input rest. xs = snap @ rest \<and> snapshot_calls resource snap input \<and>
      forgets_only_seen input (Status_ManagedAttributes (ZERS_Status obj)) rest)"
proof -
  from persist_status [OF per ys] obtain current where
    us: "us = [Reader_Get (ObjectKey (ZERS_Meta resource')) (Inr current)]" and
    st: "result_status (k_lib (Sync_Client r)) (Generation (ZERS_Meta resource')) result (ZERS_Status current) (ZERS_Status obj)"
    by blast
  show ?thesis
  proof (cases "Run_Completion result")
    case None
    with st us show ?thesis by (auto simp: result_status_def)
  next
    case (Some c)
    with st have "Status_ManagedAttributes (ZERS_Status obj) = Completion_ManagedAttributes c"
      by (simp add: result_status_def)
    with run_completion_forgets [OF run Some] show ?thesis by auto
  qed
qed


section \<open>Scheduling and events\<close>

text \<open>
  C30: A live role sync never falls out of the work queue. Once the resource was read and is
  not being deleted, the reconciliation ends with an error, which the queue retries, or with a
  positive delay after which it runs again.
\<close>

theorem Sync_Reconcile_rescheduled:
  assumes "apimeta_ok (k_lib (Sync_Client r))" "run_state (Sync_Reconcile r key) s = (res, s')"
    and "trace s' = trace s @ Sync_Kube (KGet key (Inr resource)) # xs" "DeletionTimestamp (ZERS_Meta resource) = None"
  shows "snd res \<noteq> None \<or> RequeueAfter (fst res) > 0"
  using Sync_Reconcile_calls [OF assms(1-3)]
proof (cases rule: sync_calls.cases)
  case (saved ys result resource'' zs)
  have "(0::int) < Minute" by (simp add: Minute_def)
  then have "0 < fst (validateRoleSyncSpec r resource)"
    using validateRoleSyncSpec_interval [of r resource] by linarith
  with saved(2) retryResult_rescheduled show ?thesis by (simp add: rescheduled_def)
qed (use assms(4) in simp_all)

lemma run_calls_no_warning:
  assumes "run_calls uc resource xs result"
  shows "Sync_Kube (KEvent EventTypeWarning reason msg) \<notin> set xs"
proof -
  have rec: "Sync_Kube (KEvent EventTypeWarning reason msg) \<notin> set ys" if "record_calls res self vals ys err"
    for res self vals ys err
    using that by (cases rule: record_calls.cases) (auto simp: effect_free_absent)
  show ?thesis
    using assms by (cases rule: run_calls.cases)
      (simp_all add: rec effect_free_absent snapshot_calls_reads write_calls_absent)
qed

text \<open>
  C31: A failure is announced once. A reconciliation emits a warning only when the status it
  read just before did not already record the same failure, with the same reason and message,
  for the generation it reconciles.
\<close>

theorem Sync_Reconcile_warns_once:
  assumes "apimeta_ok (k_lib (Sync_Client r))" "run_state (Sync_Reconcile r key) s = (res, s')"
    and "trace s' = trace s @ pre @ Sync_Kube (KEvent EventTypeWarning reason msg) # post"
  shows "\<exists>resource k current. Sync_Kube (KGet key (Inr resource)) \<in> set pre \<and> Reader_Get k (Inr current) \<in> set pre \<and>
    \<not> hasMatchingFailureStatus (k_lib (Sync_Client r)) (SyncStatus_Common (ZERS_Status current))
        (Generation (ZERS_Meta resource)) reason msg"
proof -
  let ?c = "Sync_Kube (KEvent EventTypeWarning reason msg)"
  have calls: "sync_calls r key (pre @ ?c # post) res"
    by (rule Sync_Reconcile_calls [OF assms(1,2)]) (simp add: assms(3))
  obtain resource xs result resource' ys err
    where zs: "pre @ ?c # post = Sync_Kube (KGet key (Inr resource)) # xs @ ys"
      and run: "run_calls (Sync_uc r) resource xs result" and same: "same_object resource' resource"
      and per: "persist_calls r resource' result ys err"
    by (rule sync_calls_run [OF calls, of ?c]) simp_all
  obtain us where us: "pre = Sync_Kube (KGet key (Inr resource)) # xs @ us" "ys = us @ ?c # post"
    using split_Cons [OF zs] split_skip [OF _ run_calls_no_warning [OF run], of _ reason msg post ys] by auto
  have gen: "Generation (ZERS_Meta resource') = Generation (ZERS_Meta resource)"
    using same by (simp add: same_object_def)
  have "\<exists>current. Reader_Get (ObjectKey (ZERS_Meta resource')) (Inr current) \<in> set us \<and>
      \<not> hasMatchingFailureStatus (k_lib (Sync_Client r)) (SyncStatus_Common (ZERS_Status current))
          (Generation (ZERS_Meta resource')) reason msg"
    using per us(2)
    by (cases rule: persist_calls.cases)
       (auto simp: run_warning_def Cons_eq_append_conv split: if_splits)
  then show ?thesis unfolding gen using us(1) by auto
qed

end
