(* ===== verification/Sync_Tracking.thy ===== *)
theory Sync_Tracking
  imports Sync_Controller
begin

text \<open>
  A relation between the world and the calls made so far that every call of the role sync
  reconciler keeps is kept by its whole reconciliation. The providers are an interface with the
  law that each call extends the relation; the reconciler is its client.
\<close>

section \<open>Operations that keep a relation\<close>

named_theorems track_intros \<open>rules that follow the program\<close>

definition tracks :: "('w \<Rightarrow> 'c list \<Rightarrow> bool) \<Rightarrow> ('w, 'c, 'a) io \<Rightarrow> bool" where
  "tracks R m \<longleftrightarrow> (\<forall>s. R (world s) (trace s) \<longrightarrow> R (world (snd (run_state m s))) (trace (snd (run_state m s))))"

text \<open>The call \<open>f\<close>, noted in the trace by \<open>mk\<close>; and one that is not noted.\<close>

definition follows :: "('w \<Rightarrow> 'c list \<Rightarrow> bool) \<Rightarrow> ('a \<Rightarrow> 'c) \<Rightarrow> ('w \<Rightarrow> 'a \<times> 'w) \<Rightarrow> bool" where
  "follows R mk f \<longleftrightarrow> (\<forall>w xs. R w xs \<longrightarrow> R (snd (f w)) (xs @ [mk (fst (f w))]))"

definition silent :: "('w \<Rightarrow> 'c list \<Rightarrow> bool) \<Rightarrow> ('w \<Rightarrow> 'a \<times> 'w) \<Rightarrow> bool" where
  "silent R f \<longleftrightarrow> (\<forall>w xs. R w xs \<longrightarrow> R (snd (f w)) xs)"

lemma tracks_return [track_intros]: "tracks R (State_Monad.return a)"
  by (simp add: tracks_def)

lemma tracks_call [track_intros]: "follows R mk f \<Longrightarrow> tracks R (call mk f)"
  by (simp add: tracks_def follows_def effect_simps)

lemma tracks_ask [track_intros]: "silent R f \<Longrightarrow> tracks R (ask f)"
  by (simp add: tracks_def silent_def effect_simps)

lemma tracks_bind [track_intros]: "tracks R m \<Longrightarrow> (\<And>a. tracks R (f a)) \<Longrightarrow> tracks R (State_Monad.bind m f)"
  by (simp add: tracks_def split_beta)

lemma tracks_if [track_intros]: "tracks R m \<Longrightarrow> tracks R n \<Longrightarrow> tracks R (if b then m else n)"
  by simp

lemma tracks_sum [track_intros]:
  "(\<And>e. tracks R (f e)) \<Longrightarrow> (\<And>a. tracks R (g a)) \<Longrightarrow> tracks R (case x of Inl e \<Rightarrow> f e | Inr a \<Rightarrow> g a)"
  by (cases x) auto

lemma tracks_option [track_intros]:
  "tracks R m \<Longrightarrow> (\<And>a. tracks R (f a)) \<Longrightarrow> tracks R (case x of None \<Rightarrow> m | Some a \<Rightarrow> f a)"
  by (cases x) auto

lemma tracks_prod [track_intros]: "(\<And>a b. tracks R (f a b)) \<Longrightarrow> tracks R (case x of (a, b) \<Rightarrow> f a b)"
  by (cases x) auto

lemma tracks_let [track_intros]: "(\<And>y. tracks R (f y)) \<Longrightarrow> tracks R (let y = x in f y)"
  by simp

lemma tracksD: "tracks R m \<Longrightarrow> run_state m s = (a, s') \<Longrightarrow> R (world s) (trace s) \<Longrightarrow> R (world s') (trace s')"
  unfolding tracks_def by (metis snd_conv)

section \<open>The role sync reconciler\<close>

definition directory_follows :: "('w \<Rightarrow> rcall list \<Rightarrow> bool) \<Rightarrow> 'w Directory \<Rightarrow> bool" where
  "directory_follows R d \<longleftrightarrow> (\<forall>x. follows R (Graph_ServicePrincipal x) (GetServicePrincipal d x) \<and>
     follows R (Graph_Assigned x) (ListAppRoleAssignedTo d x) \<and> follows R (Graph_GroupUsers x) (ListGroupUsers d x))"

lemma tracks_readGroups: "directory_follows R d \<Longrightarrow> tracks R (readGroups d input idents)"
  by (induction idents arbitrary: input) (auto simp: directory_follows_def intro!: track_intros)

lemma tracks_readGraph: "directory_follows R d \<Longrightarrow> tracks R (readGraph d resource)"
  unfolding readGraph_def
  by (intro track_intros tracks_readGroups) (auto simp: directory_follows_def)

locale sync_tracked =
  fixes R :: "'w \<Rightarrow> rcall list \<Rightarrow> bool" and r :: "'w ZitiEntraRoleSyncReconciler"
  assumes follows_kube: "follows R (\<lambda>res. Sync_Kube (KGet key res)) (Get (Sync_Client r) key)"
      "follows R (\<lambda>res. Sync_Kube (KStatus obj res)) (Status_Update (Sync_Client r) obj)"
      "follows R (\<lambda>_. Sync_Kube (KEvent ty reason msg)) (Recorder_Event (Sync_Client r) ty reason msg)"
    and silent_clock: "silent R (Now (Sync_Client r))" "silent R (ctx_Err r)"
    and follows_reads: "follows R (Secret_Get key) (Get_Secret r key)" "follows R (Reader_Get key) (APIReader_Get r key)"
      "follows R Reader_List_Syncs (APIReader_List_Syncs r)" "follows R Reader_List_Identities (APIReader_List_Identities r)"
    and follows_ziti: "follows R Ziti_List (ListIdentities (Sync_ZitiClient r))"
      "follows R (Ziti_Get ident) (GetIdentity (Sync_ZitiClient r) ident)"
      "follows R (Ziti_Patch ident attrs) (PatchIdentityRoleAttributes (Sync_ZitiClient r) ident attrs)"
    and follows_directory: "directory_follows R (DirectoryFactory r tenant ident secret)"
begin

lemma tracks_readDirectory_bind:
  assumes "\<And>err. tracks R (f (Inl err))" "\<And>d. directory_follows R d \<Longrightarrow> tracks R (f (Inr d))"
  shows "tracks R (State_Monad.bind (readDirectory r resource) f)"
  unfolding readDirectory_def Let_def State_Monad.bind_assoc State_Monad.bind_left_identity
  by (rule tracks_bind, intro tracks_call follows_reads) (auto simp: assms follows_directory split: sum.split)

lemma tracks_EmitEvent: "tracks R (EmitEvent (Sync_Client r) Sync_Kube ty reason msg)"
  unfolding EmitEvent_def by (intro track_intros follows_kube)

lemma tracks_sync_reads:
  "tracks R (readRoleSync r resource)" "tracks R (readOwnership r resource)" "tracks R (recordRoleClaims r resource self vals)"
  unfolding readOwnership_def recordRoleClaims_def readRoleSync_def
  by (intro track_intros follows_reads follows_kube)+

lemma tracks_applyRolePatch: "tracks R (applyRolePatch r resource plan patch)"
  unfolding applyRolePatch_def
  by (intro track_intros tracks_sync_reads tracks_EmitEvent follows_ziti silent_clock)

lemma tracks_writePatches: "tracks R (writePatches r resource plan outs patches)"
  by (induction patches arbitrary: outs)
     (auto simp: Let_def intro!: track_intros tracks_applyRolePatch silent_clock)

lemma tracks_persistSyncResult: "tracks R (persistSyncResult r resource result)"
  unfolding persistSyncResult_def setRoleSyncConditions_def Let_def
  by (intro track_intros tracks_sync_reads tracks_EmitEvent follows_kube silent_clock)

lemma tracks_runSync: "tracks R (runSync r resource)"
  unfolding runSync_def writeRolePlan_def
  by (rule tracks_option; (rule tracks_readDirectory_bind; simp only: sum.case)?;
      intro track_intros tracks_readGraph tracks_sync_reads tracks_writePatches follows_ziti)

lemma tracks_Sync_Reconcile: "tracks R (Sync_Reconcile r key)"
  unfolding Sync_Reconcile_def
  by (intro track_intros tracks_runSync tracks_persistSyncResult follows_kube)

end

end
