(* ===== verification/Identity_Controller.thy ===== *)
theory Identity_Controller
  imports Status_Marks
begin

text \<open>
  \<^verbatim>\<open>internal/controller/zitiidentity_controller.go\<close> with the identity service
  (\<^verbatim>\<open>internal/openziti/identity\<close>) and the enrollment Secret
  (\<^verbatim>\<open>internal/credentials/enrollment_secret.go\<close>).
\<close>

section \<open>The identity service\<close>

record DesiredIdentity =
  Desired_Name :: string
  Desired_Type :: string
  Desired_RoleAttributes :: "string list"
  Desired_CreateJWTSecret :: bool
  Desired_JWTSecretName :: string

definition Identity_FromResource :: "ZitiIdentity \<Rightarrow> DesiredIdentity" where
  "Identity_FromResource resource =
     \<lparr>Desired_Name = IdentitySpec_Name (ZI_Spec resource), Desired_Type = IdentitySpec_Type (ZI_Spec resource),
      Desired_RoleAttributes = IdentitySpec_RoleAttributes (ZI_Spec resource),
      Desired_CreateJWTSecret = CreateJWTSecret (Enrollment (ZI_Spec resource)),
      Desired_JWTSecretName = Enrollment_JWTSecretName (Enrollment (ZI_Spec resource))\<rparr>"

definition toClientIdentity :: "DesiredIdentity \<Rightarrow> Identity" where
  "toClientIdentity desired =
     \<lparr>Identity_ID = [], Identity_Name = Desired_Name desired, Identity_Type = Desired_Type desired,
      RoleAttributes = Desired_RoleAttributes desired, CreateOTT = Desired_CreateJWTSecret desired, ExternalID = []\<rparr>"

section \<open>Services and calls\<close>

record Secret =
  Secret_Namespace :: string
  Secret_Name :: string
  Secret_Type :: string
  StringData :: "(string, string) gomap"
  Secret_OwnerUIDs :: "string list"

text \<open>
  \<^verbatim>\<open>ZitiIdentityReconciler\<close> and what it calls of \<^verbatim>\<open>controller-runtime\<close>. \<^verbatim>\<open>metav1.IsControlledBy\<close>,
  \<^verbatim>\<open>ctrl.SetControllerReference\<close> and \<^verbatim>\<open>NamespacedName.String\<close> are parameters.
\<close>

record 'w ZitiIdentityReconciler =
  Identity_Client :: "(ZitiIdentity, ZitiIdentityStatus, 'w) kube"
  Secret_Get_API :: "ResourceKey \<Rightarrow> 'w \<Rightarrow> (error + Secret) \<times> 'w"
  Secret_Create_API :: "Secret \<Rightarrow> 'w \<Rightarrow> error option \<times> 'w"
  Secret_Delete_API :: "Secret \<Rightarrow> 'w \<Rightarrow> error option \<times> 'w"
  IsControlledBy :: "Secret \<Rightarrow> ZitiIdentity \<Rightarrow> bool"
  SetControllerReference :: "ZitiIdentity \<Rightarrow> Secret \<Rightarrow> error + Secret"
  NamespacedName_String :: "ResourceKey \<Rightarrow> string"
  Identity_ZitiClient :: "'w Client"

datatype icall =
    Identity_Kube "ZitiIdentity kcall"
  | ISecret_Get ResourceKey "error + Secret"
  | ISecret_Create Secret "error option"
  | ISecret_Delete Secret "error option"
  | IZ_Find string "error + Identity option"
  | IZ_Create Identity "error + Identity option"
  | IZ_Update Identity "error + Identity option"
  | IZ_Delete string "error option"
  | IZ_JWT string "error + string"

definition Identity_FindByName :: "'w ZitiIdentityReconciler \<Rightarrow> string \<Rightarrow> ('w, icall, error + Identity option) io" where
  "Identity_FindByName r name = call (IZ_Find name) (FindIdentityByName (Identity_ZitiClient r) name)"

definition Identity_Create :: "'w ZitiIdentityReconciler \<Rightarrow> DesiredIdentity \<Rightarrow> ('w, icall, error + Identity option) io" where
  "Identity_Create r desired =
     call (IZ_Create (toClientIdentity desired)) (CreateIdentity (Identity_ZitiClient r) (toClientIdentity desired))"

definition Identity_Update ::
  "'w ZitiIdentityReconciler \<Rightarrow> string \<Rightarrow> DesiredIdentity \<Rightarrow> ('w, icall, error + Identity option) io" where
  "Identity_Update r ident desired = (
     let identity = (toClientIdentity desired)\<lparr>Identity_ID := ident\<rparr>
     in call (IZ_Update identity) (UpdateIdentity (Identity_ZitiClient r) identity))"

definition Identity_Delete :: "'w ZitiIdentityReconciler \<Rightarrow> string \<Rightarrow> ('w, icall, error option) io" where
  "Identity_Delete r ident = call (IZ_Delete ident) (DeleteIdentity (Identity_ZitiClient r) ident)"

definition EnrollmentJWT :: "'w ZitiIdentityReconciler \<Rightarrow> string \<Rightarrow> ('w, icall, error + string) io" where
  "EnrollmentJWT r ident = call (IZ_JWT ident) (GetEnrollmentJWT (Identity_ZitiClient r) ident)"

section \<open>Enrollment Secrets\<close>

definition EnrollmentJWTKey :: string where "EnrollmentJWTKey = ''jwt''"

definition secret_key :: "ZitiIdentity \<Rightarrow> string \<Rightarrow> ResourceKey" where
  "secret_key identity name = \<lparr>Key_Namespace = Meta_Namespace (ZI_Meta identity), Key_Name = name\<rparr>"

definition ReconcileEnrollmentSecret ::
  "'w ZitiIdentityReconciler \<Rightarrow> ZitiIdentity \<Rightarrow> string \<Rightarrow> ('w, icall, error + string) io" where
  "ReconcileEnrollmentSecret r identity jwt = (
     let name = Enrollment_JWTSecretName (Enrollment (ZI_Spec identity))
     in if name = []
        then State_Monad.return (Inl (New ''jwt secret name is required when enrollment secret output is enabled''))
        else do {
          let key = secret_key identity name;
          got \<leftarrow> call (ISecret_Get key) (Secret_Get_API r key);
          case got of
            Inr secret \<Rightarrow> State_Monad.return (
              if \<not> IsControlledBy r secret identity
              then Inl (New (''enrollment secret '' @ NamespacedName_String r key @ '' is not owned by '' @
                             Meta_Name (ZI_Meta identity)))
              else Inr (Secret_Name secret))
          | Inl err \<Rightarrow>
              if \<not> IsNotFound err then State_Monad.return (Inl err)
              else (
                let secret = \<lparr>Secret_Namespace = Meta_Namespace (ZI_Meta identity), Secret_Name = name,
                      Secret_Type = ''Opaque'', StringData = [(EnrollmentJWTKey, jwt)], Secret_OwnerUIDs = []\<rparr>
                in case SetControllerReference r identity secret of
                     Inl err \<Rightarrow> State_Monad.return (Inl err)
                   | Inr secret \<Rightarrow> do {
                       err \<leftarrow> call (ISecret_Create secret) (Secret_Create_API r secret);
                       State_Monad.return (case err of Some err \<Rightarrow> Inl err | None \<Rightarrow> Inr (Secret_Name secret))
                     })
        })"

definition DeleteEnrollmentSecret ::
  "'w ZitiIdentityReconciler \<Rightarrow> ZitiIdentity \<Rightarrow> string \<Rightarrow> ('w, icall, error option) io" where
  "DeleteEnrollmentSecret r identity secretName = (
     if secretName = [] then State_Monad.return None
     else do {
       let key = secret_key identity secretName;
       got \<leftarrow> call (ISecret_Get key) (Secret_Get_API r key);
       case got of
         Inl err \<Rightarrow> State_Monad.return (IgnoreNotFound (Some err))
       | Inr secret \<Rightarrow>
           if \<not> IsControlledBy r secret identity then State_Monad.return None
           else do {
             err \<leftarrow> call (ISecret_Delete secret) (Secret_Delete_API r secret);
             State_Monad.return (IgnoreNotFound err)
           }
     })"

section \<open>The reconciler\<close>

definition zitiIdentityFinalizer :: string where "zitiIdentityFinalizer = ''ziti.sixfeetup.com/finalizer''"

definition identity_resource :: "(ZitiIdentity, ZitiIdentityStatus) resource" where
  "identity_resource = \<lparr>r_meta = ZI_Meta, r_set_meta = (\<lambda>m i. i\<lparr>ZI_Meta := m\<rparr>), r_status = ZI_Status,
     r_common = IdentityStatus_Common, r_set_common = (\<lambda>c s. s\<lparr>IdentityStatus_Common := c\<rparr>),
     r_set_status = (\<lambda>s i. i\<lparr>ZI_Status := s\<rparr>)\<rparr>"

fun has_duplicates :: "string list \<Rightarrow> string list \<Rightarrow> bool" where
  "has_duplicates seen [] = False"
| "has_duplicates seen (attr # attrs) = (if attr \<in> set seen then True else has_duplicates (attr # seen) attrs)"

definition validateIdentitySpec :: "ZitiIdentity \<Rightarrow> error option" where
  "validateIdentitySpec identity =
     (if IdentitySpec_Name (ZI_Spec identity) = [] then Some (New ''spec.name must not be empty'')
      else if has_duplicates [] (IdentitySpec_RoleAttributes (ZI_Spec identity))
      then Some (New ''spec.roleAttributes must not contain duplicates'')
      else if CreateJWTSecret (Enrollment (ZI_Spec identity)) \<and> Enrollment_JWTSecretName (Enrollment (ZI_Spec identity)) = []
      then Some (New ''spec.enrollment.jwtSecretName is required when createJwtSecret is true'')
      else None)"

definition identity_status_id :: "ZitiIdentity \<Rightarrow> string" where
  "identity_status_id identity = Status_ID (IdentityStatus_Common (ZI_Status identity))"

definition reconcileIdentity ::
  "'w ZitiIdentityReconciler \<Rightarrow> ZitiIdentity \<Rightarrow> DesiredIdentity \<Rightarrow> ('w, icall, error + Identity option) io" where
  "reconcileIdentity r identity desired = (
     if identity_status_id identity \<noteq> [] then Identity_Update r (identity_status_id identity) desired
     else do {
       existing \<leftarrow> Identity_FindByName r (Desired_Name desired);
       case existing of
         Inl err \<Rightarrow> State_Monad.return (Inl err)
       | Inr (Some existing) \<Rightarrow> Identity_Update r (Identity_ID existing) desired
       | Inr None \<Rightarrow> Identity_Create r desired
     })"

text \<open>The object with the backend id, and with the name of the Secret.\<close>

definition with_identity_id :: "string \<Rightarrow> ZitiIdentity \<Rightarrow> ZitiIdentity" where
  "with_identity_id ident identity = identity\<lparr>ZI_Status := (ZI_Status identity)\<lparr>
     IdentityStatus_Common := (IdentityStatus_Common (ZI_Status identity))\<lparr>Status_ID := ident\<rparr>, JWTSecretName := []\<rparr>\<rparr>"

definition with_secret_name :: "string \<Rightarrow> ZitiIdentity \<Rightarrow> ZitiIdentity" where
  "with_secret_name name identity = identity\<lparr>ZI_Status := (ZI_Status identity)\<lparr>JWTSecretName := name\<rparr>\<rparr>"

definition identity_markFailed ::
  "'w ZitiIdentityReconciler \<Rightarrow> ZitiIdentity \<Rightarrow> error \<Rightarrow> string \<Rightarrow> bool \<Rightarrow> ('w, icall, Result \<times> error option) io" where
  "identity_markFailed r = markFailed identity_resource (Identity_Client r) Identity_Kube"

definition identity_markReady ::
  "'w ZitiIdentityReconciler \<Rightarrow> ZitiIdentity \<Rightarrow> ('w, icall, error option \<times> ZitiIdentity) io" where
  "identity_markReady r = markReady identity_resource (Identity_Client r) Identity_Kube ''ZitiIdentity reconciled successfully''"

text \<open>The last part of \<^verbatim>\<open>Reconcile\<close>: store the ready status and announce it.\<close>

definition identity_finish ::
  "'w ZitiIdentityReconciler \<Rightarrow> ZitiIdentity \<Rightarrow> ('w, icall, Result \<times> error option) io" where
  "identity_finish r identity = do {
     (err, identity) \<leftarrow> identity_markReady r identity;
     case err of
       Some err \<Rightarrow> State_Monad.return (zero_Result, Some err)
     | None \<Rightarrow> do {
         _ \<leftarrow> EmitEvent (Identity_Client r) Identity_Kube EventTypeNormal ''IdentityReconciled''
           ''ZitiIdentity reconciled successfully'';
         State_Monad.return (zero_Result, None)
       }
   }"

text \<open>\<^verbatim>\<open>Reconcile\<close> after the finalizer is in place.\<close>

definition identity_body ::
  "'w ZitiIdentityReconciler \<Rightarrow> ZitiIdentity \<Rightarrow> ('w, icall, Result \<times> error option) io" where
  "identity_body r identity =
     (case validateIdentitySpec identity of
        Some err \<Rightarrow> identity_markFailed r identity err ''SpecValidationFailed'' False
      | None \<Rightarrow> do {
          let desired = Identity_FromResource identity;
          backend \<leftarrow> reconcileIdentity r identity desired;
          case backend of
            Inl err \<Rightarrow> identity_markFailed r identity err ''IdentitySyncFailed'' True
          | Inr None \<Rightarrow> State_Monad.return (zero_Result, Some (Panic ''nil pointer dereference''))
          | Inr (Some backendIdentity) \<Rightarrow> do {
              let identity = with_identity_id (Identity_ID backendIdentity) identity;
              if Desired_CreateJWTSecret desired then do {
                jwt \<leftarrow> EnrollmentJWT r (Identity_ID backendIdentity);
                case jwt of
                  Inl err \<Rightarrow> identity_markFailed r identity err ''EnrollmentJWTFailed'' True
                | Inr jwt \<Rightarrow> do {
                    secretName \<leftarrow> ReconcileEnrollmentSecret r identity jwt;
                    case secretName of
                      Inl err \<Rightarrow> identity_markFailed r identity err ''EnrollmentSecretFailed'' False
                    | Inr secretName \<Rightarrow> identity_finish r (with_secret_name secretName identity)
                  }
              } else identity_finish r identity
            }
        })"

text \<open>The backend part of \<^verbatim>\<open>reconcileDelete\<close>.\<close>

definition identity_cleanup ::
  "'w ZitiIdentityReconciler \<Rightarrow> ZitiIdentity \<Rightarrow> ('w, icall, error option \<times> ZitiIdentity) io" where
  "identity_cleanup r identity = do {
     err \<leftarrow> DeleteEnrollmentSecret r identity (JWTSecretName (ZI_Status identity));
     case err of
       Some err \<Rightarrow> State_Monad.return (Some err, identity)
     | None \<Rightarrow>
         if identity_status_id identity \<noteq> [] then do {
           err \<leftarrow> Identity_Delete r (identity_status_id identity);
           State_Monad.return (err, identity)
         } else State_Monad.return (None, identity)
   }"

definition identity_reconcileDelete ::
  "'w ZitiIdentityReconciler \<Rightarrow> ZitiIdentity \<Rightarrow> ('w, icall, Result \<times> error option) io" where
  "identity_reconcileDelete r = deleteFrame identity_resource (Identity_Client r) Identity_Kube zitiIdentityFinalizer
     ''IdentityDeleted'' ''ZitiIdentity backend state removed'' (identity_cleanup r)"

definition Identity_Reconcile ::
  "'w ZitiIdentityReconciler \<Rightarrow> ResourceKey \<Rightarrow> ('w, icall, Result \<times> error option) io" where
  "Identity_Reconcile r = reconcileFrame identity_resource (Identity_Client r) Identity_Kube zitiIdentityFinalizer
     (identity_reconcileDelete r) (identity_body r)"

section \<open>The finalizer protocol\<close>

interpretation identity_res: status_resource identity_resource
  by unfold_locales (simp_all add: identity_resource_def)

lemma identity_resource_simps [simp]:
  "r_meta identity_resource = ZI_Meta" "r_status identity_resource = ZI_Status"
  "r_common identity_resource = IdentityStatus_Common"
  by (simp_all add: identity_resource_def)

text \<open>What the trace of a successful cleanup shows: the enrollment Secret is absent, belongs to
  somebody else or was deleted, and the backend identity was deleted.\<close>

definition secret_cleaned :: "('w ZitiIdentityReconciler) \<Rightarrow> ZitiIdentity \<Rightarrow> icall list \<Rightarrow> bool" where
  "secret_cleaned r identity xs \<longleftrightarrow> JWTSecretName (ZI_Status identity) = [] \<or>
     (let key = secret_key identity (JWTSecretName (ZI_Status identity))
      in (\<exists>err. ISecret_Get key (Inl err) \<in> set xs \<and> IsNotFound err) \<or>
         (\<exists>secret. ISecret_Get key (Inr secret) \<in> set xs \<and>
            (\<not> IsControlledBy r secret identity \<or>
             (\<exists>err. ISecret_Delete secret err \<in> set xs \<and> IgnoreNotFound err = None))))"

definition identity_cleaned :: "'w ZitiIdentityReconciler \<Rightarrow> ZitiIdentity \<Rightarrow> icall list \<Rightarrow> bool" where
  "identity_cleaned r identity xs \<longleftrightarrow> secret_cleaned r identity xs \<and>
     (identity_status_id identity = [] \<or> IZ_Delete (identity_status_id identity) None \<in> set xs)"

lemma inj_Identity_Kube: "inj Identity_Kube"
  by (simp add: inj_def)

lemmas marks_untouched = marks_no_update [OF _ inj_Identity_Kube]

lemmas identity_service_defs = Identity_FindByName_def Identity_Create_def Identity_Update_def Identity_Delete_def
  EnrollmentJWT_def

lemma DeleteEnrollmentSecret_yields:
  "yields (DeleteEnrollmentSecret r identity (JWTSecretName (ZI_Status identity)))
     (\<lambda>xs err. no_update Identity_Kube xs \<and> (err = None \<longrightarrow> secret_cleaned r identity xs))"
  unfolding DeleteEnrollmentSecret_def Let_def
  by (intro yields_intros) (auto simp: secret_cleaned_def IgnoreNotFound_def Let_def split: option.splits if_splits)

lemma secret_cleaned_mono: "secret_cleaned r identity xs \<Longrightarrow> set xs \<subseteq> set ys \<Longrightarrow> secret_cleaned r identity ys"
  unfolding secret_cleaned_def Let_def by blast

lemma identity_cleanup_yields:
  "yields (identity_cleanup r identity) (\<lambda>xs res. no_update Identity_Kube xs \<and> snd res = identity \<and>
     (fst res = None \<longrightarrow> identity_cleaned r identity xs))"
  unfolding identity_cleanup_def identity_service_defs
  by (intro yields_intros yields_mono [OF DeleteEnrollmentSecret_yields])
     (auto simp: identity_cleaned_def intro: secret_cleaned_mono)

lemma ReconcileEnrollmentSecret_untouched:
  "yields (ReconcileEnrollmentSecret r identity jwt) (\<lambda>xs res. no_update Identity_Kube xs)"
  unfolding ReconcileEnrollmentSecret_def Let_def by (intro yields_intros) simp_all

lemma identity_marks_untouched:
  "yields (identity_markFailed r obj e reason retryable) (\<lambda>xs res. no_update Identity_Kube xs)"
  "yields (identity_finish r obj) (\<lambda>xs res. no_update Identity_Kube xs)"
  unfolding identity_markFailed_def identity_finish_def identity_markReady_def
  by (intro yields_intros EmitEvent_yields yields_mono [OF markFailed_marks] yields_mono [OF markReady_marks];
      simp add: marks_untouched)+

lemma identity_body_untouched: "yields (identity_body r identity) (\<lambda>xs res. no_update Identity_Kube xs)"
  unfolding identity_body_def reconcileIdentity_def identity_service_defs Let_def
  by (intro yields_intros yields_mono [OF identity_marks_untouched(1)] yields_mono [OF identity_marks_untouched(2)]
      yields_mono [OF ReconcileEnrollmentSecret_untouched]) simp_all

interpretation identity_fin: finalizing identity_resource Identity_Kube Identity_Client identity_cleanup identity_body identity_cleaned
proof
  show "Identity_Kube x = Identity_Kube y \<longleftrightarrow> x = y" for x y by simp
  show "yields (identity_cleanup env obj) (\<lambda>xs r. (\<forall>obj' res. Identity_Kube (KUpdate obj' res) \<notin> set xs) \<and>
      r_meta identity_resource (snd r) = r_meta identity_resource obj \<and> (fst r = None \<longrightarrow> identity_cleaned env obj xs))"
    for env :: "'w ZitiIdentityReconciler" and obj
    by (rule yields_mono [OF identity_cleanup_yields]) (simp add: no_update_def)
  show "yields (identity_body env obj) (\<lambda>xs r. \<forall>obj' res. Identity_Kube (KUpdate obj' res) \<notin> set xs)"
    for env :: "'w ZitiIdentityReconciler" and obj
    by (rule yields_mono [OF identity_body_untouched]) (simp add: no_update_def)
qed


section \<open>Adoption\<close>

definition creates :: "icall list \<Rightarrow> bool" where
  "creates xs \<longleftrightarrow> (\<exists>x res. IZ_Create x res \<in> set xs)"

lemma creates_simps [simp]:
  "\<not> creates []" "creates (c # xs) \<longleftrightarrow> (\<exists>x res. c = IZ_Create x res) \<or> creates xs"
  "creates (xs @ ys) \<longleftrightarrow> creates xs \<or> creates ys"
  by (auto simp: creates_def)

lemma marks_no_create: "marks_only Identity_Kube xs \<Longrightarrow> \<not> creates xs"
  by (auto simp: marks_only_def creates_def)

lemma identity_marks_no_create:
  "yields (identity_markFailed r obj e reason retryable) (\<lambda>xs res. \<not> creates xs)"
  "yields (identity_finish r obj) (\<lambda>xs res. \<not> creates xs)"
  unfolding identity_markFailed_def identity_finish_def identity_markReady_def
  by (intro yields_intros EmitEvent_yields yields_mono [OF markFailed_marks] yields_mono [OF markReady_marks];
      simp add: marks_no_create)+

lemma ReconcileEnrollmentSecret_no_create:
  "yields (ReconcileEnrollmentSecret r identity jwt) (\<lambda>xs res. \<not> creates xs)"
  unfolding ReconcileEnrollmentSecret_def Let_def by (intro yields_intros) simp_all

lemma identity_cleanup_no_create: "yields (identity_cleanup r identity) (\<lambda>xs res. \<not> creates xs)"
  unfolding identity_cleanup_def DeleteEnrollmentSecret_def identity_service_defs Let_def
  by (intro yields_intros) simp_all

text \<open>The body creates only as its second call, after a search by name that found nothing.\<close>

definition first_create :: "ZitiIdentity \<Rightarrow> icall list \<Rightarrow> bool" where
  "first_create identity xs \<longleftrightarrow> (creates xs \<longrightarrow>
     (\<exists>x res ys. xs = IZ_Find (IdentitySpec_Name (ZI_Spec identity)) (Inr None) # IZ_Create x res # ys \<and> \<not> creates ys \<and>
        Identity_Name x = IdentitySpec_Name (ZI_Spec identity) \<and> identity_status_id identity = []))"

lemma identity_body_first_create: "yields (identity_body r identity) (\<lambda>xs res. first_create identity xs)"
  unfolding identity_body_def reconcileIdentity_def identity_service_defs Let_def
  by (intro yields_intros yields_mono [OF identity_marks_no_create(1)] yields_mono [OF identity_marks_no_create(2)]
      yields_mono [OF ReconcileEnrollmentSecret_no_create])
     (simp_all add: first_create_def toClientIdentity_def Identity_FromResource_def)

lemma deleteFrame_no_create: "yields (identity_reconcileDelete r identity) (\<lambda>xs res. \<not> creates xs)"
  unfolding identity_reconcileDelete_def deleteFrame_def
  by (intro yields_intros EmitEvent_yields yields_mono [OF identity_cleanup_no_create]) simp_all


section \<open>Readiness\<close>

text \<open>The status updates among the calls that store a ready status.\<close>

definition ready_updates :: "'w ZitiIdentityReconciler \<Rightarrow> icall list \<Rightarrow> ZitiIdentity set" where
  "ready_updates r xs = {obj. \<exists>u. Identity_Kube (KStatus obj u) \<in> set xs \<and>
     hasReadyStatus (k_lib (Identity_Client r)) (IdentityStatus_Common (ZI_Status obj)) (Generation (ZI_Meta obj))}"

lemma ready_updates_simps [simp]:
  "ready_updates r [] = {}" "ready_updates r (xs @ ys) = ready_updates r xs \<union> ready_updates r ys"
  "ready_updates r (IZ_Find a b # xs) = ready_updates r xs" "ready_updates r (IZ_Create c d # xs) = ready_updates r xs"
  "ready_updates r (IZ_Update c d # xs) = ready_updates r xs" "ready_updates r (IZ_Delete a e # xs) = ready_updates r xs"
  "ready_updates r (IZ_JWT a f # xs) = ready_updates r xs" "ready_updates r (ISecret_Get g h # xs) = ready_updates r xs"
  "ready_updates r (ISecret_Create i e # xs) = ready_updates r xs" "ready_updates r (ISecret_Delete i e # xs) = ready_updates r xs"
  "ready_updates r (Identity_Kube (KGet j l) # xs) = ready_updates r xs"
  "ready_updates r (Identity_Kube (KUpdate m n) # xs) = ready_updates r xs"
  "ready_updates r (Identity_Kube (KEvent o1 o2 o3) # xs) = ready_updates r xs"
  by (auto simp: ready_updates_def)

lemma identity_markFailed_ready:
  assumes "apimeta_ok (k_lib (Identity_Client r))"
  shows "yields (identity_markFailed r obj e reason retryable) (\<lambda>xs res. ready_updates r xs = {})"
  unfolding identity_markFailed_def
  by (rule yields_mono [OF identity_res.markFailed_not_ready [OF assms inj_Identity_Kube]])
     (auto simp: ready_updates_def)

text \<open>A stored ready object is the given one with other conditions.\<close>

definition same_identity :: "ZitiIdentity \<Rightarrow> ZitiIdentity \<Rightarrow> bool" where
  "same_identity a b \<longleftrightarrow> ZI_Meta a = ZI_Meta b \<and> ZI_Spec a = ZI_Spec b \<and> identity_status_id a = identity_status_id b \<and>
     JWTSecretName (ZI_Status a) = JWTSecretName (ZI_Status b)"

lemma ready_obj_same: "ready_obj identity_resource k obj obj' \<Longrightarrow> same_identity obj' obj"
  by (erule ready_objE) (simp add: same_identity_def with_common_def identity_resource_def identity_status_id_def)

lemma identity_finish_ready:
  assumes "apimeta_ok (k_lib (Identity_Client r))"
  shows "yields (identity_finish r obj) (\<lambda>xs res. \<forall>obj' \<in> ready_updates r xs. same_identity obj' obj)"
  unfolding identity_finish_def identity_markReady_def
  by (intro yields_intros EmitEvent_yields yields_mono [OF identity_res.markReady_stores [OF assms inj_Identity_Kube]])
     (auto simp: ready_updates_def dest: ready_obj_same)

text \<open>A backend call that put the specified name, type and attributes in place and answered with \<open>b\<close>.\<close>

definition stored_backend :: "ZitiIdentity \<Rightarrow> icall list \<Rightarrow> Identity \<Rightarrow> bool" where
  "stored_backend identity xs b \<longleftrightarrow> (\<exists>x. (IZ_Create x (Inr (Some b)) \<in> set xs \<or> IZ_Update x (Inr (Some b)) \<in> set xs) \<and>
     Identity_Name x = IdentitySpec_Name (ZI_Spec identity) \<and> Identity_Type x = IdentitySpec_Type (ZI_Spec identity) \<and>
     RoleAttributes x = IdentitySpec_RoleAttributes (ZI_Spec identity))"

lemma reconcileIdentity_yields:
  "yields (reconcileIdentity r identity (Identity_FromResource identity)) (\<lambda>xs res. ready_updates r xs = {} \<and>
     (\<forall>b. res = Inr (Some b) \<longrightarrow> stored_backend identity xs b))"
  unfolding reconcileIdentity_def identity_service_defs Let_def
  by (intro yields_intros) (auto simp: stored_backend_def toClientIdentity_def Identity_FromResource_def)

lemma ReconcileEnrollmentSecret_ready:
  "yields (ReconcileEnrollmentSecret r identity jwt) (\<lambda>xs res. ready_updates r xs = {})"
  unfolding ReconcileEnrollmentSecret_def Let_def by (intro yields_intros) simp_all

lemma stored_backend_append [simp]: "stored_backend identity xs b \<Longrightarrow> stored_backend identity (xs @ ys) b"
  by (auto simp: stored_backend_def)

lemma same_identity_with [simp]:
  "same_identity obj (with_identity_id i identity) \<Longrightarrow> identity_status_id obj = i"
  "same_identity obj (with_secret_name n (with_identity_id i identity)) \<Longrightarrow> identity_status_id obj = i"
  by (simp_all add: same_identity_def identity_status_id_def with_identity_id_def with_secret_name_def)

lemma identity_body_ready:
  assumes "apimeta_ok (k_lib (Identity_Client r))"
  shows "yields (identity_body r identity) (\<lambda>xs res. \<forall>obj \<in> ready_updates r xs.
    validateIdentitySpec identity = None \<and> (\<exists>b. stored_backend identity xs b \<and> identity_status_id obj = Identity_ID b))"
  unfolding identity_body_def EnrollmentJWT_def Let_def
  by (intro yields_intros yields_mono [OF identity_markFailed_ready [OF assms]]
      yields_mono [OF identity_finish_ready [OF assms]] yields_mono [OF reconcileIdentity_yields]
      yields_mono [OF ReconcileEnrollmentSecret_ready])
     (simp_all, (metis stored_backend_append same_identity_with)+)

lemma identity_reconcileDelete_ready: "yields (identity_reconcileDelete r identity) (\<lambda>xs res. ready_updates r xs = {})"
  unfolding identity_reconcileDelete_def deleteFrame_def identity_cleanup_def DeleteEnrollmentSecret_def
    identity_service_defs Let_def
  by (intro yields_intros EmitEvent_yields) simp_all

text \<open>
  C16: A ready status tells the truth. Whenever a reconciliation stores a ready status, the spec
  it read was valid, and in the same reconciliation the OpenZiti controller accepted a create
  or an update with the specified name, type and role attributes; the id in the status is the
  one it answered.
\<close>

theorem Identity_Reconcile_ready:
  assumes "apimeta_ok (k_lib (Identity_Client r))"
    and "run_state (Identity_Reconcile r key) s = (res, s')" "trace s' = trace s @ xs"
    and "Identity_Kube (KStatus obj u) \<in> set xs"
    and "hasReadyStatus (k_lib (Identity_Client r)) (IdentityStatus_Common (ZI_Status obj)) (Generation (ZI_Meta obj))"
  shows "\<exists>identity x b. Identity_Kube (KGet key (Inr identity)) \<in> set xs \<and> validateIdentitySpec identity = None \<and>
    (IZ_Create x (Inr (Some b)) \<in> set xs \<or> IZ_Update x (Inr (Some b)) \<in> set xs) \<and>
    Identity_Name x = IdentitySpec_Name (ZI_Spec identity) \<and> Identity_Type x = IdentitySpec_Type (ZI_Spec identity) \<and>
    RoleAttributes x = IdentitySpec_RoleAttributes (ZI_Spec identity) \<and> identity_status_id obj = Identity_ID b"
proof -
  have "yields (Identity_Reconcile r key) (\<lambda>xs res. \<forall>obj \<in> ready_updates r xs.
      (\<exists>identity b ys. xs = Identity_Kube (KGet key (Inr identity)) # ys \<and> validateIdentitySpec identity = None \<and>
        stored_backend identity ys b \<and> identity_status_id obj = Identity_ID b))"
    unfolding Identity_Reconcile_def reconcileFrame_def
    by (intro yields_intros yields_mono [OF identity_body_ready [OF assms(1)]]
        yields_mono [OF identity_reconcileDelete_ready]) simp_all
  from yieldsD [OF this assms(2)] assms(3) have "\<forall>obj \<in> ready_updates r xs.
      (\<exists>identity b ys. xs = Identity_Kube (KGet key (Inr identity)) # ys \<and> validateIdentitySpec identity = None \<and>
        stored_backend identity ys b \<and> identity_status_id obj = Identity_ID b)"
    by simp
  moreover have "obj \<in> ready_updates r xs" using assms(4,5) by (auto simp: ready_updates_def)
  ultimately obtain identity b ys where "xs = Identity_Kube (KGet key (Inr identity)) # ys"
      "validateIdentitySpec identity = None" "stored_backend identity ys b" "identity_status_id obj = Identity_ID b"
    by blast
  then show ?thesis unfolding stored_backend_def by auto
qed

end
