(* ===== verification/Service_Controller.thy ===== *)
theory Service_Controller
  imports Status_Marks Role_Sets
begin

text \<open>
  \<^verbatim>\<open>internal/controller/zitiservice_controller.go\<close> and \<^verbatim>\<open>zitiservice_router_policies.go\<close> with the
  packages \<^verbatim>\<open>internal/openziti/service\<close> they use: a service with its two configs and, when the
  spec names a router, its two router policies.
\<close>

section \<open>Desired state\<close>

record DesiredService =
  DService_Name :: string
  DService_RoleAttributes :: "string list"
  DService_ConfigIDs :: "string list"
  DService_Intercept :: ServiceConfig
  DService_Host :: ServiceConfig

definition toPortRanges :: "PortRange list \<Rightarrow> (string, int) gomap list" where
  "toPortRanges ranges = map (\<lambda>portRange. [(''low'', Low portRange), (''high'', High portRange)]) ranges"

definition Service_FromResource :: "ZitiService \<Rightarrow> DesiredService" where
  "Service_FromResource resource = (
     let spec = ZS_Spec resource; intercept = Configs_Intercept (Configs spec); host = Configs_Host (Configs spec)
     in \<lparr>DService_Name = ServiceSpec_Name spec, DService_RoleAttributes = ServiceSpec_RoleAttributes spec,
         DService_ConfigIDs = [],
         DService_Intercept = \<lparr>Config_ID = [], Config_Name = ServiceSpec_Name spec @ ''-intercept'',
           Config_Type = ''intercept.v1'',
           Config_Payload = [(''protocols'', Strings (Protocols intercept)), (''addresses'', Strings (Addresses intercept)),
             (''portRanges'', Ranges (toPortRanges (PortRanges intercept)))]\<rparr>,
         DService_Host = \<lparr>Config_ID = [], Config_Name = ServiceSpec_Name spec @ ''-host'', Config_Type = ''host.v1'',
           Config_Payload = [(''protocol'', Text (Host_Protocol host)), (''address'', Text (Host_Address host)),
             (''port'', Int32 (Host_Port host))]\<rparr>\<rparr>)"

section \<open>Router policies\<close>

definition semanticAnyOf :: string where "semanticAnyOf = ''AnyOf''"

record RouterPolicySet =
  BindPolicy :: AccessPolicy
  RouterPolicy_SERP :: ServiceEdgeRouterPolicy

text \<open>\<^verbatim>\<open>RouterPolicies\<close>: \<open>None\<close> is the false of the second result.\<close>

definition RouterPolicies :: "ZitiService \<Rightarrow> string \<Rightarrow> string \<Rightarrow> string \<Rightarrow> string list \<Rightarrow> RouterPolicySet option" where
  "RouterPolicies resource serviceID routerIdentityID routerEdgeRouterID additionalIDs = (
     case Router (ZS_Spec resource) of
       None \<Rightarrow> None
     | Some router \<Rightarrow>
         if TrimSpace (Router_Name router) = [] then None
         else
           let serviceRole = ''@'' @ TrimSpace serviceID;
               routerIdentityRole = ''@'' @ TrimSpace routerIdentityID;
               routerRoles = (''@'' @ TrimSpace routerEdgeRouterID) # map (\<lambda>ident. ''@'' @ TrimSpace ident) additionalIDs;
               routerRoles = remdups_adj (sort routerRoles);
               name = ServiceSpec_Name (ZS_Spec resource)
           in Some \<lparr>BindPolicy = \<lparr>AccessPolicy_ID = [], AccessPolicy_Name = name @ ''-bind-policy'',
                  AccessPolicy_Type = AccessPolicyTypeBind, AccessPolicy_IdentityRoles = [routerIdentityRole],
                  AccessPolicy_ServiceRoles = [serviceRole], IdentityRolesRaw = [routerIdentityRole],
                  ServiceRolesRaw = [serviceRole], AccessPolicy_Semantic = semanticAnyOf\<rparr>,
                RouterPolicy_SERP = \<lparr>SERP_ID = [], SERP_Name = name @ ''-only'', EdgeRouterRoles = routerRoles,
                  SERP_ServiceRoles = [serviceRole], SERP_Semantic = semanticAnyOf\<rparr>\<rparr>)"

section \<open>Services and calls\<close>

record 'w ZitiServiceReconciler =
  Service_Client :: "(ZitiService, ZitiServiceStatus, 'w) kube"
  Service_ZitiClient :: "'w Client"
  Service_uc :: unicode

datatype scall =
    Service_Kube "ZitiService kcall"
  | SZ_FindService string "error + Service option"
  | SZ_CreateService Service "error + Service option"
  | SZ_UpdateService Service "error + Service option"
  | SZ_DeleteService string "error option"
  | SZ_CreateConfig ServiceConfig "error + ServiceConfig option"
  | SZ_UpdateConfig ServiceConfig "error + ServiceConfig option"
  | SZ_DeleteConfig string "error option"
  | SZ_FindIdentity string "error + Identity option"
  | SZ_FindEdgeRouter string "error + EdgeRouter option"
  | SZ_FindPolicy string "error + AccessPolicy option"
  | SZ_CreatePolicy AccessPolicy "error + AccessPolicy option"
  | SZ_UpdatePolicy AccessPolicy "error + AccessPolicy option"
  | SZ_DeletePolicy string "error option"
  | SZ_FindSERP string "error + ServiceEdgeRouterPolicy option"
  | SZ_CreateSERP ServiceEdgeRouterPolicy "error + ServiceEdgeRouterPolicy option"
  | SZ_UpdateSERP ServiceEdgeRouterPolicy "error + ServiceEdgeRouterPolicy option"
  | SZ_DeleteSERP string "error option"

text \<open>The methods of \<^verbatim>\<open>service.Service\<close>, each one call of the OpenZiti client.\<close>

definition Service_FindByName :: "'w ZitiServiceReconciler \<Rightarrow> string \<Rightarrow> ('w, scall, error + Service option) io" where
  "Service_FindByName r name = call (SZ_FindService name) (FindServiceByName (Service_ZitiClient r) name)"

definition Service_Create :: "'w ZitiServiceReconciler \<Rightarrow> DesiredService \<Rightarrow> ('w, scall, error + Service option) io" where
  "Service_Create r desired = (
     let service = \<lparr>Service_ID = [], Service_Name = DService_Name desired,
           Service_RoleAttributes = DService_RoleAttributes desired, Service_ConfigIDs = DService_ConfigIDs desired\<rparr>
     in call (SZ_CreateService service) (CreateService (Service_ZitiClient r) service))"

definition Service_Update ::
  "'w ZitiServiceReconciler \<Rightarrow> string \<Rightarrow> DesiredService \<Rightarrow> ('w, scall, error + Service option) io" where
  "Service_Update r ident desired = (
     let service = \<lparr>Service_ID = ident, Service_Name = DService_Name desired,
           Service_RoleAttributes = DService_RoleAttributes desired, Service_ConfigIDs = DService_ConfigIDs desired\<rparr>
     in call (SZ_UpdateService service) (UpdateService (Service_ZitiClient r) service))"

definition Service_FindIdentityByName :: "'w ZitiServiceReconciler \<Rightarrow> string \<Rightarrow> ('w, scall, error + Identity option) io" where
  "Service_FindIdentityByName r name = call (SZ_FindIdentity name) (FindIdentityByName (Service_ZitiClient r) name)"

definition Service_FindEdgeRouterByName :: "'w ZitiServiceReconciler \<Rightarrow> string \<Rightarrow> ('w, scall, error + EdgeRouter option) io" where
  "Service_FindEdgeRouterByName r name = call (SZ_FindEdgeRouter name) (FindEdgeRouterByName (Service_ZitiClient r) name)"

definition Service_CreateConfig :: "'w ZitiServiceReconciler \<Rightarrow> ServiceConfig \<Rightarrow> ('w, scall, error + ServiceConfig option) io" where
  "Service_CreateConfig r cfg = call (SZ_CreateConfig cfg) (CreateConfig (Service_ZitiClient r) cfg)"

definition Service_UpdateConfig :: "'w ZitiServiceReconciler \<Rightarrow> ServiceConfig \<Rightarrow> ('w, scall, error + ServiceConfig option) io" where
  "Service_UpdateConfig r cfg = call (SZ_UpdateConfig cfg) (UpdateConfig (Service_ZitiClient r) cfg)"

definition Service_FindAccessPolicyByName :: "'w ZitiServiceReconciler \<Rightarrow> string \<Rightarrow> ('w, scall, error + AccessPolicy option) io" where
  "Service_FindAccessPolicyByName r name = call (SZ_FindPolicy name) (FindAccessPolicyByName (Service_ZitiClient r) name)"

definition Service_CreateAccessPolicy :: "'w ZitiServiceReconciler \<Rightarrow> AccessPolicy \<Rightarrow> ('w, scall, error + AccessPolicy option) io" where
  "Service_CreateAccessPolicy r policy = call (SZ_CreatePolicy policy) (CreateAccessPolicy (Service_ZitiClient r) policy)"

definition Service_UpdateAccessPolicy :: "'w ZitiServiceReconciler \<Rightarrow> AccessPolicy \<Rightarrow> ('w, scall, error + AccessPolicy option) io" where
  "Service_UpdateAccessPolicy r policy = call (SZ_UpdatePolicy policy) (UpdateAccessPolicy (Service_ZitiClient r) policy)"

definition Service_FindServiceEdgeRouterPolicyByName :: "'w ZitiServiceReconciler \<Rightarrow> string \<Rightarrow> ('w, scall, error + ServiceEdgeRouterPolicy option) io" where
  "Service_FindServiceEdgeRouterPolicyByName r name = call (SZ_FindSERP name) (FindServiceEdgeRouterPolicyByName (Service_ZitiClient r) name)"

definition Service_CreateServiceEdgeRouterPolicy :: "'w ZitiServiceReconciler \<Rightarrow> ServiceEdgeRouterPolicy \<Rightarrow> ('w, scall, error + ServiceEdgeRouterPolicy option) io" where
  "Service_CreateServiceEdgeRouterPolicy r policy = call (SZ_CreateSERP policy) (CreateServiceEdgeRouterPolicy (Service_ZitiClient r) policy)"

definition Service_UpdateServiceEdgeRouterPolicy :: "'w ZitiServiceReconciler \<Rightarrow> ServiceEdgeRouterPolicy \<Rightarrow> ('w, scall, error + ServiceEdgeRouterPolicy option) io" where
  "Service_UpdateServiceEdgeRouterPolicy r policy = call (SZ_UpdateSERP policy) (UpdateServiceEdgeRouterPolicy (Service_ZitiClient r) policy)"

definition Service_Delete :: "'w ZitiServiceReconciler \<Rightarrow> string \<Rightarrow> ('w, scall, error option) io" where
  "Service_Delete r = (\<lambda>ident. call (SZ_DeleteService ident) (DeleteService (Service_ZitiClient r) ident))"

definition Service_DeleteConfig :: "'w ZitiServiceReconciler \<Rightarrow> string \<Rightarrow> ('w, scall, error option) io" where
  "Service_DeleteConfig r = (\<lambda>ident. call (SZ_DeleteConfig ident) (DeleteConfig (Service_ZitiClient r) ident))"

definition Service_DeleteAccessPolicy :: "'w ZitiServiceReconciler \<Rightarrow> string \<Rightarrow> ('w, scall, error option) io" where
  "Service_DeleteAccessPolicy r = (\<lambda>ident. call (SZ_DeletePolicy ident) (DeleteAccessPolicy (Service_ZitiClient r) ident))"

definition Service_DeleteServiceEdgeRouterPolicy :: "'w ZitiServiceReconciler \<Rightarrow> string \<Rightarrow> ('w, scall, error option) io" where
  "Service_DeleteServiceEdgeRouterPolicy r = (\<lambda>ident. call (SZ_DeleteSERP ident) (DeleteServiceEdgeRouterPolicy (Service_ZitiClient r) ident))"

lemmas forwards =
  Service_FindIdentityByName_def Service_FindEdgeRouterByName_def Service_CreateConfig_def Service_UpdateConfig_def Service_FindAccessPolicyByName_def
  Service_CreateAccessPolicy_def Service_UpdateAccessPolicy_def Service_FindServiceEdgeRouterPolicyByName_def Service_CreateServiceEdgeRouterPolicy_def Service_UpdateServiceEdgeRouterPolicy_def
  Service_Delete_def Service_DeleteConfig_def Service_DeleteAccessPolicy_def Service_DeleteServiceEdgeRouterPolicy_def

section \<open>The parts of a reconciliation\<close>

definition service_status_id :: "ZitiService \<Rightarrow> string" where
  "service_status_id service = Status_ID (ServiceStatus_Common (ZS_Status service))"

definition reconcileService ::
  "'w ZitiServiceReconciler \<Rightarrow> ZitiService \<Rightarrow> DesiredService \<Rightarrow> ('w, scall, error + Service option) io" where
  "reconcileService r resource desired = (
     if service_status_id resource \<noteq> [] then Service_Update r (service_status_id resource) desired
     else do {
       existing \<leftarrow> Service_FindByName r (DService_Name desired);
       case existing of
         Inl err \<Rightarrow> State_Monad.return (Inl err)
       | Inr (Some existing) \<Rightarrow> Service_Update r (Service_ID existing) desired
       | Inr None \<Rightarrow> Service_Create r desired
     })"

definition reconcileConfig ::
  "'w ZitiServiceReconciler \<Rightarrow> string \<Rightarrow> ServiceConfig \<Rightarrow> ('w, scall, error + ServiceConfig option) io" where reconcileConfig_code:
  "reconcileConfig r existingID desired = (
     if existingID \<noteq> [] then (
       let desired = desired\<lparr>Config_ID := existingID\<rparr>
       in Service_UpdateConfig r desired)
     else Service_CreateConfig r desired)"

text \<open>Search by name, then update what was found or create.\<close>

definition adoptAccessPolicy ::
  "'w ZitiServiceReconciler \<Rightarrow> AccessPolicy \<Rightarrow> ('w, scall, error + AccessPolicy option) io" where adoptAccessPolicy_code:
  "adoptAccessPolicy r desired = do {
     existing \<leftarrow> Service_FindAccessPolicyByName r (AccessPolicy_Name desired);
     case existing of
       Inl err \<Rightarrow> State_Monad.return (Inl err)
     | Inr (Some existing) \<Rightarrow> (
         let desired = desired\<lparr>AccessPolicy_ID := AccessPolicy_ID existing\<rparr>
         in Service_UpdateAccessPolicy r desired)
     | Inr None \<Rightarrow> Service_CreateAccessPolicy r desired
   }"

definition reconcileAccessPolicy ::
  "'w ZitiServiceReconciler \<Rightarrow> string \<Rightarrow> AccessPolicy \<Rightarrow> ('w, scall, error + AccessPolicy option) io" where reconcileAccessPolicy_code:
  "reconcileAccessPolicy r existingID desired = (
     if existingID \<noteq> [] then do {
       let desired = desired\<lparr>AccessPolicy_ID := existingID\<rparr>;
       updated \<leftarrow> Service_UpdateAccessPolicy r desired;
       case updated of
         Inr None \<Rightarrow> adoptAccessPolicy r desired
       | _ \<Rightarrow> State_Monad.return updated
     } else adoptAccessPolicy r desired)"

definition adoptServiceEdgeRouterPolicy ::
  "'w ZitiServiceReconciler \<Rightarrow> ServiceEdgeRouterPolicy \<Rightarrow> ('w, scall, error + ServiceEdgeRouterPolicy option) io" where adoptServiceEdgeRouterPolicy_code:
  "adoptServiceEdgeRouterPolicy r desired = do {
     existing \<leftarrow> Service_FindServiceEdgeRouterPolicyByName r (SERP_Name desired);
     case existing of
       Inl err \<Rightarrow> State_Monad.return (Inl err)
     | Inr (Some existing) \<Rightarrow> (
         let desired = desired\<lparr>SERP_ID := SERP_ID existing\<rparr>
         in Service_UpdateServiceEdgeRouterPolicy r desired)
     | Inr None \<Rightarrow> Service_CreateServiceEdgeRouterPolicy r desired
   }"

definition reconcileServiceEdgeRouterPolicy ::
  "'w ZitiServiceReconciler \<Rightarrow> string \<Rightarrow> ServiceEdgeRouterPolicy \<Rightarrow> ('w, scall, error + ServiceEdgeRouterPolicy option) io" where reconcileServiceEdgeRouterPolicy_code:
  "reconcileServiceEdgeRouterPolicy r existingID desired = (
     if existingID \<noteq> [] then do {
       let desired = desired\<lparr>SERP_ID := existingID\<rparr>;
       updated \<leftarrow> Service_UpdateServiceEdgeRouterPolicy r desired;
       case updated of
         Inr None \<Rightarrow> adoptServiceEdgeRouterPolicy r desired
       | _ \<Rightarrow> State_Monad.return updated
     } else adoptServiceEdgeRouterPolicy r desired)"

text \<open>\<^verbatim>\<open>deleteRouterPolicies\<close> clears the ids it deleted in the caller's object.\<close>

definition deleteRouterPolicies ::
  "'w ZitiServiceReconciler \<Rightarrow> ZitiService \<Rightarrow> ('w, scall, error option \<times> ZitiService) io" where deleteRouterPolicies_code:
  "deleteRouterPolicies r service = do {
     (err, service) \<leftarrow> (
       let ident = ServiceEdgeRouterPolicyID (ZS_Status service)
       in if ident \<noteq> [] then do {
            err \<leftarrow> Service_DeleteServiceEdgeRouterPolicy r ident;
            State_Monad.return (case err of Some err \<Rightarrow> (Some err, service)
              | None \<Rightarrow> (None, service\<lparr>ZS_Status := (ZS_Status service)\<lparr>ServiceEdgeRouterPolicyID := []\<rparr>\<rparr>))
          } else State_Monad.return (None, service));
     case err of
       Some err \<Rightarrow> State_Monad.return (Some err, service)
     | None \<Rightarrow> (
         let ident = BindPolicyID (ZS_Status service)
         in if ident \<noteq> [] then do {
              err \<leftarrow> Service_DeleteAccessPolicy r ident;
              State_Monad.return (case err of Some err \<Rightarrow> (Some err, service)
                | None \<Rightarrow> (None, service\<lparr>ZS_Status := (ZS_Status service)\<lparr>BindPolicyID := []\<rparr>\<rparr>))
            } else State_Monad.return (None, service))
   }"

section \<open>Resolving routers\<close>

definition resolveEdgeRouterID :: "'w ZitiServiceReconciler \<Rightarrow> string \<Rightarrow> ('w, scall, error + string) io" where resolveEdgeRouterID_code:
  "resolveEdgeRouterID r name = do {
     edgeRouter \<leftarrow> Service_FindEdgeRouterByName r name;
     State_Monad.return (case edgeRouter of
         Inl err \<Rightarrow> Inl (Errorf_w (''resolve edge router '' @ Quote (Service_uc r) name) err)
       | Inr None \<Rightarrow> Inl (New (''edge router '' @ Quote (Service_uc r) name @ '' not found or has an empty ID''))
       | Inr (Some edgeRouter) \<Rightarrow>
           if TrimSpace (EdgeRouter_ID edgeRouter) = []
           then Inl (New (''edge router '' @ Quote (Service_uc r) name @ '' not found or has an empty ID''))
           else Inr (TrimSpace (EdgeRouter_ID edgeRouter)))
   }"

text \<open>The loop over the additional router names; \<open>seen\<close> holds the resolved ones.\<close>

fun resolveAdditional ::
  "'w ZitiServiceReconciler \<Rightarrow> string list \<Rightarrow> string list \<Rightarrow> string list \<Rightarrow> ('w, scall, error + string list) io" where
  "resolveAdditional r seen ids [] = State_Monad.return (Inr ids)"
| "resolveAdditional r seen ids (rawName # rawNames) = (
     let name = TrimSpace rawName
     in if name = []
        then State_Monad.return (Inl (New ''spec.router.additionalAllowedEdgeRouterNames must not contain blank names''))
        else if name \<in> set seen then resolveAdditional r seen ids rawNames
        else do {
          ident \<leftarrow> resolveEdgeRouterID r name;
          case ident of
            Inl err \<Rightarrow> State_Monad.return (Inl err)
          | Inr ident \<Rightarrow> resolveAdditional r (name # seen) (ids @ [ident]) rawNames
        })"

definition desiredRouterPolicies ::
  "'w ZitiServiceReconciler \<Rightarrow> ZitiService \<Rightarrow> string \<Rightarrow> ('w, scall, error + RouterPolicySet) io" where desiredRouterPolicies_code:
  "desiredRouterPolicies r resource serviceID = (
     case Router (ZS_Spec resource) of
       None \<Rightarrow> State_Monad.return (Inl (New ''spec.router.name must not be empty''))
     | Some router \<Rightarrow>
         if TrimSpace (Router_Name router) = []
         then State_Monad.return (Inl (New ''spec.router.name must not be empty''))
         else do {
           let routerName = TrimSpace (Router_Name router);
           routerIdentity \<leftarrow> Service_FindIdentityByName r routerName;
           case routerIdentity of
             Inl err \<Rightarrow> State_Monad.return (Inl (Errorf_w (''resolve router identity '' @ Quote (Service_uc r) routerName) err))
           | Inr None \<Rightarrow> State_Monad.return (Inl (New (''router identity '' @ Quote (Service_uc r) routerName @ '' not found'')))
           | Inr (Some routerIdentity) \<Rightarrow>
               if TrimSpace (Identity_ID routerIdentity) = []
               then State_Monad.return (Inl (New (''router identity '' @ Quote (Service_uc r) routerName @ '' not found'')))
               else if \<not> EqualFold (Service_uc r) (TrimSpace (Identity_Type routerIdentity)) ''Router''
               then State_Monad.return (Inl (New (''identity '' @ Quote (Service_uc r) routerName @ '' is not a Router identity'')))
               else do {
                 hostingRouterID \<leftarrow> resolveEdgeRouterID r routerName;
                 case hostingRouterID of
                   Inl err \<Rightarrow> State_Monad.return (Inl err)
                 | Inr hostingRouterID \<Rightarrow> do {
                     additionalIDs \<leftarrow> resolveAdditional r [routerName] [] (AdditionalAllowedEdgeRouterNames router);
                     State_Monad.return (case additionalIDs of
                         Inl err \<Rightarrow> Inl err
                       | Inr additionalIDs \<Rightarrow>
                           (case RouterPolicies resource serviceID (Identity_ID routerIdentity) hostingRouterID additionalIDs of
                              None \<Rightarrow> Inl (New ''spec.router.name must not be empty'')
                            | Some policies \<Rightarrow> Inr policies))
                   }
               }
         })"

section \<open>The reconciler\<close>

definition zitiServiceFinalizer :: string where "zitiServiceFinalizer = ''ziti.sixfeetup.com/service-finalizer''"

definition service_resource :: "(ZitiService, ZitiServiceStatus) resource" where
  "service_resource = \<lparr>r_meta = ZS_Meta, r_set_meta = (\<lambda>m i. i\<lparr>ZS_Meta := m\<rparr>), r_status = ZS_Status,
     r_common = ServiceStatus_Common, r_set_common = (\<lambda>c s. s\<lparr>ServiceStatus_Common := c\<rparr>),
     r_set_status = (\<lambda>s i. i\<lparr>ZS_Status := s\<rparr>)\<rparr>"

definition validateServiceSpec :: "ZitiService \<Rightarrow> error option" where
  "validateServiceSpec service = (
     let spec = ZS_Spec service
     in if ServiceSpec_Name spec = [] then Some (New ''spec.name must not be empty'')
        else if (case Router spec of None \<Rightarrow> False | Some router \<Rightarrow> TrimSpace (Router_Name router) = [])
        then Some (New ''spec.router.name must not be empty'')
        else if list_ex (\<lambda>portRange. Low portRange > High portRange) (PortRanges (Configs_Intercept (Configs spec)))
        then Some (New ''spec.configs.intercept.portRanges low must be <= high'')
        else None)"

definition service_markFailed ::
  "'w ZitiServiceReconciler \<Rightarrow> ZitiService \<Rightarrow> error \<Rightarrow> string \<Rightarrow> bool \<Rightarrow> ('w, scall, Result \<times> error option) io" where
  "service_markFailed r = markFailed service_resource (Service_Client r) Service_Kube"

definition service_markReady ::
  "'w ZitiServiceReconciler \<Rightarrow> ZitiService \<Rightarrow> ('w, scall, error option \<times> ZitiService) io" where
  "service_markReady r = markReady service_resource (Service_Client r) Service_Kube ''ZitiService reconciled successfully''"

definition nil_dereference :: "('w, 'c, Result \<times> error option) io" where
  "nil_dereference = State_Monad.return (zero_Result, Some (Panic ''nil pointer dereference''))"

definition service_finish ::
  "'w ZitiServiceReconciler \<Rightarrow> ZitiService \<Rightarrow> ('w, scall, Result \<times> error option) io" where
  "service_finish r service = do {
     (err, service) \<leftarrow> service_markReady r service;
     case err of
       Some err \<Rightarrow> State_Monad.return (zero_Result, Some err)
     | None \<Rightarrow> do {
         _ \<leftarrow> EmitEvent (Service_Client r) Service_Kube EventTypeNormal ''ServiceReconciled''
           ''ZitiService reconciled successfully'';
         State_Monad.return (zero_Result, None)
       }
   }"

text \<open>The router part of \<^verbatim>\<open>Reconcile\<close>, from the assignment of the service's ids on.\<close>

definition service_routers ::
  "'w ZitiServiceReconciler \<Rightarrow> ZitiService \<Rightarrow> string \<Rightarrow> ('w, scall, Result \<times> error option) io" where
  "service_routers r service backendID = (
     if Router (ZS_Spec service) \<noteq> None then do {
       routerPolicies \<leftarrow> desiredRouterPolicies r service backendID;
       case routerPolicies of
         Inl err \<Rightarrow> service_markFailed r service err ''RouterResolutionFailed'' True
       | Inr routerPolicies \<Rightarrow> do {
           bindPolicy \<leftarrow> reconcileAccessPolicy r (BindPolicyID (ZS_Status service)) (BindPolicy routerPolicies);
           case bindPolicy of
             Inl err \<Rightarrow> service_markFailed r service err ''BindPolicyFailed'' True
           | Inr bindPolicy \<Rightarrow> do {
               serp \<leftarrow> reconcileServiceEdgeRouterPolicy r (ServiceEdgeRouterPolicyID (ZS_Status service))
                 (RouterPolicy_SERP routerPolicies);
               case serp of
                 Inl err \<Rightarrow> service_markFailed r service err ''ServiceEdgeRouterPolicyFailed'' True
               | Inr serp \<Rightarrow>
                   (case (bindPolicy, serp) of
                      (Some bindPolicy, Some serp) \<Rightarrow> service_finish r (service\<lparr>ZS_Status := (ZS_Status service)\<lparr>
                        BindPolicyID := AccessPolicy_ID bindPolicy, ServiceEdgeRouterPolicyID := SERP_ID serp\<rparr>\<rparr>)
                    | _ \<Rightarrow> nil_dereference)
             }
         }
     } else do {
       (err, service) \<leftarrow> deleteRouterPolicies r service;
       case err of
         Some err \<Rightarrow> service_markFailed r service err ''RouterPolicyCleanupFailed'' True
       | None \<Rightarrow> service_finish r service
     })"

definition with_service_ids :: "string \<Rightarrow> string \<Rightarrow> string \<Rightarrow> ZitiService \<Rightarrow> ZitiService" where
  "with_service_ids ident intercept host service = service\<lparr>ZS_Status := (ZS_Status service)\<lparr>
     ServiceStatus_Common := (ServiceStatus_Common (ZS_Status service))\<lparr>Status_ID := ident\<rparr>,
     ConfigIDs := \<lparr>InterceptID = intercept, HostID = host\<rparr>\<rparr>\<rparr>"

text \<open>\<^verbatim>\<open>Reconcile\<close> after the finalizer is in place.\<close>

definition service_body ::
  "'w ZitiServiceReconciler \<Rightarrow> ZitiService \<Rightarrow> ('w, scall, Result \<times> error option) io" where
  "service_body r service =
     (case validateServiceSpec service of
        Some err \<Rightarrow> service_markFailed r service err ''SpecValidationFailed'' False
      | None \<Rightarrow> do {
          let desired = Service_FromResource service;
          backendService \<leftarrow> reconcileService r service desired;
          case backendService of
            Inl err \<Rightarrow> service_markFailed r service err ''ServiceSyncFailed'' True
          | Inr backendService \<Rightarrow> do {
              interceptConfig \<leftarrow> reconcileConfig r (InterceptID (ConfigIDs (ZS_Status service))) (DService_Intercept desired);
              case interceptConfig of
                Inl err \<Rightarrow> service_markFailed r service err ''InterceptConfigFailed'' True
              | Inr interceptConfig \<Rightarrow> do {
                  hostConfig \<leftarrow> reconcileConfig r (HostID (ConfigIDs (ZS_Status service))) (DService_Host desired);
                  case hostConfig of
                    Inl err \<Rightarrow> service_markFailed r service err ''HostConfigFailed'' True
                  | Inr hostConfig \<Rightarrow>
                      (case (interceptConfig, hostConfig, backendService) of
                         (Some interceptConfig, Some hostConfig, Some backendService) \<Rightarrow> do {
                           let desired = desired\<lparr>DService_ConfigIDs := [Config_ID interceptConfig, Config_ID hostConfig]\<rparr>;
                           backendService \<leftarrow> (if Service_ConfigIDs backendService \<noteq> DService_ConfigIDs desired
                             then Service_Update r (Service_ID backendService) desired
                             else State_Monad.return (Inr (Some backendService)));
                           case backendService of
                             Inl err \<Rightarrow> service_markFailed r service err ''ServiceSyncFailed'' True
                           | Inr None \<Rightarrow> nil_dereference
                           | Inr (Some backendService) \<Rightarrow>
                               service_routers r (with_service_ids (Service_ID backendService) (Config_ID interceptConfig)
                                 (Config_ID hostConfig) service) (Service_ID backendService)
                         }
                       | _ \<Rightarrow> nil_dereference)
                }
            }
        })"

text \<open>The backend part of \<^verbatim>\<open>reconcileDelete\<close>.\<close>

definition deleteIfSet ::
  "(string \<Rightarrow> ('w, scall, error option) io) \<Rightarrow> string \<Rightarrow> ('w, scall, error option) io" where
  "deleteIfSet del ident = (if ident \<noteq> [] then del ident else State_Monad.return None)"

definition service_cleanup ::
  "'w ZitiServiceReconciler \<Rightarrow> ZitiService \<Rightarrow> ('w, scall, error option \<times> ZitiService) io" where service_cleanup_code:
  "service_cleanup r service = do {
     (err, service) \<leftarrow> deleteRouterPolicies r service;
     case err of Some err \<Rightarrow> State_Monad.return (Some err, service)
     | None \<Rightarrow> do {
         err \<leftarrow> deleteIfSet (Service_DeleteConfig r) (InterceptID (ConfigIDs (ZS_Status service)));
         case err of Some err \<Rightarrow> State_Monad.return (Some err, service)
         | None \<Rightarrow> do {
             err \<leftarrow> deleteIfSet (Service_DeleteConfig r) (HostID (ConfigIDs (ZS_Status service)));
             case err of Some err \<Rightarrow> State_Monad.return (Some err, service)
             | None \<Rightarrow> do {
                 err \<leftarrow> deleteIfSet (Service_Delete r) (service_status_id service);
                 State_Monad.return (err, service)
               }
           }
       }
   }"

definition service_reconcileDelete ::
  "'w ZitiServiceReconciler \<Rightarrow> ZitiService \<Rightarrow> ('w, scall, Result \<times> error option) io" where
  "service_reconcileDelete r = deleteFrame service_resource (Service_Client r) Service_Kube zitiServiceFinalizer
     ''ServiceDeleted'' ''ZitiService backend state removed'' (service_cleanup r)"

definition Service_Reconcile ::
  "'w ZitiServiceReconciler \<Rightarrow> ResourceKey \<Rightarrow> ('w, scall, Result \<times> error option) io" where
  "Service_Reconcile r = reconcileFrame service_resource (Service_Client r) Service_Kube zitiServiceFinalizer
     (service_reconcileDelete r) (service_body r)"

text \<open>The parts with the forwarding methods unfolded, as the proofs below use them.\<close>

lemmas reconcileConfig_def = reconcileConfig_code [unfolded forwards]
  and adoptAccessPolicy_def = adoptAccessPolicy_code [unfolded forwards]
  and reconcileAccessPolicy_def = reconcileAccessPolicy_code [unfolded forwards]
  and adoptServiceEdgeRouterPolicy_def = adoptServiceEdgeRouterPolicy_code [unfolded forwards]
  and reconcileServiceEdgeRouterPolicy_def = reconcileServiceEdgeRouterPolicy_code [unfolded forwards]
  and deleteRouterPolicies_def = deleteRouterPolicies_code [unfolded forwards]
  and resolveEdgeRouterID_def = resolveEdgeRouterID_code [unfolded forwards]
  and desiredRouterPolicies_def = desiredRouterPolicies_code [unfolded forwards]
  and service_cleanup_def = service_cleanup_code [unfolded forwards]

section \<open>The finalizer protocol\<close>

interpretation service_res: status_resource service_resource
  by unfold_locales (simp_all add: service_resource_def)

lemma service_resource_simps [simp]:
  "r_meta service_resource = ZS_Meta" "r_status service_resource = ZS_Status"
  "r_common service_resource = ServiceStatus_Common"
  by (simp_all add: service_resource_def)

lemma inj_Service_Kube: "inj Service_Kube"
  by (simp add: inj_def)

text \<open>A successful cleanup has deleted every backend object whose id the status holds.\<close>

definition service_cleaned :: "'w ZitiServiceReconciler \<Rightarrow> ZitiService \<Rightarrow> scall list \<Rightarrow> bool" where
  "service_cleaned r service xs \<longleftrightarrow>
     (ServiceEdgeRouterPolicyID (ZS_Status service) \<noteq> [] \<longrightarrow> SZ_DeleteSERP (ServiceEdgeRouterPolicyID (ZS_Status service)) None \<in> set xs) \<and>
     (BindPolicyID (ZS_Status service) \<noteq> [] \<longrightarrow> SZ_DeletePolicy (BindPolicyID (ZS_Status service)) None \<in> set xs) \<and>
     (InterceptID (ConfigIDs (ZS_Status service)) \<noteq> [] \<longrightarrow> SZ_DeleteConfig (InterceptID (ConfigIDs (ZS_Status service))) None \<in> set xs) \<and>
     (HostID (ConfigIDs (ZS_Status service)) \<noteq> [] \<longrightarrow> SZ_DeleteConfig (HostID (ConfigIDs (ZS_Status service))) None \<in> set xs) \<and>
     (service_status_id service \<noteq> [] \<longrightarrow> SZ_DeleteService (service_status_id service) None \<in> set xs)"

text \<open>What \<open>deleteRouterPolicies\<close> leaves of the object.\<close>

definition policies_deleted :: "ZitiService \<Rightarrow> scall list \<Rightarrow> error option \<times> ZitiService \<Rightarrow> bool" where
  "policies_deleted service xs res \<longleftrightarrow> no_update Service_Kube xs \<and>
     (\<forall>obj u. Service_Kube (KStatus obj u) \<notin> set xs) \<and>
     ZS_Meta (snd res) = ZS_Meta service \<and> ZS_Spec (snd res) = ZS_Spec service \<and>
     ConfigIDs (ZS_Status (snd res)) = ConfigIDs (ZS_Status service) \<and>
     ServiceStatus_Common (ZS_Status (snd res)) = ServiceStatus_Common (ZS_Status service) \<and>
     (fst res = None \<longrightarrow>
       (ServiceEdgeRouterPolicyID (ZS_Status service) \<noteq> [] \<longrightarrow> SZ_DeleteSERP (ServiceEdgeRouterPolicyID (ZS_Status service)) None \<in> set xs) \<and>
       (BindPolicyID (ZS_Status service) \<noteq> [] \<longrightarrow> SZ_DeletePolicy (BindPolicyID (ZS_Status service)) None \<in> set xs) \<and>
       ServiceEdgeRouterPolicyID (ZS_Status (snd res)) = [] \<and> BindPolicyID (ZS_Status (snd res)) = [])"

lemma deleteRouterPolicies_yields: "yields (deleteRouterPolicies r service) (policies_deleted service)"
  unfolding deleteRouterPolicies_def Let_def
  by (intro yields_intros) (auto simp: policies_deleted_def split: option.splits)

lemma deleteIfSet_yields:
  "(\<And>err. ident \<noteq> [] \<Longrightarrow> Q [mk ident err] err) \<Longrightarrow> (ident = [] \<Longrightarrow> Q [] None) \<Longrightarrow> yields (deleteIfSet (\<lambda>ident. call (mk ident) (del ident)) ident) Q"
  unfolding deleteIfSet_def by (intro yields_intros) auto

lemma service_cleanup_yields:
  "yields (service_cleanup r service) (\<lambda>xs res. no_update Service_Kube xs \<and> ZS_Meta (snd res) = ZS_Meta service \<and>
     (fst res = None \<longrightarrow> service_cleaned r service xs))"
  unfolding service_cleanup_def
  by (intro yields_intros deleteIfSet_yields yields_mono [OF deleteRouterPolicies_yields])
     (simp_all add: policies_deleted_def service_cleaned_def service_status_id_def)

lemma service_marks_no_update:
  "yields (service_markFailed r obj e reason retryable) (\<lambda>xs res. no_update Service_Kube xs)"
  "yields (service_finish r obj) (\<lambda>xs res. no_update Service_Kube xs)"
  unfolding service_markFailed_def service_finish_def service_markReady_def
  by (intro yields_intros EmitEvent_yields yields_mono [OF markFailed_marks] yields_mono [OF markReady_marks];
      simp add: marks_no_update [OF _ inj_Service_Kube])+

text \<open>Calls to the OpenZiti controller only, none of which writes a router policy.\<close>

fun policy_write :: "scall \<Rightarrow> bool" where
  "policy_write (SZ_CreatePolicy p res) = True"
| "policy_write (SZ_UpdatePolicy p res) = True"
| "policy_write (SZ_CreateSERP q res) = True"
| "policy_write (SZ_UpdateSERP q res) = True"
| "policy_write _ = False"

definition lookups_only :: "scall list \<Rightarrow> bool" where
  "lookups_only xs \<longleftrightarrow> list_all (\<lambda>c. \<not> policy_write c \<and> (\<forall>k. c \<noteq> Service_Kube k)) xs"

lemma lookups_only_simps [simp]:
  "lookups_only []" "lookups_only (c # xs) \<longleftrightarrow> \<not> policy_write c \<and> (\<forall>k. c \<noteq> Service_Kube k) \<and> lookups_only xs"
  "lookups_only (xs @ ys) \<longleftrightarrow> lookups_only xs \<and> lookups_only ys"
  by (simp_all add: lookups_only_def)

lemma lookups_no_update [simp]: "lookups_only xs \<Longrightarrow> no_update Service_Kube xs"
  by (auto simp: lookups_only_def no_update_def list_all_iff)

lemmas service_manager_defs = Service_FindByName_def Service_Create_def Service_Update_def

lemma reconcileService_lookups: "yields (reconcileService r service desired) (\<lambda>xs res. lookups_only xs)"
  unfolding reconcileService_def service_manager_defs Let_def by (intro yields_intros) simp_all

lemma reconcileConfig_lookups: "yields (reconcileConfig r existingID desired) (\<lambda>xs res. lookups_only xs)"
  unfolding reconcileConfig_def Let_def by (intro yields_intros) simp_all

subsection \<open>Resolving routers\<close>

text \<open>A router name was looked up and has a usable id.\<close>

definition resolved :: "scall list \<Rightarrow> string \<Rightarrow> string \<Rightarrow> bool" where
  "resolved xs name ident \<longleftrightarrow> (\<exists>er. SZ_FindEdgeRouter name (Inr (Some er)) \<in> set xs \<and>
     ident = TrimSpace (EdgeRouter_ID er) \<and> ident \<noteq> [])"

lemma resolved_mono: "resolved xs name ident \<Longrightarrow> set xs \<subseteq> set ys \<Longrightarrow> resolved ys name ident"
  by (auto simp: resolved_def)

lemma resolveEdgeRouterID_yields:
  "yields (resolveEdgeRouterID r name) (\<lambda>xs res. lookups_only xs \<and> (\<forall>ident. res = Inr ident \<longrightarrow> resolved xs name ident))"
  unfolding resolveEdgeRouterID_def
  by (intro yields_intros) (auto simp: resolved_def split: sum.splits option.splits if_splits)

text \<open>The ids of the additional routers: each comes from a name of the spec, and every name that
  is not skipped has one.\<close>

definition additional_resolved :: "scall list \<Rightarrow> string list \<Rightarrow> string list \<Rightarrow> string list \<Rightarrow> bool" where
  "additional_resolved xs seen rawNames ids \<longleftrightarrow>
     (\<forall>raw \<in> set rawNames. TrimSpace raw \<in> set seen \<or> (\<exists>ident \<in> set ids. resolved xs (TrimSpace raw) ident)) \<and>
     (\<forall>ident \<in> set ids. \<exists>raw \<in> set rawNames. resolved xs (TrimSpace raw) ident)"

lemma resolveAdditional_yields:
  "yields (resolveAdditional r seen ids rawNames) (\<lambda>xs res. lookups_only xs \<and>
     (case res of Inl err \<Rightarrow> True
      | Inr all \<Rightarrow> \<exists>new. all = ids @ new \<and> additional_resolved xs seen rawNames new))"
proof (induction rawNames arbitrary: seen ids)
  case Nil
  show ?case unfolding resolveAdditional.simps
    by (intro yields_intros) (simp add: additional_resolved_def)
next
  case (Cons raw rawNames)
  have skip: "additional_resolved xs seen (raw # rawNames) new"
    if "TrimSpace raw \<in> set seen" "additional_resolved xs seen rawNames new" for xs new
    using that by (auto simp: additional_resolved_def)
  have more: "additional_resolved (xs @ ys) seen (raw # rawNames) (ident # new)"
    if "resolved xs (TrimSpace raw) ident" "additional_resolved ys (TrimSpace raw # seen) rawNames new" for xs ys ident new
  proof -
    have l: "resolved xs n i \<Longrightarrow> resolved (xs @ ys) n i" and r: "resolved ys n i \<Longrightarrow> resolved (xs @ ys) n i" for n i
      by (auto simp: resolved_def)
    show ?thesis using that l r unfolding additional_resolved_def by fastforce
  qed
  show ?case
    unfolding resolveAdditional.simps Let_def
    by (intro yields_intros yields_mono [OF Cons.IH] yields_mono [OF resolveEdgeRouterID_yields])
       (auto split: sum.splits intro: skip more)
qed

text \<open>
  Everything the two policies need was found: an identity of type Router with the router's
  name, and an edge router with a usable id for that name and for every additional name.
\<close>

definition router_names :: "ServiceRouterSpec \<Rightarrow> string set" where
  "router_names router = insert (TrimSpace (Router_Name router)) (TrimSpace ` set (AdditionalAllowedEdgeRouterNames router))"

definition routers_found :: "unicode \<Rightarrow> ServiceRouterSpec \<Rightarrow> scall list \<Rightarrow> bool" where
  "routers_found uc router xs \<longleftrightarrow>
     (\<exists>ident. SZ_FindIdentity (TrimSpace (Router_Name router)) (Inr (Some ident)) \<in> set xs \<and>
        EqualFold uc (TrimSpace (Identity_Type ident)) ''Router'') \<and>
     (\<forall>name \<in> router_names router. \<exists>ident. resolved xs name ident)"

text \<open>The roles name exactly the resolved routers.\<close>

definition roles_exact :: "ServiceRouterSpec \<Rightarrow> scall list \<Rightarrow> string list \<Rightarrow> bool" where
  "roles_exact router xs roles \<longleftrightarrow> sorted roles \<and> distinct roles \<and>
     (\<forall>name \<in> router_names router. \<exists>ident. resolved xs name ident \<and> ''@'' @ ident \<in> set roles) \<and>
     (\<forall>role \<in> set roles. \<exists>name \<in> router_names router. \<exists>ident. resolved xs name ident \<and> role = ''@'' @ ident)"

lemma routers_found_mono: "routers_found uc router xs \<Longrightarrow> set xs \<subseteq> set ys \<Longrightarrow> routers_found uc router ys"
  unfolding routers_found_def by (meson resolved_mono subsetD)

lemma roles_exact_mono: "roles_exact router xs roles \<Longrightarrow> set xs \<subseteq> set ys \<Longrightarrow> roles_exact router ys roles"
  unfolding roles_exact_def by (meson resolved_mono)

lemma resolved_trim: "resolved xs name ident \<Longrightarrow> TrimSpace ident = ident"
  by (auto simp: resolved_def)

lemma RouterPolicies_roles:
  assumes "RouterPolicies service serviceID identityID host ids = Some policies" "Router (ZS_Spec service) = Some router"
    and "resolved xs (TrimSpace (Router_Name router)) host"
    and "additional_resolved xs [TrimSpace (Router_Name router)] (AdditionalAllowedEdgeRouterNames router) ids"
  shows "roles_exact router xs (EdgeRouterRoles (RouterPolicy_SERP policies))"
proof -
  let ?roles = "sortCompact ((''@'' @ TrimSpace host) # map (\<lambda>ident. ''@'' @ TrimSpace ident) ids)"
  have roles: "EdgeRouterRoles (RouterPolicy_SERP policies) = ?roles"
    using assms(1,2) by (auto simp: RouterPolicies_def Let_def sortCompact_def split: if_splits)
  have ids: "TrimSpace ident = ident" if "ident \<in> set ids" for ident
    using assms(4) that resolved_trim unfolding additional_resolved_def by blast
  have set: "set ?roles = (\<lambda>ident. ''@'' @ ident) ` set (host # ids)"
    using resolved_trim [OF assms(3)] ids by auto
  have "sorted ?roles" "distinct ?roles" by (simp_all add: sortCompact_eq_sortedSet)
  moreover have "\<exists>ident. resolved xs name ident \<and> ''@'' @ ident \<in> set ?roles" if "name \<in> router_names router" for name
    using that assms(3,4) unfolding set router_names_def additional_resolved_def by fastforce
  moreover have "\<exists>name \<in> router_names router. \<exists>ident. resolved xs name ident \<and> role = ''@'' @ ident" if "role \<in> set ?roles" for role
    using that assms(3,4) unfolding set router_names_def additional_resolved_def by fastforce
  ultimately show ?thesis unfolding roles_exact_def roles by blast
qed

lemma roles_exact_found:
  "roles_exact router xs roles \<Longrightarrow> name \<in> router_names router \<Longrightarrow> \<exists>ident. resolved xs name ident"
  by (auto simp: roles_exact_def)

lemma desiredRouterPolicies_yields:
  "yields (desiredRouterPolicies r service serviceID) (\<lambda>xs res. lookups_only xs \<and>
     (\<forall>policies. res = Inr policies \<longrightarrow> (\<exists>router. Router (ZS_Spec service) = Some router \<and>
        routers_found (Service_uc r) router xs \<and> roles_exact router xs (EdgeRouterRoles (RouterPolicy_SERP policies)))))"
proof -
  have step: "routers_found (Service_uc r) router (c # ys @ zs) \<and>
      roles_exact router (c # ys @ zs) (EdgeRouterRoles (RouterPolicy_SERP policies))"
    if "c = SZ_FindIdentity (TrimSpace (Router_Name router)) (Inr (Some ident))"
      "EqualFold (Service_uc r) (TrimSpace (Identity_Type ident)) ''Router''"
      "resolved ys (TrimSpace (Router_Name router)) host"
      "additional_resolved zs [TrimSpace (Router_Name router)] (AdditionalAllowedEdgeRouterNames router) ids"
      "RouterPolicies service serviceID (Identity_ID ident) host ids = Some policies" "Router (ZS_Spec service) = Some router"
    for c ys zs router ident host ids policies
  proof -
    have l: "resolved ys n i \<Longrightarrow> resolved (c # ys @ zs) n i" and r: "resolved zs n i \<Longrightarrow> resolved (c # ys @ zs) n i" for n i
      by (auto simp: resolved_def)
    have "additional_resolved (c # ys @ zs) [TrimSpace (Router_Name router)] (AdditionalAllowedEdgeRouterNames router) ids"
      using that(4) r unfolding additional_resolved_def by meson
    from RouterPolicies_roles [OF that(5,6) l [OF that(3)] this] that(1,2) show ?thesis
      unfolding routers_found_def by (auto intro: roles_exact_found)
  qed
  show ?thesis
    unfolding desiredRouterPolicies_def Let_def
    by (intro yields_intros yields_mono [OF resolveEdgeRouterID_yields] yields_mono [OF resolveAdditional_yields])
       (auto split: sum.splits option.splits intro: step [OF refl, THEN conjunct1] step [OF refl, THEN conjunct2])
qed

subsection \<open>Writing the policies\<close>

definition policy_guard :: "unicode \<Rightarrow> ZitiServiceSpec \<Rightarrow> scall list \<Rightarrow> scall \<Rightarrow> bool" where
  "policy_guard uc spec pre c \<longleftrightarrow> (policy_write c \<longrightarrow>
     (\<exists>router. Router spec = Some router \<and> routers_found uc router pre \<and>
        (\<forall>q u. c = SZ_CreateSERP q u \<or> c = SZ_UpdateSERP q u \<longrightarrow> roles_exact router pre (EdgeRouterRoles q))))"

lemma policy_guard_mono: "policy_guard uc spec pre c \<Longrightarrow> set pre \<subseteq> set pre' \<Longrightarrow> policy_guard uc spec pre' c"
  unfolding policy_guard_def by (meson routers_found_mono roles_exact_mono)

lemma policy_guard_other [simp]: "\<not> policy_write c \<Longrightarrow> policy_guard uc spec pre c"
  by (simp add: policy_guard_def)

lemma guarded_extend:
  "guarded (policy_guard uc spec) xs \<Longrightarrow> (\<And>pre. set pre \<subseteq> set (f pre)) \<Longrightarrow> guarded (\<lambda>pre. policy_guard uc spec (f pre)) xs"
  by (erule guarded_mono) (auto intro: policy_guard_mono)

lemma guarded_lookups [simp]: "lookups_only xs \<Longrightarrow> guarded (\<lambda>pre. policy_guard uc spec (f pre)) xs"
  by (rule guarded_all) (auto simp: lookups_only_def list_all_iff policy_guard_def)

lemma guarded_marks: "marks_only Service_Kube xs \<Longrightarrow> guarded (\<lambda>pre. policy_guard uc spec (f pre)) xs"
  by (rule guarded_all) (auto simp: marks_only_def policy_guard_def)

lemma service_marks:
  "yields (service_markFailed r obj e reason retryable) (\<lambda>xs res. marks_only Service_Kube xs)"
  "yields (service_finish r obj) (\<lambda>xs res. marks_only Service_Kube xs)"
  unfolding service_markFailed_def service_finish_def service_markReady_def
  by (intro yields_intros EmitEvent_yields markFailed_marks yields_mono [OF markReady_marks]; simp)+

text \<open>The calls that store one of the two policies.\<close>

definition bind_calls :: "scall list \<Rightarrow> bool" where
  "bind_calls xs \<longleftrightarrow> (\<forall>c \<in> set xs. (\<forall>k. c \<noteq> Service_Kube k) \<and> (\<forall>q u. c \<noteq> SZ_CreateSERP q u \<and> c \<noteq> SZ_UpdateSERP q u))"

definition serp_calls :: "string list \<Rightarrow> scall list \<Rightarrow> bool" where
  "serp_calls roles xs \<longleftrightarrow> (\<forall>c \<in> set xs. (\<forall>k. c \<noteq> Service_Kube k) \<and>
     (\<forall>q u. c = SZ_CreateSERP q u \<or> c = SZ_UpdateSERP q u \<longrightarrow> EdgeRouterRoles q = roles))"

lemma reconcileAccessPolicy_yields: "yields (reconcileAccessPolicy r existingID desired) (\<lambda>xs res. bind_calls xs)"
proof -
  have adopt: "yields (adoptAccessPolicy r d) (\<lambda>xs res. bind_calls xs)" for d
    unfolding adoptAccessPolicy_def Let_def by (intro yields_intros) (simp_all add: bind_calls_def)
  show ?thesis
    unfolding reconcileAccessPolicy_def Let_def
    by (intro yields_intros yields_mono [OF adopt]) (auto simp: bind_calls_def)
qed

lemma reconcileServiceEdgeRouterPolicy_yields:
  "yields (reconcileServiceEdgeRouterPolicy r existingID desired) (\<lambda>xs res. serp_calls (EdgeRouterRoles desired) xs)"
proof -
  have adopt: "yields (adoptServiceEdgeRouterPolicy r d) (\<lambda>xs res. serp_calls (EdgeRouterRoles d) xs)" for d
    unfolding adoptServiceEdgeRouterPolicy_def Let_def by (intro yields_intros) (simp_all add: serp_calls_def)
  show ?thesis
    unfolding reconcileServiceEdgeRouterPolicy_def Let_def
    by (intro yields_intros yields_mono [OF adopt]) (auto simp: serp_calls_def)
qed

lemma guarded_bind:
  "bind_calls xs \<Longrightarrow> Router spec = Some router \<Longrightarrow> routers_found uc router ys \<Longrightarrow>
   guarded (\<lambda>pre. policy_guard uc spec (ys @ pre)) xs"
  by (rule guarded_all) (auto simp: bind_calls_def policy_guard_def intro: routers_found_mono)

lemma guarded_serp:
  "serp_calls roles xs \<Longrightarrow> Router spec = Some router \<Longrightarrow> routers_found uc router ys \<Longrightarrow> roles_exact router ys roles \<Longrightarrow>
   guarded (\<lambda>pre. policy_guard uc spec (ys @ zs @ pre)) xs"
  by (rule guarded_all) (auto simp: serp_calls_def policy_guard_def intro: routers_found_mono roles_exact_mono)

lemma deleteRouterPolicies_lookups: "yields (deleteRouterPolicies r service) (\<lambda>xs res. lookups_only xs)"
  unfolding deleteRouterPolicies_def Let_def by (intro yields_intros) (simp_all split: option.splits)

lemma service_routers_guarded:
  "yields (service_routers r service backendID) (\<lambda>xs res. guarded (policy_guard (Service_uc r) (ZS_Spec service)) xs)"
  unfolding service_routers_def nil_dereference_def
  by (intro yields_intros yields_mono [OF desiredRouterPolicies_yields] yields_mono [OF reconcileAccessPolicy_yields]
      yields_mono [OF reconcileServiceEdgeRouterPolicy_yields] yields_mono [OF service_marks(1)]
      yields_mono [OF service_marks(2)] yields_mono [OF deleteRouterPolicies_lookups])
     (auto split: option.splits intro: guarded_bind guarded_serp guarded_marks)

lemma ZS_Spec_with_ids [simp]: "ZS_Spec (with_service_ids a b c service) = ZS_Spec service"
  by (simp add: with_service_ids_def)

lemma service_body_guarded:
  "yields (service_body r service) (\<lambda>xs res. guarded (policy_guard (Service_uc r) (ZS_Spec service)) xs)"
  unfolding service_body_def nil_dereference_def service_manager_defs Let_def
  by (intro yields_intros yields_mono [OF reconcileService_lookups] yields_mono [OF reconcileConfig_lookups]
      yields_mono [OF service_marks(1)] yields_mono [OF service_routers_guarded])
     (auto split: option.splits sum.splits intro: guarded_marks guarded_extend)

lemma bind_no_update [simp]: "bind_calls xs \<Longrightarrow> no_update Service_Kube xs"
  by (auto simp: bind_calls_def no_update_def)

lemma serp_no_update [simp]: "serp_calls roles xs \<Longrightarrow> no_update Service_Kube xs"
  by (auto simp: serp_calls_def no_update_def)

lemma service_routers_no_update: "yields (service_routers r service backendID) (\<lambda>xs res. no_update Service_Kube xs)"
  unfolding service_routers_def nil_dereference_def
  by (intro yields_intros yields_mono [OF desiredRouterPolicies_yields] yields_mono [OF reconcileAccessPolicy_yields]
      yields_mono [OF reconcileServiceEdgeRouterPolicy_yields] yields_mono [OF service_marks_no_update(1)]
      yields_mono [OF service_marks_no_update(2)] yields_mono [OF deleteRouterPolicies_lookups])
     (auto split: option.splits)

lemma service_body_no_update: "yields (service_body r service) (\<lambda>xs res. no_update Service_Kube xs)"
  unfolding service_body_def nil_dereference_def service_manager_defs Let_def
  by (intro yields_intros yields_mono [OF reconcileService_lookups] yields_mono [OF reconcileConfig_lookups]
      yields_mono [OF service_marks_no_update(1)] yields_mono [OF service_routers_no_update])
     (auto split: option.splits sum.splits)

interpretation service_fin: finalizing service_resource Service_Kube Service_Client service_cleanup service_body service_cleaned
proof
  show "Service_Kube x = Service_Kube y \<longleftrightarrow> x = y" for x y by simp
  show "yields (service_cleanup env obj) (\<lambda>xs r. (\<forall>obj' res. Service_Kube (KUpdate obj' res) \<notin> set xs) \<and>
      r_meta service_resource (snd r) = r_meta service_resource obj \<and> (fst r = None \<longrightarrow> service_cleaned env obj xs))"
    for env :: "'w ZitiServiceReconciler" and obj
    by (rule yields_mono [OF service_cleanup_yields]) (simp add: no_update_def)
  show "yields (service_body env obj) (\<lambda>xs r. \<forall>obj' res. Service_Kube (KUpdate obj' res) \<notin> set xs)"
    for env :: "'w ZitiServiceReconciler" and obj
    by (rule yields_mono [OF service_body_no_update]) (simp add: no_update_def)
qed

section \<open>Properties\<close>

text \<open>
  C18: The service's finalizer guards its backend objects. The object is updated only to add the
  finalizer to a live object, or to remove it from one being deleted after the router
  policies, both configs and the service that its status names were all deleted without error.
\<close>

theorem Service_Reconcile_finalizer:
  assumes "run_state (Service_Reconcile r key) s = (res, s')" "trace s' = trace s @ xs"
    and "Service_Kube (KUpdate obj u) \<in> set xs"
  shows "\<exists>service zs. xs = Service_Kube (KGet key (Inr service)) # zs \<and>
    (zs = [Service_Kube (KUpdate obj u)] \<and> DeletionTimestamp (ZS_Meta service) = None \<and>
       Finalizers (ZS_Meta obj) = Finalizers (ZS_Meta service) @ [zitiServiceFinalizer] \<or>
     (\<exists>ys. DeletionTimestamp (ZS_Meta service) \<noteq> None \<and> prefix (ys @ [Service_Kube (KUpdate obj u)]) zs \<and>
       service_cleaned r service ys \<and>
       Finalizers (ZS_Meta obj) = filter (\<lambda>f. f \<noteq> zitiServiceFinalizer) (Finalizers (ZS_Meta service))))"
proof -
  note calls = service_fin.reconcileFrame_yields [of r zitiServiceFinalizer "''ServiceDeleted''"
    "''ZitiService backend state removed''" key]
  from yieldsD [OF calls] assms show ?thesis
    unfolding Service_Reconcile_def service_reconcileDelete_def [abs_def] service_resource_simps
    by (metis same_append_eq)
qed

lemma service_reconcileDelete_quiet:
  "yields (service_reconcileDelete r service) (\<lambda>xs res. \<forall>c \<in> set xs. \<not> policy_write c)"
  unfolding service_reconcileDelete_def deleteFrame_def service_cleanup_def
  by (intro yields_intros EmitEvent_yields deleteIfSet_yields yields_mono [OF deleteRouterPolicies_lookups])
     (auto simp: lookups_only_def list_all_iff)


text \<open>
  C32: Every reconciliation of an established service first strips its configs. For a valid, live
  service whose status names a backend id, the first thing sent to the OpenZiti controller is
  an update of the service without any config; the configs come back only with a later update
  of the same reconciliation.
\<close>

theorem Service_Reconcile_strips_configs:
  assumes "run_state (Service_Reconcile r key) s = (res, s')" "trace s' = trace s @ Service_Kube (KGet key (Inr service)) # xs"
    and "DeletionTimestamp (ZS_Meta service) = None" "zitiServiceFinalizer \<in> set (Finalizers (ZS_Meta service))"
    and "validateServiceSpec service = None" "service_status_id service \<noteq> []"
  shows "\<exists>u ys answer. xs = SZ_UpdateService u answer # ys \<and> Service_ID u = service_status_id service \<and>
    Service_ConfigIDs u = []"
proof -
  let ?Q = "\<lambda>xs. \<exists>u ys answer. xs = SZ_UpdateService u answer # ys \<and> Service_ID u = service_status_id service \<and> Service_ConfigIDs u = []"
  have first: "yields (reconcileService r service (Service_FromResource service)) (\<lambda>xs res. ?Q xs)"
    unfolding reconcileService_def service_manager_defs Let_def
    by (intro yields_intros) (use assms(6) in \<open>simp_all add: Service_FromResource_def Let_def\<close>)
  have "yields (service_body r service) (\<lambda>xs res. ?Q xs)"
    unfolding service_body_def assms(5) option.case nil_dereference_def service_manager_defs Let_def
    by (intro yields_intros yields_mono [OF first] yields_mono [OF reconcileConfig_lookups]
        yields_mono [OF service_marks(1)] yields_mono [OF service_routers_guarded])
       (auto split: option.splits sum.splits)
  then have body: "yields (service_body r obj) (\<lambda>xs res. obj = service \<longrightarrow> ?Q xs)" for obj
    by (cases "obj = service") (simp_all add: yields_mono [OF service_body_guarded])
  have "yields (Service_Reconcile r key) (\<lambda>xs res. \<forall>zs. xs = Service_Kube (KGet key (Inr service)) # zs \<longrightarrow> ?Q zs)"
    unfolding Service_Reconcile_def reconcileFrame_def
    by (intro yields_intros yields_mono [OF service_reconcileDelete_quiet] yields_mono [OF body])
       (use assms(3,4) in \<open>auto simp: EnsureFinalizer_def\<close>)
  from yieldsD [OF this assms(1)] assms(2) show ?thesis by simp
qed

text \<open>The status updates a reconciliation sends after a config failed.\<close>

definition config_failed :: "scall list \<Rightarrow> bool" where
  "config_failed xs \<longleftrightarrow> (\<exists>c err. SZ_CreateConfig c (Inl err) \<in> set xs \<or> SZ_UpdateConfig c (Inl err) \<in> set xs)"

definition status_updates :: "scall list \<Rightarrow> ZitiService set" where
  "status_updates xs = {obj. \<exists>u. Service_Kube (KStatus obj u) \<in> set xs}"

lemma status_updates_simps [simp]:
  "status_updates [] = {}" "status_updates (xs @ ys) = status_updates xs \<union> status_updates ys"
  "lookups_only xs \<Longrightarrow> status_updates xs = {}"
  by (auto simp: status_updates_def lookups_only_def list_all_iff)

lemma config_failed_simps [simp]:
  "\<not> config_failed []" "config_failed (xs @ ys) \<longleftrightarrow> config_failed xs \<or> config_failed ys"
  "config_failed (SZ_UpdateService v w # xs) \<longleftrightarrow> config_failed xs"
  by (auto simp: config_failed_def)

lemma reconcileService_no_config: "yields (reconcileService r service desired) (\<lambda>xs res. lookups_only xs \<and> \<not> config_failed xs)"
  unfolding reconcileService_def service_manager_defs Let_def
  by (intro yields_intros) (simp_all add: config_failed_def)

lemma reconcileConfig_failed:
  "yields (reconcileConfig r existingID desired) (\<lambda>xs res. lookups_only xs \<and> (config_failed xs \<longrightarrow> (\<exists>err. res = Inl err)))"
  unfolding reconcileConfig_def Let_def by (intro yields_intros) (auto simp: config_failed_def)

lemma marks_no_config: "marks_only Service_Kube xs \<Longrightarrow> \<not> config_failed xs"
  by (auto simp: marks_only_def config_failed_def)

lemma service_markFailed_status:
  "yields (service_markFailed r obj e reason retryable) (\<lambda>xs res.
     \<not> config_failed xs \<and> (\<forall>obj' \<in> status_updates xs. ConfigIDs (ZS_Status obj') = ConfigIDs (ZS_Status obj)))"
  unfolding service_markFailed_def
  by (rule yields_mono [OF yields_conj [OF markFailed_keeps [OF inj_Service_Kube] markFailed_marks]])
     (fastforce simp: status_updates_def with_common_def service_resource_def dest: marks_no_config)

lemma resolveEdgeRouterID_no_config: "yields (resolveEdgeRouterID r name) (\<lambda>xs res. \<not> config_failed xs)"
  unfolding resolveEdgeRouterID_def by (intro yields_intros) (simp add: config_failed_def)

lemma resolveAdditional_no_config: "yields (resolveAdditional r seen ids names) (\<lambda>xs res. \<not> config_failed xs)"
proof (induction names arbitrary: seen ids)
  case (Cons name names)
  show ?case unfolding resolveAdditional.simps Let_def
    by (intro yields_intros yields_mono [OF resolveEdgeRouterID_no_config] yields_mono [OF Cons.IH]) simp_all
qed (auto intro: yields_return)

lemma router_parts_no_config:
  "yields (desiredRouterPolicies r service serviceID) (\<lambda>xs res. \<not> config_failed xs)"
  "yields (adoptAccessPolicy r p) (\<lambda>xs res. \<not> config_failed xs)"
  "yields (adoptServiceEdgeRouterPolicy r q) (\<lambda>xs res. \<not> config_failed xs)"
  "yields (deleteRouterPolicies r service) (\<lambda>xs res. \<not> config_failed xs)"
  unfolding desiredRouterPolicies_def adoptAccessPolicy_def adoptServiceEdgeRouterPolicy_def deleteRouterPolicies_def Let_def
  by (intro yields_intros yields_mono [OF resolveEdgeRouterID_no_config] yields_mono [OF resolveAdditional_no_config];
      simp add: config_failed_def split: option.splits)+

lemma policy_parts_no_config:
  "yields (reconcileAccessPolicy r existingID p) (\<lambda>xs res. \<not> config_failed xs)"
  "yields (reconcileServiceEdgeRouterPolicy r existingID q) (\<lambda>xs res. \<not> config_failed xs)"
  unfolding reconcileAccessPolicy_def reconcileServiceEdgeRouterPolicy_def Let_def
  by (intro yields_intros yields_mono [OF router_parts_no_config(2)] yields_mono [OF router_parts_no_config(3)];
      simp add: config_failed_def)+

lemma service_finish_no_config: "yields (service_finish r obj) (\<lambda>xs res. \<not> config_failed xs)"
  by (rule yields_mono [OF service_marks(2)]) (rule marks_no_config)

lemma service_routers_no_config: "yields (service_routers r service backendID) (\<lambda>xs res. \<not> config_failed xs)"
  unfolding service_routers_def nil_dereference_def
  by (intro yields_intros yields_mono [OF router_parts_no_config(1)] yields_mono [OF policy_parts_no_config(1)]
      yields_mono [OF policy_parts_no_config(2)] yields_mono [OF router_parts_no_config(4)]
      yields_mono [OF service_finish_no_config] yields_mono [OF service_markFailed_status])
     (simp_all split: option.splits)

lemma service_body_config_failed:
  "yields (service_body r service) (\<lambda>xs res. config_failed xs \<longrightarrow>
     (\<forall>obj \<in> status_updates xs. ConfigIDs (ZS_Status obj) = ConfigIDs (ZS_Status service)))"
  unfolding service_body_def nil_dereference_def service_manager_defs Let_def
  by (intro yields_intros yields_mono [OF reconcileService_no_config] yields_mono [OF reconcileConfig_failed]
      yields_mono [OF service_markFailed_status] yields_mono [OF service_routers_no_config])
     (auto split: option.splits sum.splits)


end
