(* ===== verification/Policy_Controller.thy ===== *)
theory Policy_Controller
  imports Status_Marks
begin

text \<open>
  \<^verbatim>\<open>internal/controller/zitiaccesspolicy_controller.go\<close> and \<^verbatim>\<open>internal/openziti/policy\<close>: a policy's
  selectors are resolved against the identities and services of its namespace, or against the
  OpenZiti identities when no resource matches, and compiled into role expressions.
\<close>

section \<open>Role expressions\<close>

text \<open>One of the loops of \<^verbatim>\<open>CompileSelector\<close> and \<^verbatim>\<open>selectorRoles\<close>: \<open>seen\<close> is the set of expressions
  already in the result.\<close>

fun addExpressions :: "char \<Rightarrow> string list \<times> string list \<Rightarrow> string list \<Rightarrow> string list \<times> string list" where
  "addExpressions sigil st [] = st"
| "addExpressions sigil (compiled, seen) (x # xs) = (
     let expression = sigil # TrimSpace x
     in if expression = [sigil] then addExpressions sigil (compiled, seen) xs
        else if expression \<in> set seen then addExpressions sigil (compiled, seen) xs
        else addExpressions sigil (compiled @ [expression], expression # seen) xs)"

definition CompileSelector :: "SelectorSpec \<Rightarrow> string list" where
  "CompileSelector selector =
     fst (addExpressions (CHR ''#'') (addExpressions (CHR ''@'') ([], []) (MatchNames selector)) (MatchRoleAttributes selector))"

record ResolvedSelector =
  Resolved_IDs :: "string list"
  Resolved_RoleAttributes :: "string list"

definition selectorRoles :: "ResolvedSelector \<Rightarrow> string list" where
  "selectorRoles selector =
     fst (addExpressions (CHR ''#'') (addExpressions (CHR ''@'') ([], []) (Resolved_IDs selector)) (Resolved_RoleAttributes selector))"

section \<open>Desired policies\<close>

definition policy_semanticAnyOf :: string where "policy_semanticAnyOf = ''AnyOf''"

record DesiredPolicy =
  DPolicy_Name :: string
  DPolicy_Type :: string
  DPolicy_IdentityRoles :: "string list"
  DPolicy_ServiceRoles :: "string list"
  DPolicy_IdentityRolesRaw :: "string list"
  DPolicy_ServiceRolesRaw :: "string list"
  DPolicy_Semantic :: string

definition Policy_FromResource :: "ZitiAccessPolicy \<Rightarrow> ResolvedSelector \<Rightarrow> ResolvedSelector \<Rightarrow> DesiredPolicy" where
  "Policy_FromResource resource identitySelector serviceSelector =
     \<lparr>DPolicy_Name = Meta_Name (ZAP_Meta resource), DPolicy_Type = PolicySpec_Type (ZAP_Spec resource),
      DPolicy_IdentityRoles = selectorRoles identitySelector, DPolicy_ServiceRoles = selectorRoles serviceSelector,
      DPolicy_IdentityRolesRaw = selectorRoles identitySelector, DPolicy_ServiceRolesRaw = selectorRoles serviceSelector,
      DPolicy_Semantic = policy_semanticAnyOf\<rparr>"

definition toAccessPolicy :: "string \<Rightarrow> DesiredPolicy \<Rightarrow> AccessPolicy" where
  "toAccessPolicy ident desired =
     \<lparr>AccessPolicy_ID = ident, AccessPolicy_Name = DPolicy_Name desired, AccessPolicy_Type = DPolicy_Type desired,
      AccessPolicy_IdentityRoles = DPolicy_IdentityRoles desired, AccessPolicy_ServiceRoles = DPolicy_ServiceRoles desired,
      IdentityRolesRaw = DPolicy_IdentityRolesRaw desired, ServiceRolesRaw = DPolicy_ServiceRolesRaw desired,
      AccessPolicy_Semantic = DPolicy_Semantic desired\<rparr>"

section \<open>Services and calls\<close>

record 'w ZitiAccessPolicyReconciler =
  Policy_Client :: "(ZitiAccessPolicy, ZitiAccessPolicyStatus, 'w) kube"
  List_Identities :: "string \<Rightarrow> 'w \<Rightarrow> (error + ZitiIdentity list) \<times> 'w"
  List_Services :: "string \<Rightarrow> 'w \<Rightarrow> (error + ZitiService list) \<times> 'w"
  has_IdentityService :: bool
  Policy_ZitiClient :: "'w Client"

datatype acall =
    Policy_Kube "ZitiAccessPolicy kcall"
  | AK_Identities string "error + ZitiIdentity list"
  | AK_Services string "error + ZitiService list"
  | AZ_Identities "error + Identity list"
  | AZ_Find string "error + AccessPolicy option"
  | AZ_Create AccessPolicy "error + AccessPolicy option"
  | AZ_Update AccessPolicy "error + AccessPolicy option"
  | AZ_Delete string "error option"

definition Policy_FindByName :: "'w ZitiAccessPolicyReconciler \<Rightarrow> string \<Rightarrow> ('w, acall, error + AccessPolicy option) io" where
  "Policy_FindByName r name = call (AZ_Find name) (FindAccessPolicyByName (Policy_ZitiClient r) name)"

definition Policy_Create :: "'w ZitiAccessPolicyReconciler \<Rightarrow> DesiredPolicy \<Rightarrow> ('w, acall, error + AccessPolicy option) io" where
  "Policy_Create r desired =
     call (AZ_Create (toAccessPolicy [] desired)) (CreateAccessPolicy (Policy_ZitiClient r) (toAccessPolicy [] desired))"

definition Policy_Update ::
  "'w ZitiAccessPolicyReconciler \<Rightarrow> string \<Rightarrow> DesiredPolicy \<Rightarrow> ('w, acall, error + AccessPolicy option) io" where
  "Policy_Update r ident desired =
     call (AZ_Update (toAccessPolicy ident desired)) (UpdateAccessPolicy (Policy_ZitiClient r) (toAccessPolicy ident desired))"

definition Policy_Delete :: "'w ZitiAccessPolicyReconciler \<Rightarrow> string \<Rightarrow> ('w, acall, error option) io" where
  "Policy_Delete r ident = call (AZ_Delete ident) (DeleteAccessPolicy (Policy_ZitiClient r) ident)"

text \<open>\<^verbatim>\<open>List\<close> of the identity service.\<close>

definition Identity_List :: "'w ZitiAccessPolicyReconciler \<Rightarrow> ('w, acall, error + Identity list) io" where
  "Identity_List r = call AZ_Identities (ListIdentities (Policy_ZitiClient r))"

section \<open>Selectors\<close>

definition selectorDefined :: "SelectorSpec \<Rightarrow> bool" where
  "selectorDefined selector \<longleftrightarrow> length (MatchNames selector) > 0 \<or> length (MatchRoleAttributes selector) > 0"

definition appendUnique :: "string list \<Rightarrow> string \<Rightarrow> string list" where
  "appendUnique vals value = (if value = [] \<or> value \<in> set vals then vals else vals @ [value])"

fun matchesNames :: "string list \<Rightarrow> string \<Rightarrow> bool" where
  "matchesNames [] name = False"
| "matchesNames (candidate # candidates) name = (if candidate = name then True else matchesNames candidates name)"

fun matchesAttributes :: "string list \<Rightarrow> string list \<Rightarrow> bool" where
  "matchesAttributes [] roleAttributes = False"
| "matchesAttributes (candidate # candidates) roleAttributes =
     (if candidate \<in> set roleAttributes then True else matchesAttributes candidates roleAttributes)"

definition matchesSelector :: "SelectorSpec \<Rightarrow> string \<Rightarrow> string list \<Rightarrow> bool" where
  "matchesSelector selector name roleAttributes =
     (if matchesNames (MatchNames selector) name then True
      else matchesAttributes (MatchRoleAttributes selector) roleAttributes)"

definition validateAccessPolicySpec :: "ZitiAccessPolicy \<Rightarrow> error option" where
  "validateAccessPolicySpec policy = (
     let spec = ZAP_Spec policy
     in if PolicySpec_Type spec \<noteq> AccessPolicyTypeDial \<and> PolicySpec_Type spec \<noteq> AccessPolicyTypeBind
        then Some (New ''spec.type must be Dial or Bind'')
        else if \<not> selectorDefined (IdentitySelector spec)
        then Some (New ''spec.identitySelector must define at least one match field'')
        else if \<not> selectorDefined (ServiceSelector spec)
        then Some (New ''spec.serviceSelector must define at least one match field'')
        else None)"

record selectorResolution =
  resolution_identity :: ResolvedSelector
  resolution_service :: ResolvedSelector
  identityCount :: nat
  serviceCount :: nat
  identityPending :: nat
  servicePending :: nat

text \<open>
  One iteration of the loops over the items of a list: an item is its spec's name, its spec's
  role attributes and its status id; the accumulator is \<open>(IDs, count, pending)\<close>.
\<close>

definition resolveItem ::
  "SelectorSpec \<Rightarrow> string list \<times> nat \<times> nat \<Rightarrow> string \<times> string list \<times> string \<Rightarrow> string list \<times> nat \<times> nat" where
  "resolveItem selector st item = (
     let (ids, count, pending) = st; (name, roleAttributes, statusID) = item
     in if \<not> matchesSelector selector name roleAttributes then (ids, count, pending)
        else if matchesNames (MatchNames selector) name then
          (if statusID = [] then (ids, count, pending + 1) else (appendUnique ids statusID, count + 1, pending))
        else (ids, count + 1, pending))"

definition identity_item :: "ZitiIdentity \<Rightarrow> string \<times> string list \<times> string" where
  "identity_item item = (IdentitySpec_Name (ZI_Spec item), IdentitySpec_RoleAttributes (ZI_Spec item),
     Status_ID (IdentityStatus_Common (ZI_Status item)))"

definition service_item :: "ZitiService \<Rightarrow> string \<times> string list \<times> string" where
  "service_item item = (ServiceSpec_Name (ZS_Spec item), ServiceSpec_RoleAttributes (ZS_Spec item),
     Status_ID (ServiceStatus_Common (ZS_Status item)))"

text \<open>One iteration over the backend's identities: the accumulator is \<open>(IDs, count)\<close>.\<close>

definition backendItem :: "SelectorSpec \<Rightarrow> string list \<times> nat \<Rightarrow> Identity \<Rightarrow> string list \<times> nat" where
  "backendItem selector st identity = (
     let (ids, count) = st
     in if \<not> matchesSelector selector (Identity_Name identity) (RoleAttributes identity) then (ids, count)
        else (if matchesNames (MatchNames selector) (Identity_Name identity) \<and> Identity_ID identity \<noteq> []
              then appendUnique ids (Identity_ID identity) else ids, count + 1))"

definition resolveBackendIdentitySelector ::
  "'w ZitiAccessPolicyReconciler \<Rightarrow> SelectorSpec \<Rightarrow> string list \<Rightarrow> ('w, acall, error + string list \<times> nat) io" where
  "resolveBackendIdentitySelector r selector ids = (
     if \<not> has_IdentityService r then State_Monad.return (Inl (New ''identity backend service is not configured''))
     else do {
       identities \<leftarrow> Identity_List r;
       State_Monad.return (case identities of Inl err \<Rightarrow> Inl err
         | Inr identities \<Rightarrow> Inr (foldl (backendItem selector) (ids, 0) identities))
     })"

definition resolveSelectors ::
  "'w ZitiAccessPolicyReconciler \<Rightarrow> ZitiAccessPolicy \<Rightarrow> ('w, acall, error + selectorResolution) io" where
  "resolveSelectors r policy = do {
     let namespace = Meta_Namespace (ZAP_Meta policy);
     let identitySelector = IdentitySelector (ZAP_Spec policy);
     let serviceSelector = ServiceSelector (ZAP_Spec policy);
     identities \<leftarrow> call (AK_Identities namespace) (List_Identities r namespace);
     case identities of
       Inl err \<Rightarrow> State_Monad.return (Inl err)
     | Inr identities \<Rightarrow> do {
         services \<leftarrow> call (AK_Services namespace) (List_Services r namespace);
         case services of
           Inl err \<Rightarrow> State_Monad.return (Inl err)
         | Inr services \<Rightarrow> do {
             let (ids, count, pending) = foldl (resolveItem identitySelector) ([], 0, 0) (map identity_item identities);
             resolved \<leftarrow> (if count = 0 \<and> pending = 0 then resolveBackendIdentitySelector r identitySelector ids
                          else State_Monad.return (Inr (ids, count)));
             State_Monad.return (case resolved of
                 Inl err \<Rightarrow> Inl err
               | Inr (ids, count) \<Rightarrow>
                   (let (sids, scount, spending) = foldl (resolveItem serviceSelector) ([], 0, 0) (map service_item services)
                    in Inr \<lparr>resolution_identity = \<lparr>Resolved_IDs = ids, Resolved_RoleAttributes = MatchRoleAttributes identitySelector\<rparr>,
                            resolution_service = \<lparr>Resolved_IDs = sids, Resolved_RoleAttributes = MatchRoleAttributes serviceSelector\<rparr>,
                            identityCount = count, serviceCount = scount, identityPending = pending, servicePending = spending\<rparr>))
           }
       }
   }"

section \<open>The reconciler\<close>

definition zitiAccessPolicyFinalizer :: string where
  "zitiAccessPolicyFinalizer = ''ziti.sixfeetup.com/access-policy-finalizer''"

definition policy_resource :: "(ZitiAccessPolicy, ZitiAccessPolicyStatus) resource" where
  "policy_resource = \<lparr>r_meta = ZAP_Meta, r_set_meta = (\<lambda>m i. i\<lparr>ZAP_Meta := m\<rparr>), r_status = ZAP_Status,
     r_common = PolicyStatus_Common, r_set_common = (\<lambda>c s. s\<lparr>PolicyStatus_Common := c\<rparr>),
     r_set_status = (\<lambda>s i. i\<lparr>ZAP_Status := s\<rparr>)\<rparr>"

definition policy_status_id :: "ZitiAccessPolicy \<Rightarrow> string" where
  "policy_status_id policy = Status_ID (PolicyStatus_Common (ZAP_Status policy))"

definition reconcilePolicy ::
  "'w ZitiAccessPolicyReconciler \<Rightarrow> ZitiAccessPolicy \<Rightarrow> DesiredPolicy \<Rightarrow> ('w, acall, error + AccessPolicy option) io" where
  "reconcilePolicy r resource desired = (
     if policy_status_id resource \<noteq> [] then Policy_Update r (policy_status_id resource) desired
     else do {
       existing \<leftarrow> Policy_FindByName r (DPolicy_Name desired);
       case existing of
         Inl err \<Rightarrow> State_Monad.return (Inl err)
       | Inr (Some existing) \<Rightarrow> Policy_Update r (AccessPolicy_ID existing) desired
       | Inr None \<Rightarrow> Policy_Create r desired
     })"

definition policy_markFailed ::
  "'w ZitiAccessPolicyReconciler \<Rightarrow> ZitiAccessPolicy \<Rightarrow> error \<Rightarrow> string \<Rightarrow> bool \<Rightarrow> ('w, acall, Result \<times> error option) io" where
  "policy_markFailed r = markFailed policy_resource (Policy_Client r) Policy_Kube"

definition policy_markReady ::
  "'w ZitiAccessPolicyReconciler \<Rightarrow> ZitiAccessPolicy \<Rightarrow> ('w, acall, error option \<times> ZitiAccessPolicy) io" where
  "policy_markReady r = markReady policy_resource (Policy_Client r) Policy_Kube ''ZitiAccessPolicy reconciled successfully''"

text \<open>The conversion \<^verbatim>\<open>int32(n)\<close> keeps the low 32 bits.\<close>

definition int32 :: "nat \<Rightarrow> int" where
  "int32 n = (int n + 2 ^ 31) mod 2 ^ 32 - 2 ^ 31"

definition policy_finish ::
  "'w ZitiAccessPolicyReconciler \<Rightarrow> ZitiAccessPolicy \<Rightarrow> ('w, acall, Result \<times> error option) io" where
  "policy_finish r policy = do {
     (err, policy) \<leftarrow> policy_markReady r policy;
     case err of
       Some err \<Rightarrow> State_Monad.return (zero_Result, Some err)
     | None \<Rightarrow> do {
         _ \<leftarrow> EmitEvent (Policy_Client r) Policy_Kube EventTypeNormal ''PolicyReconciled''
           ''ZitiAccessPolicy reconciled successfully'';
         State_Monad.return (zero_Result, None)
       }
   }"

text \<open>\<^verbatim>\<open>Reconcile\<close> after the finalizer is in place.\<close>

definition policy_body ::
  "'w ZitiAccessPolicyReconciler \<Rightarrow> ZitiAccessPolicy \<Rightarrow> ('w, acall, Result \<times> error option) io" where
  "policy_body r policy =
     (case validateAccessPolicySpec policy of
        Some err \<Rightarrow> policy_markFailed r policy err ''SelectorValidationFailed'' False
      | None \<Rightarrow> do {
          resolution \<leftarrow> resolveSelectors r policy;
          case resolution of
            Inl err \<Rightarrow> policy_markFailed r policy err ''SelectorResolutionFailed'' True
          | Inr resolution \<Rightarrow> (
              let policy = policy\<lparr>ZAP_Status := (ZAP_Status policy)\<lparr>ResolvedIdentityCount := int32 (identityCount resolution),
                    ResolvedServiceCount := int32 (serviceCount resolution)\<rparr>\<rparr>
              in if identityPending resolution > 0 \<or> servicePending resolution > 0
                 then policy_markFailed r policy (New (''selector matches are waiting for backend IDs (identities pending: '' @
                        show_nat (identityPending resolution) @ '', services pending: '' @ show_nat (servicePending resolution) @ '')''))
                        ''SelectorResolutionPending'' True
                 else if identityCount resolution = 0
                 then policy_markFailed r policy (New ''identity selector matched zero identities'') ''SelectorResolutionFailed'' False
                 else if serviceCount resolution = 0
                 then policy_markFailed r policy (New ''service selector matched zero services'') ''SelectorResolutionFailed'' False
                 else do {
                   let desired = Policy_FromResource policy (resolution_identity resolution) (resolution_service resolution);
                   backendPolicy \<leftarrow> reconcilePolicy r policy desired;
                   case backendPolicy of
                     Inl err \<Rightarrow> policy_markFailed r policy err ''PolicySyncFailed'' True
                   | Inr None \<Rightarrow> State_Monad.return (zero_Result, Some (Panic ''nil pointer dereference''))
                   | Inr (Some backendPolicy) \<Rightarrow>
                       policy_finish r (policy\<lparr>ZAP_Status := (ZAP_Status policy)\<lparr>PolicyStatus_Common :=
                         (PolicyStatus_Common (ZAP_Status policy))\<lparr>Status_ID := AccessPolicy_ID backendPolicy\<rparr>\<rparr>\<rparr>)
                 })
        })"

definition policy_cleanup ::
  "'w ZitiAccessPolicyReconciler \<Rightarrow> ZitiAccessPolicy \<Rightarrow> ('w, acall, error option \<times> ZitiAccessPolicy) io" where
  "policy_cleanup r policy = (
     if policy_status_id policy \<noteq> [] then do {
       err \<leftarrow> Policy_Delete r (policy_status_id policy);
       State_Monad.return (err, policy)
     } else State_Monad.return (None, policy))"

definition policy_reconcileDelete ::
  "'w ZitiAccessPolicyReconciler \<Rightarrow> ZitiAccessPolicy \<Rightarrow> ('w, acall, Result \<times> error option) io" where
  "policy_reconcileDelete r = deleteFrame policy_resource (Policy_Client r) Policy_Kube zitiAccessPolicyFinalizer
     ''PolicyDeleted'' ''ZitiAccessPolicy backend state removed'' (policy_cleanup r)"

definition Policy_Reconcile ::
  "'w ZitiAccessPolicyReconciler \<Rightarrow> ResourceKey \<Rightarrow> ('w, acall, Result \<times> error option) io" where
  "Policy_Reconcile r = reconcileFrame policy_resource (Policy_Client r) Policy_Kube zitiAccessPolicyFinalizer
     (policy_reconcileDelete r) (policy_body r)"

section \<open>Role expressions: what the loops compute\<close>

definition expressions :: "char \<Rightarrow> string set \<Rightarrow> string set" where
  "expressions sigil xs = {sigil # TrimSpace x | x. x \<in> xs \<and> TrimSpace x \<noteq> []}"

lemma addExpressions_spec:
  assumes "set seen = set compiled" "distinct compiled" "addExpressions sigil (compiled, seen) xs = (compiled', seen')"
  shows "set seen' = set compiled' \<and> distinct compiled' \<and> set compiled' = set compiled \<union> expressions sigil (set xs)"
  using assms
proof (induction xs arbitrary: compiled seen)
  case (Cons x xs)
  show ?case
  proof (cases "TrimSpace x = [] \<or> sigil # TrimSpace x \<in> set seen")
    case True
    with Cons.prems have "addExpressions sigil (compiled, seen) xs = (compiled', seen')"
      by (auto simp: Let_def split: if_splits)
    from Cons.IH [OF Cons.prems(1,2) this] True Cons.prems(1) show ?thesis
      by (auto simp: expressions_def)
  next
    case False
    with Cons.prems have "addExpressions sigil (compiled @ [sigil # TrimSpace x], (sigil # TrimSpace x) # seen) xs = (compiled', seen')"
      by (simp add: Let_def)
    from Cons.IH [OF _ _ this] False Cons.prems(1,2) show ?thesis
      by (auto simp: expressions_def)
  qed
qed (simp add: expressions_def)

lemma selectorRoles_spec:
  "distinct (selectorRoles sel) \<and>
   set (selectorRoles sel) = expressions (CHR ''@'') (set (Resolved_IDs sel)) \<union> expressions (CHR ''#'') (set (Resolved_RoleAttributes sel))"
proof -
  obtain c1 s1 where 1: "addExpressions (CHR ''@'') ([], []) (Resolved_IDs sel) = (c1, s1)" by force
  obtain c2 s2 where 2: "addExpressions (CHR ''#'') (c1, s1) (Resolved_RoleAttributes sel) = (c2, s2)" by force
  from addExpressions_spec [OF _ _ 1] have "set s1 = set c1" "distinct c1" "set c1 = expressions (CHR ''@'') (set (Resolved_IDs sel))"
    by simp_all
  with addExpressions_spec [OF _ _ 2] 1 2 show ?thesis by (simp add: selectorRoles_def)
qed

section \<open>Selectors: what the loops compute\<close>

lemma matchesNames_iff [simp]: "matchesNames names name \<longleftrightarrow> name \<in> set names"
  by (induction names) auto

lemma matchesAttributes_iff [simp]: "matchesAttributes cs attrs \<longleftrightarrow> set cs \<inter> set attrs \<noteq> {}"
  by (induction cs) auto

lemma matchesSelector_iff:
  "matchesSelector sel name attrs \<longleftrightarrow> name \<in> set (MatchNames sel) \<or> set (MatchRoleAttributes sel) \<inter> set attrs \<noteq> {}"
  by (simp add: matchesSelector_def)

lemma set_appendUnique [simp]: "set (appendUnique vals v) = set vals \<union> {x. x = v \<and> v \<noteq> []}"
  by (auto simp: appendUnique_def)

text \<open>The ids of the items a selector names; how many items match and how many of them wait for an id.\<close>

definition named_ids :: "SelectorSpec \<Rightarrow> (string \<times> string list \<times> string) list \<Rightarrow> string set" where
  "named_ids sel items = {ident. \<exists>name attrs. (name, attrs, ident) \<in> set items \<and> name \<in> set (MatchNames sel) \<and> ident \<noteq> []}"

definition matched :: "SelectorSpec \<Rightarrow> string \<times> string list \<times> string \<Rightarrow> bool" where
  "matched sel item \<longleftrightarrow> matchesSelector sel (fst item) (fst (snd item))"

definition waiting :: "SelectorSpec \<Rightarrow> string \<times> string list \<times> string \<Rightarrow> bool" where
  "waiting sel item \<longleftrightarrow> fst item \<in> set (MatchNames sel) \<and> snd (snd item) = []"

lemma resolveItem_fold:
  assumes "foldl (resolveItem sel) (ids, count, pending) items = (ids', count', pending')"
  shows "set ids' = set ids \<union> named_ids sel items \<and>
    count' = count + length (filter (\<lambda>i. matched sel i \<and> \<not> waiting sel i) items) \<and>
    pending' = pending + length (filter (waiting sel) items)"
  using assms
proof (induction items arbitrary: ids count pending)
  case (Cons item items)
  obtain name attrs ident where item: "item = (name, attrs, ident)" by (cases item)
  obtain ids1 count1 pending1 where st: "resolveItem sel (ids, count, pending) item = (ids1, count1, pending1)"
    by (metis prod_cases3)
  with Cons.prems have "foldl (resolveItem sel) (ids1, count1, pending1) items = (ids', count', pending')" by simp
  note ih = Cons.IH [OF this]
  have "set ids1 = set ids \<union> named_ids sel [item]"
    "count1 = count + (if matched sel item \<and> \<not> waiting sel item then 1 else 0)"
    "pending1 = pending + (if waiting sel item then 1 else 0)"
    using st by (auto simp: item resolveItem_def named_ids_def matched_def waiting_def matchesSelector_iff split: if_splits)
  moreover have "named_ids sel (item # items) = named_ids sel [item] \<union> named_ids sel items"
    by (auto simp: named_ids_def)
  ultimately show ?case using ih by auto
qed (simp add: named_ids_def)

lemma backendItem_fold:
  "set (fst (foldl (backendItem sel) (ids, count) bs)) = set ids \<union> named_ids sel (map (\<lambda>b. (Identity_Name b, RoleAttributes b, Identity_ID b)) bs)
   \<and> snd (foldl (backendItem sel) (ids, count) bs) =
     count + length (filter (\<lambda>b. matchesSelector sel (Identity_Name b) (RoleAttributes b)) bs)"
proof (induction bs arbitrary: ids count)
  case (Cons b bs)
  then show ?case by (auto simp: backendItem_def named_ids_def matchesSelector_iff)
qed (simp add: named_ids_def)

definition backend_item :: "Identity \<Rightarrow> string \<times> string list \<times> string" where
  "backend_item b = (Identity_Name b, RoleAttributes b, Identity_ID b)"

fun grant_write :: "acall \<Rightarrow> bool" where
  "grant_write (AZ_Create p u) = True"
| "grant_write (AZ_Update p u) = True"
| "grant_write _ = False"

definition lists_only :: "acall list \<Rightarrow> bool" where
  "lists_only xs \<longleftrightarrow> list_all (\<lambda>c. \<not> grant_write c \<and> (\<forall>k. c \<noteq> Policy_Kube k)) xs"

lemma lists_only_simps [simp]:
  "lists_only []" "lists_only (c # xs) \<longleftrightarrow> \<not> grant_write c \<and> (\<forall>k. c \<noteq> Policy_Kube k) \<and> lists_only xs"
  "lists_only (xs @ ys) \<longleftrightarrow> lists_only xs \<and> lists_only ys"
  by (simp_all add: lists_only_def)

text \<open>
  Where the identities of a policy come from: the identity resources of its namespace, or, when
  none of them matches, the identities OpenZiti listed.
\<close>

definition candidates :: "ZitiAccessPolicy \<Rightarrow> ZitiIdentity list \<Rightarrow> acall list \<Rightarrow> (string \<times> string list \<times> string) list \<Rightarrow> bool" where
  "candidates policy identities xs items \<longleftrightarrow>
     (if \<exists>i \<in> set identities. matched (IdentitySelector (ZAP_Spec policy)) (identity_item i)
      then items = map identity_item identities
      else \<exists>bs. AZ_Identities (Inr bs) \<in> set xs \<and> items = map backend_item bs)"

definition resolved_from :: "ZitiAccessPolicy \<Rightarrow> acall list \<Rightarrow> selectorResolution \<Rightarrow> bool" where
  "resolved_from policy xs res \<longleftrightarrow> (\<exists>identities services items.
     AK_Identities (Meta_Namespace (ZAP_Meta policy)) (Inr identities) \<in> set xs \<and>
     AK_Services (Meta_Namespace (ZAP_Meta policy)) (Inr services) \<in> set xs \<and>
     candidates policy identities xs items \<and>
     set (Resolved_IDs (resolution_identity res)) = named_ids (IdentitySelector (ZAP_Spec policy)) items \<and>
     set (Resolved_IDs (resolution_service res)) = named_ids (ServiceSelector (ZAP_Spec policy)) (map service_item services) \<and>
     Resolved_RoleAttributes (resolution_identity res) = MatchRoleAttributes (IdentitySelector (ZAP_Spec policy)) \<and>
     Resolved_RoleAttributes (resolution_service res) = MatchRoleAttributes (ServiceSelector (ZAP_Spec policy)) \<and>
     (identityPending res = 0 \<longrightarrow> list_all (\<lambda>i. \<not> waiting (IdentitySelector (ZAP_Spec policy)) (identity_item i)) identities) \<and>
     (servicePending res = 0 \<longrightarrow> list_all (\<lambda>s. \<not> waiting (ServiceSelector (ZAP_Spec policy)) (service_item s)) services) \<and>
     (identityCount res \<noteq> 0 \<longrightarrow> list_ex (matched (IdentitySelector (ZAP_Spec policy))) items) \<and>
     (serviceCount res \<noteq> 0 \<longrightarrow> list_ex (matched (ServiceSelector (ZAP_Spec policy))) (map service_item services)))"

lemma waiting_matched: "waiting sel i \<Longrightarrow> matched sel i"
  by (simp add: waiting_def matched_def matchesSelector_iff)

lemma resolveItem_none:
  assumes "foldl (resolveItem sel) ([], 0, 0) items = (ids, count, pending)"
  shows "count = 0 \<and> pending = 0 \<longleftrightarrow> (\<forall>i \<in> set items. \<not> matched sel i)"
  using resolveItem_fold [OF assms] waiting_matched [of sel] by (auto simp: filter_empty_conv)

lemma filter_nonempty: "length (filter P xs) \<noteq> 0 \<Longrightarrow> list_ex P xs"
  by (auto simp: list_ex_iff filter_empty_conv)

lemma resolved_fromI:
  fixes policy :: ZitiAccessPolicy
  defines "isel \<equiv> IdentitySelector (ZAP_Spec policy)" and "ssel \<equiv> ServiceSelector (ZAP_Spec policy)"
  assumes xs: "AK_Identities (Meta_Namespace (ZAP_Meta policy)) (Inr identities) \<in> set xs"
      "AK_Services (Meta_Namespace (ZAP_Meta policy)) (Inr services) \<in> set xs"
    and i: "foldl (resolveItem isel) ([], 0, 0) (map identity_item identities) = (ids0, count0, pending0)"
    and s: "foldl (resolveItem ssel) ([], 0, 0) (map service_item services) = (sids, scount, spending)"
    and src: "if count0 = 0 \<and> pending0 = 0
      then \<exists>bs. AZ_Identities (Inr bs) \<in> set xs \<and> (ids, count) = foldl (backendItem isel) (ids0, 0) bs
      else ids = ids0 \<and> count = count0"
  shows "resolved_from policy xs
    \<lparr>resolution_identity = \<lparr>Resolved_IDs = ids, Resolved_RoleAttributes = MatchRoleAttributes isel\<rparr>,
     resolution_service = \<lparr>Resolved_IDs = sids, Resolved_RoleAttributes = MatchRoleAttributes ssel\<rparr>,
     identityCount = count, serviceCount = scount, identityPending = pending0, servicePending = spending\<rparr>"
proof -
  note fi = resolveItem_fold [OF i] and fs = resolveItem_fold [OF s] and none = resolveItem_none [OF i]
  have "\<exists>items. candidates policy identities xs items \<and> set ids = named_ids isel items \<and>
    (count \<noteq> 0 \<longrightarrow> list_ex (matched isel) items)"
  proof (cases "count0 = 0 \<and> pending0 = 0")
    case True
    with src obtain bs where bs: "AZ_Identities (Inr bs) \<in> set xs" "(ids, count) = foldl (backendItem isel) (ids0, 0) bs" by auto
    have "named_ids isel items = {}" if "\<forall>i \<in> set items. \<not> matched isel i" for items
      using that by (force simp: named_ids_def matched_def matchesSelector_iff)
    with True none have "named_ids isel (map identity_item identities) = {}" by blast
    with fi have "set ids0 = {}" by simp
    have "ids = fst (foldl (backendItem isel) (ids0, 0) bs)" "count = snd (foldl (backendItem isel) (ids0, 0) bs)"
      using bs(2) by (metis fst_conv, metis snd_conv)
    with backendItem_fold [of isel ids0 0 bs] \<open>set ids0 = {}\<close> have
      "set ids = named_ids isel (map backend_item bs)" "count = length (filter (matched isel) (map backend_item bs))"
      by (simp_all add: backend_item_def [abs_def] matched_def filter_map comp_def)
    moreover have "candidates policy identities xs (map backend_item bs)"
      using True none bs(1) by (auto simp: candidates_def isel_def)
    ultimately show ?thesis using filter_nonempty by metis
  next
    case False
    with none have "candidates policy identities xs (map identity_item identities)"
      by (auto simp: candidates_def isel_def)
    moreover have "set ids = named_ids isel (map identity_item identities)" using False src fi by simp
    moreover have "list_ex (matched isel) (map identity_item identities)"
      using False none by (auto simp: list_ex_iff)
    ultimately show ?thesis by blast
  qed
  then obtain items where "candidates policy identities xs items" "set ids = named_ids isel items"
    "count \<noteq> 0 \<longrightarrow> list_ex (matched isel) items" by blast
  with xs fi fs show ?thesis
    unfolding resolved_from_def isel_def [symmetric] ssel_def [symmetric]
    by (intro exI [of _ identities] exI [of _ services] exI [of _ items])
       (auto simp: list_all_iff list_ex_iff filter_empty_conv)
qed

lemma resolveSelectors_yields:
  "yields (resolveSelectors r policy) (\<lambda>xs res. lists_only xs \<and> (\<forall>resolution. res = Inr resolution \<longrightarrow> resolved_from policy xs resolution))"
  unfolding resolveSelectors_def resolveBackendIdentitySelector_def Identity_List_def Let_def
  by (intro yields_intros) (auto split: sum.splits prod.splits intro!: resolved_fromI)

section \<open>Status and finalizer\<close>

lemma policy_resource_simps [simp]:
  "r_meta policy_resource = ZAP_Meta" "r_status policy_resource = ZAP_Status"
  "common_of policy_resource obj = PolicyStatus_Common (ZAP_Status obj)"
  by (simp_all add: policy_resource_def)

interpretation policy_res: status_resource policy_resource
  by unfold_locales (simp_all add: policy_resource_def)

lemma inj_Policy_Kube: "inj Policy_Kube"
  by (auto intro: injI)

lemma policy_marks:
  "yields (policy_markFailed r obj e reason retryable) (\<lambda>xs res. marks_only Policy_Kube xs)"
  "yields (policy_finish r obj) (\<lambda>xs res. marks_only Policy_Kube xs)"
  unfolding policy_markFailed_def policy_finish_def policy_markReady_def
  by (intro yields_intros EmitEvent_yields yields_mono [OF markFailed_marks] yields_mono [OF markReady_marks]; simp)+

definition policy_cleaned :: "'w ZitiAccessPolicyReconciler \<Rightarrow> ZitiAccessPolicy \<Rightarrow> acall list \<Rightarrow> bool" where
  "policy_cleaned r policy xs \<longleftrightarrow>
     xs = (if policy_status_id policy = [] then [] else [AZ_Delete (policy_status_id policy) None])"

lemma policy_cleanup_yields:
  "yields (policy_cleanup r policy) (\<lambda>xs res. no_update Policy_Kube xs \<and> snd res = policy \<and>
     (fst res = None \<longrightarrow> policy_cleaned r policy xs))"
  unfolding policy_cleanup_def Policy_Delete_def by (intro yields_intros) (simp_all add: policy_cleaned_def)

lemma lists_no_update: "lists_only xs \<Longrightarrow> no_update Policy_Kube xs"
  by (auto simp: lists_only_def no_update_def list_all_iff)

lemmas policy_service_defs = Policy_FindByName_def Policy_Create_def Policy_Update_def

lemma reconcilePolicy_no_update: "yields (reconcilePolicy r policy desired) (\<lambda>xs res. no_update Policy_Kube xs)"
  unfolding reconcilePolicy_def policy_service_defs by (intro yields_intros) simp_all

lemma policy_body_no_update: "yields (policy_body r policy) (\<lambda>xs res. no_update Policy_Kube xs)"
  unfolding policy_body_def Let_def
  by (intro yields_intros yields_mono [OF resolveSelectors_yields] yields_mono [OF policy_marks(1)]
      yields_mono [OF policy_marks(2)] yields_mono [OF reconcilePolicy_no_update])
     (simp_all add: lists_no_update marks_no_update inj_Policy_Kube)

interpretation policy_fin: finalizing policy_resource Policy_Kube Policy_Client policy_cleanup policy_body policy_cleaned
proof unfold_locales
  show "Policy_Kube x = Policy_Kube y \<longleftrightarrow> x = y" for x y by simp
  show "yields (policy_cleanup env obj) (\<lambda>xs r. (\<forall>obj' res. Policy_Kube (KUpdate obj' res) \<notin> set xs) \<and>
      r_meta policy_resource (snd r) = r_meta policy_resource obj \<and> (fst r = None \<longrightarrow> policy_cleaned env obj xs))"
    for env :: "'w ZitiAccessPolicyReconciler" and obj
    by (rule yields_mono [OF policy_cleanup_yields]) (simp add: no_update_def)
  show "yields (policy_body env obj) (\<lambda>xs r. \<forall>obj' res. Policy_Kube (KUpdate obj' res) \<notin> set xs)"
    for env :: "'w ZitiAccessPolicyReconciler" and obj
    by (rule yields_mono [OF policy_body_no_update]) (simp add: no_update_def)
qed

section \<open>Properties\<close>


text \<open>
  What a policy that is sent to OpenZiti grants: the expressions of the spec's role attributes
  and of the ids of the named identities and services, and nothing else.
\<close>

definition grants :: "ZitiAccessPolicy \<Rightarrow> acall list \<Rightarrow> AccessPolicy \<Rightarrow> bool" where
  "grants policy xs p \<longleftrightarrow> (\<exists>identities services items.
     AK_Identities (Meta_Namespace (ZAP_Meta policy)) (Inr identities) \<in> set xs \<and>
     AK_Services (Meta_Namespace (ZAP_Meta policy)) (Inr services) \<in> set xs \<and>
     candidates policy identities xs items \<and>
     distinct (AccessPolicy_IdentityRoles p) \<and> distinct (AccessPolicy_ServiceRoles p) \<and>
     set (AccessPolicy_IdentityRoles p) = expressions (CHR ''@'') (named_ids (IdentitySelector (ZAP_Spec policy)) items) \<union>
       expressions (CHR ''#'') (set (MatchRoleAttributes (IdentitySelector (ZAP_Spec policy)))) \<and>
     set (AccessPolicy_ServiceRoles p) = expressions (CHR ''@'') (named_ids (ServiceSelector (ZAP_Spec policy)) (map service_item services)) \<union>
       expressions (CHR ''#'') (set (MatchRoleAttributes (ServiceSelector (ZAP_Spec policy)))) \<and>
     list_all (\<lambda>i. \<not> waiting (IdentitySelector (ZAP_Spec policy)) (identity_item i)) identities \<and>
     list_all (\<lambda>s. \<not> waiting (ServiceSelector (ZAP_Spec policy)) (service_item s)) services \<and>
     list_ex (matched (IdentitySelector (ZAP_Spec policy))) items \<and>
     list_ex (matched (ServiceSelector (ZAP_Spec policy))) (map service_item services))"

lemma resolved_grants:
  assumes "resolved_from policy xs resolution" "identityPending resolution = 0" "servicePending resolution = 0"
    "identityCount resolution \<noteq> 0" "serviceCount resolution \<noteq> 0"
    and "AccessPolicy_IdentityRoles p = selectorRoles (resolution_identity resolution)"
    and "AccessPolicy_ServiceRoles p = selectorRoles (resolution_service resolution)"
  shows "grants policy xs p"
  using assms(1) unfolding resolved_from_def grants_def
  by (elim exE conjE, intro exI conjI) (simp_all add: assms(2-) selectorRoles_spec)

lemma grants_mono: "grants policy xs p \<Longrightarrow> set xs \<subseteq> set ys \<Longrightarrow> grants policy ys p"
  unfolding grants_def candidates_def by (elim exE conjE, intro exI conjI) (auto split: if_splits)

definition writes_grant :: "ZitiAccessPolicy \<Rightarrow> acall list \<Rightarrow> acall \<Rightarrow> bool" where
  "writes_grant policy xs c \<longleftrightarrow> (\<forall>p u. c = AZ_Create p u \<or> c = AZ_Update p u \<longrightarrow>
     validateAccessPolicySpec policy = None \<and> grants policy xs p \<and>
     AccessPolicy_Name p = Meta_Name (ZAP_Meta policy) \<and> AccessPolicy_Type p = PolicySpec_Type (ZAP_Spec policy) \<and>
     AccessPolicy_Semantic p = policy_semanticAnyOf)"

lemma not_grant_write [simp]: "\<not> grant_write c \<Longrightarrow> writes_grant policy pre c"
  by (auto simp: writes_grant_def)

lemma marks_quiet: "marks_only Policy_Kube xs \<Longrightarrow> guarded (\<lambda>pre. writes_grant policy (f pre)) xs"
  by (rule guarded_all) (auto simp: marks_only_def writes_grant_def)

lemma lists_quiet: "lists_only xs \<Longrightarrow> guarded (\<lambda>pre. writes_grant policy (f pre)) xs"
  by (rule guarded_all) (auto simp: lists_only_def list_all_iff)

text \<open>The calls of \<^verbatim>\<open>reconcilePolicy\<close> that write send the desired policy under some id.\<close>

definition desired_writes :: "DesiredPolicy \<Rightarrow> acall list \<Rightarrow> bool" where
  "desired_writes desired xs \<longleftrightarrow> (\<forall>p u. AZ_Create p u \<in> set xs \<or> AZ_Update p u \<in> set xs \<longrightarrow>
     (\<exists>ident. p = toAccessPolicy ident desired))"

lemma reconcilePolicy_writes: "yields (reconcilePolicy r policy desired) (\<lambda>xs res. desired_writes desired xs)"
  unfolding reconcilePolicy_def policy_service_defs by (intro yields_intros) (auto simp: desired_writes_def)

lemma writes_grantI:
  assumes "resolved_from policy xs resolution" "identityPending resolution = 0" "servicePending resolution = 0"
    "identityCount resolution \<noteq> 0" "serviceCount resolution \<noteq> 0" "validateAccessPolicySpec policy = None"
    and "\<And>p u. c = AZ_Create p u \<or> c = AZ_Update p u \<Longrightarrow> \<exists>ident. p = toAccessPolicy ident
      (Policy_FromResource (policy\<lparr>ZAP_Status := st\<rparr>) (resolution_identity resolution) (resolution_service resolution))"
  shows "writes_grant policy xs c"
  unfolding writes_grant_def
proof (intro allI impI)
  fix p u
  assume "c = AZ_Create p u \<or> c = AZ_Update p u"
  from assms(7) [OF this] obtain ident where p: "p = toAccessPolicy ident
      (Policy_FromResource (policy\<lparr>ZAP_Status := st\<rparr>) (resolution_identity resolution) (resolution_service resolution))" ..
  have "grants policy xs p"
    by (rule resolved_grants [OF assms(1-5)]) (simp_all add: p toAccessPolicy_def Policy_FromResource_def)
  then show "validateAccessPolicySpec policy = None \<and> grants policy xs p \<and>
      AccessPolicy_Name p = Meta_Name (ZAP_Meta policy) \<and> AccessPolicy_Type p = PolicySpec_Type (ZAP_Spec policy) \<and>
      AccessPolicy_Semantic p = policy_semanticAnyOf"
    by (simp add: assms(6) p toAccessPolicy_def Policy_FromResource_def)
qed

lemma writes_grant_mono: "writes_grant policy xs c \<Longrightarrow> set xs \<subseteq> set ys \<Longrightarrow> writes_grant policy ys c"
  unfolding writes_grant_def using grants_mono by blast

lemma desired_quiet:
  assumes "desired_writes (Policy_FromResource (policy\<lparr>ZAP_Status := st\<rparr>)
      (resolution_identity resolution) (resolution_service resolution)) xs"
    and "validateAccessPolicySpec policy = None" "resolved_from policy ys resolution"
    and "identityPending resolution = 0" "servicePending resolution = 0"
    and "identityCount resolution \<noteq> 0" "serviceCount resolution \<noteq> 0"
  shows "guarded (\<lambda>pre. writes_grant policy (ys @ pre)) xs"
proof (rule guarded_all)
  fix c pre
  assume "c \<in> set xs"
  with assms(1) have "writes_grant policy ys c"
    by (intro writes_grantI [OF assms(3-7,2)]) (auto simp: desired_writes_def)
  then show "writes_grant policy (ys @ pre) c" by (rule writes_grant_mono) simp
qed

lemma policy_body_guarded:
  "yields (policy_body r policy) (\<lambda>xs res. guarded (writes_grant policy) xs)"
  unfolding policy_body_def Let_def
  by (intro yields_intros yields_mono [OF resolveSelectors_yields] yields_mono [OF policy_marks(1)]
      yields_mono [OF policy_marks(2)] yields_mono [OF reconcilePolicy_writes])
     (simp_all add: marks_quiet marks_quiet [where f = "\<lambda>pre. pre"] lists_quiet [where f = "\<lambda>pre. pre"] desired_quiet)

lemma policy_reconcileDelete_quiet:
  "yields (policy_reconcileDelete r policy) (\<lambda>xs res. \<forall>c \<in> set xs. \<not> grant_write c)"
  unfolding policy_reconcileDelete_def deleteFrame_def policy_cleanup_def Policy_Delete_def
  by (intro yields_intros EmitEvent_yields) auto


text \<open>The reference: all expressions in order, each where it occurs first.\<close>

definition role_expressions :: "char \<Rightarrow> string list \<Rightarrow> string list" where
  "role_expressions sigil xs = map (\<lambda>x. sigil # x) (filter (\<lambda>x. x \<noteq> []) (map TrimSpace xs))"

definition firsts :: "'a list \<Rightarrow> 'a list" where
  "firsts xs = rev (remdups (rev xs))"

lemma firsts_simps [simp]:
  "firsts [] = []" "firsts (xs @ [x]) = (if x \<in> set xs then firsts xs else firsts xs @ [x])" "set (firsts xs) = set xs"
  by (simp_all add: firsts_def)

lemma addExpressions_firsts:
  assumes "set seen = set ys" "addExpressions sigil (firsts ys, seen) xs = (compiled, seen')"
  shows "compiled = firsts (ys @ role_expressions sigil xs) \<and> set seen' = set (ys @ role_expressions sigil xs)"
  using assms
proof (induction xs arbitrary: ys seen)
  case (Cons x xs)
  show ?case
  proof (cases "TrimSpace x = []")
    case True
    with Cons.prems have "addExpressions sigil (firsts ys, seen) xs = (compiled, seen')" by (simp add: Let_def)
    from Cons.IH [OF Cons.prems(1) this] True show ?thesis by (simp add: role_expressions_def)
  next
    case False
    define e where "e = sigil # TrimSpace x"
    define seen1 where "seen1 = (if e \<in> set ys then seen else e # seen)"
    from False Cons.prems have "addExpressions sigil (firsts (ys @ [e]), seen1) xs = (compiled, seen')"
      by (simp add: Let_def e_def seen1_def split: if_splits)
    moreover have "set seen1 = set (ys @ [e])" using Cons.prems(1) by (auto simp: seen1_def)
    ultimately have "compiled = firsts ((ys @ [e]) @ role_expressions sigil xs) \<and>
        set seen' = set ((ys @ [e]) @ role_expressions sigil xs)"
      by (intro Cons.IH)
    with False show ?thesis by (simp add: role_expressions_def e_def)
  qed
qed (simp add: role_expressions_def)

lemma addExpressions_both:
  "fst (addExpressions b (addExpressions a ([], []) xs) ys) = firsts (role_expressions a xs @ role_expressions b ys)"
proof -
  obtain c1 s1 where 1: "addExpressions a ([], []) xs = (c1, s1)" by force
  obtain c2 s2 where 2: "addExpressions b (c1, s1) ys = (c2, s2)" by force
  from addExpressions_firsts [of "[]" "[]"] 1 have c1: "c1 = firsts (role_expressions a xs)" "set s1 = set (role_expressions a xs)"
    by auto
  from addExpressions_firsts [OF c1(2)] 2 c1(1) show ?thesis by (simp add: 1)
qed

text \<open>
  C34: The two expression compilers compute the reference. Both \<^verbatim>\<open>CompileSelector\<close>, on the names
  of a spec, and \<^verbatim>\<open>selectorRoles\<close>, on resolved ids, give the trimmed non-empty names or ids with
  the sigil @ followed by the trimmed non-empty attributes with the sigil #, in the order of
  the input, each expression kept where it occurs first.
\<close>

theorem compiled_roles_reference:
  "CompileSelector spec = firsts (role_expressions (CHR ''@'') (MatchNames spec) @
     role_expressions (CHR ''#'') (MatchRoleAttributes spec)) \<and>
   selectorRoles resolved = firsts (role_expressions (CHR ''@'') (Resolved_IDs resolved) @
     role_expressions (CHR ''#'') (Resolved_RoleAttributes resolved))"
  unfolding CompileSelector_def selectorRoles_def by (simp add: addExpressions_both)

end
