(* ===== verification/Preservation.thy ===== *)
theory Preservation
  imports Sync_Tracking Identity_Controller Service_Controller Policy_Controller
begin

text \<open>
  An invariant of the world that every call of a reconciler keeps is kept by the reconciler.
  The providers (Kubernetes, the OpenZiti client, the directory) are interfaces with the law
  that their operations keep the invariant; the reconcilers are clients of them.
\<close>

section \<open>Operations that keep an invariant\<close>

named_theorems preserve_intros \<open>rules that follow the program\<close>

definition carries :: "('w \<Rightarrow> bool) \<Rightarrow> ('w \<Rightarrow> 'r \<times> 'w) \<Rightarrow> bool" where
  "carries I f \<longleftrightarrow> (\<forall>w. I w \<longrightarrow> I (snd (f w)))"

text \<open>An invariant of the world is a relation that does not look at the calls.\<close>

abbreviation preserves :: "('w \<Rightarrow> bool) \<Rightarrow> ('w, 'c, 'a) io \<Rightarrow> bool" where
  "preserves I \<equiv> tracks (\<lambda>w _. I w)"

lemma follows_invariant [simp]: "follows (\<lambda>w _. I w) mk f \<longleftrightarrow> carries I f" "silent (\<lambda>w _. I w) f \<longleftrightarrow> carries I f"
  by (auto simp: follows_def silent_def carries_def)

lemma preserves_call [preserve_intros]: "carries I f \<Longrightarrow> preserves I (call mk f)"
  by (rule tracks_call) simp

lemma preserves_ask [preserve_intros]: "carries I f \<Longrightarrow> preserves I (ask f)"
  by (rule tracks_ask) simp

declare tracks_return [preserve_intros] tracks_bind [preserve_intros] tracks_if [preserve_intros] tracks_sum [preserve_intros]
  tracks_option [preserve_intros] tracks_prod [preserve_intros] tracks_let [preserve_intros]

lemma preservesD: "preserves I m \<Longrightarrow> I (world s) \<Longrightarrow> I (world (snd (run_state m s)))"
  by (simp add: tracks_def)

section \<open>Providers\<close>

locale kube_host =
  fixes I :: "'w \<Rightarrow> bool" and k :: "('r, 's, 'w) kube"
  assumes carries_kube: "carries I (Get k key)" "carries I (Update k obj)" "carries I (Status_Update k obj)"
    "carries I (Recorder_Event k ty reason msg)" "carries I (Now k)"
begin

lemma preserves_EmitEvent [preserve_intros]: "preserves I (EmitEvent k emb ty reason msg)"
  unfolding EmitEvent_def by (intro preserve_intros carries_kube)

lemma preserves_markReady: "preserves I (markReady R k emb msg obj)"
  unfolding markReady_def by (intro preserve_intros carries_kube)

lemma preserves_markFailed: "preserves I (markFailed R k emb obj err reason retryable)"
  unfolding markFailed_def by (intro preserve_intros preserves_EmitEvent carries_kube)

lemma preserves_reconcileFrame:
  "(\<And>obj. preserves I (reconcileDelete obj)) \<Longrightarrow> (\<And>obj. preserves I (body obj)) \<Longrightarrow>
   preserves I (reconcileFrame R k emb finalizer reconcileDelete body key)"
  unfolding reconcileFrame_def by (intro preserve_intros carries_kube)

lemma preserves_deleteFrame:
  "(\<And>obj. preserves I (cleanup obj)) \<Longrightarrow> preserves I (deleteFrame R k emb finalizer reason msg cleanup obj)"
  unfolding deleteFrame_def by (intro preserve_intros preserves_EmitEvent carries_kube)

end

locale client_host =
  fixes I :: "'w \<Rightarrow> bool" and cl :: "'w Client"
  assumes carries_identities: "carries I (GetIdentity cl ident)" "carries I (FindIdentityByName cl name)" "carries I (ListIdentities cl)"
      "carries I (CreateIdentity cl identity)" "carries I (UpdateIdentity cl identity)"
      "carries I (PatchIdentityRoleAttributes cl ident attrs)" "carries I (DeleteIdentity cl ident)" "carries I (GetEnrollmentJWT cl ident)"
    and carries_services: "carries I (GetService cl ident)" "carries I (FindServiceByName cl name)" "carries I (CreateService cl service)"
      "carries I (UpdateService cl service)" "carries I (DeleteService cl ident)"
      "carries I (GetConfig cl ident)" "carries I (CreateConfig cl cfg)" "carries I (UpdateConfig cl cfg)" "carries I (DeleteConfig cl ident)"
      "carries I (FindEdgeRouterByName cl name)"
    and carries_policies: "carries I (GetAccessPolicy cl ident)" "carries I (FindAccessPolicyByName cl name)"
      "carries I (CreateAccessPolicy cl policy)" "carries I (UpdateAccessPolicy cl policy)" "carries I (DeleteAccessPolicy cl ident)"
      "carries I (GetServiceEdgeRouterPolicy cl ident)" "carries I (FindServiceEdgeRouterPolicyByName cl name)"
      "carries I (CreateServiceEdgeRouterPolicy cl rpolicy)" "carries I (UpdateServiceEdgeRouterPolicy cl rpolicy)"
      "carries I (DeleteServiceEdgeRouterPolicy cl ident)"
begin

lemmas carries_client = carries_identities carries_services carries_policies

end

section \<open>The identity controller\<close>

locale identity_host = kube_host I "Identity_Client r" + client_host I "Identity_ZitiClient r"
  for I :: "'w \<Rightarrow> bool" and r :: "'w ZitiIdentityReconciler" +
  assumes carries_secrets: "carries I (Secret_Get_API r key)" "carries I (Secret_Create_API r secret)"
    "carries I (Secret_Delete_API r secret)"
begin

lemmas identity_laws = carries_kube carries_client carries_secrets

lemma preserves_identity_services:
  "preserves I (ReconcileEnrollmentSecret r identity jwt)" "preserves I (DeleteEnrollmentSecret r identity name)"
  "preserves I (reconcileIdentity r identity desired)" "preserves I (EnrollmentJWT r ident)" "preserves I (Identity_Delete r ident)"
  unfolding ReconcileEnrollmentSecret_def DeleteEnrollmentSecret_def reconcileIdentity_def identity_service_defs
  by (intro preserve_intros identity_laws)+

lemma preserves_identity_finish: "preserves I (identity_finish r identity)"
  unfolding identity_finish_def identity_markReady_def
  by (intro preserve_intros preserves_EmitEvent preserves_markReady)

lemma preserves_identity_body: "preserves I (identity_body r identity)"
  unfolding identity_body_def identity_markFailed_def
  by (intro preserve_intros preserves_identity_services preserves_identity_finish preserves_markFailed)

lemma preserves_identity_cleanup: "preserves I (identity_cleanup r identity)"
  unfolding identity_cleanup_def by (intro preserve_intros preserves_identity_services)

lemma preserves_Identity_Reconcile: "preserves I (Identity_Reconcile r key)"
  unfolding Identity_Reconcile_def identity_reconcileDelete_def
  by (intro preserves_reconcileFrame preserves_deleteFrame preserves_identity_cleanup preserves_identity_body)

end

section \<open>The service controller\<close>

locale service_host = kube_host I "Service_Client r" + client_host I "Service_ZitiClient r"
  for I :: "'w \<Rightarrow> bool" and r :: "'w ZitiServiceReconciler"
begin

lemma preserves_service_objects:
  "preserves I (reconcileService r service desired)" "preserves I (reconcileConfig r ident cfg)"
  "preserves I (reconcileAccessPolicy r ident policy)" "preserves I (reconcileServiceEdgeRouterPolicy r ident rpolicy)"
  "preserves I (Service_Update r ident desired)" "preserves I (resolveEdgeRouterID r name)"
  unfolding reconcileService_def reconcileConfig_def reconcileAccessPolicy_def reconcileServiceEdgeRouterPolicy_def
    adoptAccessPolicy_def adoptServiceEdgeRouterPolicy_def Service_FindByName_def Service_Create_def Service_Update_def
    resolveEdgeRouterID_def
  by (intro preserve_intros carries_client)+

lemma preserves_resolveAdditional: "preserves I (resolveAdditional r seen ids names)"
  by (induction names arbitrary: seen ids)
     (auto simp: Let_def intro!: preserve_intros preserves_service_objects)

lemma preserves_desiredRouterPolicies: "preserves I (desiredRouterPolicies r resource ident)"
  unfolding desiredRouterPolicies_def
  by (intro preserve_intros carries_client preserves_service_objects preserves_resolveAdditional)

lemma preserves_deleteIfSet: "(\<And>ident. carries I (del ident)) \<Longrightarrow> preserves I (deleteIfSet (\<lambda>ident. call (mk ident) (del ident)) ident)"
  unfolding deleteIfSet_def by (intro preserve_intros)

lemma preserves_deleteRouterPolicies: "preserves I (deleteRouterPolicies r service)"
  unfolding deleteRouterPolicies_def by (intro preserve_intros preserves_deleteIfSet carries_client)

lemma preserves_service_cleanup: "preserves I (service_cleanup r service)"
  unfolding service_cleanup_def
  by (intro preserve_intros preserves_deleteIfSet preserves_deleteRouterPolicies carries_client)

lemma preserves_service_finish: "preserves I (service_finish r service)"
  unfolding service_finish_def service_markReady_def
  by (intro preserve_intros preserves_EmitEvent preserves_markReady)

lemma preserves_service_routers: "preserves I (service_routers r service ident)"
  unfolding service_routers_def service_markFailed_def nil_dereference_def
  by (intro preserve_intros preserves_desiredRouterPolicies preserves_service_objects preserves_service_finish
        preserves_deleteRouterPolicies preserves_markFailed)

lemma preserves_service_body: "preserves I (service_body r service)"
  unfolding service_body_def service_markFailed_def nil_dereference_def
  by (intro preserve_intros preserves_service_objects preserves_service_routers preserves_markFailed)

lemma preserves_Service_Reconcile: "preserves I (Service_Reconcile r key)"
  unfolding Service_Reconcile_def service_reconcileDelete_def
  by (intro preserves_reconcileFrame preserves_deleteFrame preserves_service_cleanup preserves_service_body)

end

section \<open>The access policy controller\<close>

locale policy_host = kube_host I "Policy_Client r" + client_host I "Policy_ZitiClient r"
  for I :: "'w \<Rightarrow> bool" and r :: "'w ZitiAccessPolicyReconciler" +
  assumes carries_lists: "carries I (List_Identities r namespace)" "carries I (List_Services r namespace)"
begin

lemma preserves_policy_services:
  "preserves I (resolveSelectors r policy)" "preserves I (reconcilePolicy r policy desired)" "preserves I (policy_cleanup r policy)"
  unfolding resolveSelectors_def resolveBackendIdentitySelector_def Identity_List_def reconcilePolicy_def policy_cleanup_def Policy_Delete_def
    Policy_FindByName_def Policy_Create_def Policy_Update_def
  by (intro preserve_intros carries_client carries_lists)+

lemma preserves_policy_finish: "preserves I (policy_finish r policy)"
  unfolding policy_finish_def policy_markReady_def
  by (intro preserve_intros preserves_EmitEvent preserves_markReady)

lemma preserves_policy_body: "preserves I (policy_body r policy)"
  unfolding policy_body_def policy_markFailed_def
  by (intro preserve_intros preserves_policy_services preserves_policy_finish preserves_markFailed)

lemma preserves_Policy_Reconcile: "preserves I (Policy_Reconcile r key)"
  unfolding Policy_Reconcile_def policy_reconcileDelete_def
  by (intro preserves_reconcileFrame preserves_deleteFrame preserves_policy_services preserves_policy_body)

end

section \<open>The role sync controller\<close>

definition directory_carries :: "('w \<Rightarrow> bool) \<Rightarrow> 'w Directory \<Rightarrow> bool" where
  "directory_carries I d \<longleftrightarrow> (\<forall>x. carries I (GetServicePrincipal d x) \<and> carries I (ListAppRoleAssignedTo d x) \<and> carries I (ListGroupUsers d x))"

lemma directory_follows_invariant [simp]: "directory_follows (\<lambda>w _. I w) d \<longleftrightarrow> directory_carries I d"
  by (simp add: directory_follows_def directory_carries_def)

locale sync_host = kube_host I "Sync_Client r" + client_host I "Sync_ZitiClient r"
  for I :: "'w \<Rightarrow> bool" and r :: "'w ZitiEntraRoleSyncReconciler" +
  assumes carries_reads: "carries I (Get_Secret r key)" "carries I (APIReader_Get r key)" "carries I (APIReader_List_Syncs r)"
      "carries I (APIReader_List_Identities r)" "carries I (ctx_Err r)"
    and carries_directory: "directory_carries I (DirectoryFactory r tenant ident secret)"

sublocale sync_host \<subseteq> invariant: sync_tracked "\<lambda>w _. I w" r
  by unfold_locales (simp_all add: carries_kube carries_client carries_reads carries_directory)

end
