(* ===== verification/Rest_Models.thy ===== *)
theory Rest_Models
  imports Ziti_Types
begin

text \<open>
  The bodies of the OpenZiti management API and their conversions
  (\<^verbatim>\<open>internal/openziti/client/identity_models.go\<close>, the conversion functions of \<^verbatim>\<open>client.go\<close>,
  \<^verbatim>\<open>edge_router.go\<close> and \<^verbatim>\<open>service_edge_router_policy.go\<close>). The records hold the fields of
  \<^verbatim>\<open>rest_model\<close> that the code reads or writes; a field behind a pointer is an \<open>option\<close>.
\<close>

section \<open>Bodies\<close>

record IdentityDetail =
  ID_ID :: "string option"
  ID_Name :: "string option"
  ID_TypeName :: "string option"
  ID_RoleAttributes :: "string list option"
  ID_ExternalID :: "string option"

record IdentityBody =
  IB_Name :: string
  IB_Type :: string
  IB_IsAdmin :: bool
  IB_RoleAttributes :: "string list"

text \<open>The create body may also ask for a one-time-token enrollment.\<close>

record IdentityCreate = IdentityBody +
  IB_Ott :: bool

record ServiceDetail =
  SD_ID :: "string option"
  SD_Name :: "string option"
  SD_RoleAttributes :: "string list option"
  SD_Configs :: "string list"

record ServiceBody =
  SB_Name :: string
  SB_RoleAttributes :: "string list"
  SB_Configs :: "string list"

record ServiceCreate = ServiceBody +
  SB_EncryptionRequired :: bool

text \<open>\<open>CD_Data\<close> is \<open>None\<close> when the answer's data is not a JSON object.\<close>

record ConfigDetail =
  CD_ID :: "string option"
  CD_Name :: "string option"
  CD_TypeName :: "string option"
  CD_Data :: "(string, payload_value) gomap option"

record ConfigBody =
  CB_Name :: string
  CB_Data :: "(string, payload_value) gomap"

record ConfigCreate = ConfigBody +
  CB_TypeID :: string

record PolicyDetail =
  PD_ID :: "string option"
  PD_Name :: "string option"
  PD_Type :: "string option"
  PD_Semantic :: "string option"
  PD_IdentityRoles :: "string list"
  PD_ServiceRoles :: "string list"

record PolicyBody =
  PB_Name :: string
  PB_Type :: string
  PB_Semantic :: string
  PB_IdentityRoles :: "string list"
  PB_ServiceRoles :: "string list"
  PB_PostureCheckRoles :: "string list"

record RouterPolicyDetail =
  RPD_ID :: "string option"
  RPD_Name :: "string option"
  RPD_Semantic :: "string option"
  RPD_EdgeRouterRoles :: "string list"
  RPD_ServiceRoles :: "string list"

record RouterPolicyBody =
  RPB_Name :: string
  RPB_Semantic :: string
  RPB_EdgeRouterRoles :: "string list"
  RPB_ServiceRoles :: "string list"

text \<open>An edge router and a config type are read by id and name only.\<close>

record NamedDetail =
  ND_ID :: "string option"
  ND_Name :: "string option"

record EnrollmentDetail =
  ED_Method :: "string option"
  ED_JWT :: string

text \<open>An envelope is a pointer to a struct with a pointer: \<open>None\<close>, \<open>Some None\<close> or \<open>Some (Some d)\<close>.\<close>

type_synonym 'd envelope = "'d option option"

section \<open>Reading bodies\<close>

definition identityFromEnvelope :: "IdentityDetail envelope \<Rightarrow> error + Identity" where
  "identityFromEnvelope envelope =
     (case envelope of
        Some (Some detail) \<Rightarrow>
          (case (ID_ID detail, ID_Name detail, ID_TypeName detail) of
             (Some ident, Some name, Some ty) \<Rightarrow>
               if TrimSpace ident = [] \<or> TrimSpace name = [] \<or> TrimSpace ty = []
               then Inl (New ''identity detail response has missing required fields'')
               else Inr \<lparr>Identity_ID = ident, Identity_Name = name, Identity_Type = ty,
                 RoleAttributes = (case ID_RoleAttributes detail of None \<Rightarrow> [] | Some xs \<Rightarrow> xs), CreateOTT = False,
                 ExternalID = (case ID_ExternalID detail of None \<Rightarrow> [] | Some x \<Rightarrow> x)\<rparr>
           | _ \<Rightarrow> Inl (New ''identity detail response has missing required fields''))
      | _ \<Rightarrow> Inl (New ''identity detail response has no data''))"

definition serviceFromEnvelope :: "ServiceDetail envelope \<Rightarrow> Service option" where
  "serviceFromEnvelope envelope =
     (case envelope of
        Some (Some detail) \<Rightarrow>
          (case (SD_ID detail, SD_Name detail) of
             (Some ident, Some name) \<Rightarrow> Some \<lparr>Service_ID = ident, Service_Name = name,
               Service_RoleAttributes = (case SD_RoleAttributes detail of None \<Rightarrow> [] | Some xs \<Rightarrow> xs),
               Service_ConfigIDs = SD_Configs detail\<rparr>
           | _ \<Rightarrow> None)
      | _ \<Rightarrow> None)"

definition configFromEnvelope :: "ConfigDetail envelope \<Rightarrow> ServiceConfig option" where
  "configFromEnvelope envelope =
     (case envelope of
        Some (Some detail) \<Rightarrow>
          (case (CD_ID detail, CD_Name detail, CD_TypeName detail) of
             (Some ident, Some name, Some ty) \<Rightarrow>
               if TrimSpace ty = [] then None
               else Some \<lparr>Config_ID = ident, Config_Name = name, Config_Type = ty,
                 Config_Payload = (case CD_Data detail of None \<Rightarrow> [] | Some typed \<Rightarrow> typed)\<rparr>
           | _ \<Rightarrow> None)
      | _ \<Rightarrow> None)"

definition accessPolicyFromEnvelope :: "PolicyDetail envelope \<Rightarrow> AccessPolicy option" where
  "accessPolicyFromEnvelope envelope =
     (case envelope of
        Some (Some detail) \<Rightarrow>
          (case (PD_ID detail, PD_Name detail, PD_Type detail, PD_Semantic detail) of
             (Some ident, Some name, Some ty, Some semantic) \<Rightarrow> Some \<lparr>AccessPolicy_ID = ident, AccessPolicy_Name = name,
               AccessPolicy_Type = ty, AccessPolicy_IdentityRoles = PD_IdentityRoles detail,
               AccessPolicy_ServiceRoles = PD_ServiceRoles detail, IdentityRolesRaw = PD_IdentityRoles detail,
               ServiceRolesRaw = PD_ServiceRoles detail, AccessPolicy_Semantic = semantic\<rparr>
           | _ \<Rightarrow> None)
      | _ \<Rightarrow> None)"

definition serviceEdgeRouterPolicyFromDetail :: "RouterPolicyDetail option \<Rightarrow> ServiceEdgeRouterPolicy option" where
  "serviceEdgeRouterPolicyFromDetail detail =
     (case detail of
        None \<Rightarrow> None
      | Some detail \<Rightarrow>
          (case (RPD_ID detail, RPD_Name detail, RPD_Semantic detail) of
             (Some ident, Some name, Some semantic) \<Rightarrow> Some \<lparr>SERP_ID = TrimSpace ident, SERP_Name = TrimSpace name,
               EdgeRouterRoles = RPD_EdgeRouterRoles detail, SERP_ServiceRoles = RPD_ServiceRoles detail, SERP_Semantic = semantic\<rparr>
           | _ \<Rightarrow> None))"

definition serviceEdgeRouterPolicyFromEnvelope :: "RouterPolicyDetail envelope \<Rightarrow> ServiceEdgeRouterPolicy option" where
  "serviceEdgeRouterPolicyFromEnvelope envelope =
     (case envelope of None \<Rightarrow> None | Some detail \<Rightarrow> serviceEdgeRouterPolicyFromDetail detail)"

definition edgeRouterFromDetail :: "NamedDetail option \<Rightarrow> EdgeRouter option" where
  "edgeRouterFromDetail detail =
     (case detail of
        None \<Rightarrow> None
      | Some detail \<Rightarrow>
          (case (ND_ID detail, ND_Name detail) of
             (Some ident, Some name) \<Rightarrow>
               if TrimSpace name = [] then None
               else Some \<lparr>EdgeRouter_ID = TrimSpace ident, EdgeRouter_Name = TrimSpace name\<rparr>
           | _ \<Rightarrow> None))"

text \<open>The id in a create answer: the pointer to the location and its id.\<close>

definition extractCreatedID :: "string envelope \<Rightarrow> error + string" where
  "extractCreatedID createEnvelope =
     (case createEnvelope of
        Some (Some ident) \<Rightarrow>
          if TrimSpace ident = [] then Inl (New ''create response did not include an object id'') else Inr (TrimSpace ident)
      | _ \<Rightarrow> Inl (New ''create response did not include an object id''))"

definition EnrollmentCreateMethodOtt :: string where "EnrollmentCreateMethodOtt = ''ott''"

text \<open>The first enrollment of the list that is a one-time token with a token.\<close>

fun firstOTT :: "unicode \<Rightarrow> EnrollmentDetail option list \<Rightarrow> string" where
  "firstOTT uc [] = []"
| "firstOTT uc (item # items) =
     (case item of
        None \<Rightarrow> firstOTT uc items
      | Some e \<Rightarrow>
          (case ED_Method e of
             None \<Rightarrow> firstOTT uc items
           | Some method \<Rightarrow>
               if EqualFold uc (TrimSpace method) EnrollmentCreateMethodOtt \<and> TrimSpace (ED_JWT e) \<noteq> []
               then TrimSpace (ED_JWT e) else firstOTT uc items))"

definition enrollmentJWTFromList :: "unicode \<Rightarrow> EnrollmentDetail option list option \<Rightarrow> string" where
  "enrollmentJWTFromList uc envelope = (case envelope of None \<Rightarrow> [] | Some items \<Rightarrow> firstOTT uc items)"

section \<open>Writing bodies\<close>

definition toIdentityCreate :: "Identity \<Rightarrow> IdentityCreate" where
  "toIdentityCreate identity = \<lparr>IB_Name = Identity_Name identity, IB_Type = Identity_Type identity, IB_IsAdmin = False,
     IB_RoleAttributes = RoleAttributes identity, IB_Ott = CreateOTT identity\<rparr>"

definition toIdentityUpdate :: "Identity \<Rightarrow> IdentityBody" where
  "toIdentityUpdate identity = \<lparr>IB_Name = Identity_Name identity, IB_Type = Identity_Type identity, IB_IsAdmin = False,
     IB_RoleAttributes = RoleAttributes identity\<rparr>"

definition toServiceCreate :: "Service \<Rightarrow> ServiceCreate" where
  "toServiceCreate service = \<lparr>SB_Name = Service_Name service, SB_RoleAttributes = Service_RoleAttributes service,
     SB_Configs = Service_ConfigIDs service, SB_EncryptionRequired = True\<rparr>"

definition toServiceUpdate :: "Service \<Rightarrow> ServiceBody" where
  "toServiceUpdate service = \<lparr>SB_Name = Service_Name service, SB_RoleAttributes = Service_RoleAttributes service,
     SB_Configs = Service_ConfigIDs service\<rparr>"

text \<open>\<^verbatim>\<open>clonePayload\<close> copies the map, its string slices and its port ranges.\<close>

fun clone_value :: "payload_value \<Rightarrow> payload_value" where
  "clone_value (Strings xs) = Strings ([] @ xs)"
| "clone_value (Ranges items) = Ranges (map (\<lambda>item. map (\<lambda>(key, value). (key, value)) item) items)"
| "clone_value v = v"

definition clonePayload :: "(string, payload_value) gomap \<Rightarrow> (string, payload_value) gomap" where
  "clonePayload payload = map (\<lambda>(key, value). (key, clone_value value)) payload"

definition toConfigCreate :: "ServiceConfig \<Rightarrow> string \<Rightarrow> ConfigCreate" where
  "toConfigCreate cfg configTypeID = \<lparr>CB_Name = Config_Name cfg, CB_Data = clonePayload (Config_Payload cfg), CB_TypeID = configTypeID\<rparr>"

definition toConfigUpdate :: "ServiceConfig \<Rightarrow> ConfigBody" where
  "toConfigUpdate cfg = \<lparr>CB_Name = Config_Name cfg, CB_Data = clonePayload (Config_Payload cfg)\<rparr>"

definition toAccessPolicyCreate :: "AccessPolicy \<Rightarrow> PolicyBody" where
  "toAccessPolicyCreate policy = \<lparr>PB_Name = AccessPolicy_Name policy, PB_Type = AccessPolicy_Type policy,
     PB_Semantic = AccessPolicy_Semantic policy, PB_IdentityRoles = IdentityRolesRaw policy,
     PB_ServiceRoles = ServiceRolesRaw policy, PB_PostureCheckRoles = []\<rparr>"

definition toAccessPolicyUpdate :: "AccessPolicy \<Rightarrow> PolicyBody" where
  "toAccessPolicyUpdate policy = \<lparr>PB_Name = AccessPolicy_Name policy, PB_Type = AccessPolicy_Type policy,
     PB_Semantic = AccessPolicy_Semantic policy, PB_IdentityRoles = IdentityRolesRaw policy,
     PB_ServiceRoles = ServiceRolesRaw policy, PB_PostureCheckRoles = []\<rparr>"

definition toServiceEdgeRouterPolicyCreate :: "ServiceEdgeRouterPolicy \<Rightarrow> RouterPolicyBody" where
  "toServiceEdgeRouterPolicyCreate policy = \<lparr>RPB_Name = SERP_Name policy, RPB_Semantic = SERP_Semantic policy,
     RPB_EdgeRouterRoles = EdgeRouterRoles policy, RPB_ServiceRoles = SERP_ServiceRoles policy\<rparr>"

definition toServiceEdgeRouterPolicyUpdate :: "ServiceEdgeRouterPolicy \<Rightarrow> RouterPolicyBody" where
  "toServiceEdgeRouterPolicyUpdate policy = \<lparr>RPB_Name = SERP_Name policy, RPB_Semantic = SERP_Semantic policy,
     RPB_EdgeRouterRoles = EdgeRouterRoles policy, RPB_ServiceRoles = SERP_ServiceRoles policy\<rparr>"

section \<open>Round trips\<close>

lemma clonePayload_id [simp]: "clonePayload payload = payload"
proof -
  have "clone_value v = v" for v by (cases v) auto
  then show ?thesis by (simp add: clonePayload_def)
qed

text \<open>
  What the controller shows of a stored object: the id it chose and what the body said. The
  type of a config is shown by name.
\<close>

definition shows_identity :: "string \<Rightarrow> IdentityCreate \<Rightarrow> IdentityDetail \<Rightarrow> bool" where
  "shows_identity ident b d \<longleftrightarrow> ID_ID d = Some ident \<and> ID_Name d = Some (IB_Name b) \<and> ID_TypeName d = Some (IB_Type b) \<and>
     ID_RoleAttributes d = Some (IB_RoleAttributes b) \<and> ID_ExternalID d = None"

definition shows_service :: "string \<Rightarrow> 'x ServiceBody_scheme \<Rightarrow> ServiceDetail \<Rightarrow> bool" where
  "shows_service ident b d \<longleftrightarrow> SD_ID d = Some ident \<and> SD_Name d = Some (SB_Name b) \<and>
     SD_RoleAttributes d = Some (SB_RoleAttributes b) \<and> SD_Configs d = SB_Configs b"

definition shows_config :: "string \<Rightarrow> (string \<Rightarrow> string) \<Rightarrow> ConfigCreate \<Rightarrow> ConfigDetail \<Rightarrow> bool" where
  "shows_config ident typeName b d \<longleftrightarrow> CD_ID d = Some ident \<and> CD_Name d = Some (CB_Name b) \<and>
     CD_TypeName d = Some (typeName (CB_TypeID b)) \<and> CD_Data d = Some (CB_Data b)"

definition shows_policy :: "string \<Rightarrow> PolicyBody \<Rightarrow> PolicyDetail \<Rightarrow> bool" where
  "shows_policy ident b d \<longleftrightarrow> PD_ID d = Some ident \<and> PD_Name d = Some (PB_Name b) \<and> PD_Type d = Some (PB_Type b) \<and>
     PD_Semantic d = Some (PB_Semantic b) \<and> PD_IdentityRoles d = PB_IdentityRoles b \<and> PD_ServiceRoles d = PB_ServiceRoles b"

definition shows_router_policy :: "string \<Rightarrow> RouterPolicyBody \<Rightarrow> RouterPolicyDetail \<Rightarrow> bool" where
  "shows_router_policy ident b d \<longleftrightarrow> RPD_ID d = Some ident \<and> RPD_Name d = Some (RPB_Name b) \<and>
     RPD_Semantic d = Some (RPB_Semantic b) \<and> RPD_EdgeRouterRoles d = RPB_EdgeRouterRoles b \<and> RPD_ServiceRoles d = RPB_ServiceRoles b"


end
