(* ===== verification/Credentials.thy ===== *)
theory Credentials
  imports Directory
begin

text \<open>
  \<^verbatim>\<open>internal/credentials/config.go\<close> and \<^verbatim>\<open>runtime.go\<close>: the management credentials, read from the
  Secret the environment names and validated before use.
\<close>

section \<open>Configuration\<close>

record SecretRef =
  Ref_Namespace :: string
  Ref_Name :: string

record ManagementConfig =
  ControllerURL :: string
  Username :: string
  Password :: string
  CABundlePEM :: string

definition zero_ManagementConfig :: ManagementConfig where
  "zero_ManagementConfig = \<lparr>ControllerURL = [], Username = [], Password = [], CABundlePEM = []\<rparr>"

definition ControllerURLKey :: string where "ControllerURLKey = ''controllerUrl''"
definition UsernameKey :: string where "UsernameKey = ''username''"
definition PasswordKey :: string where "PasswordKey = ''password''"
definition CABundleKey :: string where "CABundleKey = ''caBundle''"

text \<open>What is used of \<^verbatim>\<open>net/url\<close>, of \<^verbatim>\<open>crypto/x509\<close> and of the Unicode tables.\<close>

record cred_lib =
  Parse_URL :: "string \<Rightarrow> error + URL"
  AppendCertsFromPEM :: "string \<Rightarrow> bool"
  cred_uc :: unicode

definition missing :: "cred_lib \<Rightarrow> string \<Rightarrow> error" where
  "missing cl key = New (''missing '' @ Quote (cred_uc cl) key)"

definition Validate :: "cred_lib \<Rightarrow> ManagementConfig \<Rightarrow> error option" where
  "Validate cl c =
     (if ControllerURL c = [] then Some (missing cl ControllerURLKey)
      else case Parse_URL cl (ControllerURL c) of
        Inl err \<Rightarrow> Some (Errorf_w (''parse '' @ Quote (cred_uc cl) ControllerURLKey) err)
      | Inr parsed \<Rightarrow>
          if URL_Scheme parsed = [] \<or> URL_Host parsed = []
          then Some (New (Quote (cred_uc cl) ControllerURLKey @ '' must be an absolute URL''))
          else if Username c = [] then Some (missing cl UsernameKey)
          else if Password c = [] then Some (missing cl PasswordKey)
          else if length (CABundlePEM c) > 0 \<and> \<not> AppendCertsFromPEM cl (CABundlePEM c)
          then Some (New (Quote (cred_uc cl) CABundleKey @ '' must contain valid PEM certificates''))
          else None)"

text \<open>What is read of a Secret; reading an absent key of \<^verbatim>\<open>Data\<close> gives no bytes.\<close>

record mgmt_secret =
  MSecret_Namespace :: string
  MSecret_Name :: string
  MSecret_Data :: "(string, string) gomap"

definition LoadManagementConfig :: "cred_lib \<Rightarrow> mgmt_secret option \<Rightarrow> error + ManagementConfig" where
  "LoadManagementConfig cl secret =
     (case secret of
        None \<Rightarrow> Inl (New ''management secret is required'')
      | Some secret \<Rightarrow>
          let cfg = \<lparr>ControllerURL = TrimSpace (mget (MSecret_Data secret) ControllerURLKey),
                Username = TrimSpace (mget (MSecret_Data secret) UsernameKey),
                Password = TrimSpace (mget (MSecret_Data secret) PasswordKey),
                CABundlePEM = mget (MSecret_Data secret) CABundleKey\<rparr>
          in case Validate cl cfg of
               Some err \<Rightarrow> Inl (Errorf_w (''invalid management secret '' @ MSecret_Namespace secret @ ''/'' @ MSecret_Name secret) err)
             | None \<Rightarrow> Inr cfg)"

section \<open>The loader\<close>

definition ManagementSecretNameEnv :: string where
  "ManagementSecretNameEnv = ''MINIZITI_MANAGEMENT_SECRET_NAME''"
definition ManagementSecretNamespaceEnv :: string where
  "ManagementSecretNamespaceEnv = ''MINIZITI_MANAGEMENT_SECRET_NAMESPACE''"

definition SecretRefFromEnv :: "(string \<Rightarrow> string) \<Rightarrow> error + SecretRef" where
  "SecretRefFromEnv Getenv =
     (let name = TrimSpace (Getenv ManagementSecretNameEnv)
      in if name = [] then Inl (New (ManagementSecretNameEnv @ '' must not be empty''))
         else
           let namespace = TrimSpace (Getenv ManagementSecretNamespaceEnv)
           in if namespace = [] then Inl (New (ManagementSecretNamespaceEnv @ '' must not be empty''))
              else Inr \<lparr>Ref_Namespace = namespace, Ref_Name = name\<rparr>)"

text \<open>\<^verbatim>\<open>SecretConfigLoader.Load\<close> as a function of the world; \<open>reader\<close> is the Kubernetes reader.\<close>

definition SecretConfigLoader_Load ::
  "cred_lib \<Rightarrow> (SecretRef \<Rightarrow> 'w \<Rightarrow> (error + mgmt_secret) \<times> 'w) \<Rightarrow> SecretRef \<Rightarrow> 'w \<Rightarrow> (error + ManagementConfig) \<times> 'w" where
  "SecretConfigLoader_Load cl reader ref w =
     (case reader ref w of
        (Inl err, w) \<Rightarrow> (Inl (Errorf_w (''load management secret '' @ Ref_Namespace ref @ ''/'' @ Ref_Name ref) err), w)
      | (Inr secret, w) \<Rightarrow> (LoadManagementConfig cl (Some secret), w))"

section \<open>Loaded credentials are usable\<close>

definition usable :: "cred_lib \<Rightarrow> ManagementConfig \<Rightarrow> bool" where
  "usable cl c \<longleftrightarrow> (\<exists>u. Parse_URL cl (ControllerURL c) = Inr u \<and> URL_Scheme u \<noteq> [] \<and> URL_Host u \<noteq> []) \<and>
     ControllerURL c \<noteq> [] \<and> Username c \<noteq> [] \<and> Password c \<noteq> [] \<and>
     TrimSpace (ControllerURL c) = ControllerURL c \<and> TrimSpace (Username c) = Username c \<and> TrimSpace (Password c) = Password c \<and>
     (CABundlePEM c = [] \<or> AppendCertsFromPEM cl (CABundlePEM c))"

lemma Validate_usable:
  "Validate cl c = None \<Longrightarrow> TrimSpace (ControllerURL c) = ControllerURL c \<Longrightarrow> TrimSpace (Username c) = Username c \<Longrightarrow>
   TrimSpace (Password c) = Password c \<Longrightarrow> usable cl c"
  by (auto simp: Validate_def usable_def split: if_splits sum.splits)

lemma LoadManagementConfig_usable: "LoadManagementConfig cl secret = Inr cfg \<Longrightarrow> usable cl cfg"
  unfolding LoadManagementConfig_def Let_def
  by (auto split: option.splits intro!: Validate_usable)

lemma SecretConfigLoader_Load_usable: "SecretConfigLoader_Load cl reader ref w = (Inr cfg, w') \<Longrightarrow> usable cl cfg"
  by (auto simp: SecretConfigLoader_Load_def LoadManagementConfig_usable split: prod.splits sum.splits)

end
