(* ===== verification/Management_Client.thy ===== *)
theory Management_Client
  imports Rest_Models Credentials
begin

text \<open>
  \<^verbatim>\<open>internal/openziti/client/client.go\<close>, \<^verbatim>\<open>edge_router.go\<close>, \<^verbatim>\<open>identity_role_attributes.go\<close> and
  \<^verbatim>\<open>service_edge_router_policy.go\<close>: the management client, with its session cache, its one
  retry after a rejected session, and the operations of the \<^verbatim>\<open>Client\<close> interface.

  Five kinds of objects are read, listed, created, updated and deleted in the same way; that
  code is written once over a \<open>crud\<close> interface, and each operation instantiates it with its
  action names and its conversions.
\<close>

section \<open>Sessions\<close>

text \<open>
  \<open>'a\<close> is an authenticated API client. The cache is part of the world that the operations
  change; \<open>outside\<close> is everything else.

  The reconcilers run at the same time and share the client. Its mutex is held only while the
  cache is read or written, never during a call, so what another goroutine does to the cache is
  seen after a call: \<open>meanwhile\<close> lists, call by call, the cache the others leave behind, or
  \<open>None\<close> when they leave it alone.
\<close>

record ('a, 'w) mgmt =
  cachedClient :: "'a option"
  cachedConfig :: ManagementConfig
  meanwhile :: "('a option \<times> ManagementConfig) option list"
  outside :: 'w

fun settle :: "('a, 'w) mgmt \<Rightarrow> ('a, 'w) mgmt" where
  "settle m = (case meanwhile m of
       [] \<Rightarrow> m
     | None # others \<Rightarrow> m\<lparr>meanwhile := others\<rparr>
     | Some (client, cfg) # others \<Rightarrow> m\<lparr>cachedClient := client, cachedConfig := cfg, meanwhile := others\<rparr>)"

declare settle.simps [simp del]

definition outer :: "('w \<Rightarrow> 'r \<times> 'w) \<Rightarrow> ('a, 'w) mgmt \<Rightarrow> 'r \<times> ('a, 'w) mgmt" where
  "outer f m = (fst (f (outside m)), settle (m\<lparr>outside := snd (f (outside m))\<rparr>))"

lemma outside_settle [simp]: "outside (settle m) = outside m"
  by (auto simp: settle.simps split: list.split option.split prod.split)

text \<open>The REST interface of one kind of object: \<open>'cr\<close> and \<open>'up\<close> are the bodies of create and
  update, \<open>'d\<close> the detail that is read.\<close>

record ('a, 'w, 'cr, 'up, 'd) crud =
  rest_Detail :: "'a \<Rightarrow> string \<Rightarrow> 'w \<Rightarrow> (error + 'd envelope) \<times> 'w"
  rest_List :: "'a \<Rightarrow> int \<Rightarrow> int \<Rightarrow> 'w \<Rightarrow> (error + 'd option list envelope) \<times> 'w"
  rest_Create :: "'a \<Rightarrow> 'cr \<Rightarrow> 'w \<Rightarrow> (error + string envelope) \<times> 'w"
  rest_Update :: "'a \<Rightarrow> string \<Rightarrow> 'up \<Rightarrow> 'w \<Rightarrow> error option \<times> 'w"
  rest_Delete :: "'a \<Rightarrow> string \<Rightarrow> 'w \<Rightarrow> error option \<times> 'w"

datatype ('a, 'cr, 'up, 'd) rest_call =
    R_Detail 'a string "error + 'd envelope"
  | R_List 'a int int "error + 'd option list envelope"
  | R_Create 'a 'cr "error + string envelope"
  | R_Update 'a string 'up "error option"
  | R_Delete 'a string "error option"

datatype 'a mcall =
    M_Load "error + ManagementConfig"
  | M_Auth ManagementConfig "error + 'a"
  | M_Identity "('a, IdentityCreate, IdentityBody, IdentityDetail) rest_call"
  | M_Service "('a, ServiceCreate, ServiceBody, ServiceDetail) rest_call"
  | M_Config "('a, ConfigCreate, ConfigBody, ConfigDetail) rest_call"
  | M_Policy "('a, PolicyBody, PolicyBody, PolicyDetail) rest_call"
  | M_RouterPolicy "('a, RouterPolicyBody, RouterPolicyBody, RouterPolicyDetail) rest_call"
  | M_Patch 'a string "string list" "error option"
  | M_Enrollments 'a string "error + EnrollmentDetail option list option"
  | M_CreateEnrollment 'a string time "error + string envelope"
  | M_DetailEnrollment 'a string "error + EnrollmentDetail envelope"
  | M_Services 'a "error + ServiceDetail option list option"
  | M_ConfigTypes 'a int int "error + NamedDetail option list option"
  | M_EdgeRouters 'a int int "error + NamedDetail option list option"

record ('a, 'w) ManagementClient =
  loadConfig :: "('w \<Rightarrow> (error + ManagementConfig) \<times> 'w) option"
  authenticate :: "ManagementConfig \<Rightarrow> 'w \<Rightarrow> (error + 'a) \<times> 'w"
  api_Identity :: "('a, 'w, IdentityCreate, IdentityBody, IdentityDetail) crud"
  api_Service :: "('a, 'w, ServiceCreate, ServiceBody, ServiceDetail) crud"
  api_Config :: "('a, 'w, ConfigCreate, ConfigBody, ConfigDetail) crud"
  api_Policy :: "('a, 'w, PolicyBody, PolicyBody, PolicyDetail) crud"
  api_RouterPolicy :: "('a, 'w, RouterPolicyBody, RouterPolicyBody, RouterPolicyDetail) crud"
  api_Patch :: "'a \<Rightarrow> string \<Rightarrow> string list \<Rightarrow> 'w \<Rightarrow> error option \<times> 'w"
  api_Enrollments :: "'a \<Rightarrow> string \<Rightarrow> 'w \<Rightarrow> (error + EnrollmentDetail option list option) \<times> 'w"
  api_CreateEnrollment :: "'a \<Rightarrow> string \<Rightarrow> time \<Rightarrow> 'w \<Rightarrow> (error + string envelope) \<times> 'w"
  api_DetailEnrollment :: "'a \<Rightarrow> string \<Rightarrow> 'w \<Rightarrow> (error + EnrollmentDetail envelope) \<times> 'w"
  api_Services :: "'a \<Rightarrow> 'w \<Rightarrow> (error + ServiceDetail option list option) \<times> 'w"
  api_ConfigTypes :: "'a \<Rightarrow> int \<Rightarrow> int \<Rightarrow> 'w \<Rightarrow> (error + NamedDetail option list option) \<times> 'w"
  api_EdgeRouters :: "'a \<Rightarrow> int \<Rightarrow> int \<Rightarrow> 'w \<Rightarrow> (error + NamedDetail option list option) \<times> 'w"
  mc_Now :: "'w \<Rightarrow> time \<times> 'w"
  mc_uc :: unicode
  page_budget :: nat

type_synonym ('a, 'w, 'r) mio = "(('a, 'w) mgmt, 'a mcall, 'r) io"

section \<open>Authentication\<close>

definition rootCAsFromConfig :: "cred_lib \<Rightarrow> ManagementConfig \<Rightarrow> error + string option" where
  "rootCAsFromConfig cl cfg =
     (if length (CABundlePEM cfg) = 0 then Inr None
      else if \<not> AppendCertsFromPEM cl (CABundlePEM cfg)
      then Inl (New (''invalid '' @ Quote (cred_uc cl) CABundleKey @ '' in management credentials''))
      else Inr (Some (CABundlePEM cfg)))"

text \<open>\<open>connect\<close> is \<^verbatim>\<open>rest_util.NewEdgeManagementClientWithUpdb\<close>.\<close>

definition authenticateWithUPDB ::
  "cred_lib \<Rightarrow> (string \<Rightarrow> string \<Rightarrow> string \<Rightarrow> string option \<Rightarrow> 'w \<Rightarrow> (error + 'a) \<times> 'w)
     \<Rightarrow> ManagementConfig \<Rightarrow> 'w \<Rightarrow> (error + 'a) \<times> 'w" where
  "authenticateWithUPDB cl connect cfg w =
     (case rootCAsFromConfig cl cfg of
        Inl err \<Rightarrow> (Inl err, w)
      | Inr rootCAs \<Rightarrow>
          (case connect (Username cfg) (Password cfg) (ControllerURL cfg) rootCAs w of
             (Inl err, w) \<Rightarrow> (Inl (Errorf_w (''authenticate to '' @ ControllerURL cfg) err), w)
           | (Inr api, w) \<Rightarrow> (Inr api, w)))"

definition loadCurrentConfig :: "('a, 'w) ManagementClient \<Rightarrow> ('a, 'w) mgmt \<Rightarrow> (error + ManagementConfig) \<times> ('a, 'w) mgmt" where
  "loadCurrentConfig c m =
     (case loadConfig c of
        None \<Rightarrow>
          (if ControllerURL (cachedConfig m) = [] then Inl (New ''openziti credentials loader is not configured'')
           else Inr (cachedConfig m), m)
      | Some load \<Rightarrow> outer load m)"

definition sameManagementConfig :: "ManagementConfig \<Rightarrow> ManagementConfig \<Rightarrow> bool" where
  "sameManagementConfig left right \<longleftrightarrow> ControllerURL left = ControllerURL right \<and> Username left = Username right \<and>
     Password left = Password right \<and> CABundlePEM left = CABundlePEM right"

definition getOrAuthenticate ::
  "('a, 'w) ManagementClient \<Rightarrow> (('a, 'w) mgmt \<Rightarrow> (error + ManagementConfig) \<times> ('a, 'w) mgmt) \<Rightarrow> bool \<Rightarrow> ('a, 'w, error + 'a) mio" where
  "getOrAuthenticate c load force = do {
     cfg \<leftarrow> call M_Load load;
     case cfg of
       Inl err \<Rightarrow> State_Monad.return (Inl err)
     | Inr cfg \<Rightarrow> do {
         cached \<leftarrow> ask (\<lambda>m. (if \<not> force \<and> sameManagementConfig (cachedConfig m) cfg then cachedClient m else None, m));
         case cached of
           Some client \<Rightarrow> State_Monad.return (Inr client)
         | None \<Rightarrow> do {
             api \<leftarrow> call (M_Auth cfg) (outer (authenticate c cfg));
             case api of
               Inl err \<Rightarrow> State_Monad.return (Inl err)
             | Inr api \<Rightarrow> do {
                 _ \<leftarrow> ask (\<lambda>m. ((), m\<lparr>cachedClient := Some api, cachedConfig := cfg\<rparr>));
                 State_Monad.return (Inr api)
               }
           }
       }
   }"

definition invalidate :: "('a, 'w, unit) mio" where
  "invalidate = ask (\<lambda>m. ((), m\<lparr>cachedClient := None\<rparr>))"

definition isStatusCode :: "error \<Rightarrow> int \<Rightarrow> bool" where
  "isStatusCode err code \<longleftrightarrow> errors_As_coder err = Some code"

definition shouldReauthenticate :: "error \<Rightarrow> bool" where
  "shouldReauthenticate err \<longleftrightarrow> isStatusCode err 401 \<or> isStatusCode err 403"

definition wrapAPICallError :: "string \<Rightarrow> error \<Rightarrow> error" where
  "wrapAPICallError action err = Errorf_w action err"

definition useAuthenticatedClient ::
  "('a, 'w) ManagementClient \<Rightarrow> (('a, 'w) mgmt \<Rightarrow> (error + ManagementConfig) \<times> ('a, 'w) mgmt)
     \<Rightarrow> ('a \<Rightarrow> ('a, 'w, error + 'r) mio) \<Rightarrow> ('a, 'w, error + 'r) mio" where
  "useAuthenticatedClient c load fn = do {
     api \<leftarrow> getOrAuthenticate c load False;
     case api of
       Inl err \<Rightarrow> State_Monad.return (Inl err)
     | Inr api \<Rightarrow> do {
         result \<leftarrow> fn api;
         case result of
           Inr x \<Rightarrow> State_Monad.return (Inr x)
         | Inl err \<Rightarrow>
             if \<not> shouldReauthenticate err then State_Monad.return (Inl err)
             else do {
               _ \<leftarrow> invalidate;
               api \<leftarrow> getOrAuthenticate c load True;
               case api of
                 Inl authErr \<Rightarrow> State_Monad.return (Inl authErr)
               | Inr api \<Rightarrow> fn api
             }
       }
   }"

abbreviation withClient :: "('a, 'w) ManagementClient \<Rightarrow> ('a \<Rightarrow> ('a, 'w, error + 'r) mio) \<Rightarrow> ('a, 'w, error + 'r) mio" where
  "withClient c \<equiv> useAuthenticatedClient c (loadCurrentConfig c)"

definition Mgmt_Authenticate :: "('a, 'w) ManagementClient \<Rightarrow> ManagementConfig \<Rightarrow> ('a, 'w, error + unit) mio" where
  "Mgmt_Authenticate c cfg = useAuthenticatedClient c (\<lambda>m. (Inr cfg, m)) (\<lambda>_. State_Monad.return (Inr ()))"

section \<open>The shape of the operations\<close>

text \<open>
  \<open>conv\<close> reads an envelope: \<open>Inr None\<close> is a nil result without an error. \<open>emb\<close> puts a call into
  the trace.
\<close>

definition getOp ::
  "('a, 'w, 'cr, 'up, 'd) crud \<Rightarrow> (('a, 'cr, 'up, 'd) rest_call \<Rightarrow> 'a mcall) \<Rightarrow> string \<Rightarrow> ('d envelope \<Rightarrow> error + 'x option)
     \<Rightarrow> string \<Rightarrow> 'a \<Rightarrow> ('a, 'w, error + 'x option) mio" where
  "getOp R emb action conv ident api = do {
     resp \<leftarrow> call (\<lambda>r. emb (R_Detail api ident r)) (outer (rest_Detail R api ident));
     State_Monad.return (case resp of
         Inl err \<Rightarrow> if isStatusCode err 404 then Inr None else Inl (wrapAPICallError action err)
       | Inr payload \<Rightarrow> conv payload)
   }"

text \<open>The \<^verbatim>\<open>get...ByIDWithAPI\<close> functions: no result is no exception here.\<close>

definition getByIDWithAPI ::
  "('a, 'w, 'cr, 'up, 'd) crud \<Rightarrow> (('a, 'cr, 'up, 'd) rest_call \<Rightarrow> 'a mcall) \<Rightarrow> string \<Rightarrow> ('d envelope \<Rightarrow> error + 'x option)
     \<Rightarrow> 'a \<Rightarrow> string envelope \<Rightarrow> ('a, 'w, error + 'x option) mio" where
  "getByIDWithAPI R emb action conv api createEnvelope =
     (case extractCreatedID createEnvelope of
        Inl err \<Rightarrow> State_Monad.return (Inl err)
      | Inr ident \<Rightarrow> do {
          resp \<leftarrow> call (\<lambda>r. emb (R_Detail api ident r)) (outer (rest_Detail R api ident));
          State_Monad.return (case resp of Inl err \<Rightarrow> Inl (wrapAPICallError action err) | Inr payload \<Rightarrow> conv payload)
        })"

definition createOp ::
  "('a, 'w, 'cr, 'up, 'd) crud \<Rightarrow> (('a, 'cr, 'up, 'd) rest_call \<Rightarrow> 'a mcall) \<Rightarrow> string \<Rightarrow> string \<Rightarrow> ('d envelope \<Rightarrow> error + 'x option)
     \<Rightarrow> 'cr \<Rightarrow> 'a \<Rightarrow> ('a, 'w, error + 'x option) mio" where
  "createOp R emb action getAction conv body api = do {
     resp \<leftarrow> call (\<lambda>r. emb (R_Create api body r)) (outer (rest_Create R api body));
     case resp of
       Inl err \<Rightarrow> State_Monad.return (Inl (wrapAPICallError action err))
     | Inr payload \<Rightarrow> getByIDWithAPI R emb getAction conv api payload
   }"

definition updateOp ::
  "('a, 'w, 'cr, 'up, 'd) crud \<Rightarrow> (('a, 'cr, 'up, 'd) rest_call \<Rightarrow> 'a mcall) \<Rightarrow> string \<Rightarrow> string \<Rightarrow> ('d envelope \<Rightarrow> error + 'x option)
     \<Rightarrow> string \<Rightarrow> 'up \<Rightarrow> 'a \<Rightarrow> ('a, 'w, error + 'x option) mio" where
  "updateOp R emb action getAction conv ident body api = do {
     err \<leftarrow> call (\<lambda>r. emb (R_Update api ident body r)) (outer (rest_Update R api ident body));
     case err of
       Some err \<Rightarrow> State_Monad.return (if isStatusCode err 404 then Inl err else Inl (wrapAPICallError action err))
     | None \<Rightarrow> getByIDWithAPI R emb getAction conv api (Some (Some ident))
   }"

text \<open>An update of a missing object becomes a create.\<close>

definition orCreate :: "('a, 'w, error + 'x option) mio \<Rightarrow> ('a, 'w, error + 'x option) mio \<Rightarrow> ('a, 'w, error + 'x option) mio" where
  "orCreate update create = do {
     updated \<leftarrow> update;
     case updated of
       Inl err \<Rightarrow> if isStatusCode err 404 then create else State_Monad.return (Inl err)
     | Inr x \<Rightarrow> State_Monad.return (Inr x)
   }"

definition deleteOp ::
  "('a, 'w, 'cr, 'up, 'd) crud \<Rightarrow> (('a, 'cr, 'up, 'd) rest_call \<Rightarrow> 'a mcall) \<Rightarrow> string \<Rightarrow> string \<Rightarrow> 'a \<Rightarrow> ('a, 'w, error + unit) mio" where
  "deleteOp R emb action ident api = do {
     err \<leftarrow> call (\<lambda>r. emb (R_Delete api ident r)) (outer (rest_Delete R api ident));
     State_Monad.return (case err of
         Some err \<Rightarrow> if isStatusCode err 404 then Inr () else Inl (wrapAPICallError action err)
       | None \<Rightarrow> Inr ())
   }"

section \<open>Paging\<close>

text \<open>
  The loops over pages of 100. \<open>pages\<close> bounds how many pages the model reads; it is no part of
  the program, and below it is shown how many are enough.
\<close>

definition page_limit :: int where "page_limit = 100"

fun firstMatch :: "('d option \<Rightarrow> 'x option) \<Rightarrow> ('x \<Rightarrow> string) \<Rightarrow> string \<Rightarrow> 'd option list \<Rightarrow> 'x option" where
  "firstMatch conv nameOf name [] = None"
| "firstMatch conv nameOf name (item # items) =
     (case conv item of
        Some x \<Rightarrow> if nameOf x = name then Some x else firstMatch conv nameOf name items
      | None \<Rightarrow> firstMatch conv nameOf name items)"

fun findPages ::
  "nat \<Rightarrow> (int \<Rightarrow> ('a, 'w, error + 'd option list option) mio) \<Rightarrow> string \<Rightarrow> ('d option \<Rightarrow> 'x option) \<Rightarrow> ('x \<Rightarrow> string) \<Rightarrow> string
     \<Rightarrow> int \<Rightarrow> ('a, 'w, error + 'x option) mio" where
  "findPages 0 list action conv nameOf name offset = State_Monad.return (Inl Diverges)"
| "findPages (Suc pages) list action conv nameOf name offset = do {
     resp \<leftarrow> list offset;
     case resp of
       Inl err \<Rightarrow> State_Monad.return (Inl (wrapAPICallError action err))
     | Inr None \<Rightarrow> State_Monad.return (Inr None)
     | Inr (Some items) \<Rightarrow>
         (case firstMatch conv nameOf name items of
            Some x \<Rightarrow> State_Monad.return (Inr (Some x))
          | None \<Rightarrow>
              if length items = 0 \<or> int (length items) < page_limit then State_Monad.return (Inr None)
              else findPages pages list action conv nameOf name (offset + int (length items)))
   }"

text \<open>A page of a list call, with nil data read as no items.\<close>

definition listPage ::
  "('a, 'w, 'cr, 'up, 'd) crud \<Rightarrow> (('a, 'cr, 'up, 'd) rest_call \<Rightarrow> 'a mcall) \<Rightarrow> 'a \<Rightarrow> int \<Rightarrow> ('a, 'w, error + 'd option list option) mio" where
  "listPage R emb api offset = do {
     resp \<leftarrow> call (\<lambda>r. emb (R_List api page_limit offset r)) (outer (rest_List R api page_limit offset));
     State_Monad.return (map_sum id (map_option (\<lambda>data. case data of None \<Rightarrow> [] | Some items \<Rightarrow> items)) resp)
   }"

fun readIdentities :: "IdentityDetail option list \<Rightarrow> error + Identity list" where
  "readIdentities [] = Inr []"
| "readIdentities (item # items) =
     (case identityFromEnvelope (Some item) of
        Inl err \<Rightarrow> Inl (Errorf_w ''list identities'' err)
      | Inr identity \<Rightarrow> map_sum id (\<lambda>rest. identity # rest) (readIdentities items))"

fun listIdentityPages ::
  "nat \<Rightarrow> ('a, 'w) ManagementClient \<Rightarrow> 'a \<Rightarrow> int \<Rightarrow> Identity list \<Rightarrow> ('a, 'w, error + Identity list) mio" where
  "listIdentityPages 0 c api offset identities = State_Monad.return (Inl Diverges)"
| "listIdentityPages (Suc pages) c api offset identities = do {
     resp \<leftarrow> call (\<lambda>r. M_Identity (R_List api page_limit offset r)) (outer (rest_List (api_Identity c) api page_limit offset));
     case resp of
       Inl err \<Rightarrow> State_Monad.return (Inl (wrapAPICallError ''list identities'' err))
     | Inr (Some (Some items)) \<Rightarrow>
         (case readIdentities items of
            Inl err \<Rightarrow> State_Monad.return (Inl err)
          | Inr found \<Rightarrow>
              if length items = 0 \<or> int (length items) < page_limit then State_Monad.return (Inr (identities @ found))
              else listIdentityPages pages c api (offset + int (length items)) (identities @ found))
     | Inr _ \<Rightarrow> State_Monad.return (Inl (New ''identity list response has no data''))
   }"

text \<open>\<^verbatim>\<open>resolveConfigTypeIDWithAPI\<close> counts only items with an id and a name.\<close>

fun configTypeOnPage :: "string \<Rightarrow> nat \<Rightarrow> NamedDetail option list \<Rightarrow> nat \<times> string option" where
  "configTypeOnPage name count [] = (count, None)"
| "configTypeOnPage name count (item # items) =
     (case item of
        None \<Rightarrow> configTypeOnPage name count items
      | Some detail \<Rightarrow>
          (case (ND_ID detail, ND_Name detail) of
             (Some ident, Some itemName) \<Rightarrow>
               if TrimSpace itemName = name then (count + 1, Some (TrimSpace ident))
               else configTypeOnPage name (count + 1) items
           | _ \<Rightarrow> configTypeOnPage name count items))"

fun configTypePages ::
  "nat \<Rightarrow> ('a, 'w) ManagementClient \<Rightarrow> 'a \<Rightarrow> string \<Rightarrow> int \<Rightarrow> ('a, 'w, error + string) mio" where
  "configTypePages 0 c api name offset = State_Monad.return (Inl Diverges)"
| "configTypePages (Suc pages) c api name offset = do {
     resp \<leftarrow> call (M_ConfigTypes api page_limit offset) (outer (api_ConfigTypes c api page_limit offset));
     case resp of
       Inl err \<Rightarrow> State_Monad.return (Inl (wrapAPICallError ''list config types'' err))
     | Inr None \<Rightarrow> State_Monad.return (Inl (New (''config type '' @ Quote (mc_uc c) name @ '' not found'')))
     | Inr (Some items) \<Rightarrow>
         (case configTypeOnPage name 0 items of
            (count, Some ident) \<Rightarrow> State_Monad.return (Inr ident)
          | (count, None) \<Rightarrow>
              if count = 0 \<or> int count < page_limit
              then State_Monad.return (Inl (New (''config type '' @ Quote (mc_uc c) name @ '' not found'')))
              else configTypePages pages c api name (offset + int count))
   }"

definition resolveConfigTypeIDWithAPI :: "('a, 'w) ManagementClient \<Rightarrow> 'a \<Rightarrow> string \<Rightarrow> ('a, 'w, error + string) mio" where
  "resolveConfigTypeIDWithAPI c api configTypeName = (
     let name = TrimSpace configTypeName
     in if name = [] then State_Monad.return (Inl (New ''config type name must not be empty''))
        else configTypePages (page_budget c) c api name 0)"

section \<open>Identities\<close>

definition conv_identity :: "IdentityDetail envelope \<Rightarrow> error + Identity option" where
  "conv_identity envelope = map_sum id Some (identityFromEnvelope envelope)"

definition Mgmt_GetIdentity :: "('a, 'w) ManagementClient \<Rightarrow> string \<Rightarrow> ('a, 'w, error + Identity option) mio" where
  "Mgmt_GetIdentity c ident = withClient c (getOp (api_Identity c) M_Identity ''get identity'' conv_identity ident)"

definition Mgmt_ListIdentities :: "('a, 'w) ManagementClient \<Rightarrow> ('a, 'w, error + Identity list) mio" where
  "Mgmt_ListIdentities c = withClient c (\<lambda>api. listIdentityPages (page_budget c) c api 0 [])"

definition Mgmt_FindIdentityByName :: "('a, 'w) ManagementClient \<Rightarrow> string \<Rightarrow> ('a, 'w, error + Identity option) mio" where
  "Mgmt_FindIdentityByName c name = do {
     identities \<leftarrow> Mgmt_ListIdentities c;
     State_Monad.return (map_sum id (find (\<lambda>identity. Identity_Name identity = name)) identities)
   }"

definition Mgmt_CreateIdentity :: "('a, 'w) ManagementClient \<Rightarrow> Identity \<Rightarrow> ('a, 'w, error + Identity option) mio" where
  "Mgmt_CreateIdentity c identity =
     withClient c (createOp (api_Identity c) M_Identity ''create identity'' ''get identity'' conv_identity (toIdentityCreate identity))"

definition Mgmt_UpdateIdentity :: "('a, 'w) ManagementClient \<Rightarrow> Identity \<Rightarrow> ('a, 'w, error + Identity option) mio" where
  "Mgmt_UpdateIdentity c identity = orCreate
     (withClient c (updateOp (api_Identity c) M_Identity ''update identity'' ''get identity'' conv_identity
        (Identity_ID identity) (toIdentityUpdate identity)))
     (Mgmt_CreateIdentity c (identity\<lparr>Identity_ID := []\<rparr>))"

definition Mgmt_PatchIdentityRoleAttributes ::
  "('a, 'w) ManagementClient \<Rightarrow> string \<Rightarrow> string list \<Rightarrow> ('a, 'w, error + unit) mio" where
  "Mgmt_PatchIdentityRoleAttributes c ident attrs = withClient c (\<lambda>api. do {
     err \<leftarrow> call (M_Patch api ident attrs) (outer (api_Patch c api ident attrs));
     State_Monad.return (case err of Some err \<Rightarrow> Inl (wrapAPICallError ''patch identity role attributes'' err) | None \<Rightarrow> Inr ())
   })"

definition Mgmt_DeleteIdentity :: "('a, 'w) ManagementClient \<Rightarrow> string \<Rightarrow> ('a, 'w, error + unit) mio" where
  "Mgmt_DeleteIdentity c ident = withClient c (deleteOp (api_Identity c) M_Identity ''delete identity'' ident)"

definition createOTTEnrollmentWithAPI ::
  "('a, 'w) ManagementClient \<Rightarrow> 'a \<Rightarrow> string \<Rightarrow> ('a, 'w, error + EnrollmentDetail envelope) mio" where
  "createOTTEnrollmentWithAPI c api identityID = do {
     now \<leftarrow> ask (outer (mc_Now c));
     resp \<leftarrow> (let expiresAt = now + 30 * 60 * 1000000000
              in call (M_CreateEnrollment api identityID expiresAt) (outer (api_CreateEnrollment c api identityID expiresAt)));
     case resp of
       Inl err \<Rightarrow> State_Monad.return (Inl (wrapAPICallError ''create ott enrollment'' err))
     | Inr payload \<Rightarrow>
         (case extractCreatedID payload of
            Inl err \<Rightarrow> State_Monad.return (Inl err)
          | Inr ident \<Rightarrow> do {
              detail \<leftarrow> call (M_DetailEnrollment api ident) (outer (api_DetailEnrollment c api ident));
              State_Monad.return (case detail of
                  Inl err \<Rightarrow> Inl (wrapAPICallError ''get ott enrollment'' err)
                | Inr envelope \<Rightarrow> Inr envelope)
            })
   }"

text \<open>A conflict on creating the enrollment means somebody else just did: look again.\<close>

definition enrollmentAfterConflict :: "('a, 'w) ManagementClient \<Rightarrow> 'a \<Rightarrow> string \<Rightarrow> error \<Rightarrow> ('a, 'w, error + string) mio" where
  "enrollmentAfterConflict c api ident err = (
     if isStatusCode err 409 then do {
       enrollments \<leftarrow> call (M_Enrollments api ident) (outer (api_Enrollments c api ident));
       State_Monad.return (case enrollments of
           Inl listErr \<Rightarrow> Inl (wrapAPICallError ''list identity enrollments'' listErr)
         | Inr payload \<Rightarrow>
             (let jwt = enrollmentJWTFromList (mc_uc c) payload in if TrimSpace jwt \<noteq> [] then Inr jwt else Inl err))
     } else State_Monad.return (Inl err))"

definition Mgmt_GetEnrollmentJWT :: "('a, 'w) ManagementClient \<Rightarrow> string \<Rightarrow> ('a, 'w, error + string) mio" where
  "Mgmt_GetEnrollmentJWT c ident = withClient c (\<lambda>api. do {
     enrollments \<leftarrow> call (M_Enrollments api ident) (outer (api_Enrollments c api ident));
     case enrollments of
       Inl err \<Rightarrow> State_Monad.return (Inl (wrapAPICallError ''list identity enrollments'' err))
     | Inr payload \<Rightarrow> (
         let jwt = enrollmentJWTFromList (mc_uc c) payload
         in if TrimSpace jwt \<noteq> [] then State_Monad.return (Inr jwt)
            else do {
              created \<leftarrow> createOTTEnrollmentWithAPI c api ident;
              case created of
                Inl err \<Rightarrow> enrollmentAfterConflict c api ident err
              | Inr (Some (Some detail)) \<Rightarrow> State_Monad.return (
                  if TrimSpace (ED_JWT detail) \<noteq> [] then Inr (TrimSpace (ED_JWT detail))
                  else Inl (New (''identity '' @ ident @ '' has no enrollment jwt'')))
              | Inr _ \<Rightarrow> State_Monad.return (Inl (New (''identity '' @ ident @ '' has no enrollment jwt'')))
            })
   })"

section \<open>Services and configs\<close>

definition conv_service :: "ServiceDetail envelope \<Rightarrow> error + Service option" where
  "conv_service envelope = Inr (serviceFromEnvelope envelope)"

definition Mgmt_GetService :: "('a, 'w) ManagementClient \<Rightarrow> string \<Rightarrow> ('a, 'w, error + Service option) mio" where
  "Mgmt_GetService c ident = withClient c (getOp (api_Service c) M_Service ''get service'' conv_service ident)"

text \<open>\<^verbatim>\<open>FindServiceByName\<close> reads one page, of the size the controller chooses.\<close>

definition Mgmt_FindServiceByName :: "('a, 'w) ManagementClient \<Rightarrow> string \<Rightarrow> ('a, 'w, error + Service option) mio" where
  "Mgmt_FindServiceByName c name = withClient c (\<lambda>api. do {
     resp \<leftarrow> call (M_Services api) (outer (api_Services c api));
     State_Monad.return (case resp of
         Inl err \<Rightarrow> Inl (wrapAPICallError ''list services'' err)
       | Inr None \<Rightarrow> Inl (Panic ''nil pointer dereference'')
       | Inr (Some items) \<Rightarrow> Inr (firstMatch (\<lambda>item. serviceFromEnvelope (Some item)) Service_Name name items))
   })"

definition Mgmt_CreateService :: "('a, 'w) ManagementClient \<Rightarrow> Service \<Rightarrow> ('a, 'w, error + Service option) mio" where
  "Mgmt_CreateService c service =
     withClient c (createOp (api_Service c) M_Service ''create service'' ''get service'' conv_service (toServiceCreate service))"

definition Mgmt_UpdateService :: "('a, 'w) ManagementClient \<Rightarrow> Service \<Rightarrow> ('a, 'w, error + Service option) mio" where
  "Mgmt_UpdateService c service = orCreate
     (withClient c (updateOp (api_Service c) M_Service ''update service'' ''get service'' conv_service
        (Service_ID service) (toServiceUpdate service)))
     (Mgmt_CreateService c (service\<lparr>Service_ID := []\<rparr>))"

definition Mgmt_DeleteService :: "('a, 'w) ManagementClient \<Rightarrow> string \<Rightarrow> ('a, 'w, error + unit) mio" where
  "Mgmt_DeleteService c ident = withClient c (deleteOp (api_Service c) M_Service ''delete service'' ident)"

definition conv_config :: "ConfigDetail envelope \<Rightarrow> error + ServiceConfig option" where
  "conv_config envelope = Inr (configFromEnvelope envelope)"

definition Mgmt_GetConfig :: "('a, 'w) ManagementClient \<Rightarrow> string \<Rightarrow> ('a, 'w, error + ServiceConfig option) mio" where
  "Mgmt_GetConfig c ident = withClient c (getOp (api_Config c) M_Config ''get config'' conv_config ident)"

definition Mgmt_CreateConfig :: "('a, 'w) ManagementClient \<Rightarrow> ServiceConfig \<Rightarrow> ('a, 'w, error + ServiceConfig option) mio" where
  "Mgmt_CreateConfig c cfg = withClient c (\<lambda>api. do {
     configTypeID \<leftarrow> resolveConfigTypeIDWithAPI c api (Config_Type cfg);
     case configTypeID of
       Inl err \<Rightarrow> State_Monad.return (Inl err)
     | Inr configTypeID \<Rightarrow>
         createOp (api_Config c) M_Config ''create config'' ''get config'' conv_config (toConfigCreate cfg configTypeID) api
   })"

definition Mgmt_UpdateConfig :: "('a, 'w) ManagementClient \<Rightarrow> ServiceConfig \<Rightarrow> ('a, 'w, error + ServiceConfig option) mio" where
  "Mgmt_UpdateConfig c cfg = orCreate
     (withClient c (updateOp (api_Config c) M_Config ''update config'' ''get config'' conv_config (Config_ID cfg) (toConfigUpdate cfg)))
     (Mgmt_CreateConfig c (cfg\<lparr>Config_ID := []\<rparr>))"

definition Mgmt_DeleteConfig :: "('a, 'w) ManagementClient \<Rightarrow> string \<Rightarrow> ('a, 'w, error + unit) mio" where
  "Mgmt_DeleteConfig c ident = withClient c (deleteOp (api_Config c) M_Config ''delete config'' ident)"

definition Mgmt_FindEdgeRouterByName :: "('a, 'w) ManagementClient \<Rightarrow> string \<Rightarrow> ('a, 'w, error + EdgeRouter option) mio" where
  "Mgmt_FindEdgeRouterByName c name = withClient c (\<lambda>api. findPages (page_budget c)
     (\<lambda>offset. call (M_EdgeRouters api page_limit offset) (outer (api_EdgeRouters c api page_limit offset)))
     ''list edge routers'' edgeRouterFromDetail EdgeRouter_Name name 0)"

section \<open>Policies\<close>

definition conv_policy :: "PolicyDetail envelope \<Rightarrow> error + AccessPolicy option" where
  "conv_policy envelope = Inr (accessPolicyFromEnvelope envelope)"

definition Mgmt_GetAccessPolicy :: "('a, 'w) ManagementClient \<Rightarrow> string \<Rightarrow> ('a, 'w, error + AccessPolicy option) mio" where
  "Mgmt_GetAccessPolicy c ident = withClient c (getOp (api_Policy c) M_Policy ''get access policy'' conv_policy ident)"

definition Mgmt_FindAccessPolicyByName :: "('a, 'w) ManagementClient \<Rightarrow> string \<Rightarrow> ('a, 'w, error + AccessPolicy option) mio" where
  "Mgmt_FindAccessPolicyByName c name = withClient c (\<lambda>api. findPages (page_budget c) (listPage (api_Policy c) M_Policy api)
     ''list access policies'' (\<lambda>item. accessPolicyFromEnvelope (Some item)) AccessPolicy_Name name 0)"

definition Mgmt_CreateAccessPolicy :: "('a, 'w) ManagementClient \<Rightarrow> AccessPolicy \<Rightarrow> ('a, 'w, error + AccessPolicy option) mio" where
  "Mgmt_CreateAccessPolicy c policy =
     withClient c (createOp (api_Policy c) M_Policy ''create access policy'' ''get access policy'' conv_policy (toAccessPolicyCreate policy))"

definition Mgmt_UpdateAccessPolicy :: "('a, 'w) ManagementClient \<Rightarrow> AccessPolicy \<Rightarrow> ('a, 'w, error + AccessPolicy option) mio" where
  "Mgmt_UpdateAccessPolicy c policy = orCreate
     (withClient c (updateOp (api_Policy c) M_Policy ''update access policy'' ''get access policy'' conv_policy
        (AccessPolicy_ID policy) (toAccessPolicyUpdate policy)))
     (Mgmt_CreateAccessPolicy c (policy\<lparr>AccessPolicy_ID := []\<rparr>))"

definition Mgmt_DeleteAccessPolicy :: "('a, 'w) ManagementClient \<Rightarrow> string \<Rightarrow> ('a, 'w, error + unit) mio" where
  "Mgmt_DeleteAccessPolicy c ident = withClient c (deleteOp (api_Policy c) M_Policy ''delete access policy'' ident)"

definition conv_router_policy :: "RouterPolicyDetail envelope \<Rightarrow> error + ServiceEdgeRouterPolicy option" where
  "conv_router_policy envelope = Inr (serviceEdgeRouterPolicyFromEnvelope envelope)"

definition Mgmt_GetServiceEdgeRouterPolicy ::
  "('a, 'w) ManagementClient \<Rightarrow> string \<Rightarrow> ('a, 'w, error + ServiceEdgeRouterPolicy option) mio" where
  "Mgmt_GetServiceEdgeRouterPolicy c ident =
     withClient c (getOp (api_RouterPolicy c) M_RouterPolicy ''get service edge router policy'' conv_router_policy ident)"

definition Mgmt_FindServiceEdgeRouterPolicyByName ::
  "('a, 'w) ManagementClient \<Rightarrow> string \<Rightarrow> ('a, 'w, error + ServiceEdgeRouterPolicy option) mio" where
  "Mgmt_FindServiceEdgeRouterPolicyByName c name = withClient c (\<lambda>api. findPages (page_budget c)
     (listPage (api_RouterPolicy c) M_RouterPolicy api)
     ''list service edge router policies'' serviceEdgeRouterPolicyFromDetail SERP_Name name 0)"

definition Mgmt_CreateServiceEdgeRouterPolicy ::
  "('a, 'w) ManagementClient \<Rightarrow> ServiceEdgeRouterPolicy \<Rightarrow> ('a, 'w, error + ServiceEdgeRouterPolicy option) mio" where
  "Mgmt_CreateServiceEdgeRouterPolicy c policy =
     withClient c (createOp (api_RouterPolicy c) M_RouterPolicy ''create service edge router policy'' ''get service edge router policy''
       conv_router_policy (toServiceEdgeRouterPolicyCreate policy))"

definition Mgmt_UpdateServiceEdgeRouterPolicy ::
  "('a, 'w) ManagementClient \<Rightarrow> ServiceEdgeRouterPolicy \<Rightarrow> ('a, 'w, error + ServiceEdgeRouterPolicy option) mio" where
  "Mgmt_UpdateServiceEdgeRouterPolicy c policy = orCreate
     (withClient c (updateOp (api_RouterPolicy c) M_RouterPolicy ''update service edge router policy'' ''get service edge router policy''
        conv_router_policy (SERP_ID policy) (toServiceEdgeRouterPolicyUpdate policy)))
     (Mgmt_CreateServiceEdgeRouterPolicy c (policy\<lparr>SERP_ID := []\<rparr>))"

definition Mgmt_DeleteServiceEdgeRouterPolicy :: "('a, 'w) ManagementClient \<Rightarrow> string \<Rightarrow> ('a, 'w, error + unit) mio" where
  "Mgmt_DeleteServiceEdgeRouterPolicy c ident =
     withClient c (deleteOp (api_RouterPolicy c) M_RouterPolicy ''delete service edge router policy'' ident)"

end
