(* ===== verification/Management_Sessions.thy ===== *)
theory Management_Sessions
  imports Management_Client
begin

text \<open>
  The sessions of the management client. The operations of the interface become the requests of
  a step relation; whatever the order of requests and whatever happens outside between them,
  a call to the controller goes over a session that was opened with the credentials loaded
  last.
\<close>

section \<open>The session of a call\<close>

fun rest_session :: "('a, 'cr, 'up, 'd) rest_call \<Rightarrow> 'a" where
  "rest_session (R_Detail api _ _) = api"
| "rest_session (R_List api _ _ _) = api"
| "rest_session (R_Create api _ _) = api"
| "rest_session (R_Update api _ _ _) = api"
| "rest_session (R_Delete api _ _) = api"

fun call_session :: "'a mcall \<Rightarrow> 'a option" where
  "call_session (M_Load _) = None"
| "call_session (M_Auth _ _) = None"
| "call_session (M_Identity r) = Some (rest_session r)"
| "call_session (M_Service r) = Some (rest_session r)"
| "call_session (M_Config r) = Some (rest_session r)"
| "call_session (M_Policy r) = Some (rest_session r)"
| "call_session (M_RouterPolicy r) = Some (rest_session r)"
| "call_session (M_Patch api _ _ _) = Some api"
| "call_session (M_Enrollments api _ _) = Some api"
| "call_session (M_CreateEnrollment api _ _ _) = Some api"
| "call_session (M_DetailEnrollment api _ _) = Some api"
| "call_session (M_Services api _) = Some api"
| "call_session (M_ConfigTypes api _ _ _) = Some api"
| "call_session (M_EdgeRouters api _ _ _) = Some api"

definition uses :: "'a \<Rightarrow> 'a mcall list \<Rightarrow> bool" where
  "uses api xs \<longleftrightarrow> (\<forall>x \<in> set xs. call_session x = Some api)"

lemma uses_simps [simp]:
  "uses api []" "uses api (x # xs) \<longleftrightarrow> call_session x = Some api \<and> uses api xs"
  "uses api (xs @ ys) \<longleftrightarrow> uses api xs \<and> uses api ys"
  by (auto simp: uses_def)

text \<open>The credentials loaded last.\<close>

definition current_step :: "ManagementConfig option \<Rightarrow> 'a mcall \<Rightarrow> ManagementConfig option" where
  "current_step cur x = (case x of M_Load (Inr cfg) \<Rightarrow> Some cfg | _ \<Rightarrow> cur)"

definition current_config :: "'a mcall list \<Rightarrow> ManagementConfig option" where
  "current_config xs = foldl current_step None xs"

lemma current_config_simps [simp]:
  "current_config [] = None"
  "current_config (xs @ [M_Load (Inr cfg)]) = Some cfg"
  "current_config (xs @ [M_Auth cfg r]) = current_config xs"
  by (simp_all add: current_config_def current_step_def)

lemma foldl_current_step_uses: "uses api xs \<Longrightarrow> foldl current_step cur xs = cur"
  by (induction xs arbitrary: cur) (auto simp: current_step_def split: mcall.splits sum.splits)

lemma current_config_uses [simp]: "uses api ys \<Longrightarrow> current_config (xs @ ys) = current_config xs"
  by (simp add: current_config_def foldl_current_step_uses)

section \<open>A valid cache\<close>

definition logged_in :: "('a, 'w) ManagementClient \<Rightarrow> ManagementConfig \<Rightarrow> 'a \<Rightarrow> bool" where
  "logged_in c cfg api \<longleftrightarrow> (\<exists>w w'. authenticate c cfg w = (Inr api, w'))"

text \<open>
  The cached session belongs to the cached credentials; \<open>P\<close> is what is known of credentials.
  An operation relies on this for the caches that other goroutines leave behind and guarantees
  it for its own.
\<close>

fun valid_cache :: "('a, 'w) ManagementClient \<Rightarrow> (ManagementConfig \<Rightarrow> bool) \<Rightarrow> 'a option \<times> ManagementConfig \<Rightarrow> bool" where
  "valid_cache c P (client, cfg) \<longleftrightarrow> (\<forall>api. client = Some api \<longrightarrow> logged_in c cfg api) \<and> (ControllerURL cfg \<noteq> [] \<longrightarrow> P cfg)"

definition others_valid ::
  "('a, 'w) ManagementClient \<Rightarrow> (ManagementConfig \<Rightarrow> bool) \<Rightarrow> ('a option \<times> ManagementConfig) option list \<Rightarrow> bool" where
  "others_valid c P os \<longleftrightarrow> (\<forall>cache. Some cache \<in> set os \<longrightarrow> valid_cache c P cache)"

definition cache_wf :: "('a, 'w) ManagementClient \<Rightarrow> (ManagementConfig \<Rightarrow> bool) \<Rightarrow> ('a, 'w) mgmt \<Rightarrow> bool" where
  "cache_wf c P m \<longleftrightarrow> valid_cache c P (cachedClient m, cachedConfig m) \<and> others_valid c P (meanwhile m)"

text \<open>What a call needs: a login uses the current credentials, any other call a session they opened.\<close>

definition in_force ::
  "('a, 'w) ManagementClient \<Rightarrow> (ManagementConfig \<Rightarrow> bool) \<Rightarrow> 'a mcall list \<Rightarrow> 'a mcall \<Rightarrow> bool" where
  "in_force c P pre x \<longleftrightarrow>
     (\<forall>cfg r. x = M_Auth cfg r \<longrightarrow> current_config pre = Some cfg \<and> P cfg) \<and>
     (\<forall>api. call_session x = Some api \<longrightarrow> (\<exists>cfg. current_config pre = Some cfg \<and> P cfg \<and> logged_in c cfg api))"

definition disciplined :: "('a, 'w) ManagementClient \<Rightarrow> (ManagementConfig \<Rightarrow> bool) \<Rightarrow> 'a mcall list \<Rightarrow> bool" where
  "disciplined c P xs \<longleftrightarrow> (\<forall>pre. guarded (\<lambda>p x. in_force c P (pre @ p) x) xs)"

lemma cache_wf_settle: "cache_wf c P m \<Longrightarrow> cache_wf c P (settle m)"
  by (auto simp: cache_wf_def others_valid_def settle.simps split: list.splits option.splits prod.splits)

lemma cache_wf_outside [simp]: "cache_wf c P (m\<lparr>outside := w\<rparr>) \<longleftrightarrow> cache_wf c P m"
  by (simp add: cache_wf_def)

lemma outer_world [simp]: "cache_wf c P m \<Longrightarrow> cache_wf c P (snd (outer f m))"
  by (simp add: outer_def cache_wf_settle)

lemma fst_outer [simp]: "fst (outer f m) = fst (f (outside m))"
  by (simp add: outer_def)

lemma cache_wf_known: "cache_wf c P m \<Longrightarrow> ControllerURL (cachedConfig m) \<noteq> [] \<Longrightarrow> P (cachedConfig m)"
  by (simp add: cache_wf_def)

lemma sameManagementConfig_iff [simp]: "sameManagementConfig left right \<longleftrightarrow> left = right"
  by (cases left; cases right) (auto simp: sameManagementConfig_def)

lemma uses_in_force:
  assumes "uses api xs" "current_config pre = Some cfg" "P cfg" "logged_in c cfg api"
  shows "guarded (\<lambda>p x. in_force c P (pre @ p) x) xs"
  unfolding guarded_def
proof (intro allI impI)
  fix p x post assume xs: "xs = p @ x # post"
  with assms(1) have "uses api p" "call_session x = Some api" by auto
  moreover then have "\<forall>cfg r. x \<noteq> M_Auth cfg r" by auto
  ultimately show "in_force c P (pre @ p) x" using assms by (auto simp: in_force_def)
qed

lemma disciplined_append: "disciplined c P xs \<Longrightarrow> disciplined c P ys \<Longrightarrow> disciplined c P (xs @ ys)"
  unfolding disciplined_def guarded_append by (simp flip: append_assoc)

lemma disciplined_Nil [simp]: "disciplined c P []"
  by (simp add: disciplined_def)

section \<open>Operations stay on their session\<close>

definition on_session :: "('a, 'w) ManagementClient \<Rightarrow> (ManagementConfig \<Rightarrow> bool) \<Rightarrow> 'a \<Rightarrow> ('a, 'w, 'r) mio \<Rightarrow> bool" where
  "on_session c P api m \<longleftrightarrow> keeps (cache_wf c P) m (\<lambda>xs _. uses api xs)"

named_theorems on_session_intros \<open>rules for staying on one session\<close>

lemma on_session_bind [on_session_intros]:
  "on_session c P api m \<Longrightarrow> (\<And>a. on_session c P api (f a)) \<Longrightarrow> on_session c P api (State_Monad.bind m f)"
  unfolding on_session_def by (intro keeps_bind, elim keeps_mono) (auto elim: keeps_mono)

lemma on_session_return [on_session_intros]: "on_session c P api (State_Monad.return a)"
  unfolding on_session_def by (rule keeps_return) simp

lemma on_session_ask [on_session_intros]: "on_session c P api (ask (outer f))"
  unfolding on_session_def by (rule keeps_ask) simp

lemma on_session_call [on_session_intros]:
  "(\<And>r. call_session (mk r) = Some api) \<Longrightarrow> on_session c P api (call mk (outer f))"
  unfolding on_session_def by (rule keeps_call) simp

lemma on_session_if [on_session_intros]:
  "(b \<Longrightarrow> on_session c P api m) \<Longrightarrow> (\<not> b \<Longrightarrow> on_session c P api n) \<Longrightarrow> on_session c P api (if b then m else n)"
  by simp

lemma on_session_sum [on_session_intros]:
  "(\<And>e. on_session c P api (f e)) \<Longrightarrow> (\<And>a. on_session c P api (g a)) \<Longrightarrow>
   on_session c P api (case x of Inl e \<Rightarrow> f e | Inr a \<Rightarrow> g a)"
  by (cases x) auto

lemma on_session_option [on_session_intros]:
  "on_session c P api m \<Longrightarrow> (\<And>a. on_session c P api (f a)) \<Longrightarrow>
   on_session c P api (case x of None \<Rightarrow> m | Some a \<Rightarrow> f a)"
  by (cases x) auto

lemma on_session_prod [on_session_intros]:
  "(\<And>a b. on_session c P api (f a b)) \<Longrightarrow> on_session c P api (case x of (a, b) \<Rightarrow> f a b)"
  by (cases x) auto

lemma on_session_let [on_session_intros]:
  "(\<And>y. on_session c P api (f y)) \<Longrightarrow> on_session c P api (let y = x in f y)"
  by simp

text \<open>The interface of one kind of object: its calls carry the session they go over.\<close>

locale rest_interface =
  fixes emb :: "('a, 'cr, 'up, 'd) rest_call \<Rightarrow> 'a mcall"
  assumes emb_session [simp]: "call_session (emb r) = Some (rest_session r)"
begin

lemma getOp_session [on_session_intros]: "on_session c P api (getOp R emb action conv ident api)"
  unfolding getOp_def by (intro on_session_intros) simp

lemma getByIDWithAPI_session [on_session_intros]: "on_session c P api (getByIDWithAPI R emb action conv api envelope)"
  unfolding getByIDWithAPI_def by (intro on_session_intros) simp

lemma createOp_session [on_session_intros]: "on_session c P api (createOp R emb action getAction conv body api)"
  unfolding createOp_def by (intro on_session_intros getByIDWithAPI_session) simp

lemma updateOp_session [on_session_intros]: "on_session c P api (updateOp R emb action getAction conv ident body api)"
  unfolding updateOp_def by (intro on_session_intros getByIDWithAPI_session) simp

lemma deleteOp_session [on_session_intros]: "on_session c P api (deleteOp R emb action ident api)"
  unfolding deleteOp_def by (intro on_session_intros) simp

lemma listPage_session [on_session_intros]: "on_session c P api (listPage R emb api offset)"
  unfolding listPage_def by (intro on_session_intros) simp

end

interpretation identity_api: rest_interface M_Identity by unfold_locales simp
interpretation service_api: rest_interface M_Service by unfold_locales simp
interpretation config_api: rest_interface M_Config by unfold_locales simp
interpretation policy_api: rest_interface M_Policy by unfold_locales simp
interpretation router_policy_api: rest_interface M_RouterPolicy by unfold_locales simp

lemma findPages_session [on_session_intros]:
  "(\<And>offset. on_session c P api (list offset)) \<Longrightarrow> on_session c P api (findPages pages list action conv nameOf name offset)"
  by (induction pages arbitrary: offset) (simp_all add: on_session_intros)

lemma listIdentityPages_session [on_session_intros]:
  "on_session c P api (listIdentityPages pages c' api offset identities)"
  by (induction pages arbitrary: offset identities) (auto intro!: on_session_intros)

lemma configTypePages_session [on_session_intros]: "on_session c P api (configTypePages pages c' api name offset)"
  by (induction pages arbitrary: offset) (auto intro!: on_session_intros)

lemma resolveConfigTypeID_session [on_session_intros]: "on_session c P api (resolveConfigTypeIDWithAPI c' api name)"
  unfolding resolveConfigTypeIDWithAPI_def by (intro on_session_intros)

lemma createOTTEnrollment_session [on_session_intros]: "on_session c P api (createOTTEnrollmentWithAPI c' api ident)"
  unfolding createOTTEnrollmentWithAPI_def by (intro on_session_intros) simp_all

lemma enrollmentAfterConflict_session [on_session_intros]: "on_session c P api (enrollmentAfterConflict c' api ident err)"
  unfolding enrollmentAfterConflict_def by (intro on_session_intros) simp_all

section \<open>Opening a session\<close>

definition loads :: "('a, 'w) ManagementClient \<Rightarrow> (ManagementConfig \<Rightarrow> bool)
    \<Rightarrow> (('a, 'w) mgmt \<Rightarrow> (error + ManagementConfig) \<times> ('a, 'w) mgmt) \<Rightarrow> bool" where
  "loads c P load \<longleftrightarrow> (\<forall>m. cache_wf c P m \<longrightarrow> cache_wf c P (snd (load m)) \<and> (\<forall>cfg. fst (load m) = Inr cfg \<longrightarrow> P cfg))"

lemma loadCurrentConfig_loads:
  "(\<And>load w cfg. loadConfig c = Some load \<Longrightarrow> fst (load w) = Inr cfg \<Longrightarrow> P cfg) \<Longrightarrow> loads c P (loadCurrentConfig c)"
  by (cases "loadConfig c") (auto simp: loads_def loadCurrentConfig_def dest: cache_wf_known split: if_splits)

text \<open>The calls made to open a session, and the session they give.\<close>

definition opened ::
  "('a, 'w) ManagementClient \<Rightarrow> (ManagementConfig \<Rightarrow> bool) \<Rightarrow> 'a mcall list \<Rightarrow> error + 'a \<Rightarrow> bool" where
  "opened c P xs r \<longleftrightarrow> disciplined c P xs \<and>
     (\<forall>api. r = Inr api \<longrightarrow> (\<exists>cfg. (\<forall>pre. current_config (pre @ xs) = Some cfg) \<and> P cfg \<and> logged_in c cfg api))"

lemma current_config_login [simp]: "current_config (pre @ [M_Load (Inr cfg), M_Auth cfg r]) = Some cfg"
  using current_config_simps(3) [of "pre @ [M_Load (Inr cfg)]"] by simp

lemma disciplined_login: "P cfg \<Longrightarrow> disciplined c P [M_Load (Inr cfg), M_Auth cfg r]"
  by (auto simp: disciplined_def in_force_def)

lemma disciplined_load [simp]: "disciplined c P [M_Load r]"
  by (auto simp: disciplined_def in_force_def)

lemma logged_inI: "fst (authenticate c cfg w) = Inr api \<Longrightarrow> logged_in c cfg api"
  unfolding logged_in_def by (metis prod.collapse)

lemma login_keeps:
  "keeps (cache_wf c P) (call (M_Auth cfg) (outer (authenticate c cfg)))
     (\<lambda>xs r. xs = [M_Auth cfg r] \<and> (\<forall>api. r = Inr api \<longrightarrow> logged_in c cfg api))"
  by (rule keeps_call) (auto intro: logged_inI)

lemma load_keeps: "loads c P load \<Longrightarrow>
   keeps (cache_wf c P) (call M_Load load) (\<lambda>xs r. xs = [M_Load r] \<and> (\<forall>cfg. r = Inr cfg \<longrightarrow> P cfg))"
  by (rule keeps_call) (auto simp: loads_def)

lemma cached_keeps:
  "keeps (cache_wf c P) (ask (\<lambda>m. (if \<not> force \<and> sameManagementConfig (cachedConfig m) cfg then cachedClient m else None, m)))
     (\<lambda>xs r. xs = [] \<and> (\<forall>api. r = Some api \<longrightarrow> logged_in c cfg api))"
  by (rule keeps_ask) (auto simp: cache_wf_def)

lemma store_keeps: "P cfg \<Longrightarrow> logged_in c cfg api \<Longrightarrow>
   keeps (cache_wf c P) (ask (\<lambda>m. ((), m\<lparr>cachedClient := Some api, cachedConfig := cfg\<rparr>))) (\<lambda>xs r. xs = [])"
  by (rule keeps_ask) (auto simp: cache_wf_def)

lemma getOrAuthenticate_opened:
  assumes "loads c P load"
  shows "keeps (cache_wf c P) (getOrAuthenticate c load force) (opened c P)"
  unfolding getOrAuthenticate_def
  by (intro keeps_intros keeps_mono [OF load_keeps [OF assms]] keeps_mono [OF cached_keeps] keeps_mono [OF login_keeps]
        keeps_mono [OF store_keeps])
     (auto simp: opened_def disciplined_login)

lemma invalidate_keeps: "keeps (cache_wf c P) invalidate (\<lambda>xs r. xs = [])"
  unfolding invalidate_def by (rule keeps_ask) (auto simp: cache_wf_def)

lemma opened_uses:
  assumes "opened c P xs (Inr api)" "uses api ys"
  shows "disciplined c P (xs @ ys)"
proof -
  from assms(1) obtain cfg where cfg: "\<And>pre. current_config (pre @ xs) = Some cfg" "P cfg" "logged_in c cfg api"
    and xs: "disciplined c P xs" by (auto simp: opened_def)
  have "guarded (\<lambda>p x. in_force c P ((pre @ xs) @ p) x) ys" for pre
    using assms(2) cfg by (intro uses_in_force)
  with xs show ?thesis by (simp add: disciplined_def)
qed

lemma opened_disciplined: "opened c P xs r \<Longrightarrow> disciplined c P xs"
  by (simp add: opened_def)

lemmas disciplined_retry =
  opened_uses opened_disciplined
  disciplined_append [OF opened_uses opened_disciplined, simplified]
  disciplined_append [OF opened_uses opened_uses, simplified]

lemma useAuthenticatedClient_disciplined:
  assumes load: "loads c P load" and fn: "\<And>api. on_session c P api (fn api)"
  shows "keeps (cache_wf c P) (useAuthenticatedClient c load fn) (\<lambda>xs _. disciplined c P xs)"
  unfolding useAuthenticatedClient_def
  by (intro keeps_intros keeps_mono [OF getOrAuthenticate_opened [OF load]] keeps_mono [OF invalidate_keeps]
        keeps_mono [OF fn [unfolded on_session_def]])
     (auto intro: disciplined_retry)

lemma orCreate_disciplined:
  "keeps (cache_wf c P) update (\<lambda>xs _. disciplined c P xs) \<Longrightarrow> keeps (cache_wf c P) create (\<lambda>xs _. disciplined c P xs) \<Longrightarrow>
   keeps (cache_wf c P) (orCreate update create) (\<lambda>xs _. disciplined c P xs)"
  unfolding orCreate_def
  by (intro keeps_bind, elim keeps_mono) (auto intro!: keeps_intros elim: keeps_mono intro: disciplined_append)

section \<open>The requests\<close>

datatype request =
    Do_Authenticate ManagementConfig
  | Do_GetIdentity string
  | Do_FindIdentityByName string
  | Do_ListIdentities
  | Do_CreateIdentity Identity
  | Do_UpdateIdentity Identity
  | Do_PatchIdentityRoleAttributes string "string list"
  | Do_DeleteIdentity string
  | Do_GetEnrollmentJWT string
  | Do_GetService string
  | Do_FindServiceByName string
  | Do_CreateService Service
  | Do_UpdateService Service
  | Do_DeleteService string
  | Do_GetConfig string
  | Do_CreateConfig ServiceConfig
  | Do_UpdateConfig ServiceConfig
  | Do_DeleteConfig string
  | Do_FindEdgeRouterByName string
  | Do_GetAccessPolicy string
  | Do_FindAccessPolicyByName string
  | Do_CreateAccessPolicy AccessPolicy
  | Do_UpdateAccessPolicy AccessPolicy
  | Do_DeleteAccessPolicy string
  | Do_GetServiceEdgeRouterPolicy string
  | Do_FindServiceEdgeRouterPolicyByName string
  | Do_CreateServiceEdgeRouterPolicy ServiceEdgeRouterPolicy
  | Do_UpdateServiceEdgeRouterPolicy ServiceEdgeRouterPolicy
  | Do_DeleteServiceEdgeRouterPolicy string

definition ignore :: "('a, 'w, 'r) mio \<Rightarrow> ('a, 'w, unit) mio" where
  "ignore m = State_Monad.bind m (\<lambda>_. State_Monad.return ())"

fun perform :: "('a, 'w) ManagementClient \<Rightarrow> request \<Rightarrow> ('a, 'w, unit) mio" where
  "perform c (Do_Authenticate cfg) = ignore (Mgmt_Authenticate c cfg)"
| "perform c (Do_GetIdentity ident) = ignore (Mgmt_GetIdentity c ident)"
| "perform c (Do_FindIdentityByName name) = ignore (Mgmt_FindIdentityByName c name)"
| "perform c Do_ListIdentities = ignore (Mgmt_ListIdentities c)"
| "perform c (Do_CreateIdentity identity) = ignore (Mgmt_CreateIdentity c identity)"
| "perform c (Do_UpdateIdentity identity) = ignore (Mgmt_UpdateIdentity c identity)"
| "perform c (Do_PatchIdentityRoleAttributes ident attrs) = ignore (Mgmt_PatchIdentityRoleAttributes c ident attrs)"
| "perform c (Do_DeleteIdentity ident) = ignore (Mgmt_DeleteIdentity c ident)"
| "perform c (Do_GetEnrollmentJWT ident) = ignore (Mgmt_GetEnrollmentJWT c ident)"
| "perform c (Do_GetService ident) = ignore (Mgmt_GetService c ident)"
| "perform c (Do_FindServiceByName name) = ignore (Mgmt_FindServiceByName c name)"
| "perform c (Do_CreateService service) = ignore (Mgmt_CreateService c service)"
| "perform c (Do_UpdateService service) = ignore (Mgmt_UpdateService c service)"
| "perform c (Do_DeleteService ident) = ignore (Mgmt_DeleteService c ident)"
| "perform c (Do_GetConfig ident) = ignore (Mgmt_GetConfig c ident)"
| "perform c (Do_CreateConfig cfg) = ignore (Mgmt_CreateConfig c cfg)"
| "perform c (Do_UpdateConfig cfg) = ignore (Mgmt_UpdateConfig c cfg)"
| "perform c (Do_DeleteConfig ident) = ignore (Mgmt_DeleteConfig c ident)"
| "perform c (Do_FindEdgeRouterByName name) = ignore (Mgmt_FindEdgeRouterByName c name)"
| "perform c (Do_GetAccessPolicy ident) = ignore (Mgmt_GetAccessPolicy c ident)"
| "perform c (Do_FindAccessPolicyByName name) = ignore (Mgmt_FindAccessPolicyByName c name)"
| "perform c (Do_CreateAccessPolicy policy) = ignore (Mgmt_CreateAccessPolicy c policy)"
| "perform c (Do_UpdateAccessPolicy policy) = ignore (Mgmt_UpdateAccessPolicy c policy)"
| "perform c (Do_DeleteAccessPolicy ident) = ignore (Mgmt_DeleteAccessPolicy c ident)"
| "perform c (Do_GetServiceEdgeRouterPolicy ident) = ignore (Mgmt_GetServiceEdgeRouterPolicy c ident)"
| "perform c (Do_FindServiceEdgeRouterPolicyByName name) = ignore (Mgmt_FindServiceEdgeRouterPolicyByName c name)"
| "perform c (Do_CreateServiceEdgeRouterPolicy policy) = ignore (Mgmt_CreateServiceEdgeRouterPolicy c policy)"
| "perform c (Do_UpdateServiceEdgeRouterPolicy policy) = ignore (Mgmt_UpdateServiceEdgeRouterPolicy c policy)"
| "perform c (Do_DeleteServiceEdgeRouterPolicy ident) = ignore (Mgmt_DeleteServiceEdgeRouterPolicy c ident)"

lemmas simple_requests =
  Mgmt_GetIdentity_def Mgmt_ListIdentities_def Mgmt_CreateIdentity_def Mgmt_PatchIdentityRoleAttributes_def
  Mgmt_DeleteIdentity_def Mgmt_GetEnrollmentJWT_def Mgmt_GetService_def Mgmt_FindServiceByName_def
  Mgmt_CreateService_def Mgmt_DeleteService_def Mgmt_GetConfig_def Mgmt_CreateConfig_def Mgmt_DeleteConfig_def
  Mgmt_FindEdgeRouterByName_def Mgmt_GetAccessPolicy_def Mgmt_FindAccessPolicyByName_def Mgmt_CreateAccessPolicy_def
  Mgmt_DeleteAccessPolicy_def Mgmt_GetServiceEdgeRouterPolicy_def Mgmt_FindServiceEdgeRouterPolicyByName_def
  Mgmt_CreateServiceEdgeRouterPolicy_def Mgmt_DeleteServiceEdgeRouterPolicy_def

lemmas update_requests =
  Mgmt_UpdateIdentity_def Mgmt_UpdateService_def Mgmt_UpdateConfig_def Mgmt_UpdateAccessPolicy_def
  Mgmt_UpdateServiceEdgeRouterPolicy_def

definition safe :: "('a, 'w) ManagementClient \<Rightarrow> (ManagementConfig \<Rightarrow> bool) \<Rightarrow> ('a, 'w, 'r) mio \<Rightarrow> bool" where
  "safe c P m \<longleftrightarrow> keeps (cache_wf c P) m (\<lambda>xs _. disciplined c P xs)"

lemma safe_bind_return: "safe c P m \<Longrightarrow> safe c P (State_Monad.bind m (\<lambda>r. State_Monad.return (f r)))"
  unfolding safe_def by (intro keeps_bind, elim keeps_mono) (auto intro: keeps_return)

lemma safe_ignore: "safe c P m \<Longrightarrow> safe c P (ignore m)"
  unfolding ignore_def by (rule safe_bind_return)

lemma safe_orCreate: "safe c P update \<Longrightarrow> safe c P create \<Longrightarrow> safe c P (orCreate update create)"
  unfolding safe_def by (rule orCreate_disciplined)

lemma safe_withClient:
  "loads c P (loadCurrentConfig c) \<Longrightarrow> (\<And>api. on_session c P api (fn api)) \<Longrightarrow> safe c P (withClient c fn)"
  unfolding safe_def by (rule useAuthenticatedClient_disciplined)

lemma safe_login: "P cfg \<Longrightarrow> safe c P (Mgmt_Authenticate c cfg)"
  unfolding safe_def Mgmt_Authenticate_def
  by (rule useAuthenticatedClient_disciplined) (simp_all add: loads_def on_session_intros)

lemma safe_simple:
  assumes load: "loads c P (loadCurrentConfig c)"
  shows
    "safe c P (Mgmt_GetIdentity c ident)" "safe c P (Mgmt_ListIdentities c)" "safe c P (Mgmt_CreateIdentity c identity)"
    "safe c P (Mgmt_PatchIdentityRoleAttributes c ident attrs)" "safe c P (Mgmt_DeleteIdentity c ident)"
    "safe c P (Mgmt_GetEnrollmentJWT c ident)"
    "safe c P (Mgmt_GetService c ident)" "safe c P (Mgmt_FindServiceByName c name)" "safe c P (Mgmt_CreateService c service)"
    "safe c P (Mgmt_DeleteService c ident)"
    "safe c P (Mgmt_GetConfig c ident)" "safe c P (Mgmt_CreateConfig c cfg)" "safe c P (Mgmt_DeleteConfig c ident)"
    "safe c P (Mgmt_FindEdgeRouterByName c name)"
    "safe c P (Mgmt_GetAccessPolicy c ident)" "safe c P (Mgmt_FindAccessPolicyByName c name)"
    "safe c P (Mgmt_CreateAccessPolicy c policy)" "safe c P (Mgmt_DeleteAccessPolicy c ident)"
    "safe c P (Mgmt_GetServiceEdgeRouterPolicy c ident)" "safe c P (Mgmt_FindServiceEdgeRouterPolicyByName c name)"
    "safe c P (Mgmt_CreateServiceEdgeRouterPolicy c rpolicy)" "safe c P (Mgmt_DeleteServiceEdgeRouterPolicy c ident)"
  by (simp_all only: simple_requests; intro safe_withClient load on_session_intros; simp)+

lemma safe_update:
  assumes load: "loads c P (loadCurrentConfig c)"
  shows "safe c P (Mgmt_UpdateIdentity c identity)" "safe c P (Mgmt_UpdateService c service)" "safe c P (Mgmt_UpdateConfig c cfg)"
    "safe c P (Mgmt_UpdateAccessPolicy c policy)" "safe c P (Mgmt_UpdateServiceEdgeRouterPolicy c rpolicy)"
  by (simp_all only: update_requests; intro safe_orCreate safe_simple safe_withClient load on_session_intros)+

lemma safe_perform:
  assumes "loads c P (loadCurrentConfig c)" and "\<And>cfg. req = Do_Authenticate cfg \<Longrightarrow> P cfg"
  shows "safe c P (perform c req)"
  using assms
  by (cases req) (simp_all add: safe_ignore safe_simple safe_update safe_login safe_bind_return Mgmt_FindIdentityByName_def)

section \<open>Runs of the client\<close>

text \<open>
  A run of a client from \<^verbatim>\<open>New\<close>: the requests that \<open>allowed\<close> permits, in any order; in between,
  anything may change outside, and the goroutines that run beside the next request may be any
  that leave valid caches.
\<close>

definition New_client :: "'w \<Rightarrow> ('a, 'w) mgmt" where
  "New_client w = \<lparr>cachedClient = None, cachedConfig = zero_ManagementConfig, meanwhile = [], outside = w\<rparr>"

inductive client_run ::
  "('a, 'w) ManagementClient \<Rightarrow> (ManagementConfig \<Rightarrow> bool) \<Rightarrow> (request \<Rightarrow> bool) \<Rightarrow> ('a, 'w) mgmt \<Rightarrow> 'a mcall list \<Rightarrow> bool"
  for c P allowed where
  start: "client_run c P allowed (New_client w) []"
| request: "client_run c P allowed m xs \<Longrightarrow> allowed req \<Longrightarrow>
    snd (run_state (perform c req) \<lparr>world = m, trace = xs\<rparr>) = s \<Longrightarrow> client_run c P allowed (world s) (trace s)"
| environment: "client_run c P allowed m xs \<Longrightarrow> others_valid c P others \<Longrightarrow>
    client_run c P allowed (m\<lparr>outside := w, meanwhile := others\<rparr>) xs"

lemma New_client_wf: "cache_wf c P (New_client w)"
  by (simp add: cache_wf_def others_valid_def New_client_def zero_ManagementConfig_def)

lemma client_run_disciplined:
  assumes "client_run c P allowed m xs" and load: "loads c P (loadCurrentConfig c)"
    and "\<And>cfg. allowed (Do_Authenticate cfg) \<Longrightarrow> P cfg"
  shows "cache_wf c P m \<and> disciplined c P xs"
  using assms(1)
proof induction
  case (start w)
  show ?case by (simp add: New_client_wf)
next
  case (request m xs req s)
  from request.hyps(2) have "safe c P (perform c req)" by (intro safe_perform load assms(3)) simp
  from keepsD [OF this [unfolded safe_def], of "\<lparr>world = m, trace = xs\<rparr>"] request.IH request.hyps(3)
  show ?case by (metis disciplined_append surjective_pairing sys.select_convs)
next
  case (environment m xs others w)
  then show ?case by (simp add: cache_wf_def)
qed

lemma disciplinedD: "disciplined c P xs \<Longrightarrow> guarded (in_force c P) xs"
  unfolding disciplined_def by (drule spec [of _ "[]"]) simp

text \<open>
  C11: In every run of the management client, whatever requests it gets, whatever changes outside
  and whatever valid caches other goroutines leave behind during its calls, the cached session
  was opened with the cached credentials, a login uses the credentials loaded last, and every
  other call goes over a session opened with the credentials loaded last: rotated credentials
  take effect with the next operation.
\<close>

theorem client_run_sessions:
  assumes "client_run c (\<lambda>_. True) allowed m xs"
  shows "(\<forall>api. cachedClient m = Some api \<longrightarrow> logged_in c (cachedConfig m) api) \<and>
    guarded (\<lambda>pre x.
      (\<forall>cfg r. x = M_Auth cfg r \<longrightarrow> current_config pre = Some cfg) \<and>
      (\<forall>api. call_session x = Some api \<longrightarrow> (\<exists>cfg. current_config pre = Some cfg \<and> logged_in c cfg api))) xs"
proof -
  have "cache_wf c (\<lambda>_. True) m \<and> disciplined c (\<lambda>_. True) xs"
    by (rule client_run_disciplined [OF assms]) (simp_all add: loadCurrentConfig_loads)
  then have "\<forall>api. cachedClient m = Some api \<longrightarrow> logged_in c (cachedConfig m) api" "guarded (in_force c (\<lambda>_. True)) xs"
    by (simp_all add: cache_wf_def disciplinedD)
  then show ?thesis by (intro conjI, simp, elim guarded_mono) (auto simp: in_force_def)
qed

section \<open>Loaded credentials\<close>

text \<open>The root certificates of a login: those of the bundle, or the system's.\<close>

definition bundle_roots :: "ManagementConfig \<Rightarrow> string option" where
  "bundle_roots cfg = (if CABundlePEM cfg = [] then None else Some (CABundlePEM cfg))"

lemma authenticateWithUPDB_connects:
  "authenticateWithUPDB cl connect cfg w = (Inr api, w') \<Longrightarrow>
   connect (Username cfg) (Password cfg) (ControllerURL cfg) (bundle_roots cfg) w = (Inr api, w')"
  by (auto simp: authenticateWithUPDB_def rootCAsFromConfig_def bundle_roots_def split: if_splits sum.splits prod.splits)

text \<open>
  With the loader of the Secret named at start-up and the login of the program, every call of
  every run of the interface's operations goes over a connection made with the user name, the
  password, the URL and the roots of one Secret's content that was read before the call, and
  that content was complete: an absolute URL, a non-empty user name and password without
  surrounding space, and no bundle or one with certificates. The cache the run leaves behind
  holds such content and a session opened with it, which is all it asks of other goroutines.
\<close>

theorem client_run_credentials:
  assumes "loadConfig c = Some (SecretConfigLoader_Load cl reader ref)"
    and "authenticate c = authenticateWithUPDB cl connect"
    and "client_run c (usable cl) (\<lambda>req. \<forall>cfg. req \<noteq> Do_Authenticate cfg) m xs"
  shows "valid_cache c (usable cl) (cachedClient m, cachedConfig m) \<and> guarded (\<lambda>pre x. \<forall>api. call_session x = Some api \<longrightarrow>
    (\<exists>cfg w w'. current_config pre = Some cfg \<and> usable cl cfg \<and>
       connect (Username cfg) (Password cfg) (ControllerURL cfg) (bundle_roots cfg) w = (Inr api, w'))) xs"
proof -
  have "loads c (usable cl) (loadCurrentConfig c)"
    using assms(1) by (intro loadCurrentConfig_loads) (auto intro: SecretConfigLoader_Load_usable [OF prod.expand])
  from client_run_disciplined [OF assms(3) this]
  have cache: "valid_cache c (usable cl) (cachedClient m, cachedConfig m)" and xs: "guarded (in_force c (usable cl)) xs"
    by (simp_all add: cache_wf_def disciplinedD)
  show ?thesis
    by (rule conjI [OF cache guarded_mono [OF xs]])
       (fastforce simp: in_force_def logged_in_def assms(2) dest: authenticateWithUPDB_connects)
qed

end
