(* ===== verification/Operator.thy ===== *)
theory Operator
  imports Preservation Management_Sessions
begin

text \<open>
  The operator as \<^verbatim>\<open>cmd/main.go\<close> puts it together: one management client, made from the Secret
  that the environment names, shared by four reconcilers. The reconcilers see it as the
  \<^verbatim>\<open>Client\<close> interface; its session cache and the trace of its calls are part of the world they
  change. Whatever is reconciled in whatever order, the client keeps its sessions in order.
\<close>

section \<open>The management client as a client\<close>

type_synonym ('a, 'w) opw = "(('a, 'w) mgmt, 'a mcall) sys"

definition as_error :: "(error + unit) \<times> 's \<Rightarrow> error option \<times> 's" where
  "as_error rs = (case fst rs of Inl err \<Rightarrow> Some err | Inr _ \<Rightarrow> None, snd rs)"

definition management_client :: "('a, 'w) ManagementClient \<Rightarrow> ('a, 'w) opw Client" where
  "management_client c = \<lparr>
     GetIdentity = (\<lambda>ident. run_state (Mgmt_GetIdentity c ident)),
     FindIdentityByName = (\<lambda>name. run_state (Mgmt_FindIdentityByName c name)),
     ListIdentities = run_state (Mgmt_ListIdentities c),
     CreateIdentity = (\<lambda>identity. run_state (Mgmt_CreateIdentity c identity)),
     UpdateIdentity = (\<lambda>identity. run_state (Mgmt_UpdateIdentity c identity)),
     PatchIdentityRoleAttributes = (\<lambda>ident attrs s. as_error (run_state (Mgmt_PatchIdentityRoleAttributes c ident attrs) s)),
     DeleteIdentity = (\<lambda>ident s. as_error (run_state (Mgmt_DeleteIdentity c ident) s)),
     GetEnrollmentJWT = (\<lambda>ident. run_state (Mgmt_GetEnrollmentJWT c ident)),
     GetService = (\<lambda>ident. run_state (Mgmt_GetService c ident)),
     FindServiceByName = (\<lambda>name. run_state (Mgmt_FindServiceByName c name)),
     CreateService = (\<lambda>service. run_state (Mgmt_CreateService c service)),
     UpdateService = (\<lambda>service. run_state (Mgmt_UpdateService c service)),
     DeleteService = (\<lambda>ident s. as_error (run_state (Mgmt_DeleteService c ident) s)),
     GetConfig = (\<lambda>ident. run_state (Mgmt_GetConfig c ident)),
     CreateConfig = (\<lambda>cfg. run_state (Mgmt_CreateConfig c cfg)),
     UpdateConfig = (\<lambda>cfg. run_state (Mgmt_UpdateConfig c cfg)),
     DeleteConfig = (\<lambda>ident s. as_error (run_state (Mgmt_DeleteConfig c ident) s)),
     FindEdgeRouterByName = (\<lambda>name. run_state (Mgmt_FindEdgeRouterByName c name)),
     GetAccessPolicy = (\<lambda>ident. run_state (Mgmt_GetAccessPolicy c ident)),
     FindAccessPolicyByName = (\<lambda>name. run_state (Mgmt_FindAccessPolicyByName c name)),
     CreateAccessPolicy = (\<lambda>policy. run_state (Mgmt_CreateAccessPolicy c policy)),
     UpdateAccessPolicy = (\<lambda>policy. run_state (Mgmt_UpdateAccessPolicy c policy)),
     DeleteAccessPolicy = (\<lambda>ident s. as_error (run_state (Mgmt_DeleteAccessPolicy c ident) s)),
     GetServiceEdgeRouterPolicy = (\<lambda>ident. run_state (Mgmt_GetServiceEdgeRouterPolicy c ident)),
     FindServiceEdgeRouterPolicyByName = (\<lambda>name. run_state (Mgmt_FindServiceEdgeRouterPolicyByName c name)),
     CreateServiceEdgeRouterPolicy = (\<lambda>policy. run_state (Mgmt_CreateServiceEdgeRouterPolicy c policy)),
     UpdateServiceEdgeRouterPolicy = (\<lambda>policy. run_state (Mgmt_UpdateServiceEdgeRouterPolicy c policy)),
     DeleteServiceEdgeRouterPolicy = (\<lambda>ident s. as_error (run_state (Mgmt_DeleteServiceEdgeRouterPolicy c ident) s))\<rparr>"

text \<open>Everything else the reconcilers call leaves the client alone.\<close>

definition aside :: "('w \<Rightarrow> 'r \<times> 'w) \<Rightarrow> ('a, 'w) opw \<Rightarrow> 'r \<times> ('a, 'w) opw" where
  "aside f s = (fst (outer f (world s)), s\<lparr>world := snd (outer f (world s))\<rparr>)"

definition aside_kube :: "('r, 's, 'w) kube \<Rightarrow> ('r, 's, ('a, 'w) opw) kube" where
  "aside_kube k = \<lparr>Get = (\<lambda>key. aside (Get k key)), Update = (\<lambda>obj. aside (Update k obj)),
     Status_Update = (\<lambda>obj. aside (Status_Update k obj)), Recorder_Event = (\<lambda>ty reason msg. aside (Recorder_Event k ty reason msg)),
     has_Recorder = has_Recorder k, Now = aside (Now k), DeepEqual = DeepEqual k, k_lib = k_lib k\<rparr>"

definition aside_directory :: "'w Directory \<Rightarrow> ('a, 'w) opw Directory" where
  "aside_directory d = \<lparr>GetServicePrincipal = (\<lambda>x. aside (GetServicePrincipal d x)),
     ListAppRoleAssignedTo = (\<lambda>x. aside (ListAppRoleAssignedTo d x)), ListGroupUsers = (\<lambda>x. aside (ListGroupUsers d x))\<rparr>"

section \<open>main\<close>

text \<open>
  What the manager and the machine provide. The reconcilers of a deployment describe their
  access to Kubernetes and to the directory; the client in them is replaced by the shared one.
\<close>

record ('a, 'w) deployment =
  dep_Getenv :: "string \<Rightarrow> string"
  dep_cred :: cred_lib
  dep_reader :: "SecretRef \<Rightarrow> 'w \<Rightarrow> (error + mgmt_secret) \<times> 'w"
  dep_connect :: "string \<Rightarrow> string \<Rightarrow> string \<Rightarrow> string option \<Rightarrow> 'w \<Rightarrow> (error + 'a) \<times> 'w"
  dep_api :: "('a, 'w) ManagementClient"
  dep_identity :: "'w ZitiIdentityReconciler"
  dep_service :: "'w ZitiServiceReconciler"
  dep_policy :: "'w ZitiAccessPolicyReconciler"
  dep_sync :: "'w ZitiEntraRoleSyncReconciler"

definition openZitiClient :: "('a, 'w) deployment \<Rightarrow> SecretRef \<Rightarrow> ('a, 'w) ManagementClient" where
  "openZitiClient d managementSecretRef = (dep_api d)\<lparr>
     loadConfig := Some (SecretConfigLoader_Load (dep_cred d) (dep_reader d) managementSecretRef),
     authenticate := authenticateWithUPDB (dep_cred d) (dep_connect d)\<rparr>"

definition identityReconciler :: "('a, 'w) deployment \<Rightarrow> SecretRef \<Rightarrow> ('a, 'w) opw ZitiIdentityReconciler" where
  "identityReconciler d ref = (let r = dep_identity d in \<lparr>
     Identity_Client = aside_kube (Identity_Client r),
     Secret_Get_API = (\<lambda>key. aside (Secret_Get_API r key)), Secret_Create_API = (\<lambda>secret. aside (Secret_Create_API r secret)),
     Secret_Delete_API = (\<lambda>secret. aside (Secret_Delete_API r secret)),
     IsControlledBy = IsControlledBy r, SetControllerReference = SetControllerReference r,
     NamespacedName_String = NamespacedName_String r,
     Identity_ZitiClient = management_client (openZitiClient d ref)\<rparr>)"

definition serviceReconciler :: "('a, 'w) deployment \<Rightarrow> SecretRef \<Rightarrow> ('a, 'w) opw ZitiServiceReconciler" where
  "serviceReconciler d ref = (let r = dep_service d in \<lparr>
     Service_Client = aside_kube (Service_Client r),
     Service_ZitiClient = management_client (openZitiClient d ref), Service_uc = Service_uc r\<rparr>)"

definition policyReconciler :: "('a, 'w) deployment \<Rightarrow> SecretRef \<Rightarrow> ('a, 'w) opw ZitiAccessPolicyReconciler" where
  "policyReconciler d ref = (let r = dep_policy d in \<lparr>
     Policy_Client = aside_kube (Policy_Client r),
     List_Identities = (\<lambda>namespace. aside (List_Identities r namespace)),
     List_Services = (\<lambda>namespace. aside (List_Services r namespace)),
     has_IdentityService = True,
     Policy_ZitiClient = management_client (openZitiClient d ref)\<rparr>)"

definition syncReconciler :: "('a, 'w) deployment \<Rightarrow> SecretRef \<Rightarrow> ('a, 'w) opw ZitiEntraRoleSyncReconciler" where
  "syncReconciler d ref = (let r = dep_sync d in \<lparr>
     Sync_Client = aside_kube (Sync_Client r),
     Get_Secret = (\<lambda>key. aside (Get_Secret r key)), APIReader_Get = (\<lambda>key. aside (APIReader_Get r key)),
     APIReader_List_Syncs = aside (APIReader_List_Syncs r), APIReader_List_Identities = aside (APIReader_List_Identities r),
     Sync_ZitiClient = management_client (openZitiClient d ref),
     DirectoryFactory = (\<lambda>tenant ident secret. aside_directory (DirectoryFactory r tenant ident secret)),
     ctx_Err = aside (ctx_Err r), ParseDuration = ParseDuration r, Sync_uc = Sync_uc r\<rparr>)"

text \<open>Credentials that were read from the Secret.\<close>

definition from_secret :: "('a, 'w) deployment \<Rightarrow> SecretRef \<Rightarrow> ManagementConfig \<Rightarrow> bool" where
  "from_secret d ref cfg \<longleftrightarrow> (\<exists>secret w w'. dep_reader d ref w = (Inr secret, w') \<and> LoadManagementConfig (dep_cred d) (Some secret) = Inr cfg)"

text \<open>
  A run: \<^verbatim>\<open>main\<close> exits unless the environment names a Secret; then the manager calls the
  reconcilers, in any order and for any objects. In between, the world outside changes, and the
  reconcilers that run beside the next one may leave any valid cache behind after each of its
  calls.
\<close>

definition reconciled :: "('s, 'c, 'r) io \<Rightarrow> 's \<Rightarrow> 's" where
  "reconciled m s = world (snd (run_state m \<lparr>world = s, trace = []\<rparr>))"

inductive operator_run :: "('a, 'w) deployment \<Rightarrow> SecretRef \<Rightarrow> ('a, 'w) opw \<Rightarrow> bool" for d ref where
  start: "SecretRefFromEnv (dep_Getenv d) = Inr ref \<Longrightarrow> operator_run d ref \<lparr>world = New_client w, trace = []\<rparr>"
| identity: "operator_run d ref s \<Longrightarrow> operator_run d ref (reconciled (Identity_Reconcile (identityReconciler d ref) key) s)"
| service: "operator_run d ref s \<Longrightarrow> operator_run d ref (reconciled (Service_Reconcile (serviceReconciler d ref) key) s)"
| policy: "operator_run d ref s \<Longrightarrow> operator_run d ref (reconciled (Policy_Reconcile (policyReconciler d ref) key) s)"
| sync: "operator_run d ref s \<Longrightarrow> operator_run d ref (reconciled (Sync_Reconcile (syncReconciler d ref) key) s)"
| environment: "operator_run d ref s \<Longrightarrow> others_valid (openZitiClient d ref) (from_secret d ref) others \<Longrightarrow>
    operator_run d ref (s\<lparr>world := (world s)\<lparr>outside := w, meanwhile := others\<rparr>\<rparr>)"

section \<open>The invariant of the client\<close>

definition sessions :: "('a, 'w) ManagementClient \<Rightarrow> (ManagementConfig \<Rightarrow> bool) \<Rightarrow> ('a, 'w) opw \<Rightarrow> bool" where
  "sessions c P s \<longleftrightarrow> cache_wf c P (world s) \<and> disciplined c P (trace s)"

lemma carries_aside [simp]: "carries (sessions c P) (aside f)"
  by (simp add: carries_def sessions_def aside_def)

lemma carries_safe: "safe c P m \<Longrightarrow> carries (sessions c P) (run_state m)"
  unfolding carries_def sessions_def safe_def keeps_def by (metis disciplined_append)

lemma carries_as_error: "carries I f \<Longrightarrow> carries I (\<lambda>s. as_error (f s))"
  by (simp add: carries_def as_error_def)

lemma SecretConfigLoader_Load_from:
  "fst (SecretConfigLoader_Load cl reader ref w) = Inr cfg \<Longrightarrow>
   \<exists>secret w'. reader ref w = (Inr secret, w') \<and> LoadManagementConfig cl (Some secret) = Inr cfg"
  by (auto simp: SecretConfigLoader_Load_def split: prod.splits sum.splits)

abbreviation operator_sessions :: "('a, 'w) deployment \<Rightarrow> SecretRef \<Rightarrow> ('a, 'w) opw \<Rightarrow> bool" where
  "operator_sessions d ref \<equiv> sessions (openZitiClient d ref) (from_secret d ref)"

lemma loads_secret: "loads (openZitiClient d ref) (from_secret d ref) (loadCurrentConfig (openZitiClient d ref))"
proof (rule loadCurrentConfig_loads)
  fix load w cfg
  assume "loadConfig (openZitiClient d ref) = Some load" "fst (load w) = Inr cfg"
  then show "from_secret d ref cfg"
    using SecretConfigLoader_Load_from [of "dep_cred d" "dep_reader d" ref w cfg]
    by (auto simp: openZitiClient_def from_secret_def)
qed

lemma safe_FindIdentityByName: "loads c P (loadCurrentConfig c) \<Longrightarrow> safe c P (Mgmt_FindIdentityByName c name)"
  unfolding Mgmt_FindIdentityByName_def by (intro safe_bind_return safe_simple)

lemmas carries_operations =
  safe_simple [OF loads_secret, THEN carries_safe] safe_update [OF loads_secret, THEN carries_safe]
  safe_FindIdentityByName [OF loads_secret, THEN carries_safe]

interpretation operator_client: client_host "operator_sessions d ref" "management_client (openZitiClient d ref)" for d ref
  by unfold_locales (simp_all add: management_client_def carries_operations carries_as_error)

interpretation operator_kube: kube_host "operator_sessions d ref" "aside_kube k" for d ref k
  by unfold_locales (simp_all add: aside_kube_def)

lemmas operator_laws = operator_client.carries_client operator_kube.carries_kube

interpretation operator_identity: identity_host "operator_sessions d ref" "identityReconciler d ref" for d ref
  by unfold_locales (simp_all add: identityReconciler_def Let_def operator_laws)

interpretation operator_service: service_host "operator_sessions d ref" "serviceReconciler d ref" for d ref
  by unfold_locales (simp_all add: serviceReconciler_def Let_def operator_laws)

interpretation operator_policy: policy_host "operator_sessions d ref" "policyReconciler d ref" for d ref
  by unfold_locales (simp_all add: policyReconciler_def Let_def operator_laws)

interpretation operator_sync: sync_host "operator_sessions d ref" "syncReconciler d ref" for d ref
  by unfold_locales (simp_all add: syncReconciler_def Let_def operator_laws directory_carries_def aside_directory_def)

lemma reconciled_preserves: "preserves I m \<Longrightarrow> I s \<Longrightarrow> I (reconciled m s)"
  unfolding reconciled_def by (drule preservesD [of I m "\<lparr>world = s, trace = []\<rparr>"]) simp_all

lemma operator_run_sessions: "operator_run d ref s \<Longrightarrow> operator_sessions d ref s"
proof (induction rule: operator_run.induct)
  case (start w)
  show ?case by (simp add: sessions_def New_client_wf)
next
  case (environment s others w)
  then show ?case by (simp add: sessions_def cache_wf_def)
qed (simp_all add: reconciled_preserves operator_identity.preserves_Identity_Reconcile
      operator_service.preserves_Service_Reconcile operator_policy.preserves_Policy_Reconcile operator_sync.invariant.tracks_Sync_Reconcile)

lemma in_force_connected:
  assumes "in_force (openZitiClient d ref) (from_secret d ref) pre x" "call_session x = Some api"
  shows "\<exists>cfg w w'. current_config pre = Some cfg \<and> from_secret d ref cfg \<and> usable (dep_cred d) cfg \<and>
    dep_connect d (Username cfg) (Password cfg) (ControllerURL cfg) (bundle_roots cfg) w = (Inr api, w')"
proof -
  from assms obtain cfg w w' where cfg: "current_config pre = Some cfg" "from_secret d ref cfg"
    "authenticateWithUPDB (dep_cred d) (dep_connect d) cfg w = (Inr api, w')"
    by (auto simp: in_force_def logged_in_def openZitiClient_def)
  from cfg(2) have "usable (dep_cred d) cfg" by (auto simp: from_secret_def dest: LoadManagementConfig_usable)
  with cfg authenticateWithUPDB_connects [OF cfg(3)] show ?thesis by blast
qed

text \<open>
  C10: In every run of the operator, whatever the four reconcilers are called for, whatever
  happens outside and whatever valid caches the reconcilers running at the same time leave
  behind, every call to the OpenZiti controller goes over a connection that was made with the
  user name, the password, the URL and the roots in force: those loaded last before the call,
  from the Secret the environment named at start-up, complete and validated. The session cache
  the run leaves behind is valid in the same sense.
\<close>

theorem operator_run_credentials:
  assumes "operator_run d ref s"
  shows "valid_cache (openZitiClient d ref) (from_secret d ref) (cachedClient (world s), cachedConfig (world s)) \<and>
    guarded (\<lambda>pre x. \<forall>api. call_session x = Some api \<longrightarrow>
    (\<exists>cfg w w'. current_config pre = Some cfg \<and> from_secret d ref cfg \<and> usable (dep_cred d) cfg \<and>
       dep_connect d (Username cfg) (Password cfg) (ControllerURL cfg) (bundle_roots cfg) w = (Inr api, w'))) (trace s)"
proof -
  from operator_run_sessions [OF assms]
  have cache: "valid_cache (openZitiClient d ref) (from_secret d ref) (cachedClient (world s), cachedConfig (world s))"
    and calls: "guarded (in_force (openZitiClient d ref) (from_secret d ref)) (trace s)"
    by (simp_all add: sessions_def cache_wf_def disciplinedD)
  show ?thesis by (rule conjI [OF cache guarded_mono [OF calls]]) (blast dest: in_force_connected)
qed

end
