(* ===== verification/Startup.thy ===== *)
theory Startup
  imports Operator
begin

text \<open>
  \<^verbatim>\<open>cmd/main.go\<close> and the \<^verbatim>\<open>SetupWithManager\<close> methods: from the flags of the command line to a
  manager that runs. The manager starts only after every step before it succeeded, and the
  options of its servers follow the flags.
\<close>

section \<open>Flags\<close>

text \<open>The variables that the flag package fills; \<open>flag_defaults\<close> are the values without flags.\<close>

record flags =
  metricsAddr :: string
  metricsCertPath :: string
  metricsCertName :: string
  metricsCertKey :: string
  webhookCertPath :: string
  webhookCertName :: string
  webhookCertKey :: string
  enableLeaderElection :: bool
  probeAddr :: string
  secureMetrics :: bool
  enableHTTP2 :: bool

definition flag_defaults :: flags where
  "flag_defaults = \<lparr>metricsAddr = ''0'', metricsCertPath = [], metricsCertName = ''tls.crt'', metricsCertKey = ''tls.key'',
     webhookCertPath = [], webhookCertName = ''tls.crt'', webhookCertKey = ''tls.key'', enableLeaderElection = False,
     probeAddr = '':8081'', secureMetrics = True, enableHTTP2 = False\<rparr>"

section \<open>Servers\<close>

text \<open>
  A TLS option changes a TLS configuration; the servers apply theirs in order. Of a configuration
  only the field the program sets is named, the rest is \<open>'x\<close>.
\<close>

record tls_Config =
  NextProtos :: "string list"

type_synonym 'x tls_opts = "('x tls_Config_scheme \<Rightarrow> 'x tls_Config_scheme) list"

definition disableHTTP2 :: "'x tls_Config_scheme \<Rightarrow> 'x tls_Config_scheme" where
  "disableHTTP2 c = c\<lparr>NextProtos := [''http/1.1'']\<rparr>"

definition tlsOpts :: "flags \<Rightarrow> 'x tls_opts" where
  "tlsOpts f = (if \<not> enableHTTP2 f then [disableHTTP2] else [])"

record 'x webhook_Options =
  Webhook_TLSOpts :: "'x tls_opts"
  Webhook_CertDir :: string
  Webhook_CertName :: string
  Webhook_KeyName :: string

definition webhookServerOptions :: "flags \<Rightarrow> 'x webhook_Options" where
  "webhookServerOptions f =
     (let options = \<lparr>Webhook_TLSOpts = tlsOpts f, Webhook_CertDir = [], Webhook_CertName = [], Webhook_KeyName = []\<rparr>
      in if length (webhookCertPath f) > 0
         then options\<lparr>Webhook_CertDir := webhookCertPath f, Webhook_CertName := webhookCertName f,
           Webhook_KeyName := webhookCertKey f\<rparr>
         else options)"

datatype filter_provider = WithAuthenticationAndAuthorization

record 'x metricsserver_Options =
  BindAddress :: string
  SecureServing :: bool
  Metrics_TLSOpts :: "'x tls_opts"
  FilterProvider :: "filter_provider option"
  Metrics_CertDir :: string
  Metrics_CertName :: string
  Metrics_KeyName :: string

definition metricsServerOptions :: "flags \<Rightarrow> 'x metricsserver_Options" where
  "metricsServerOptions f =
     (let options = \<lparr>BindAddress = metricsAddr f, SecureServing = secureMetrics f, Metrics_TLSOpts = tlsOpts f,
            FilterProvider = None, Metrics_CertDir = [], Metrics_CertName = [], Metrics_KeyName = []\<rparr>;
          options = if secureMetrics f then options\<lparr>FilterProvider := Some WithAuthenticationAndAuthorization\<rparr> else options
      in if length (metricsCertPath f) > 0
         then options\<lparr>Metrics_CertDir := metricsCertPath f, Metrics_CertName := metricsCertName f,
           Metrics_KeyName := metricsCertKey f\<rparr>
         else options)"

record 'x ctrl_Options =
  Opt_Metrics :: "'x metricsserver_Options"
  Opt_WebhookServer :: "'x webhook_Options"
  HealthProbeBindAddress :: string
  LeaderElection :: bool
  LeaderElectionID :: string

definition managerOptions :: "flags \<Rightarrow> 'x ctrl_Options" where
  "managerOptions f = \<lparr>Opt_Metrics = metricsServerOptions f, Opt_WebhookServer = webhookServerOptions f,
     HealthProbeBindAddress = probeAddr f, LeaderElection = enableLeaderElection f,
     LeaderElectionID = ''da152925.sixfeetup.com''\<rparr>"

section \<open>Controllers\<close>

text \<open>
  What the builder of a controller is told; zero values stand for the defaults. Durations are in
  seconds.
\<close>

record builder =
  For :: string
  Owns :: "string list"
  GenerationChangedPredicate :: bool
  MaxConcurrentReconciles :: int
  RateLimiter :: "(int \<times> int) option"

definition NewControllerManagedBy :: builder where
  "NewControllerManagedBy = \<lparr>For = [], Owns = [], GenerationChangedPredicate = False, MaxConcurrentReconciles = 0, RateLimiter = None\<rparr>"

definition Identity_SetupWithManager :: builder where
  "Identity_SetupWithManager = NewControllerManagedBy\<lparr>For := ''ZitiIdentity'', Owns := [''Secret'']\<rparr>"

definition Service_SetupWithManager :: builder where
  "Service_SetupWithManager = NewControllerManagedBy\<lparr>For := ''ZitiService''\<rparr>"

definition Policy_SetupWithManager :: builder where
  "Policy_SetupWithManager = NewControllerManagedBy\<lparr>For := ''ZitiAccessPolicy''\<rparr>"

definition Sync_SetupWithManager :: builder where
  "Sync_SetupWithManager = NewControllerManagedBy\<lparr>For := ''ZitiEntraRoleSync'', GenerationChangedPredicate := True,
     MaxConcurrentReconciles := 1, RateLimiter := Some (10, 10 * 60)\<rparr>"

section \<open>main\<close>

text \<open>
  controller-runtime: \<open>GetConfigOrDie\<close> ends the process when there is no configuration;
  \<open>Complete\<close> registers the reconciler that was made around the client of the Secret reference;
  \<open>Start\<close> runs the reconcilers and returns when the manager stops.
\<close>

record ('x, 'w) manager =
  GetConfigOrDie :: "'w \<Rightarrow> bool \<times> 'w"
  NewManager :: "'x ctrl_Options \<Rightarrow> 'w \<Rightarrow> error option \<times> 'w"
  Complete_controller :: "SecretRef \<Rightarrow> builder \<Rightarrow> 'w \<Rightarrow> error option \<times> 'w"
  AddHealthzCheck :: "string \<Rightarrow> 'w \<Rightarrow> error option \<times> 'w"
  AddReadyzCheck :: "string \<Rightarrow> 'w \<Rightarrow> error option \<times> 'w"
  Start :: "'w \<Rightarrow> error option \<times> 'w"

datatype 'x main_call =
    Main_NewManager "'x ctrl_Options" "error option"
  | Main_Complete SecretRef builder "error option"
  | Main_Healthz string "error option"
  | Main_Readyz string "error option"
  | Main_Start "error option"

datatype outcome = Returned | Exited int

definition or_exit :: "('w, 'c, error option) io \<Rightarrow> ('w, 'c, outcome) io \<Rightarrow> ('w, 'c, outcome) io" where
  "or_exit m next = do {
     err \<leftarrow> m;
     case err of Some _ \<Rightarrow> State_Monad.return (Exited 1) | None \<Rightarrow> next
   }"

definition register :: "('x, 'w) manager \<Rightarrow> SecretRef \<Rightarrow> builder \<Rightarrow> ('w, 'x main_call, error option) io" where
  "register mgr ref b = call (Main_Complete ref b) (Complete_controller mgr ref b)"

definition main :: "flags \<Rightarrow> (string \<Rightarrow> string) \<Rightarrow> ('x, 'w) manager \<Rightarrow> ('w, 'x main_call, outcome) io" where
  "main f Getenv mgr = do {
     config \<leftarrow> ask (GetConfigOrDie mgr);
     if \<not> config then State_Monad.return (Exited 1)
     else
       or_exit (call (Main_NewManager (managerOptions f)) (NewManager mgr (managerOptions f)))
       (case SecretRefFromEnv Getenv of
          Inl _ \<Rightarrow> State_Monad.return (Exited 1)
        | Inr managementSecretRef \<Rightarrow>
            or_exit (register mgr managementSecretRef Identity_SetupWithManager)
              (or_exit (register mgr managementSecretRef Service_SetupWithManager)
              (or_exit (register mgr managementSecretRef Policy_SetupWithManager)
              (or_exit (register mgr managementSecretRef Sync_SetupWithManager)
              (or_exit (call (Main_Healthz ''healthz'') (AddHealthzCheck mgr ''healthz''))
              (or_exit (call (Main_Readyz ''readyz'') (AddReadyzCheck mgr ''readyz''))
              (or_exit (call Main_Start (Start mgr))
              (State_Monad.return Returned))))))))
   }"

section \<open>Properties\<close>

text \<open>The calls that lead to the start of the manager, all of them successful.\<close>

definition prepared :: "flags \<Rightarrow> SecretRef \<Rightarrow> 'x main_call list" where
  "prepared f ref =
     [Main_NewManager (managerOptions f) None, Main_Complete ref Identity_SetupWithManager None,
      Main_Complete ref Service_SetupWithManager None, Main_Complete ref Policy_SetupWithManager None,
      Main_Complete ref Sync_SetupWithManager None, Main_Healthz ''healthz'' None, Main_Readyz ''readyz'' None]"

definition starts :: "flags \<Rightarrow> (string \<Rightarrow> string) \<Rightarrow> 'x main_call list \<Rightarrow> outcome \<Rightarrow> bool" where
  "starts f Getenv xs out \<longleftrightarrow>
     guarded (\<lambda>pre x. \<forall>err. x = Main_Start err \<longrightarrow> (\<exists>ref. SecretRefFromEnv Getenv = Inr ref \<and> pre = prepared f ref)) xs \<and>
     (\<forall>opts err. Main_NewManager opts err \<in> set xs \<longrightarrow> opts = managerOptions f) \<and>
     out = (if Main_Start None \<in> set xs then Returned else Exited 1)"

lemma main_yields: "yields (main f Getenv mgr) (starts f Getenv)"
  unfolding main_def or_exit_def register_def
  by (intro yields_intros) (auto simp: starts_def prepared_def)

text \<open>What the flags make of the servers.\<close>

definition serving :: "flags \<Rightarrow> 'x ctrl_Options \<Rightarrow> bool" where
  "serving f opts \<longleftrightarrow>
     SecureServing (Opt_Metrics opts) = secureMetrics f \<and>
     (FilterProvider (Opt_Metrics opts) = Some WithAuthenticationAndAuthorization \<longleftrightarrow> secureMetrics f) \<and>
     (\<not> enableHTTP2 f \<longrightarrow> (\<forall>c. NextProtos (fold (\<lambda>opt. opt) (Metrics_TLSOpts (Opt_Metrics opts)) c) = [''http/1.1''] \<and>
        NextProtos (fold (\<lambda>opt. opt) (Webhook_TLSOpts (Opt_WebhookServer opts)) c) = [''http/1.1'']))"

lemma serving_managerOptions [simp]: "serving f (managerOptions f)"
  by (simp add: serving_def managerOptions_def metricsServerOptions_def webhookServerOptions_def Let_def tlsOpts_def disableHTTP2_def)

text \<open>
  C40: \<^verbatim>\<open>main\<close> starts the manager only after the manager was made, the environment named a Secret,
  the four controllers were registered around the client of that Secret and both probes were
  added, in this order and each of them successfully; it returns normally only when the manager
  stopped without an error, and exits with code 1 otherwise. Whatever the flags, the metrics are
  served with authentication and authorization when and only when they are served securely, and
  unless HTTP/2 was enabled, every TLS configuration of both servers offers HTTP/1.1 only.
\<close>

theorem main_starts:
  assumes "run_state (main f Getenv mgr) \<lparr>world = w, trace = []\<rparr> = (out, s)"
  shows "guarded (\<lambda>pre x. \<forall>err. x = Main_Start err \<longrightarrow> (\<exists>ref. SecretRefFromEnv Getenv = Inr ref \<and> pre = prepared f ref)) (trace s) \<and>
    out = (if Main_Start None \<in> set (trace s) then Returned else Exited 1) \<and>
    (\<forall>opts err. Main_NewManager opts err \<in> set (trace s) \<longrightarrow>
       SecureServing (Opt_Metrics opts) = secureMetrics f \<and>
       (FilterProvider (Opt_Metrics opts) = Some WithAuthenticationAndAuthorization \<longleftrightarrow> secureMetrics f) \<and>
       (\<not> enableHTTP2 f \<longrightarrow> (\<forall>c. NextProtos (fold (\<lambda>opt. opt) (Metrics_TLSOpts (Opt_Metrics opts)) c) = [''http/1.1''] \<and>
          NextProtos (fold (\<lambda>opt. opt) (Webhook_TLSOpts (Opt_WebhookServer opts)) c) = [''http/1.1''])))"
proof -
  from yieldsD [OF main_yields assms] have starts: "starts f Getenv (trace s) out" by simp
  then have "\<forall>opts err. Main_NewManager opts err \<in> set (trace s) \<longrightarrow> serving f opts"
    unfolding starts_def by (metis serving_managerOptions)
  with starts show ?thesis unfolding starts_def serving_def by simp
qed

text \<open>A manager that starts is the beginning of a run of the operator.\<close>

lemma started_run:
  assumes "run_state (main f (dep_Getenv d) mgr) \<lparr>world = w, trace = []\<rparr> = (out, s)" "Main_Start err \<in> set (trace s)"
  shows "\<exists>ref. operator_run d ref \<lparr>world = New_client w', trace = []\<rparr>"
proof -
  from assms(2) obtain pre post where split: "trace s = pre @ Main_Start err # post" by (meson split_list)
  from yieldsD [OF main_yields assms(1)] have "starts f (dep_Getenv d) (trace s) out" by simp
  then have "\<exists>ref. SecretRefFromEnv (dep_Getenv d) = Inr ref"
    unfolding starts_def by (auto dest!: guardedD [OF _ split])
  then show ?thesis by (auto intro: operator_run.start)
qed

end
