(* ===== verification/Sync_Samples.thy ===== *)
theory Sync_Samples
  imports Retirement
begin

text \<open>
  A small cluster on which the theorems of the role-sync packages are applied: one application
  with an enabled and a disabled role, one group with one member, one identity that still holds
  a value the application no longer has, and a second, older sync.
\<close>

section \<open>Data\<close>

definition uc0 :: unicode where
  "uc0 = \<lparr>Map_ToLower = (\<lambda>s. s), Simple_Fold = (=), Quote_Unicode = (\<lambda>s. s)\<rparr>"

definition sp0 :: ServicePrincipal where
  "sp0 = \<lparr>ServicePrincipal_ID = ''sp'', AppRoles =
     [\<lparr>AppRole_ID = ''r1'', AppRole_Value = ''admin'', AllowedMemberTypes = [''User''], IsEnabled = True\<rparr>,
      \<lparr>AppRole_ID = ''r2'', AppRole_Value = ''audit'', AllowedMemberTypes = [''User''], IsEnabled = False\<rparr>]\<rparr>"

definition as0 :: "AppRoleAssignment list" where
  "as0 = [\<lparr>PrincipalID = ''g1'', PrincipalType = ''Group'', AppRoleID = ''r1''\<rparr>]"

definition scope0 :: RoleScope where
  "scope0 = \<lparr>currentValues = [''admin'', ''audit''], grantsByGroup = [(''g1'', [''admin''])]\<rparr>"

definition alice :: User where
  "alice = \<lparr>User_ID = ''u1'', User_DisplayName = ''Alice'', User_Mail = ''Alice@x'',
     UserPrincipalName = ''alice@x''\<rparr>"

definition ident0 :: Identity where
  "ident0 = \<lparr>Identity_ID = ''i1'', Identity_Name = ''alice'', Identity_Type = ''User'',
     RoleAttributes = [''vpn'', ''stale''], CreateOTT = False, ExternalID = ''alice@X''\<rparr>"

definition claim0 :: SyncClaim where
  "claim0 = \<lparr>Claim_Resource = \<lparr>Key_Namespace = ''ns'', Key_Name = ''sync''\<rparr>,
     Claim_CreationTimestamp = 20, ManagedAttributes = [''stale'']\<rparr>"

definition claim1 :: SyncClaim where
  "claim1 = \<lparr>Claim_Resource = \<lparr>Key_Namespace = ''ns'', Key_Name = ''older''\<rparr>,
     Claim_CreationTimestamp = 10, ManagedAttributes = [''stale'', ''other'']\<rparr>"

definition input0 :: Input where
  "input0 = \<lparr>Scope = scope0, MembersByGroup = [(''g1'', [alice])], Identities = [ident0],
     IdentityOwners = [], Input_Self = claim0, OtherClaims = [], UserProperty = ''mail''\<rparr>"

definition patch0 :: IdentityPatch where
  "patch0 = \<lparr>Patch_IdentityID = ''i1'', Patch_ExternalID = ''alice@X'',
     GrantedAttributes = [''admin''], Patch_RoleAttributes = [''vpn'', ''admin'']\<rparr>"

definition plan0 :: PlanResult where
  "plan0 = \<lparr>CurrentValues = [''admin'', ''audit''], ManagedValues = [''admin'', ''audit'', ''stale''],
     Ownership = \<lparr>Owners = [(''admin'', Claim_Resource claim0), (''audit'', Claim_Resource claim0),
                    (''stale'', Claim_Resource claim0)], Conflicts = []\<rparr>,
     Patches = [patch0],
     RetirementHolders = [\<lparr>Holder_IdentityID = ''i1'', Holder_Values = [''stale'']\<rparr>],
     UnmatchedMembers = [], MatchedIdentities = 1, MembersWithoutIdentity = 0, WouldRemoveAll = False\<rparr>"

definition own0 :: OwnershipInput where
  "own0 = \<lparr>Self = claim0, Candidates = [''stale''], Others = [claim1]\<rparr>"

definition own1 :: OwnershipInput where
  "own1 = \<lparr>Self = claim1, Candidates = [''stale''], Others = [claim0]\<rparr>"

definition outcome0 :: IdentityOutcome where
  "outcome0 = \<lparr>Outcome_IdentityID = ''i1'', Kind = Patched,
     Outcome_RoleAttributes = [''vpn'', ''admin''], Outcome_Err = None, Outcome_ConflictValues = []\<rparr>"

definition completion0 :: CompletionInput where
  "completion0 = \<lparr>Plan = plan0, PreviousValues = [''stale''], Outcomes = [outcome0],
     BlockReason = [], ClaimRecorded = True\<rparr>"

section \<open>Evaluation\<close>

lemma scope0_resolved: "ResolveRoleScope sp0 as0 = Inr scope0"
  by code_simp

lemma plan0_built: "BuildPlan uc0 input0 = Inr plan0"
  by code_simp

lemma scope0_wf: "scope_wf scope0"
  by code_simp

lemma scope_input0 [simp]: "Scope input0 = scope0"
  by (simp add: input0_def)

lemma patch0_planned: "patch0 \<in> set (Patches plan0)"
  by (simp add: plan0_def)

lemma own_wf: "claims_wf own0" "claims_wf own1"
  by (auto simp: claims_wf_def own0_def own1_def claim0_def claim1_def)

lemma sample_ids_distinct: "distinct (map Identity_ID (Identities input0))"
  by (simp add: input0_def)

section \<open>Ownership and scope\<close>

theorem ResolveOwnership_conflict_iff_witness:
  "claims_wf own0 \<and> ''stale'' \<in> set (Conflicts (ResolveOwnership own0))"
proof
  show "claims_wf own0" by (rule own_wf)
  have "claim_rank claim1 < claim_rank claim0" "claim1 \<noteq> claim0" by code_simp+
  then show "''stale'' \<in> set (Conflicts (ResolveOwnership own0))"
    unfolding ResolveOwnership_conflict_iff [OF own_wf(1)]
    by (simp add: own0_def claim0_def claim1_def)
qed

theorem ResolveOwnership_exclusive_witness:
  "claims_wf own0 \<and> claims_wf own1 \<and>
   map_of (Owners (ResolveOwnership own0)) ''stale'' = map_of (Owners (ResolveOwnership own1)) ''stale''"
proof -
  have "set (Self own0 # Others own0) = set (Self own1 # Others own1)"
    by (auto simp: own0_def own1_def)
  moreover have "Claim_Resource (Self own0) \<noteq> Claim_Resource (Self own1)"
    by (simp add: own0_def own1_def claim0_def claim1_def)
  moreover have "claim0 \<in> set (Self own0 # Others own0)" "''stale'' \<in> set (ManagedAttributes claim0)"
      "''stale'' \<in> set (Candidates own0)" "''stale'' \<in> set (Candidates own1)"
    by (simp_all add: own0_def own1_def claim0_def)
  ultimately show ?thesis
    using ResolveOwnership_exclusive [OF own_wf] own_wf by blast
qed

theorem ResolveRoleScope_wf_witness: "ResolveRoleScope sp0 as0 = Inr scope0 \<and> scope_wf scope0"
  using ResolveRoleScope_wf [OF scope0_resolved] scope0_resolved by simp


section \<open>Planning\<close>

theorem BuildPlan_patch_sound_witness:
  "BuildPlan uc0 input0 = Inr plan0 \<and> scope_wf (Scope input0) \<and> patch0 \<in> set (Patches plan0) \<and>
   (\<exists>i \<in> set (Identities input0). Patch_IdentityID patch0 = Identity_ID i \<and> eligible uc0 input0 i)"
  using BuildPlan_patch_sound [OF plan0_built _ patch0_planned] plan0_built patch0_planned scope0_wf
  by auto

definition ident_ok :: Identity where
  "ident_ok = ident0\<lparr>RoleAttributes := [''vpn'', ''admin'']\<rparr>"

definition input_ok :: Input where
  "input_ok = input0\<lparr>Identities := [ident_ok]\<rparr>"

definition plan_ok :: PlanResult where
  "plan_ok = plan0\<lparr>Patches := [], RetirementHolders := []\<rparr>"

lemma plan_ok_built: "BuildPlan uc0 input_ok = Inr plan_ok"
  by code_simp

theorem BuildPlan_patch_complete_witness:
  "BuildPlan uc0 input_ok = Inr plan_ok \<and> Patches plan_ok = [] \<and> ''admin'' \<in> set (ManagedValues plan_ok) \<and>
   (\<exists>g \<in> set (GroupIDs (Scope input_ok)). ''admin'' \<in> set (granted_by input_ok g))"
proof -
  have "scope_wf (Scope input_ok)" by (simp add: input_ok_def scope0_wf)
  moreover have "Conflicts (Ownership plan_ok) = []" "Patches plan_ok = []"
      "''admin'' \<in> set (ManagedValues plan_ok)"
    by (simp_all add: plan_ok_def plan0_def)
  moreover have "ident_ok \<in> set (Identities input_ok)" by (simp add: input_ok_def)
  moreover have "eligible uc0 input_ok ident_ok" by code_simp
  moreover have "''admin'' \<in> set (RoleAttributes ident_ok)" by (simp add: ident_ok_def)
  ultimately show ?thesis
    using BuildPlan_patch_complete [OF plan_ok_built, of ident_ok] plan_ok_built by auto
qed

theorem BuildPlan_converges_witness:
  "BuildPlan uc0 input0 = Inr plan0 \<and> Patches plan0 \<noteq> [] \<and>
   (\<exists>plan'. BuildPlan uc0 (input0\<lparr>Identities := map (apply_patch (Patches plan0)) (Identities input0)\<rparr>) = Inr plan'
      \<and> Patches plan' = [])"
  using BuildPlan_converges [OF plan0_built _ sample_ids_distinct] plan0_built scope0_wf
  by (auto simp: plan0_def)

definition input_gone :: Input where
  "input_gone = input0\<lparr>MembersByGroup := []\<rparr>"

definition plan_gone :: PlanResult where
  "plan_gone = plan0\<lparr>Patches := [patch0\<lparr>GrantedAttributes := [], Patch_RoleAttributes := [''vpn'']\<rparr>],
     MatchedIdentities := 0, WouldRemoveAll := True\<rparr>"

lemma plan_gone_built: "BuildPlan uc0 input_gone = Inr plan_gone"
  by code_simp

theorem BuildPlan_WouldRemoveAll_iff_witness:
  "BuildPlan uc0 input_gone = Inr plan_gone \<and> WouldRemoveAll plan_gone \<and>
   (\<exists>i \<in> set (Identities input_gone). eligible uc0 input_gone i)"
  using BuildPlan_WouldRemoveAll_iff [OF plan_gone_built] plan_gone_built scope0_wf
  by (auto simp: plan_gone_def input_gone_def)

theorem BuildPlan_holders_witness:
  "BuildPlan uc0 input0 = Inr plan0 \<and>
   (''i1'', ''stale'') \<in> {(Holder_IdentityID h, v) | h v. h \<in> set (RetirementHolders plan0) \<and> v \<in> set (Holder_Values h)}"
  unfolding BuildPlan_holders [OF plan0_built]
  by (simp add: plan0_built) (auto simp: input0_def ident0_def claim0_def scope0_def)

theorem BuildPlan_counters_witness:
  "BuildPlan uc0 input0 = Inr plan0 \<and> length (UnmatchedMembers plan0) \<le> 50 \<and>
   MatchedIdentities plan0 \<le> length (filter (eligible uc0 input0) (Identities input0))"
  using BuildPlan_counters [OF plan0_built] plan0_built scope0_wf by simp

section \<open>Completion\<close>

theorem Complete_ready_iff_witness:
  "Ready (Complete completion0) \<and>
   Completion_ManagedAttributes (Complete completion0) = [''admin'', ''audit'']"
proof -
  have "ClaimRecorded completion0 \<and> BlockReason completion0 = [] \<and>
      (\<forall>out \<in> set (Outcomes completion0). Kind out \<noteq> Failed \<and> Kind out \<noteq> Conflicted) \<and>
      \<not> retirementPending completion0"
    by code_simp
  moreover have "sortedSet [CurrentValues (Plan completion0)] = [''admin'', ''audit'']" by code_simp
  ultimately show ?thesis using Complete_ready_iff [of completion0] by simp
qed

theorem Complete_forgets_safely_witness:
  "''stale'' \<in> set (PreviousValues completion0) \<and>
   ''stale'' \<notin> set (Completion_ManagedAttributes (Complete completion0)) \<and>
   (\<exists>out. last_seen (Outcomes completion0) ''i1'' = Some out \<and>
      (Kind out = Deleted \<or> ''stale'' \<notin> set (Outcome_RoleAttributes out)))"
proof -
  let ?h = "\<lparr>Holder_IdentityID = ''i1'', Holder_Values = [''stale'']\<rparr>"
  have a: "''stale'' \<in> set (PreviousValues completion0)" by code_simp
  have b: "''stale'' \<notin> set (Completion_ManagedAttributes (Complete completion0))" by code_simp
  have c: "set (PreviousValues completion0) \<subseteq> set (ManagedValues (Plan completion0))" by code_simp
  have d: "?h \<in> set (RetirementHolders (Plan completion0))" by code_simp
  show ?thesis using Complete_forgets_safely [OF a b c d] a b by simp
qed

end
