(* ===== verification/Sync_Convergence.thy ===== *)
theory Sync_Convergence
  imports Sync_Controller
begin

text \<open>
  What a reconciliation of a role sync achieves. The calls of a run are replayed on a map from
  ids to identities; when nobody else changes the identities meanwhile, a run that advances the
  last sync time leaves every eligible identity with exactly the attributes the directory
  grants.
\<close>

section \<open>The identities behind a trace\<close>

type_synonym identities = "string \<rightharpoonup> Identity"

definition by_id :: "Identity list \<Rightarrow> identities" where
  "by_id is = map_of (map (\<lambda>i. (Identity_ID i, i)) is)"

text \<open>A successful patch replaces the attributes.\<close>

fun ziti_effect :: "identities \<Rightarrow> rcall \<Rightarrow> identities" where
  "ziti_effect st (Ziti_Patch ident attrs None) = st(ident := map_option (\<lambda>i. i\<lparr>RoleAttributes := attrs\<rparr>) (st ident))"
| "ziti_effect st _ = st"

definition ziti_after :: "identities \<Rightarrow> rcall list \<Rightarrow> identities" where
  "ziti_after st xs = foldl ziti_effect st xs"

fun ziti_answers :: "identities \<Rightarrow> rcall \<Rightarrow> bool" where
  "ziti_answers st (Ziti_List (Inr is)) \<longleftrightarrow> distinct (map Identity_ID is) \<and> st = by_id is"
| "ziti_answers st (Ziti_Get ident (Inr got)) \<longleftrightarrow> got = st ident"
| "ziti_answers st _ \<longleftrightarrow> True"

text \<open>The answers are those of identities that only the calls themselves change.\<close>

definition undisturbed :: "identities \<Rightarrow> rcall list \<Rightarrow> bool" where
  "undisturbed st xs \<longleftrightarrow> guarded (\<lambda>pre x. ziti_answers (ziti_after st pre) x) xs"

lemma ziti_after_simps [simp]:
  "ziti_after st [] = st" "ziti_after st (x # xs) = ziti_after (ziti_effect st x) xs"
  "ziti_after st (xs @ ys) = ziti_after (ziti_after st xs) ys"
  by (simp_all add: ziti_after_def)

lemma undisturbed_simps [simp]:
  "undisturbed st []" "undisturbed st (x # xs) \<longleftrightarrow> ziti_answers st x \<and> undisturbed (ziti_effect st x) xs"
  "undisturbed st (xs @ ys) \<longleftrightarrow> undisturbed st xs \<and> undisturbed (ziti_after st xs) ys"
  by (simp_all add: undisturbed_def)

lemma ziti_after_unpatched:
  "(\<And>ident attrs. Ziti_Patch ident attrs None \<notin> set xs) \<Longrightarrow> ziti_after st xs = st"
proof (induction xs arbitrary: st)
  case (Cons x xs)
  have "ziti_effect st x = st" using Cons.prems by (cases "(st, x)" rule: ziti_effect.cases) auto
  with Cons show ?case by simp
qed simp

lemma ziti_after_effect_free [simp]: "effect_free xs \<Longrightarrow> ziti_after st xs = st"
  by (rule ziti_after_unpatched) (rule effect_free_patch)

lemma by_id_Some:
  "distinct (map Identity_ID is) \<Longrightarrow> i \<in> set is \<Longrightarrow> by_id is (Identity_ID i) = Some i"
  by (simp add: by_id_def comp_def)

section \<open>One patch and the write phase\<close>

text \<open>A view of the owners in the trace that shows a \<^verbatim>\<open>ZitiIdentity\<close> for the identity.\<close>

definition seen_owned :: "ZitiEntraRoleSync \<Rightarrow> rcall list \<Rightarrow> Identity \<Rightarrow> bool" where
  "seen_owned resource xs i \<longleftrightarrow> (\<exists>pre view post self others owners. xs = pre @ view @ post \<and>
     ownership_view resource view self others owners \<and> IdentityOwned i owners)"

lemma seen_ownedI:
  "ownership_view resource view self others owners \<Longrightarrow> IdentityOwned i owners \<Longrightarrow> seen_owned resource (pre @ view @ post) i"
  unfolding seen_owned_def by blast

lemma seen_owned_append: "seen_owned resource xs i \<or> seen_owned resource ys i \<Longrightarrow> seen_owned resource (xs @ ys) i"
  unfolding seen_owned_def by (metis append.assoc)

text \<open>What is planned for an identity became true, or it has an owner now.\<close>

definition settled :: "ZitiEntraRoleSync \<Rightarrow> PlanResult \<Rightarrow> IdentityPatch \<Rightarrow> Identity \<Rightarrow> rcall list \<Rightarrow> Identity option \<Rightarrow> bool" where
  "settled resource plan patch i xs new \<longleftrightarrow> seen_owned resource xs i \<or>
     (\<exists>attrs. new = Some (i\<lparr>RoleAttributes := attrs\<rparr>) \<and>
        set attrs = set (MergeAttributes (RoleAttributes i) (ManagedValues plan) (GrantedAttributes patch)))"

lemma checked_patch_fresh:
  "checked_patch uc resource plan patch xs attrs \<Longrightarrow> undisturbed st xs \<Longrightarrow> st (Patch_IdentityID patch) = Some i \<Longrightarrow>
   attrs = MergeAttributes (RoleAttributes i) (ManagedValues plan) (GrantedAttributes patch)"
  by (erule checked_patchE) auto

lemma patch_calls_settled:
  assumes "patch_calls uc resource plan patch xs out" "Kind out \<notin> {Failed, Conflicted}" "undisturbed st xs"
    and i: "st (Patch_IdentityID patch) = Some i" "ExternalID i \<noteq> []" "EqualFold uc (ExternalID i) (Patch_ExternalID patch)"
  shows "settled resource plan patch i xs (ziti_after st xs (Patch_IdentityID patch)) \<and>
    (\<forall>ident. ident \<noteq> Patch_IdentityID patch \<longrightarrow> ziti_after st xs ident = st ident)"
  using assms(1)
proof (cases rule: patch_calls.cases)
  case (skipped view self others owners fresh)
  with assms(3) i have "fresh = i" by simp
  with skipped i have "seen_owned resource xs i"
    using seen_ownedI [OF skipped(2), of i "[Ziti_Get (Patch_IdentityID patch) (Inr (Some fresh))]" "[]"] by auto
  with skipped show ?thesis by (simp add: settled_def ownership_view_reads)
next
  case (observed ys fresh)
  with assms(3) i show ?thesis by (auto simp: settled_def intro!: exI [of _ "RoleAttributes i"])
next
  case (sent ys attrs zs)
  with assms(3) i checked_patch_fresh [OF sent(2)] show ?thesis
    by (auto simp: settled_def checked_patch_reads)
qed (use assms(2,3) i in auto)

lemma settled_mono:
  "settled resource plan patch i xs new \<Longrightarrow> settled resource plan patch i (ys @ xs @ zs) new"
  unfolding settled_def by (metis seen_owned_append)

lemma write_calls_settled:
  assumes "write_calls uc resource plan patches xs outs" "\<forall>out \<in> set outs. Kind out \<notin> {Failed, Conflicted}" "undisturbed st xs"
    and "distinct (map Patch_IdentityID patches)"
    and "\<And>p. p \<in> set patches \<Longrightarrow> \<exists>i. st (Patch_IdentityID p) = Some i \<and> ExternalID i \<noteq> [] \<and>
      EqualFold uc (ExternalID i) (Patch_ExternalID p)"
  shows "(\<forall>p \<in> set patches. \<forall>i. st (Patch_IdentityID p) = Some i \<longrightarrow>
      settled resource plan p i xs (ziti_after st xs (Patch_IdentityID p))) \<and>
    (\<forall>ident. ident \<notin> Patch_IdentityID ` set patches \<longrightarrow> ziti_after st xs ident = st ident)"
  using assms
proof (induction arbitrary: st rule: write_calls.induct)
  case (further patch xs out patches ys outs)
  let ?st = "ziti_after st xs"
  from further.prems(4) obtain i where i: "st (Patch_IdentityID patch) = Some i" "ExternalID i \<noteq> []"
    "EqualFold uc (ExternalID i) (Patch_ExternalID patch)" by auto
  have "Kind out \<notin> {Failed, Conflicted}" "undisturbed st xs" using further.prems(1,2) by simp_all
  from patch_calls_settled [OF further(1) this i]
  have one: "settled resource plan patch i xs (?st (Patch_IdentityID patch))"
    "\<And>ident. ident \<noteq> Patch_IdentityID patch \<Longrightarrow> ?st ident = st ident" by auto
  have others: "?st (Patch_IdentityID p) = st (Patch_IdentityID p)" if "p \<in> set patches" for p
    using that further.prems(3) by (intro one(2)) (metis distinct.simps(2) image_eqI list.map(2) set_map)
  have IH: "(\<forall>p \<in> set patches. \<forall>i. ?st (Patch_IdentityID p) = Some i \<longrightarrow>
        settled resource plan p i ys (ziti_after ?st ys (Patch_IdentityID p))) \<and>
      (\<forall>ident. ident \<notin> Patch_IdentityID ` set patches \<longrightarrow> ziti_after ?st ys ident = ?st ident)"
    using further.prems others by (intro further.IH) auto
  with further.prems(3) have "ziti_after ?st ys (Patch_IdentityID patch) = ?st (Patch_IdentityID patch)" by auto
  with one(1) have "settled resource plan patch i (xs @ ys) (ziti_after ?st ys (Patch_IdentityID patch))"
    using settled_mono [of resource plan patch i xs _ "[]" ys] by simp
  moreover have "settled resource plan p j (xs @ ys) (ziti_after ?st ys (Patch_IdentityID p))"
    if "p \<in> set patches" "st (Patch_IdentityID p) = Some j" for p j
    using IH that others settled_mono [of resource plan p j ys _ xs "[]"] by simp
  ultimately show ?case using IH one(2) i(1) by auto
next
  case (stopped patch xs out patches)
  then show ?case by auto
qed auto

section \<open>A run\<close>

text \<open>The directory grants the value: to a member of a group that has it, matched by the external id.\<close>

definition directory_grants :: "unicode \<Rightarrow> Input \<Rightarrow> Identity \<Rightarrow> string \<Rightarrow> bool" where
  "directory_grants uc input i v \<longleftrightarrow> (\<exists>g \<in> set (GroupIDs (Scope input)). \<exists>u \<in> set (members input g).
     selectedProperty u (UserProperty input) \<noteq> [] \<and>
     ToLower uc (selectedProperty u (UserProperty input)) = ToLower uc (ExternalID i) \<and> v \<in> set (granted_by input g))"

text \<open>
  The result: an eligible identity, unless an owner appeared meanwhile, keeps its attributes that
  are not managed and has of the managed ones exactly the granted; any other identity of the
  snapshot is as it was.
\<close>

definition established :: "unicode \<Rightarrow> ZitiEntraRoleSync \<Rightarrow> Input \<Rightarrow> rcall list \<Rightarrow> identities \<Rightarrow> bool" where
  "established uc resource input rest new \<longleftrightarrow> (\<forall>i \<in> set (Identities input).
     (eligible uc input i \<and> \<not> seen_owned resource rest i \<longrightarrow>
        (\<exists>attrs. new (Identity_ID i) = Some (i\<lparr>RoleAttributes := attrs\<rparr>) \<and>
           (\<forall>v. v \<in> set attrs \<longleftrightarrow>
              (if v \<in> set (currentValues (Scope input)) \<union> set (ManagedAttributes (Input_Self input))
               then directory_grants uc input i v else v \<in> set (RoleAttributes i))))) \<and>
     (\<not> eligible uc input i \<longrightarrow> new (Identity_ID i) = Some i))"

lemma planned_attrs_iff:
  assumes "scope_wf (Scope input)"
  shows "v \<in> set (MergeAttributes (RoleAttributes i) (plan_managed input) (planned_grant uc (plan_grants uc input) i)) \<longleftrightarrow>
    (if v \<in> set (currentValues (Scope input)) \<union> set (ManagedAttributes (Input_Self input))
     then directory_grants uc input i v else v \<in> set (RoleAttributes i))"
proof -
  have "v \<in> set (planned_grant uc (plan_grants uc input) i) \<longleftrightarrow> directory_grants uc input i v"
    by (simp add: planned_grant_def plan_grants_iff member_key_def directory_grants_def)
  with planned_grant_managed [OF assms, of uc i] show ?thesis by (auto simp: plan_managed_def)
qed

lemma snapshot_undisturbed:
  assumes "snapshot_calls resource snap input" "undisturbed st snap"
  shows "distinct (map Identity_ID (Identities input)) \<and> st = by_id (Identities input)"
  using assms snapshot_calls_reads [OF assms(1)] by (auto elim!: snapshot_callsE)

lemma same_id:
  "distinct (map Identity_ID is) \<Longrightarrow> i \<in> set is \<Longrightarrow> j \<in> set is \<Longrightarrow> Identity_ID i = Identity_ID j \<Longrightarrow> i = j"
  by (auto simp: distinct_map dest: inj_onD)

lemma unblocked_patches:
  assumes "BuildPlan uc input = Inr plan" "block_reason plan = []"
  shows "Patches plan = map (planned_patch uc (plan_grants uc input) (plan_managed input))
    (filter (\<lambda>i. eligible uc input i \<and> set (RoleAttributes i) \<noteq>
       set (planned_attrs uc (plan_grants uc input) (plan_managed input) i)) (Identities input))"
  using BuildPlan_Inr [OF assms(1)] assms(2) by (auto simp: block_reason_def syncReasons split: if_splits)

lemma plan_settled:
  assumes plan: "BuildPlan uc input = Inr plan" "block_reason plan = []"
    and ids: "distinct (map Identity_ID (Identities input))" and fold: "\<And>x. EqualFold uc x x"
    and wr: "write_calls uc resource plan (Patches plan) zs outs" "\<forall>out \<in> set outs. Kind out \<notin> {Failed, Conflicted}"
    and st: "undisturbed (by_id (Identities input)) zs"
  shows "(\<forall>p \<in> set (Patches plan). \<forall>i. by_id (Identities input) (Patch_IdentityID p) = Some i \<longrightarrow>
      settled resource plan p i zs (ziti_after (by_id (Identities input)) zs (Patch_IdentityID p))) \<and>
    (\<forall>ident. ident \<notin> Patch_IdentityID ` set (Patches plan) \<longrightarrow>
      ziti_after (by_id (Identities input)) zs ident = by_id (Identities input) ident)"
proof (rule write_calls_settled [OF wr st])
  show "distinct (map Patch_IdentityID (Patches plan))"
    using ids by (simp add: unblocked_patches [OF plan] comp_def distinct_map_filter)
next
  fix p assume "p \<in> set (Patches plan)"
  from planned_patchE [OF plan(1) this]
  show "\<exists>i. by_id (Identities input) (Patch_IdentityID p) = Some i \<and> ExternalID i \<noteq> [] \<and>
      EqualFold uc (ExternalID i) (Patch_ExternalID p)"
    using by_id_Some [OF ids] fold by (metis eligible_def)
qed

lemma plan_established:
  assumes plan: "BuildPlan uc input = Inr plan" "block_reason plan = []" and wf: "scope_wf (Scope input)"
    and ids: "distinct (map Identity_ID (Identities input))" and fold: "\<And>x. EqualFold uc x x"
    and wr: "write_calls uc resource plan (Patches plan) zs outs" "\<forall>out \<in> set outs. Kind out \<notin> {Failed, Conflicted}"
    and st: "undisturbed (by_id (Identities input)) zs"
  shows "established uc resource input zs (ziti_after (by_id (Identities input)) zs)"
  unfolding established_def
proof (intro ballI conjI impI)
  note settled = plan_settled [OF plan ids fold wr st]
  fix i assume i: "i \<in> set (Identities input)"
  note some = by_id_Some [OF ids i]
  let ?new = "ziti_after (by_id (Identities input)) zs (Identity_ID i)"
  let ?right = "\<lambda>v. if v \<in> set (currentValues (Scope input)) \<union> set (ManagedAttributes (Input_Self input))
    then directory_grants uc input i v else v \<in> set (RoleAttributes i)"
  have patch: "eligible uc input i \<and> GrantedAttributes p = planned_grant uc (plan_grants uc input) i"
    if p: "p \<in> set (Patches plan)" "Patch_IdentityID p = Identity_ID i" for p
    using planned_patchE [OF plan(1) p(1)] same_id [OF ids i] p(2) by metis
  {
    assume el: "eligible uc input i \<and> \<not> seen_owned resource zs i"
    show "\<exists>attrs. ?new = Some (i\<lparr>RoleAttributes := attrs\<rparr>) \<and> (\<forall>v. v \<in> set attrs \<longleftrightarrow> ?right v)"
    proof (cases "Identity_ID i \<in> Patch_IdentityID ` set (Patches plan)")
      case True
      then obtain p where p: "p \<in> set (Patches plan)" "Patch_IdentityID p = Identity_ID i" by auto
      with settled some have "settled resource plan p i zs ?new" by metis
      with el patch [OF p] BuildPlan_Inr [OF plan(1)] obtain attrs where "?new = Some (i\<lparr>RoleAttributes := attrs\<rparr>)"
        "set attrs = set (MergeAttributes (RoleAttributes i) (plan_managed input) (planned_grant uc (plan_grants uc input) i))"
        by (auto simp: settled_def simp del: set_MergeAttributes)
      then show ?thesis by (intro exI [of _ attrs]) (simp add: planned_attrs_iff [OF wf] del: set_MergeAttributes)
    next
      case False
      with unblocked_patches [OF plan] el i
      have "set (RoleAttributes i) = set (planned_attrs uc (plan_grants uc input) (plan_managed input) i)"
        by (auto simp: image_iff)
      with settled False some show ?thesis
        by (intro exI [of _ "RoleAttributes i"]) (simp add: planned_attrs_def planned_attrs_iff [OF wf] del: set_MergeAttributes)
    qed
  }
  assume "\<not> eligible uc input i"
  with patch have "Identity_ID i \<notin> Patch_IdentityID ` set (Patches plan)" by (metis imageE)
  with settled some show "?new = Some i" by simp
qed

lemma established_later:
  "established uc resource input zs new \<Longrightarrow> established uc resource input (ys @ zs @ ws) new"
  unfolding established_def by (metis seen_owned_append)

lemma established_same: "same_object a b \<Longrightarrow> established uc a = established uc b"
  by (simp add: fun_eq_iff established_def seen_owned_def same_object_views(1))

lemma run_established:
  assumes run: "run_calls uc resource xs result" and ready: "Run_Completion result = Some c" "Ready c"
    and st: "undisturbed st xs" and fold: "\<And>x. EqualFold uc x x"
  shows "\<exists>snap input rest. xs = snap @ rest \<and> snapshot_calls resource snap input \<and> st = by_id (Identities input) \<and>
    established uc resource input rest (ziti_after st xs)"
  using run
proof (cases rule: run_calls.cases)
  case (written snap input plan recs resource2 zs outs)
  from written(9) ready have outs: "\<forall>out \<in> set outs. Kind out \<notin> {Failed, Conflicted}"
    by (auto simp: completion_of_def Complete_cases(1))
  have snap: "distinct (map Identity_ID (Identities input))" "st = by_id (Identities input)"
    using snapshot_undisturbed [OF written(2), of st] st written(1) by simp_all
  have same: "ziti_after st snap = st" "ziti_after st recs = st"
    using snapshot_calls_reads [OF written(2)] record_calls_no_patch [OF written(5)] by (simp_all add: ziti_after_unpatched)
  from st written(1) same snap(2) have zs: "undisturbed (by_id (Identities input)) zs" by simp
  from plan_established [OF written(3,4) snapshot_calls_wf [OF written(2)] snap(1) fold written(7) outs zs]
  have "established uc resource input (recs @ zs) (ziti_after st xs)"
    using established_later [of uc resource input zs _ recs "[]"] same snap(2) written(1)
    by (simp add: established_same [OF written(6)])
  with written snap(2) show ?thesis by blast
qed (use ready in \<open>auto simp: completion_of_def Complete_cases(1)\<close>)

section \<open>A reconciliation\<close>

lemma run_status_time:
  assumes "run_calls uc resource xs result" "xs = pre @ Sync_Kube (KStatus obj st) # post"
  shows "\<exists>k current. Reader_Get k (Inr current) \<in> set pre \<and> LastSyncTime (ZERS_Status obj) = LastSyncTime (ZERS_Status current)"
proof -
  from run_status_split [OF assms] obtain snap input plan recs err us vs where
    split: "pre = snap @ us" "snapshot_calls resource snap input" "BuildPlan uc input = Inr plan"
      "record_calls resource (Input_Self input) (ManagedValues plan) recs err" "recs = us @ Sync_Kube (KStatus obj st) # vs" .
  from record_calls_status [OF split(4,5)] obtain k current where "us = [Reader_Get k (Inr current)]"
    "obj = current\<lparr>ZERS_Status := (ZERS_Status current)\<lparr>Status_ManagedAttributes := ManagedValues plan\<rparr>\<rparr>" by blast
  with split(1) show ?thesis by (intro exI [of _ k] exI [of _ current]) simp
qed

lemma advanced_established:
  assumes "apimeta_ok (k_lib (Sync_Client r))" "run_state (Sync_Reconcile r key) s = (res, s')"
    and trace: "trace s' = trace s @ pre @ Sync_Kube (KStatus obj stored) # post"
    and advanced: "\<And>k current. Reader_Get k (Inr current) \<in> set pre \<Longrightarrow>
      LastSyncTime (ZERS_Status obj) \<noteq> LastSyncTime (ZERS_Status current)"
    and st: "undisturbed st pre" and fold: "\<And>x. EqualFold (Sync_uc r) x x"
  shows "\<exists>resource snap input rest. pre = Sync_Kube (KGet key (Inr resource)) # snap @ rest \<and>
    snapshot_calls resource snap input \<and> st = by_id (Identities input) \<and>
    established (Sync_uc r) resource input rest (ziti_after st (pre @ Sync_Kube (KStatus obj stored) # post))"
proof -
  let ?c = "Sync_Kube (KStatus obj stored)"
  have calls: "sync_calls r key (pre @ ?c # post) res"
    by (rule Sync_Reconcile_calls [OF assms(1,2)]) (simp add: trace)
  obtain resource xs result resource' ys err
    where zs: "pre @ ?c # post = Sync_Kube (KGet key (Inr resource)) # xs @ ys"
      and run: "run_calls (Sync_uc r) resource xs result" and per: "persist_calls r resource' result ys err"
    by (rule sync_calls_run [OF calls, of ?c]) simp_all
  from split_Cons [OF zs] obtain ps where ps: "pre = Sync_Kube (KGet key (Inr resource)) # ps" "ps @ ?c # post = xs @ ys"
    by auto
  have "\<not> (\<exists>us. xs = ps @ ?c # us)"
    using run_status_time [OF run] advanced ps(1) by (metis list.set_intros(2))
  with ps(2) obtain us vs where us: "ps = xs @ us" "ys = us @ ?c # vs" unfolding split_at_iff by blast
  from persist_status [OF per us(2)] obtain current where
    current: "us = [Reader_Get (ObjectKey (ZERS_Meta resource')) (Inr current)]" and
    status: "result_status (k_lib (Sync_Client r)) (Generation (ZERS_Meta resource')) result (ZERS_Status current) (ZERS_Status obj)"
    by blast
  have "LastSyncTime (ZERS_Status obj) \<noteq> LastSyncTime (ZERS_Status current)"
    using advanced ps(1) us(1) current by auto
  with status obtain c where c: "Run_Completion result = Some c" "AdvanceLastSyncTime c"
    by (auto simp: result_status_def)
  have "undisturbed st xs" using st ps(1) us(1) by simp
  have "Ready c"
    using run c by (cases rule: run_calls.cases) (auto simp: completion_of_def Complete_cases(3))
  from run_established [OF run c(1) this \<open>undisturbed st xs\<close> fold] obtain snap input rest where
    est: "xs = snap @ rest" "snapshot_calls resource snap input" "st = by_id (Identities input)"
      "established (Sync_uc r) resource input rest (ziti_after st xs)" by blast
  have "post = vs" using ps(2) us by simp
  then have "ziti_after (ziti_after st xs) post = ziti_after st xs"
    using persist_calls_no_patch [OF per] us(2) by (intro ziti_after_unpatched) auto
  then have "ziti_after st (pre @ ?c # post) = ziti_after st xs" by (simp add: ps(1) us(1) current)
  with est(4) have "established (Sync_uc r) resource input (rest @ us) (ziti_after st (pre @ ?c # post))"
    using established_later [of "Sync_uc r" resource input rest _ "[]" us] by simp
  with est(1-3) ps(1) us(1) show ?thesis by auto
qed

text \<open>
  C5: The last sync time tells the truth. Whenever a reconciliation advances it, and nobody else
  changed the identities in OpenZiti during the run, the run has made them right: there was a
  complete snapshot of the directory and of the identities, and now every identity that is
  eligible, and that no \<^verbatim>\<open>ZitiIdentity\<close> was seen to own meanwhile, has of the managed attributes
  exactly those the directory grants to the member it matches, keeps its other attributes, and
  is otherwise as it was; every identity that is not eligible is untouched. That a string equals
  itself under case folding is what is relied on of the Unicode tables.
\<close>

theorem Sync_Reconcile_establishes:
  assumes "apimeta_ok (k_lib (Sync_Client r))" "run_state (Sync_Reconcile r key) s = (res, s')"
    and trace: "trace s' = trace s @ pre @ Sync_Kube (KStatus obj stored) # post"
    and advanced: "\<And>k current. Reader_Get k (Inr current) \<in> set pre \<Longrightarrow>
      LastSyncTime (ZERS_Status obj) \<noteq> LastSyncTime (ZERS_Status current)"
    and st: "undisturbed st pre" and fold: "\<And>x. EqualFold (Sync_uc r) x x"
  shows "\<exists>resource snap input rest. pre = Sync_Kube (KGet key (Inr resource)) # snap @ rest \<and>
    snapshot_calls resource snap input \<and> st = by_id (Identities input) \<and>
    established (Sync_uc r) resource input rest (ziti_after st (pre @ Sync_Kube (KStatus obj stored) # post))"
  by (rule advanced_established [OF assms])

end
