(* ===== verification/Sync_Run_Samples.thy ===== *)
theory Sync_Run_Samples
  imports Sync_Samples Sync_Convergence
begin

text \<open>
  One reconciliation of a role sync against services that answer as the sample cluster does:
  the claims are recorded, the one identity is patched, and the sync becomes ready. A second
  one, without the credentials Secret, fails and warns.
\<close>

section \<open>The libraries and the cluster\<close>

definition lib0 :: apimeta where
  "lib0 = \<lparr>FindStatusCondition = (\<lambda>cs t. find (\<lambda>c. Cond_Type c = t) cs),
     apimeta_SetStatusCondition = (\<lambda>cs c. c # filter (\<lambda>d. Cond_Type d \<noteq> Cond_Type c) cs)\<rparr>"

lemma find_filter_other: "t \<noteq> u \<Longrightarrow> find (\<lambda>c. f c = t) (filter (\<lambda>d. f d \<noteq> u) cs) = find (\<lambda>c. f c = t) cs"
  by (induction cs) auto

lemma lib0_ok [simp]: "apimeta_ok lib0"
  by (auto simp: apimeta_ok_def lib0_def same_condition_def find_filter_other)

definition guid0 :: string where
  "guid0 = ''00000000-0000-4000-8000-000000000001''"

definition key0 :: ResourceKey where
  "key0 = \<lparr>Key_Namespace = ''ns'', Key_Name = ''sync''\<rparr>"

definition meta0 :: ObjectMeta where
  "meta0 = \<lparr>Meta_Namespace = ''ns'', Meta_Name = ''sync'', UID = ''u'', ResourceVersion = ''1'', Generation = 1,
     CreationTimestamp = 20, DeletionTimestamp = None, Finalizers = []\<rparr>"

definition common0 :: CommonStatus where
  "common0 = \<lparr>Status_ID = [], Conditions = [], ObservedGeneration = 0, LastError = []\<rparr>"

definition sync0 :: ZitiEntraRoleSync where
  "sync0 = \<lparr>ZERS_Meta = meta0,
     ZERS_Spec = \<lparr>TenantID = guid0, AppID = guid0, CredentialsSecretRef = ''creds'', Spec_UserProperty = ''mail'', Interval = []\<rparr>,
     ZERS_Status = \<lparr>SyncStatus_Common = common0, LastSyncTime = None, Status_ManagedAttributes = [''stale''],
       Status_MatchedIdentities = 0, Status_IdentitiesUpdated = 0, Status_MembersWithoutIdentity = 0, Status_UnmatchedMembers = []\<rparr>\<rparr>"

definition dir0 :: "'w Directory" where
  "dir0 = \<lparr>GetServicePrincipal = (\<lambda>_ w. (Inr (Some sp0), w)), ListAppRoleAssignedTo = (\<lambda>_ w. (Inr as0, w)),
     ListGroupUsers = (\<lambda>_ w. (Inr [alice], w))\<rparr>"

definition ziti0 :: "'w Client" where
  "ziti0 = \<lparr>GetIdentity = (\<lambda>_ w. (Inr (Some ident0), w)), FindIdentityByName = (\<lambda>_ w. (Inr None, w)),
     ListIdentities = (\<lambda>w. (Inr [ident0], w)), CreateIdentity = (\<lambda>_ w. (Inr None, w)),
     UpdateIdentity = (\<lambda>_ w. (Inr None, w)), PatchIdentityRoleAttributes = (\<lambda>_ _ w. (None, w)),
     DeleteIdentity = (\<lambda>_ w. (None, w)), GetEnrollmentJWT = (\<lambda>_ w. (Inr [], w)),
     GetService = (\<lambda>_ w. (Inr None, w)), FindServiceByName = (\<lambda>_ w. (Inr None, w)),
     CreateService = (\<lambda>_ w. (Inr None, w)), UpdateService = (\<lambda>_ w. (Inr None, w)), DeleteService = (\<lambda>_ w. (None, w)),
     GetConfig = (\<lambda>_ w. (Inr None, w)), CreateConfig = (\<lambda>_ w. (Inr None, w)), UpdateConfig = (\<lambda>_ w. (Inr None, w)),
     DeleteConfig = (\<lambda>_ w. (None, w)), FindEdgeRouterByName = (\<lambda>_ w. (Inr None, w)),
     GetAccessPolicy = (\<lambda>_ w. (Inr None, w)), FindAccessPolicyByName = (\<lambda>_ w. (Inr None, w)),
     CreateAccessPolicy = (\<lambda>_ w. (Inr None, w)), UpdateAccessPolicy = (\<lambda>_ w. (Inr None, w)),
     DeleteAccessPolicy = (\<lambda>_ w. (None, w)), GetServiceEdgeRouterPolicy = (\<lambda>_ w. (Inr None, w)),
     FindServiceEdgeRouterPolicyByName = (\<lambda>_ w. (Inr None, w)),
     CreateServiceEdgeRouterPolicy = (\<lambda>_ w. (Inr None, w)), UpdateServiceEdgeRouterPolicy = (\<lambda>_ w. (Inr None, w)),
     DeleteServiceEdgeRouterPolicy = (\<lambda>_ w. (None, w))\<rparr>"

definition rec0 :: "'w ZitiEntraRoleSyncReconciler" where
  "rec0 = \<lparr>Sync_Client = \<lparr>Get = (\<lambda>_ w. (Inr sync0, w)), Update = (\<lambda>obj w. (Inr obj, w)), Status_Update = (\<lambda>obj w. (Inr obj, w)),
       Recorder_Event = (\<lambda>_ _ _ w. ((), w)), has_Recorder = True, Now = (\<lambda>w. (100, w)), DeepEqual = (=), k_lib = lib0\<rparr>,
     Get_Secret = (\<lambda>_ w. (Inr [(''clientId'', ''c''), (''clientSecret'', ''k'')], w)),
     APIReader_Get = (\<lambda>_ w. (Inr sync0, w)), APIReader_List_Syncs = (\<lambda>w. (Inr [sync0], w)),
     APIReader_List_Identities = (\<lambda>w. (Inr [], w)), Sync_ZitiClient = ziti0, DirectoryFactory = (\<lambda>_ _ _. dir0),
     ctx_Err = (\<lambda>w. (None, w)), ParseDuration = (\<lambda>_. None), Sync_uc = uc0\<rparr>"

definition rec1 :: "unit ZitiEntraRoleSyncReconciler" where
  "rec1 = rec0\<lparr>Get_Secret := (\<lambda>_ w. (Inr [], w))\<rparr>"

definition sys0 :: "(unit, rcall) sys" where
  "sys0 = \<lparr>world = (), trace = []\<rparr>"

definition run0 :: "(Result \<times> error option) \<times> (unit, rcall) sys" where
  "run0 = run_state (Sync_Reconcile rec0 key0) sys0"

definition run1 :: "(Result \<times> error option) \<times> (unit, rcall) sys" where
  "run1 = run_state (Sync_Reconcile rec1 key0) sys0"

section \<open>What the runs do\<close>

lemma rec0_simps [simp]:
  "Get (Sync_Client rec0) k w = (Inr sync0, w)" "Status_Update (Sync_Client rec0) obj w = (Inr obj, w)"
  "Recorder_Event (Sync_Client rec0) a b c w = ((), w)" "has_Recorder (Sync_Client rec0)"
  "Now (Sync_Client rec0) w = (100, w)" "DeepEqual (Sync_Client rec0) = (=)" "k_lib (Sync_Client rec0) = lib0"
  "Get_Secret rec0 k w = (Inr [(''clientId'', ''c''), (''clientSecret'', ''k'')], w)"
  "APIReader_Get rec0 k w = (Inr sync0, w)" "APIReader_List_Syncs rec0 w = (Inr [sync0], w)"
  "APIReader_List_Identities rec0 w = (Inr [], w)" "Sync_ZitiClient rec0 = ziti0"
  "DirectoryFactory rec0 a b c = dir0" "ctx_Err rec0 w = (None, w)" "Sync_uc rec0 = uc0"
  by (simp_all add: rec0_def)

lemma ziti0_simps [simp]:
  "GetIdentity ziti0 i w = (Inr (Some ident0), w)" "ListIdentities ziti0 w = (Inr [ident0], w)"
  "PatchIdentityRoleAttributes ziti0 i a w = (None, w)"
  by (simp_all add: ziti0_def)

lemma dir0_simps [simp]:
  "GetServicePrincipal dir0 a w = (Inr (Some sp0), w)" "ListAppRoleAssignedTo dir0 a w = (Inr as0, w)"
  "ListGroupUsers dir0 a w = (Inr [alice], w)"
  by (simp_all add: dir0_def)

lemma sync0_simps [simp]:
  "ZERS_Meta sync0 = meta0" "UID meta0 = ''u''" "DeletionTimestamp meta0 = None" "ObjectKey meta0 = key0"
  "Meta_Namespace meta0 = ''ns''" "Meta_Name meta0 = ''sync''" "CreationTimestamp meta0 = 20"
  "Status_ManagedAttributes (ZERS_Status sync0) = [''stale'']" "roleClaim sync0 = claim0"
  "Spec_UserProperty (ZERS_Spec sync0) = ''mail''" "otherClaims key0 [sync0] = []"
  by (simp_all add: sync0_def meta0_def ObjectKey_def key0_def roleClaim_def claim0_def otherClaims_def)

text \<open>
  A reconciler that gets the answers of the sample, whoever its client is, in the worlds of \<open>I\<close>.
\<close>

definition plays :: "('w \<Rightarrow> bool) \<Rightarrow> 'w ZitiEntraRoleSyncReconciler \<Rightarrow> bool" where
  "plays I r \<longleftrightarrow> has_Recorder (Sync_Client r) \<and> DeepEqual (Sync_Client r) = (=) \<and> k_lib (Sync_Client r) = lib0 \<and> Sync_uc r = uc0 \<and>
     (\<forall>w. I w \<longrightarrow> (\<forall>k. Get (Sync_Client r) k w = (Inr sync0, w)) \<and> (\<forall>obj. Status_Update (Sync_Client r) obj w = (Inr obj, w)) \<and>
       (\<forall>a b c. Recorder_Event (Sync_Client r) a b c w = ((), w)) \<and> Now (Sync_Client r) w = (100, w) \<and>
       (\<forall>k. Get_Secret r k w = (Inr [(''clientId'', ''c''), (''clientSecret'', ''k'')], w)) \<and>
       (\<forall>k. APIReader_Get r k w = (Inr sync0, w)) \<and> APIReader_List_Syncs r w = (Inr [sync0], w) \<and>
       APIReader_List_Identities r w = (Inr [], w) \<and> ctx_Err r w = (None, w) \<and>
       (\<forall>a b c x. GetServicePrincipal (DirectoryFactory r a b c) x w = (Inr (Some sp0), w) \<and>
          ListAppRoleAssignedTo (DirectoryFactory r a b c) x w = (Inr as0, w) \<and>
          ListGroupUsers (DirectoryFactory r a b c) x w = (Inr [alice], w)))"

lemma plays_rec0: "plays (\<lambda>_. True) rec0"
  by (simp add: plays_def)

lemma playsD:
  assumes "plays I r"
  shows "has_Recorder (Sync_Client r)" "DeepEqual (Sync_Client r) = (=)" "k_lib (Sync_Client r) = lib0" "Sync_uc r = uc0"
    "I w \<Longrightarrow> Get (Sync_Client r) k w = (Inr sync0, w)" "I w \<Longrightarrow> Status_Update (Sync_Client r) obj w = (Inr obj, w)"
    "I w \<Longrightarrow> Recorder_Event (Sync_Client r) a b c w = ((), w)" "I w \<Longrightarrow> Now (Sync_Client r) w = (100, w)"
    "I w \<Longrightarrow> Get_Secret r k w = (Inr [(''clientId'', ''c''), (''clientSecret'', ''k'')], w)"
    "I w \<Longrightarrow> APIReader_Get r k w = (Inr sync0, w)" "I w \<Longrightarrow> APIReader_List_Syncs r w = (Inr [sync0], w)"
    "I w \<Longrightarrow> APIReader_List_Identities r w = (Inr [], w)" "I w \<Longrightarrow> ctx_Err r w = (None, w)"
    "I w \<Longrightarrow> GetServicePrincipal (DirectoryFactory r a b c) x w = (Inr (Some sp0), w)"
    "I w \<Longrightarrow> ListAppRoleAssignedTo (DirectoryFactory r a b c) x w = (Inr as0, w)"
    "I w \<Longrightarrow> ListGroupUsers (DirectoryFactory r a b c) x w = (Inr [alice], w)"
  using assms by (simp_all add: plays_def)

lemma valid0: "validateRoleSyncSpec r sync0 = (10 * Minute, None)"
proof -
  have "validateRoleSyncSpec (rec0 :: unit ZitiEntraRoleSyncReconciler) sync0 = (10 * Minute, None)" by code_simp
  then show ?thesis by (simp add: validateRoleSyncSpec_def sync0_def)
qed

definition creds_key0 :: ResourceKey where "creds_key0 = \<lparr>Key_Namespace = ''ns'', Key_Name = ''creds''\<rparr>"

lemma run_bind: "run_state (State_Monad.bind m f) s = (case run_state m s of (a, s') \<Rightarrow> run_state (f a) s')"
  by (simp add: split_beta)

lemma directory0: "plays I r \<Longrightarrow> I w \<Longrightarrow> run_state (readDirectory r sync0) \<lparr>world = w, trace = xs\<rparr> =
    (Inr (DirectoryFactory r guid0 ''c'' ''k''), \<lparr>world = w, trace = xs @
      [Secret_Get creds_key0 (Inr [(''clientId'', ''c''), (''clientSecret'', ''k'')])]\<rparr>)"
  by (simp add: readDirectory_def effect_simps mget_def Let_def creds_key0_def playsD) (simp add: sync0_def)

definition graph_calls0 :: "rcall list" where
  "graph_calls0 = [Graph_ServicePrincipal guid0 (Inr (Some sp0)), Graph_Assigned ''sp'' (Inr as0),
     Graph_GroupUsers ''g1'' (Inr [alice])]"

lemma graph0: "plays I r \<Longrightarrow> I w \<Longrightarrow> run_state (readGraph (DirectoryFactory r a b c) sync0) \<lparr>world = w, trace = xs\<rparr> =
    (Inr (zero_Input\<lparr>Scope := scope0, MembersByGroup := [(''g1'', [alice])]\<rparr>), \<lparr>world = w, trace = xs @ graph_calls0\<rparr>)"
proof -
  have "GroupIDs scope0 = [''g1'']" by code_simp
  moreover have "AppID (ZERS_Spec sync0) = guid0" "ServicePrincipal_ID sp0 = ''sp''" by (simp_all add: sync0_def sp0_def)
  moreover assume "plays I r" "I w"
  ultimately show ?thesis
    by (simp add: readGraph_def effect_simps Let_def scope0_resolved graph_calls0_def playsD)
       (simp add: alice_def zero_Input_def mset_key_def)
qed

definition view0 :: "rcall list" where
  "view0 = [Reader_Get key0 (Inr sync0), Reader_List_Syncs (Inr [sync0]), Reader_List_Identities (Inr [])]"

lemma ownership0: "plays I r \<Longrightarrow> I w \<Longrightarrow> ZERS_Meta resource = meta0 \<Longrightarrow>
    run_state (readOwnership r resource) \<lparr>world = w, trace = xs\<rparr> = (Inr (claim0, [], []), \<lparr>world = w, trace = xs @ view0\<rparr>)"
  by (simp add: readOwnership_def readRoleSync_def effect_simps Let_def view0_def playsD)

definition sync1 :: ZitiEntraRoleSync where
  "sync1 = sync0\<lparr>ZERS_Status := (ZERS_Status sync0)\<lparr>Status_ManagedAttributes := ManagedValues plan0\<rparr>\<rparr>"

definition record0 :: "rcall list" where
  "record0 = [Reader_Get key0 (Inr sync0), Sync_Kube (KStatus sync1 (Inr sync1))]"

lemma recorded0: "plays I r \<Longrightarrow> I w \<Longrightarrow> run_state (recordRoleClaims r sync0 claim0 (ManagedValues plan0)) \<lparr>world = w, trace = xs\<rparr> =
    ((None, sync1), \<lparr>world = w, trace = xs @ record0\<rparr>)"
proof -
  have "set (ManagedAttributes claim0) \<noteq> set (ManagedValues plan0)" "set [''stale''] = set (ManagedAttributes claim0)"
    by (auto simp: claim0_def plan0_def)
  moreover have "sync0\<lparr>ZERS_Meta := meta0\<lparr>ResourceVersion := ResourceVersion meta0\<rparr>\<rparr> = sync0"
    by (simp add: sync0_def)
  moreover assume "plays I r" "I w"
  ultimately show ?thesis
    by (simp add: recordRoleClaims_def readRoleSync_def effect_simps Let_def sync1_def record0_def playsD)
qed

definition patch_call0 :: rcall where
  "patch_call0 = Ziti_Patch ''i1'' [''vpn'', ''admin''] None"

text \<open>The client: the identity is listed, read and patched, each call in the world the last one left.\<close>

definition serves0 :: "('w \<Rightarrow> bool) \<Rightarrow> 'w ZitiEntraRoleSyncReconciler \<Rightarrow> 'w \<Rightarrow> 'w \<Rightarrow> 'w \<Rightarrow> 'w \<Rightarrow> bool" where
  "serves0 I r w0 w1 w2 w3 \<longleftrightarrow> plays I r \<and> I w0 \<and> I w1 \<and> I w2 \<and> I w3 \<and> ListIdentities (Sync_ZitiClient r) w0 = (Inr [ident0], w1) \<and>
     GetIdentity (Sync_ZitiClient r) ''i1'' w1 = (Inr (Some ident0), w2) \<and>
     PatchIdentityRoleAttributes (Sync_ZitiClient r) ''i1'' [''vpn'', ''admin''] w2 = (None, w3)"

lemma serves0D:
  assumes "serves0 I r w0 w1 w2 w3"
  shows "plays I r" "I w0" "I w1" "I w2" "I w3" "ListIdentities (Sync_ZitiClient r) w0 = (Inr [ident0], w1)"
    "GetIdentity (Sync_ZitiClient r) ''i1'' w1 = (Inr (Some ident0), w2)"
    "PatchIdentityRoleAttributes (Sync_ZitiClient r) ''i1'' [''vpn'', ''admin''] w2 = (None, w3)"
  using assms by (simp_all add: serves0_def)

lemma patched0:
  assumes "serves0 I r w0 w1 w2 w3"
  shows "\<exists>msg. run_state (applyRolePatch r sync1 plan0 patch0) \<lparr>world = w1, trace = xs\<rparr> =
    (outcome0, \<lparr>world = w3, trace = xs @ Ziti_Get ''i1'' (Inr (Some ident0)) # view0 @
      [patch_call0, Sync_Kube (KEvent EventTypeNormal ''RoleAttributesUpdated'' msg)]\<rparr>)"
proof -
  have "Conflicts (ResolveOwnership \<lparr>Self = claim0, Candidates = ManagedValues plan0, Others = []\<rparr>) = []"
    by code_simp
  moreover have "EqualFold uc0 (ExternalID ident0) (Patch_ExternalID patch0)"
    by code_simp
  moreover have "MergeAttributes (RoleAttributes ident0) (ManagedValues plan0) (GrantedAttributes patch0) = [''vpn'', ''admin'']"
    by code_simp
  moreover have "ZERS_Meta sync1 = meta0" "ExternalID ident0 \<noteq> []" "Patch_IdentityID patch0 = ''i1''"
      "\<not> sameRoleSet (RoleAttributes ident0) [''vpn'', ''admin'']"
    by (simp_all add: sync1_def ident0_def patch0_def del: sameRoleSet_iff) code_simp
  ultimately show ?thesis using serves0D [OF assms]
    by (simp add: applyRolePatch_def effect_simps Let_def ownership0 zero_Outcome_def EmitEvent_def outcome0_def
        patch_call0_def split_beta playsD del: sameRoleSet_iff)
qed

definition snap0 :: "rcall list" where
  "snap0 = Sync_Kube (KGet key0 (Inr sync0)) # Secret_Get creds_key0 (Inr [(''clientId'', ''c''), (''clientSecret'', ''k'')]) #
     graph_calls0 @ Ziti_List (Inr [ident0]) # view0 @ record0"

definition before0 :: "rcall list" where
  "before0 = snap0 @ Ziti_Get ''i1'' (Inr (Some ident0)) # view0"

lemma input0_snapshot:
  "zero_Input\<lparr>Scope := scope0, MembersByGroup := [(''g1'', [alice])], Identities := [ident0], Input_Self := claim0,
     OtherClaims := [], IdentityOwners := [], UserProperty := ''mail''\<rparr> = input0"
  by (simp add: zero_Input_def input0_def)

lemma written0:
  assumes "serves0 I r w0 w1 w2 w3"
  shows "\<exists>msg. run_state (writeRolePlan r sync1 plan0) \<lparr>world = w1, trace = xs\<rparr> = ([outcome0], \<lparr>world = w3, trace = xs @
     Ziti_Get ''i1'' (Inr (Some ident0)) # view0 @
      [patch_call0, Sync_Kube (KEvent EventTypeNormal ''RoleAttributesUpdated'' msg)]\<rparr>)"
proof -
  have "Patches plan0 = [patch0]" "\<not> StopsWrites outcome0"
    by (simp_all add: plan0_def StopsWrites_def outcome0_def is_err_def)
  with patched0 [OF assms, of xs] serves0D [OF assms] show ?thesis
    by (auto simp: writeRolePlan_def effect_simps Let_def playsD)
qed

lemma advances0: "AdvanceLastSyncTime (Complete completion0)"
  by code_simp

lemma ran0:
  assumes "serves0 I r w0 w1 w2 w3"
  shows "\<exists>msg result. run_state (runSync r sync0) \<lparr>world = w0, trace = [Sync_Kube (KGet key0 (Inr sync0))]\<rparr> = ((result, sync1),
      \<lparr>world = w3, trace = before0 @ [patch_call0, Sync_Kube (KEvent EventTypeNormal ''RoleAttributesUpdated'' msg)]\<rparr>) \<and>
     Run_Completion result = Some (Complete completion0)"
proof -
  have free: "Conflicts (Ownership plan0) = []" "\<not> WouldRemoveAll plan0" by (simp_all add: plan0_def)
  have claim: "ManagedAttributes claim0 = [''stale'']" by (simp add: claim0_def)
  obtain msg where w: "run_state (writeRolePlan r sync1 plan0) \<lparr>world = w1, trace = snap0\<rparr> =
      ([outcome0], \<lparr>world = w3, trace = before0 @ [patch_call0, Sync_Kube (KEvent EventTypeNormal ''RoleAttributesUpdated'' msg)]\<rparr>)"
    using written0 [OF assms, of snap0] by (auto simp: before0_def)
  show ?thesis
    using w serves0D [OF assms]
    by (intro exI [of _ msg]) (simp add: runSync_def valid0 Let_def directory0 graph0 effect_simps ownership0 input0_snapshot
        plan0_built free recorded0 snap0_def completion0_def claim playsD)
qed

lemma persisted0:
  assumes "plays I r" "I w" "Run_Completion result = Some c" "AdvanceLastSyncTime c" "Ready c"
  shows "\<exists>err resource obj. run_state (persistSyncResult r sync1 result) \<lparr>world = w, trace = xs\<rparr> = ((err, resource),
      \<lparr>world = w, trace = xs @ [Reader_Get key0 (Inr sync0), Sync_Kube (KStatus obj (Inr obj))]\<rparr>) \<and>
    LastSyncTime (ZERS_Status obj) = Some 100"
proof -
  have meta: "ZERS_Meta sync1 = meta0" by (simp add: sync1_def)
  have none: "LastSyncTime (ZERS_Status sync0) = None" by (simp add: sync0_def)
  have changed: "ZERS_Status sync0 \<noteq> st" if "LastSyncTime st = Some 100" for st using that none by auto
  show ?thesis
    using assms
    by (simp add: persistSyncResult_def readRoleSync_def meta effect_simps Let_def setRoleSyncConditions_def updateRoleSyncCounters_def
        changed playsD split: option.split)
qed

definition finish0 :: "string \<Rightarrow> rcall list" where
  "finish0 msg = before0 @ [patch_call0, Sync_Kube (KEvent EventTypeNormal ''RoleAttributesUpdated'' msg), Reader_Get key0 (Inr sync0)]"

lemma reconciled0:
  assumes "serves0 I r w0 w1 w2 w3"
  shows "\<exists>res msg obj. run_state (Sync_Reconcile r key0) \<lparr>world = w0, trace = []\<rparr> =
      (res, \<lparr>world = w3, trace = finish0 msg @ [Sync_Kube (KStatus obj (Inr obj))]\<rparr>) \<and> LastSyncTime (ZERS_Status obj) = Some 100"
proof -
  have ready: "Ready (Complete completion0)" by code_simp
  note s = serves0D [OF assms]
  obtain msg result where run: "run_state (runSync r sync0) \<lparr>world = w0, trace = [Sync_Kube (KGet key0 (Inr sync0))]\<rparr> = ((result, sync1),
      \<lparr>world = w3, trace = before0 @ [patch_call0, Sync_Kube (KEvent EventTypeNormal ''RoleAttributesUpdated'' msg)]\<rparr>)"
    "Run_Completion result = Some (Complete completion0)" using ran0 [OF assms] by blast
  from persisted0 [OF s(1,5) run(2) advances0 ready,
      of "before0 @ [patch_call0, Sync_Kube (KEvent EventTypeNormal ''RoleAttributesUpdated'' msg)]"]
  obtain err resource obj where per: "run_state (persistSyncResult r sync1 result)
      \<lparr>world = w3, trace = before0 @ [patch_call0, Sync_Kube (KEvent EventTypeNormal ''RoleAttributesUpdated'' msg)]\<rparr> =
      ((err, resource), \<lparr>world = w3, trace = finish0 msg @ [Sync_Kube (KStatus obj (Inr obj))]\<rparr>)"
    "LastSyncTime (ZERS_Status obj) = Some 100" by (auto simp: finish0_def)
  show ?thesis
    using run(1) per s by (cases err) (auto simp: Sync_Reconcile_def effect_simps playsD)
qed

lemma run0_finish: "\<exists>msg obj post. trace (snd run0) = finish0 msg @ Sync_Kube (KStatus obj (Inr obj)) # post \<and>
    LastSyncTime (ZERS_Status obj) = Some 100"
proof -
  have "serves0 (\<lambda>_. True) rec0 () () () ()" by (simp add: serves0_def plays_rec0)
  from reconciled0 [OF this] show ?thesis by (force simp: run0_def sys0_def)
qed

lemma run0_calls: "\<exists>post. trace (snd run0) = before0 @ patch_call0 # post"
  using run0_finish by (auto simp: finish0_def)

section \<open>The theorems on these runs\<close>

lemma run0_pair: "run_state (Sync_Reconcile rec0 key0) sys0 = (fst run0, snd run0)"
  by (simp add: run0_def)

lemma sys0_trace [simp]: "trace sys0 = []"
  by (simp add: sys0_def)

lemma run0_post: "\<exists>post. trace (snd run0) = trace sys0 @ before0 @ Ziti_Patch ''i1'' [''vpn'', ''admin''] None # post"
  using run0_calls by (simp add: patch_call0_def)

lemma rec0_ok: "apimeta_ok (k_lib (Sync_Client rec0))"
  by simp

theorem Sync_Reconcile_patch_checked_witness:
  "\<exists>post input plan patch. trace (snd run0) = trace sys0 @ before0 @ Ziti_Patch ''i1'' [''vpn'', ''admin''] None # post \<and>
     BuildPlan uc0 input = Inr plan \<and> Conflicts (Ownership plan) = [] \<and> \<not> WouldRemoveAll plan \<and>
     patch \<in> set (Patches plan) \<and> ''i1'' = Patch_IdentityID patch"
  using run0_post Sync_Reconcile_patch_checked [OF rec0_ok run0_pair, unfolded rec0_simps] by blast

theorem Sync_Reconcile_claims_first_witness:
  "\<exists>fresh managed. Ziti_Get ''i1'' (Inr (Some fresh)) \<in> set before0 \<and>
     filter (\<lambda>v. v \<notin> set managed) [''vpn'', ''admin''] = filter (\<lambda>v. v \<notin> set managed) (RoleAttributes fresh)"
  using run0_post Sync_Reconcile_claims_first [OF rec0_ok run0_pair] by blast

lemma run0_status:
  "\<exists>pre post. trace (snd run0) = trace sys0 @ pre @ Sync_Kube (KStatus sync1 (Inr sync1)) # post"
proof -
  have "Sync_Kube (KStatus sync1 (Inr sync1)) \<in> set (trace (snd run0))"
    using run0_calls by (auto simp: before0_def snap0_def record0_def)
  then show ?thesis by (auto simp: in_set_conv_decomp)
qed


lemma finish0_undisturbed: "undisturbed (by_id [ident0]) (finish0 msg)"
proof -
  have "Identity_ID ident0 = ''i1''" by (simp add: ident0_def)
  then have "by_id [ident0] ''i1'' = Some ident0" by (simp add: by_id_def)
  then show ?thesis
    by (simp add: finish0_def before0_def snap0_def graph_calls0_def view0_def record0_def patch_call0_def)
qed

lemma finish0_readers: "Reader_Get k (Inr current) \<in> set (finish0 msg) \<Longrightarrow> LastSyncTime (ZERS_Status current) = None"
  by (auto simp: finish0_def before0_def snap0_def graph_calls0_def view0_def record0_def patch_call0_def) (simp_all add: sync0_def)

theorem Sync_Reconcile_establishes_witness:
  "\<exists>msg obj post. trace (snd run0) = trace sys0 @ finish0 msg @ Sync_Kube (KStatus obj (Inr obj)) # post \<and>
     LastSyncTime (ZERS_Status obj) = Some 100 \<and> undisturbed (by_id [ident0]) (finish0 msg) \<and>
     (\<exists>resource snap input rest. finish0 msg = Sync_Kube (KGet key0 (Inr resource)) # snap @ rest \<and>
        snapshot_calls resource snap input \<and> by_id [ident0] = by_id (Identities input) \<and>
        established uc0 resource input rest
          (ziti_after (by_id [ident0]) (finish0 msg @ Sync_Kube (KStatus obj (Inr obj)) # post)))"
proof -
  obtain msg obj post where p: "trace (snd run0) = trace sys0 @ finish0 msg @ Sync_Kube (KStatus obj (Inr obj)) # post"
    "LastSyncTime (ZERS_Status obj) = Some 100" using run0_finish by auto
  have advanced: "LastSyncTime (ZERS_Status obj) \<noteq> LastSyncTime (ZERS_Status current)"
    if "Reader_Get k (Inr current) \<in> set (finish0 msg)" for k current
    using finish0_readers [OF that] p(2) by simp
  have fold: "EqualFold (Sync_uc (rec0 :: unit ZitiEntraRoleSyncReconciler)) x x" for x by (simp add: EqualFold_def uc0_def)
  have "\<exists>resource snap input rest. finish0 msg = Sync_Kube (KGet key0 (Inr resource)) # snap @ rest \<and>
      snapshot_calls resource snap input \<and> by_id [ident0] = by_id (Identities input) \<and>
      established (Sync_uc (rec0 :: unit ZitiEntraRoleSyncReconciler)) resource input rest
        (ziti_after (by_id [ident0]) (finish0 msg @ Sync_Kube (KStatus obj (Inr obj)) # post))"
    by (rule Sync_Reconcile_establishes [OF rec0_ok run0_pair p(1) _ finish0_undisturbed fold]) (rule advanced)
  from this [unfolded rec0_simps] p finish0_undisturbed show ?thesis by blast
qed

theorem Sync_Reconcile_rescheduled_witness:
  "DeletionTimestamp (ZERS_Meta sync0) = None \<and> ((\<exists>err. snd (fst run0) = Some err) \<or> RequeueAfter (fst (fst run0)) > 0)"
proof
  show live: "DeletionTimestamp (ZERS_Meta sync0) = None" by simp
  obtain xs where "trace (snd run0) = trace sys0 @ Sync_Kube (KGet key0 (Inr sync0)) # xs"
    using run0_calls by (auto simp: before0_def snap0_def)
  from Sync_Reconcile_rescheduled [OF rec0_ok run0_pair this live]
  show "(\<exists>err. snd (fst run0) = Some err) \<or> RequeueAfter (fst (fst run0)) > 0" by simp
qed

definition warning1 :: rcall where
  "warning1 = Sync_Kube (KEvent EventTypeWarning ''InvalidSpec'' ''credentials Secret requires clientId and clientSecret'')"

lemma run1_warns: "last (trace (snd run1)) = warning1" "trace (snd run1) \<noteq> []"
  by code_simp+

theorem Sync_Reconcile_warns_once_witness:
  "\<exists>pre resource k current. trace (snd run1) = pre @ [warning1] \<and> Sync_Kube (KGet key0 (Inr resource)) \<in> set pre \<and>
     Reader_Get k (Inr current) \<in> set pre"
proof -
  have ok: "apimeta_ok (k_lib (Sync_Client rec1))" by (simp add: rec1_def)
  have pair: "run_state (Sync_Reconcile rec1 key0) sys0 = (fst run1, snd run1)" by (simp add: run1_def)
  let ?pre = "butlast (trace (snd run1))"
  have "trace (snd run1) = ?pre @ [warning1]" using run1_warns by (metis append_butlast_last_id)
  moreover then have "trace (snd run1) = trace sys0 @ ?pre @ Sync_Kube (KEvent EventTypeWarning ''InvalidSpec''
      ''credentials Secret requires clientId and clientSecret'') # []"
    by (simp add: warning1_def)
  ultimately show ?thesis using Sync_Reconcile_warns_once [OF ok pair] by blast
qed

section \<open>Redaction\<close>

theorem normalize_request_id_witness:
  "normalizeReconcileErrorMessage (request_message ''failed: '' ''AbC1'' ''}'') =
   normalizeReconcileErrorMessage (request_message ''failed: '' ''xYz2'' ''}'')"
proof (rule normalize_request_id)
  show "\<not> sublist ''requestId'' ''failed: ''" by code_simp
qed (simp_all add: quote_char_def)

end
