(* ===== verification/Resource_Samples.thy ===== *)
theory Resource_Samples
  imports Sync_Run_Samples Identity_Controller Service_Controller Policy_Controller
begin

text \<open>
  Reconciliations of one identity, one service and one access policy against services that
  answer as a small cluster does, and one deletion of each. The theorems of the three
  controllers are applied to these runs.
\<close>

section \<open>Shared parts\<close>

definition live_meta :: "string \<Rightarrow> ObjectMeta" where
  "live_meta finalizer = meta0\<lparr>Finalizers := [finalizer]\<rparr>"

definition gone_meta :: "string \<Rightarrow> ObjectMeta" where
  "gone_meta finalizer = (live_meta finalizer)\<lparr>DeletionTimestamp := Some 50\<rparr>"

definition common1 :: CommonStatus where
  "common1 = common0\<lparr>Status_ID := ''b1''\<rparr>"

definition kube0 :: "'r \<Rightarrow> ('r, 's, 'w) kube" where
  "kube0 obj = \<lparr>Get = (\<lambda>_ w. (Inr obj, w)), Update = (\<lambda>obj w. (Inr obj, w)), Status_Update = (\<lambda>obj w. (Inr obj, w)),
     Recorder_Event = (\<lambda>_ _ _ w. ((), w)), has_Recorder = True, Now = (\<lambda>w. (100, w)), DeepEqual = (\<lambda>_ _. False), k_lib = lib0\<rparr>"

lemma unit_world [simp]: "(s :: (unit, 'c) sys)\<lparr>world := u\<rparr> = s"
  by (cases s) simp

definition empty_sys :: "(unit, 'c) sys" where
  "empty_sys = \<lparr>world = (), trace = []\<rparr>"

lemma empty_trace [simp]: "trace empty_sys = []"
  by (simp add: empty_sys_def)

definition trace_of :: "(unit, 'c, 'a) io \<Rightarrow> 'c list" where
  "trace_of m = trace (snd (run_state m empty_sys))"

lemma trace_of_run:
  "run_state m empty_sys = (fst (run_state m empty_sys), snd (run_state m empty_sys))"
  "trace (snd (run_state m empty_sys)) = trace empty_sys @ trace_of m"
  by (simp_all add: trace_of_def)

section \<open>An identity\<close>

definition identity0 :: ZitiIdentity where
  "identity0 = \<lparr>ZI_Meta = live_meta zitiIdentityFinalizer,
     ZI_Spec = \<lparr>IdentitySpec_Name = ''alice'', IdentitySpec_Type = ''User'', IdentitySpec_RoleAttributes = [''staff''],
       Enrollment = \<lparr>CreateJWTSecret = False, Enrollment_JWTSecretName = []\<rparr>\<rparr>,
     ZI_Status = \<lparr>IdentityStatus_Common = common0, JWTSecretName = []\<rparr>\<rparr>"

definition identity1 :: ZitiIdentity where
  "identity1 = identity0\<lparr>ZI_Meta := gone_meta zitiIdentityFinalizer,
     ZI_Status := \<lparr>IdentityStatus_Common = common1, JWTSecretName = ''tok''\<rparr>\<rparr>"

definition backend0 :: Identity where
  "backend0 = (toClientIdentity (Identity_FromResource identity0))\<lparr>Identity_ID := ''b1''\<rparr>"

definition iziti0 :: "'w Client" where
  "iziti0 = ziti0\<lparr>CreateIdentity := (\<lambda>x w. (Inr (Some (x\<lparr>Identity_ID := ''b1''\<rparr>)), w))\<rparr>"

definition irec :: "ZitiIdentity \<Rightarrow> 'w ZitiIdentityReconciler" where
  "irec identity = \<lparr>Identity_Client = kube0 identity,
     Secret_Get_API = (\<lambda>_ w. (Inl (KubeNotFound ''secret''), w)),
     Secret_Create_API = (\<lambda>_ w. (None, w)), Secret_Delete_API = (\<lambda>_ w. (None, w)),
     IsControlledBy = (\<lambda>_ _. True), SetControllerReference = (\<lambda>_ s. Inr s),
     NamespacedName_String = Key_Name, Identity_ZitiClient = iziti0\<rparr>"

definition identity0_ready :: ZitiIdentity where
  "identity0_ready = with_common identity_resource
     (readyStatus lib0 1 ''ZitiIdentity reconciled successfully'' 100 100 100 common1) (with_identity_id ''b1'' identity0)"

lemma identity0_calls:
  "trace_of (Identity_Reconcile (irec identity0) key0) =
     [Identity_Kube (KGet key0 (Inr identity0)), IZ_Find ''alice'' (Inr None),
      IZ_Create (backend0\<lparr>Identity_ID := []\<rparr>) (Inr (Some backend0)),
      Identity_Kube (KStatus identity0_ready (Inr identity0_ready)),
      Identity_Kube (KEvent EventTypeNormal ''IdentityReconciled'' ''ZitiIdentity reconciled successfully'')]"
  by code_simp

definition identity1_freed :: ZitiIdentity where
  "identity1_freed = identity1\<lparr>ZI_Meta := (gone_meta zitiIdentityFinalizer)\<lparr>Finalizers := []\<rparr>\<rparr>"

lemma identity1_calls:
  "trace_of (Identity_Reconcile (irec identity1) key0) =
     [Identity_Kube (KGet key0 (Inr identity1)),
      ISecret_Get \<lparr>Key_Namespace = ''ns'', Key_Name = ''tok''\<rparr> (Inl (KubeNotFound ''secret'')), IZ_Delete ''b1'' None,
      Identity_Kube (KUpdate identity1_freed (Inr identity1_freed)),
      Identity_Kube (KEvent EventTypeNormal ''IdentityDeleted'' ''ZitiIdentity backend state removed'')]"
  by code_simp



theorem Identity_Reconcile_ready_witness:
  "hasReadyStatus lib0 (IdentityStatus_Common (ZI_Status identity0_ready)) 1 \<and> validateIdentitySpec identity0 = None \<and>
   identity_status_id identity0_ready = Identity_ID backend0"
proof -
  have ok: "apimeta_ok (k_lib (Identity_Client (irec identity0)))" by (simp add: irec_def kube0_def)
  have stored: "Identity_Kube (KStatus identity0_ready (Inr identity0_ready)) \<in> set (trace_of (Identity_Reconcile (irec identity0) key0))"
    by (simp add: identity0_calls)
  have gen: "Generation (ZI_Meta identity0_ready) = 1" "k_lib (Identity_Client (irec identity0)) = lib0"
    by (code_simp, simp add: irec_def kube0_def)
  have ready: "hasReadyStatus lib0 (IdentityStatus_Common (ZI_Status identity0_ready)) 1" by code_simp
  then have "hasReadyStatus (k_lib (Identity_Client (irec identity0)))
      (IdentityStatus_Common (ZI_Status identity0_ready)) (Generation (ZI_Meta identity0_ready))"
    by (simp add: gen)
  from Identity_Reconcile_ready [OF ok trace_of_run stored this] ready
  show ?thesis by (auto simp: identity0_calls)
qed

section \<open>A service\<close>

definition service0 :: ZitiService where
  "service0 = \<lparr>ZS_Meta = live_meta zitiServiceFinalizer,
     ZS_Spec = \<lparr>ServiceSpec_Name = ''web'', ServiceSpec_RoleAttributes = [''http''],
       Router = Some \<lparr>Router_Name = ''edge'', AdditionalAllowedEdgeRouterNames = [''west'', '' edge '']\<rparr>,
       Configs = \<lparr>Configs_Intercept = \<lparr>Protocols = [''tcp''], Addresses = [''web.ziti''], PortRanges = [\<lparr>Low = 80, High = 80\<rparr>]\<rparr>,
         Configs_Host = \<lparr>Host_Protocol = ''tcp'', Host_Address = ''web'', Host_Port = 80\<rparr>\<rparr>\<rparr>,
     ZS_Status = \<lparr>ServiceStatus_Common = common1, ConfigIDs = \<lparr>InterceptID = ''c1'', HostID = ''c2''\<rparr>, BindPolicyID = [],
       ServiceEdgeRouterPolicyID = []\<rparr>\<rparr>"

definition service1 :: ZitiService where
  "service1 = service0\<lparr>ZS_Meta := gone_meta zitiServiceFinalizer\<rparr>"

definition service1_freed :: ZitiService where
  "service1_freed = service1\<lparr>ZS_Meta := (gone_meta zitiServiceFinalizer)\<lparr>Finalizers := []\<rparr>\<rparr>"

definition sziti0 :: "'w Client" where
  "sziti0 = ziti0\<lparr>UpdateService := (\<lambda>x w. (Inr (Some x), w)), UpdateConfig := (\<lambda>x w. (Inr (Some x), w)),
     FindIdentityByName := (\<lambda>name w. (Inr (Some (backend0\<lparr>Identity_Name := name, Identity_Type := ''router''\<rparr>)), w)),
     FindEdgeRouterByName := (\<lambda>name w. (Inr (Some \<lparr>EdgeRouter_ID = ''id-'' @ name, EdgeRouter_Name = name\<rparr>), w)),
     CreateAccessPolicy := (\<lambda>x w. (Inr (Some (x\<lparr>AccessPolicy_ID := ''p1''\<rparr>)), w)),
     CreateServiceEdgeRouterPolicy := (\<lambda>x w. (Inr (Some (x\<lparr>SERP_ID := ''q1''\<rparr>)), w))\<rparr>"

definition srec :: "ZitiService \<Rightarrow> 'w ZitiServiceReconciler" where
  "srec service = \<lparr>Service_Client = kube0 service, Service_ZitiClient = sziti0, Service_uc = uc0\<rparr>"

text \<open>The host config cannot be written.\<close>

definition srec_failing :: "unit ZitiServiceReconciler" where
  "srec_failing = \<lparr>Service_Client = kube0 (service0\<lparr>ZS_Status := (ZS_Status service0)\<lparr>ConfigIDs := \<lparr>InterceptID = [], HostID = []\<rparr>\<rparr>\<rparr>),
     Service_ZitiClient = sziti0\<lparr>CreateConfig := (\<lambda>x w. (if Config_Type x = ''host.v1'' then Inl (Coded 500 ''down'')
       else Inr (Some (x\<lparr>Config_ID := ''c9''\<rparr>)), w))\<rparr>, Service_uc = uc0\<rparr>"

definition serp0 :: ServiceEdgeRouterPolicy where
  "serp0 = \<lparr>SERP_ID = [], SERP_Name = ''web-only'', EdgeRouterRoles = [''@id-edge'', ''@id-west''],
     SERP_ServiceRoles = [''@b1''], SERP_Semantic = ''AnyOf''\<rparr>"

lemma srec_simps [simp]:
  "Service_uc (srec service) = uc0" "Service_ZitiClient (srec service) = sziti0" "Service_Client (srec service) = kube0 service"
  by (simp_all add: srec_def)

definition router0 :: ServiceRouterSpec where
  "router0 = \<lparr>Router_Name = ''edge'', AdditionalAllowedEdgeRouterNames = [''west'', '' edge '']\<rparr>"

definition edge_router :: "string \<Rightarrow> EdgeRouter" where
  "edge_router name = \<lparr>EdgeRouter_ID = ''id-'' @ name, EdgeRouter_Name = name\<rparr>"

definition router_identity :: Identity where
  "router_identity = backend0\<lparr>Identity_Name := ''edge'', Identity_Type := ''router''\<rparr>"

lemma sziti0_simps [simp]:
  "FindIdentityByName sziti0 ''edge'' w = (Inr (Some router_identity), w)"
  "FindEdgeRouterByName sziti0 name w = (Inr (Some (edge_router name)), w)"
  "UpdateService sziti0 x w = (Inr (Some x), w)" "UpdateConfig sziti0 y w = (Inr (Some y), w)"
  "FindAccessPolicyByName sziti0 name w = (Inr None, w)" "FindServiceEdgeRouterPolicyByName sziti0 name w = (Inr None, w)"
  "CreateAccessPolicy sziti0 p w = (Inr (Some (p\<lparr>AccessPolicy_ID := ''p1''\<rparr>)), w)"
  "CreateServiceEdgeRouterPolicy sziti0 q w = (Inr (Some (q\<lparr>SERP_ID := ''q1''\<rparr>)), w)"
  by (simp_all add: sziti0_def router_identity_def edge_router_def ziti0_def)

definition policies0 :: RouterPolicySet where
  "policies0 = the (RouterPolicies service0 ''b1'' ''b1'' ''id-edge'' [''id-west''])"

lemma policies0: "RouterPolicies service0 ''b1'' ''b1'' ''id-edge'' [''id-west''] = Some policies0"
  "RouterPolicy_SERP policies0 = serp0"
  unfolding policies0_def by code_simp+

definition found0 :: "scall list" where
  "found0 = [SZ_FindIdentity ''edge'' (Inr (Some router_identity)), SZ_FindEdgeRouter ''edge'' (Inr (Some (edge_router ''edge''))),
     SZ_FindEdgeRouter ''west'' (Inr (Some (edge_router ''west'')))]"

lemma names0: "TrimSpace ''edge'' = ''edge''" "TrimSpace '' edge '' = ''edge''" "TrimSpace ''west'' = ''west''"
  "TrimSpace (EdgeRouter_ID (edge_router ''edge'')) = ''id-edge''" "TrimSpace (EdgeRouter_ID (edge_router ''west'')) = ''id-west''"
  "TrimSpace ''b1'' = ''b1''" "Identity_ID router_identity = ''b1''" "EqualFold uc0 (TrimSpace (Identity_Type router_identity)) ''Router''"
  by code_simp+

lemma RouterPolicies_spec:
  assumes "ZS_Spec a = ZS_Spec b"
  shows "RouterPolicies a s i e x = RouterPolicies b s i e x"
  unfolding RouterPolicies_def assms ..

lemma router0: "Router (ZS_Spec service0) = Some router0" "Router_Name router0 = ''edge''"
  "AdditionalAllowedEdgeRouterNames router0 = [''west'', '' edge '']"
  by (simp_all add: service0_def router0_def)

lemma desired0:
  assumes "ZS_Spec service = ZS_Spec service0"
  shows "run_state (desiredRouterPolicies (srec r) service ''b1'') s = (Inr policies0, s\<lparr>trace := trace s @ found0\<rparr>)"
  by (simp add: desiredRouterPolicies_def effect_simps resolveEdgeRouterID_def assms router0 names0 Let_def
     RouterPolicies_spec [OF assms] policies0 found0_def)

definition bind0 :: AccessPolicy where "bind0 = BindPolicy policies0"

definition service0_placed :: ZitiService where
  "service0_placed = with_service_ids ''b1'' ''c1'' ''c2'' service0"

lemma routers0:
  "\<exists>res ys. run_state (service_routers (srec service0) service0_placed ''b1'') s = (res, s\<lparr>trace := trace s @ found0 @
     [SZ_FindPolicy (AccessPolicy_Name bind0) (Inr None), SZ_CreatePolicy bind0 (Inr (Some (bind0\<lparr>AccessPolicy_ID := ''p1''\<rparr>))),
      SZ_FindSERP ''web-only'' (Inr None), SZ_CreateSERP serp0 (Inr (Some (serp0\<lparr>SERP_ID := ''q1''\<rparr>)))] @ ys\<rparr>)"
proof -
  have spec: "ZS_Spec service0_placed = ZS_Spec service0" "BindPolicyID (ZS_Status service0_placed) = []"
      "ServiceEdgeRouterPolicyID (ZS_Status service0_placed) = []" "SERP_Name serp0 = ''web-only''"
    by (simp_all add: service0_placed_def with_service_ids_def service0_def serp0_def)
  show ?thesis
    by (simp add: service_routers_def desired0 [OF spec(1)] spec router0(1) reconcileAccessPolicy_def adoptAccessPolicy_def
        reconcileServiceEdgeRouterPolicy_def adoptServiceEdgeRouterPolicy_def effect_simps policies0(2) bind0_def Let_def
        service_finish_def service_markReady_def markReady_def kube0_def EmitEvent_def split_beta) (rule exI, rule refl)
qed

text \<open>The updates of the service without and with its configs, and of the configs.\<close>

definition sent0 :: "string list \<Rightarrow> Service" where
  "sent0 ids = \<lparr>Service_ID = ''b1'', Service_Name = ''web'', Service_RoleAttributes = [''http''], Service_ConfigIDs = ids\<rparr>"

definition intercept0 :: ServiceConfig where
  "intercept0 = (DService_Intercept (Service_FromResource service0))\<lparr>Config_ID := ''c1''\<rparr>"

definition host0 :: ServiceConfig where
  "host0 = (DService_Host (Service_FromResource service0))\<lparr>Config_ID := ''c2''\<rparr>"

definition synced0 :: "scall list" where
  "synced0 = [SZ_UpdateService (sent0 []) (Inr (Some (sent0 []))), SZ_UpdateConfig intercept0 (Inr (Some intercept0)),
     SZ_UpdateConfig host0 (Inr (Some host0)), SZ_UpdateService (sent0 [''c1'', ''c2'']) (Inr (Some (sent0 [''c1'', ''c2''])))]"

definition routed0 :: "scall list" where
  "routed0 = found0 @ [SZ_FindPolicy (AccessPolicy_Name bind0) (Inr None),
     SZ_CreatePolicy bind0 (Inr (Some (bind0\<lparr>AccessPolicy_ID := ''p1''\<rparr>))), SZ_FindSERP ''web-only'' (Inr None)]"

lemma service0_facts:
  "DeletionTimestamp (ZS_Meta service0) = None" "EnsureFinalizer (ZS_Meta service0) zitiServiceFinalizer = (False, ZS_Meta service0)"
  "zitiServiceFinalizer \<in> set (Finalizers (ZS_Meta service0))"
  "validateServiceSpec service0 = None" "service_status_id service0 = ''b1''"
  "InterceptID (ConfigIDs (ZS_Status service0)) = ''c1''" "HostID (ConfigIDs (ZS_Status service0)) = ''c2''"
  "DService_Name (Service_FromResource service0) = ''web''" "DService_RoleAttributes (Service_FromResource service0) = [''http'']"
  "DService_ConfigIDs (Service_FromResource service0) = []"
  by code_simp+

lemma service0_body:
  "\<exists>res ys. run_state (service_body (srec service0) service0) s = (res, s\<lparr>trace := trace s @ synced0 @ routed0 @
     SZ_CreateSERP serp0 (Inr (Some (serp0\<lparr>SERP_ID := ''q1''\<rparr>))) # ys\<rparr>)"
proof -
  let ?s = "s\<lparr>trace := trace s @ synced0\<rparr>"
  have "run_state (service_body (srec service0) service0) s =
      run_state (service_routers (srec service0) service0_placed ''b1'') ?s"
    by (simp add: service_body_def service0_facts reconcileService_def reconcileConfig_def Service_Update_def effect_simps Let_def
        synced0_def sent0_def intercept0_def host0_def service0_placed_def)
  moreover obtain res ys where "run_state (service_routers (srec service0) service0_placed ''b1'') ?s = (res, ?s\<lparr>trace := trace ?s @ found0 @
     [SZ_FindPolicy (AccessPolicy_Name bind0) (Inr None), SZ_CreatePolicy bind0 (Inr (Some (bind0\<lparr>AccessPolicy_ID := ''p1''\<rparr>))),
      SZ_FindSERP ''web-only'' (Inr None), SZ_CreateSERP serp0 (Inr (Some (serp0\<lparr>SERP_ID := ''q1''\<rparr>)))] @ ys\<rparr>)"
    using routers0 by blast
  ultimately show ?thesis by (simp add: routed0_def) (rule exI, rule refl)
qed

lemma service0_calls:
  "\<exists>ys. trace_of (Service_Reconcile (srec service0) key0) = Service_Kube (KGet key0 (Inr service0)) # synced0 @ routed0 @
     SZ_CreateSERP serp0 (Inr (Some (serp0\<lparr>SERP_ID := ''q1''\<rparr>))) # ys"
proof -
  have "trace_of (Service_Reconcile (srec service0) key0) =
    trace (snd (run_state (service_body (srec service0) service0) (empty_sys\<lparr>trace := [Service_Kube (KGet key0 (Inr service0))]\<rparr>)))"
    by (simp add: Service_Reconcile_def reconcileFrame_def kube0_def effect_simps trace_of_def service0_facts)
  with service0_body [of "empty_sys\<lparr>trace := [Service_Kube (KGet key0 (Inr service0))]\<rparr>"] show ?thesis by auto
qed

lemma service1_calls:
  "trace_of (Service_Reconcile (srec service1) key0) =
     [Service_Kube (KGet key0 (Inr service1)), SZ_DeleteConfig ''c1'' None, SZ_DeleteConfig ''c2'' None, SZ_DeleteService ''b1'' None,
      Service_Kube (KUpdate service1_freed (Inr service1_freed)),
      Service_Kube (KEvent EventTypeNormal ''ServiceDeleted'' ''ZitiService backend state removed'')]"
  by code_simp

theorem Service_Reconcile_finalizer_witness:
  "\<exists>zs ys. trace_of (Service_Reconcile (srec service1) key0) = Service_Kube (KGet key0 (Inr service1)) # zs \<and>
     prefix (ys @ [Service_Kube (KUpdate service1_freed (Inr service1_freed))]) zs \<and>
     service_cleaned (srec service1 :: unit ZitiServiceReconciler) service1 ys"
proof -
  have "Service_Kube (KUpdate service1_freed (Inr service1_freed)) \<in> set (trace_of (Service_Reconcile (srec service1) key0))"
    by (simp add: service1_calls)
  from Service_Reconcile_finalizer [OF trace_of_run this]
  show ?thesis unfolding service1_calls by blast
qed

definition before_serp0 :: "scall list" where
  "before_serp0 = Service_Kube (KGet key0 (Inr service0)) # synced0 @ routed0"


theorem Service_Reconcile_strips_configs_witness:
  "\<exists>xs u ys answer. trace_of (Service_Reconcile (srec service0) key0) = Service_Kube (KGet key0 (Inr service0)) # xs \<and>
     xs = SZ_UpdateService u answer # ys \<and> Service_ID u = ''b1'' \<and> Service_ConfigIDs u = []"
proof -
  obtain xs where calls: "trace_of (Service_Reconcile (srec service0) key0) = Service_Kube (KGet key0 (Inr service0)) # xs"
    using service0_calls by blast
  then have "trace (snd (run_state (Service_Reconcile (srec service0) key0) empty_sys)) =
      trace empty_sys @ Service_Kube (KGet key0 (Inr service0)) # xs"
    by (simp add: trace_of_def)
  from Service_Reconcile_strips_configs [OF trace_of_run(1) this] calls show ?thesis by (simp add: service0_facts)
qed

definition failing_calls :: "scall list" where
  "failing_calls = trace_of (Service_Reconcile srec_failing key0)"

fun status_of :: "scall \<Rightarrow> ZitiService option" where
  "status_of (Service_Kube (KStatus obj (Inr u))) = (if obj = u then Some obj else None)"
| "status_of _ = None"

lemma status_of_Some: "status_of c = Some obj \<Longrightarrow> c = Service_Kube (KStatus obj (Inr obj))"
  by (induction c rule: status_of.induct) (auto split: if_splits)

definition created_intercept :: ServiceConfig where
  "created_intercept = DService_Intercept (Service_FromResource service0)"

lemma failing_run:
  "SZ_CreateConfig created_intercept (Inr (Some (created_intercept\<lparr>Config_ID := ''c9''\<rparr>))) \<in> set failing_calls"
  "SZ_CreateConfig (DService_Host (Service_FromResource service0)) (Inl (Coded 500 ''down'')) \<in> set failing_calls"
  "list_ex (\<lambda>c. map_option (\<lambda>obj. ConfigIDs (ZS_Status obj)) (status_of c) = Some \<lparr>InterceptID = [], HostID = []\<rparr>) failing_calls"
  unfolding failing_calls_def by code_simp+


section \<open>An access policy\<close>

text \<open>No identity resource matches the names, so the ids come from OpenZiti.\<close>

definition policy0 :: ZitiAccessPolicy where
  "policy0 = \<lparr>ZAP_Meta = live_meta zitiAccessPolicyFinalizer,
     ZAP_Spec = \<lparr>PolicySpec_Type = AccessPolicyTypeDial,
       IdentitySelector = \<lparr>MatchNames = [''bob''], MatchRoleAttributes = [''ops'']\<rparr>,
       ServiceSelector = \<lparr>MatchNames = [''web''], MatchRoleAttributes = []\<rparr>\<rparr>,
     ZAP_Status = \<lparr>PolicyStatus_Common = common0, ResolvedIdentityCount = 0, ResolvedServiceCount = 0\<rparr>\<rparr>"

definition policy1 :: ZitiAccessPolicy where
  "policy1 = policy0\<lparr>ZAP_Meta := gone_meta zitiAccessPolicyFinalizer,
     ZAP_Status := (ZAP_Status policy0)\<lparr>PolicyStatus_Common := common1\<rparr>\<rparr>"

definition policy1_freed :: ZitiAccessPolicy where
  "policy1_freed = policy1\<lparr>ZAP_Meta := (gone_meta zitiAccessPolicyFinalizer)\<lparr>Finalizers := []\<rparr>\<rparr>"

definition bob :: Identity where
  "bob = backend0\<lparr>Identity_ID := ''b2'', Identity_Name := ''bob''\<rparr>"

definition arec :: "ZitiAccessPolicy \<Rightarrow> 'w ZitiAccessPolicyReconciler" where
  "arec policy = \<lparr>Policy_Client = kube0 policy, List_Identities = (\<lambda>_ w. (Inr [identity0], w)),
     List_Services = (\<lambda>_ w. (Inr [service0], w)), has_IdentityService = True,
     Policy_ZitiClient = ziti0\<lparr>ListIdentities := (\<lambda>w. (Inr [backend0, bob], w)),
       CreateAccessPolicy := (\<lambda>x w. (Inr (Some (x\<lparr>AccessPolicy_ID := ''p1''\<rparr>)), w))\<rparr>\<rparr>"

definition granted0 :: AccessPolicy where
  "granted0 = \<lparr>AccessPolicy_ID = [], AccessPolicy_Name = ''sync'', AccessPolicy_Type = ''Dial'',
     AccessPolicy_IdentityRoles = [''@b2'', ''#ops''], AccessPolicy_ServiceRoles = [''@b1''],
     IdentityRolesRaw = [''@b2'', ''#ops''], ServiceRolesRaw = [''@b1''], AccessPolicy_Semantic = ''AnyOf''\<rparr>"

definition policy_reads0 :: "acall list" where
  "policy_reads0 = [Policy_Kube (KGet key0 (Inr policy0)), AK_Identities ''ns'' (Inr [identity0]), AK_Services ''ns'' (Inr [service0]),
     AZ_Identities (Inr [backend0, bob]), AZ_Find ''sync'' (Inr None)]"

lemma arec_simps [simp]:
  "Policy_Client (arec p) = kube0 p" "List_Identities (arec p) ns w = (Inr [identity0], w)" "List_Services (arec p) ns w = (Inr [service0], w)"
  "has_IdentityService (arec p)" "ListIdentities (Policy_ZitiClient (arec p)) w = (Inr [backend0, bob], w)"
  "CreateAccessPolicy (Policy_ZitiClient (arec p)) x w = (Inr (Some (x\<lparr>AccessPolicy_ID := ''p1''\<rparr>)), w)"
  "FindAccessPolicyByName (Policy_ZitiClient (arec p)) n w = (Inr None, w)"
  by (simp_all add: arec_def ziti0_def)

definition resolution0 :: selectorResolution where
  "resolution0 = \<lparr>resolution_identity = \<lparr>Resolved_IDs = [''b2''], Resolved_RoleAttributes = [''ops'']\<rparr>,
     resolution_service = \<lparr>Resolved_IDs = [''b1''], Resolved_RoleAttributes = []\<rparr>,
     identityCount = 1, serviceCount = 1, identityPending = 0, servicePending = 0\<rparr>"

lemma policy0_facts:
  "DeletionTimestamp (ZAP_Meta policy0) = None"
  "EnsureFinalizer (ZAP_Meta policy0) zitiAccessPolicyFinalizer = (False, ZAP_Meta policy0)"
  "validateAccessPolicySpec policy0 = None" "Meta_Namespace (ZAP_Meta policy0) = ''ns''" "Meta_Name (ZAP_Meta policy0) = ''sync''"
  "policy_status_id policy0 = []"
  by code_simp+

lemma selectors0:
  "foldl (resolveItem (IdentitySelector (ZAP_Spec policy0))) ([], 0, 0) [identity_item identity0] = ([], 0, 0)"
  "foldl (backendItem (IdentitySelector (ZAP_Spec policy0))) ([], 0) [backend0, bob] = ([''b2''], 1)"
  "foldl (resolveItem (ServiceSelector (ZAP_Spec policy0))) ([], 0, 0) [service_item service0] = ([''b1''], 1, 0)"
  "MatchRoleAttributes (IdentitySelector (ZAP_Spec policy0)) = [''ops'']" "MatchRoleAttributes (ServiceSelector (ZAP_Spec policy0)) = []"
  by code_simp+

lemma resolved0:
  "run_state (resolveSelectors (arec policy0) policy0) s = (Inr resolution0, s\<lparr>trace := trace s @
     [AK_Identities ''ns'' (Inr [identity0]), AK_Services ''ns'' (Inr [service0]), AZ_Identities (Inr [backend0, bob])]\<rparr>)"
  using selectors0
  by (simp add: resolveSelectors_def resolveBackendIdentitySelector_def Identity_List_def effect_simps Let_def policy0_facts resolution0_def
      del: foldl.simps)

lemma granted0:
  "toAccessPolicy [] (Policy_FromResource (policy0\<lparr>ZAP_Status := st\<rparr>) (resolution_identity resolution0) (resolution_service resolution0)) = granted0"
proof -
  have "selectorRoles (resolution_identity resolution0) = [''@b2'', ''#ops'']" "selectorRoles (resolution_service resolution0) = [''@b1'']"
    "PolicySpec_Type (ZAP_Spec policy0) = ''Dial''" by code_simp+
  then show ?thesis by (simp add: toAccessPolicy_def Policy_FromResource_def granted0_def policy0_facts policy_semanticAnyOf_def)
qed

lemma policy0_calls:
  "\<exists>ys. trace_of (Policy_Reconcile (arec policy0) key0) =
     policy_reads0 @ AZ_Create granted0 (Inr (Some (granted0\<lparr>AccessPolicy_ID := ''p1''\<rparr>))) # ys"
proof -
  have "policy_status_id (policy0\<lparr>ZAP_Status := (ZAP_Status policy0)\<lparr>ResolvedIdentityCount := i, ResolvedServiceCount := j\<rparr>\<rparr>) = []"
    "DPolicy_Name (Policy_FromResource (policy0\<lparr>ZAP_Status := st\<rparr>) a b) = ''sync''"
    "0 < identityCount resolution0" "0 < serviceCount resolution0" "identityPending resolution0 = 0" "servicePending resolution0 = 0" for i j st a b
    using policy0_facts(5,6) by (simp_all add: policy_status_id_def Policy_FromResource_def resolution0_def)
  then show ?thesis
    by (simp add: trace_of_def Policy_Reconcile_def reconcileFrame_def kube0_def effect_simps policy0_facts policy_body_def resolved0
        reconcilePolicy_def Policy_FindByName_def Policy_Create_def granted0 policy_reads0_def Let_def policy_finish_def
        policy_markReady_def markReady_def EmitEvent_def split_beta)
qed

lemma policy1_calls:
  "trace_of (Policy_Reconcile (arec policy1) key0) =
     [Policy_Kube (KGet key0 (Inr policy1)), AZ_Delete ''b1'' None, Policy_Kube (KUpdate policy1_freed (Inr policy1_freed)),
      Policy_Kube (KEvent EventTypeNormal ''PolicyDeleted'' ''ZitiAccessPolicy backend state removed'')]"
  by code_simp



end
