(* ===== verification/Management_Paging.thy ===== *)
theory Management_Paging
  imports Management_Sessions
begin

text \<open>
  The searches and lists of the management client read pages of 100 until a page is short. On
  a controller whose list does not change meanwhile they give what a search of the whole list
  gives, and they end; the page budget of the model plays no part once it is large enough.
\<close>

section \<open>Searching a list\<close>

lemma firstMatch_find: "firstMatch conv nameOf name items = find (\<lambda>x. nameOf x = name) (List.map_filter conv items)"
  by (induction items) (auto simp: List.map_filter_simps split: option.splits)

lemma find_append: "find Q (xs @ ys) = (case find Q xs of Some x \<Rightarrow> Some x | None \<Rightarrow> find Q ys)"
  by (induction xs) auto

lemma map_filter_append: "List.map_filter f (xs @ ys) = List.map_filter f xs @ List.map_filter f ys"
  by (simp add: List.map_filter_def)

lemma firstMatch_append:
  "firstMatch conv nameOf name (xs @ ys) =
     (case firstMatch conv nameOf name xs of Some x \<Rightarrow> Some x | None \<Rightarrow> firstMatch conv nameOf name ys)"
  by (simp add: firstMatch_find map_filter_append find_append split: option.split)

lemma readIdentities_append:
  "readIdentities (xs @ ys) =
     (case readIdentities xs of Inl err \<Rightarrow> Inl err | Inr found \<Rightarrow> map_sum id ((@) found) (readIdentities ys))"
  by (induction xs; cases "readIdentities ys") (auto split: sum.splits)

lemma readIdentities_Inr: "map (\<lambda>item. identityFromEnvelope (Some item)) items = map Inr found \<Longrightarrow> readIdentities items = Inr found"
  by (induction items arbitrary: found) auto

section \<open>Pages of a list\<close>

definition page :: "'d list \<Rightarrow> int \<Rightarrow> 'd list" where
  "page items offset = take 100 (drop (nat offset) items)"

lemma page_split: "0 \<le> offset \<Longrightarrow> drop (nat offset) items = page items offset @ drop (nat (offset + int (length (page items offset)))) items"
  unfolding page_def
  by (metis (no_types, lifting) append_take_drop_id drop_drop length_drop length_take min_def nat_int
      add.commute nat_add_distrib of_nat_0_le_iff drop_all nle_le)

lemma page_last: "length (page items offset) < 100 \<Longrightarrow> page items offset = drop (nat offset) items"
  by (auto simp: page_def min_def split: if_splits)

lemma page_length: "length (page items offset) \<le> 100"
  by (simp add: page_def)


lemma page_rest:
  "0 \<le> offset \<Longrightarrow> \<not> length (page items offset) < 100 \<Longrightarrow> length (drop (nat offset) items) < 100 * Suc pages \<Longrightarrow>
   length (drop (nat (offset + int (length (page items offset)))) items) < 100 * pages"
  by (auto simp: page_def nat_add_distrib min_def split: if_splits)

text \<open>A list operation whose answers are the pages of a fixed list.\<close>

definition lists :: "(int \<Rightarrow> ('a, 'w, error + 'd option list option) mio) \<Rightarrow> 'd option list \<Rightarrow> bool" where
  "lists list items \<longleftrightarrow> (\<forall>offset s. 0 \<le> offset \<longrightarrow> fst (run_state (list offset) s) = Inr (Some (page items offset)))"

lemma listsD: "lists list items \<Longrightarrow> 0 \<le> offset \<Longrightarrow> \<exists>s'. run_state (list offset) s = (Inr (Some (page items offset)), s')"
  unfolding lists_def by (metis prod.collapse)

lemma findPages_reference:
  assumes "lists list items" "0 \<le> offset" "length (drop (nat offset) items) < 100 * pages"
  shows "fst (run_state (findPages pages list action conv nameOf name offset) s) = Inr (firstMatch conv nameOf name (drop (nat offset) items))"
  using assms(2,3)
proof (induction pages arbitrary: offset s)
  case (Suc pages)
  let ?page = "page items offset"
  let ?next = "offset + int (length ?page)"
  obtain s' where run: "run_state (list offset) s = (Inr (Some ?page), s')" using listsD [OF assms(1) Suc.prems(1)] by blast
  note split = arg_cong [OF page_split [OF Suc.prems(1), of items], of "firstMatch conv nameOf name"]
  show ?case
  proof (cases "length ?page < 100")
    case True
    then have "drop (nat offset) items = ?page" by (rule page_last [symmetric])
    with run True show ?thesis by (auto simp: page_limit_def split: option.split simp del: length_drop drop_eq_Nil)
  next
    case False
    then have "length (drop (nat ?next) items) < 100 * pages"
      by (rule page_rest [OF Suc.prems(1) _ Suc.prems(2)])
    with Suc.IH [of ?next] Suc.prems(1) have
      "fst (run_state (findPages pages list action conv nameOf name ?next) s') = Inr (firstMatch conv nameOf name (drop (nat ?next) items))"
      by simp
    with run False show ?thesis unfolding split firstMatch_append
      by (cases "firstMatch conv nameOf name ?page") (auto simp: page_limit_def)
  qed
qed simp

text \<open>A budget with which a search ends is as good as any larger one.\<close>

lemma findPages_budget:
  "fst (run_state (findPages pages list action conv nameOf name offset) s) \<noteq> Inl Diverges \<Longrightarrow>
   run_state (findPages (pages + k) list action conv nameOf name offset) s =
   run_state (findPages pages list action conv nameOf name offset) s"
  by (induction pages arbitrary: offset s)
     (auto split: sum.splits option.splits prod.splits)


lemma listIdentityPages_reference:
  assumes "\<And>offset w. 0 \<le> offset \<Longrightarrow> fst (rest_List (api_Identity c) api page_limit offset w) = Inr (Some (Some (page items offset)))"
    and "0 \<le> offset" "length (drop (nat offset) items) < 100 * pages"
  shows "fst (run_state (listIdentityPages pages c api offset identities) s) =
    map_sum id ((@) identities) (readIdentities (drop (nat offset) items))"
  using assms(2,3)
proof (induction pages arbitrary: offset identities s)
  case (Suc pages)
  let ?page = "page items offset"
  let ?next = "offset + int (length ?page)"
  have answer: "fst (rest_List (api_Identity c) api 100 offset w) = Inr (Some (Some ?page))" for w
    using assms(1) Suc.prems(1) by (simp add: page_limit_def)
  note split = arg_cong [OF page_split [OF Suc.prems(1), of items], of readIdentities]
  show ?case
  proof (cases "length ?page < 100")
    case True
    then have "drop (nat offset) items = ?page" by (rule page_last [symmetric])
    with True show ?thesis
      by (cases "readIdentities ?page") (auto simp: effect_simps page_limit_def answer)
  next
    case False
    then have rest: "length (drop (nat ?next) items) < 100 * pages"
      by (rule page_rest [OF Suc.prems(1) _ Suc.prems(2)])
    have "0 \<le> ?next" using Suc.prems(1) by simp
    note IH = Suc.IH [OF this rest]
    show ?thesis unfolding split readIdentities_append using False IH
      by (cases "readIdentities ?page") (auto simp: effect_simps page_limit_def answer sum.map_comp comp_def id_def)
  qed
qed simp


section \<open>The operations of the interface\<close>

definition opens :: "('a, 'w) ManagementClient \<Rightarrow> (('a, 'w) mgmt, 'a mcall) sys \<Rightarrow> 'a \<Rightarrow> bool" where
  "opens c s api \<longleftrightarrow> fst (run_state (getOrAuthenticate c (loadCurrentConfig c) False) s) = Inr api"

lemma withClient_Inr:
  assumes "opens c s api" "\<And>s'. fst (run_state (fn api) s') = Inr r"
  shows "fst (run_state (withClient c fn) s) = Inr r"
proof -
  from assms(1) obtain s1 where "run_state (getOrAuthenticate c (loadCurrentConfig c) False) s = (Inr api, s1)"
    unfolding opens_def by (metis prod.collapse)
  moreover obtain s2 where "run_state (fn api) s1 = (Inr r, s2)" using assms(2) by (metis prod.collapse)
  ultimately show ?thesis by (simp add: useAuthenticatedClient_def)
qed

text \<open>A list call that answers with the pages of a fixed list.\<close>

definition serves :: "(int \<Rightarrow> int \<Rightarrow> 'w \<Rightarrow> (error + 'd list envelope) \<times> 'w) \<Rightarrow> 'd list \<Rightarrow> bool" where
  "serves list items \<longleftrightarrow> (\<forall>offset w. 0 \<le> offset \<longrightarrow> fst (list page_limit offset w) = Inr (Some (Some (page items offset))))"

lemma listPage_lists: "serves (rest_List R api) items \<Longrightarrow> lists (listPage R emb api) items"
  by (simp add: serves_def lists_def listPage_def effect_simps outer_def)

lemma findPages_all:
  "lists list items \<Longrightarrow> length items < 100 * pages \<Longrightarrow>
   fst (run_state (findPages pages list action conv nameOf name 0) s) = Inr (find (\<lambda>x. nameOf x = name) (List.map_filter conv items))"
  using findPages_reference [of list items 0] by (simp add: firstMatch_find)

lemma ListIdentities_all:
  assumes "opens c s api" "serves (rest_List (api_Identity c) api) items" "length items < 100 * page_budget c"
    and "map (\<lambda>item. identityFromEnvelope (Some item)) items = map Inr found"
  shows "fst (run_state (Mgmt_ListIdentities c) s) = Inr found"
  unfolding Mgmt_ListIdentities_def
proof (rule withClient_Inr [OF assms(1)])
  fix s' show "fst (run_state (listIdentityPages (page_budget c) c api 0 []) s') = Inr found"
    using listIdentityPages_reference [of c api items 0] assms(2,3) readIdentities_Inr [OF assms(4)]
    by (simp add: serves_def)
qed

lemma FindAccessPolicyByName_all:
  "opens c s api \<Longrightarrow> serves (rest_List (api_Policy c) api) policies \<Longrightarrow> length policies < 100 * page_budget c \<Longrightarrow>
   fst (run_state (Mgmt_FindAccessPolicyByName c name) s) =
     Inr (find (\<lambda>p. AccessPolicy_Name p = name) (List.map_filter (\<lambda>item. accessPolicyFromEnvelope (Some item)) policies))"
  unfolding Mgmt_FindAccessPolicyByName_def by (intro withClient_Inr findPages_all listPage_lists)

lemma FindServiceEdgeRouterPolicyByName_all:
  "opens c s api \<Longrightarrow> serves (rest_List (api_RouterPolicy c) api) rpolicies \<Longrightarrow> length rpolicies < 100 * page_budget c \<Longrightarrow>
   fst (run_state (Mgmt_FindServiceEdgeRouterPolicyByName c name) s) =
     Inr (find (\<lambda>p. SERP_Name p = name) (List.map_filter serviceEdgeRouterPolicyFromDetail rpolicies))"
  unfolding Mgmt_FindServiceEdgeRouterPolicyByName_def by (intro withClient_Inr findPages_all listPage_lists)

lemma FindEdgeRouterByName_all:
  "opens c s api \<Longrightarrow>
   \<forall>offset w. 0 \<le> offset \<longrightarrow> fst (api_EdgeRouters c api page_limit offset w) = Inr (Some (page routers offset)) \<Longrightarrow>
   length routers < 100 * page_budget c \<Longrightarrow>
   fst (run_state (Mgmt_FindEdgeRouterByName c name) s) =
     Inr (find (\<lambda>r. EdgeRouter_Name r = name) (List.map_filter edgeRouterFromDetail routers))"
  unfolding Mgmt_FindEdgeRouterByName_def
  by (intro withClient_Inr [of c s api] findPages_all) (simp_all add: lists_def effect_simps outer_def)

lemma FindIdentityByName_all:
  "fst (run_state (Mgmt_ListIdentities c) s) = Inr found \<Longrightarrow>
   fst (run_state (Mgmt_FindIdentityByName c name) s) = Inr (find (\<lambda>i. Identity_Name i = name) found)"
  by (simp add: Mgmt_FindIdentityByName_def split_beta)

lemma FindServiceByName_page:
  "opens c s api \<Longrightarrow> \<forall>w. fst (api_Services c api w) = Inr (Some first_page) \<Longrightarrow>
   fst (run_state (Mgmt_FindServiceByName c name) s) =
     Inr (find (\<lambda>v. Service_Name v = name) (List.map_filter (\<lambda>item. serviceFromEnvelope (Some item)) first_page))"
  unfolding Mgmt_FindServiceByName_def by (intro withClient_Inr [of c s api]) (simp_all add: effect_simps outer_def firstMatch_find)

text \<open>
  C20: On a controller whose lists do not change during an operation, the searches by name that
  read pages return the first object with that name in the whole list, or nothing when there
  is none, and the list of identities is the whole list: the paging neither skips nor repeats
  nor runs on. Objects without the fields the program needs are passed over by the searches.
  The search for a service reads only one page: it is a search of the page the controller
  sends first.
\<close>

theorem searches_reference:
  assumes "opens c s api"
  shows "(serves (rest_List (api_Policy c) api) policies \<and> length policies < 100 * page_budget c \<longrightarrow>
      fst (run_state (Mgmt_FindAccessPolicyByName c name) s) =
        Inr (find (\<lambda>p. AccessPolicy_Name p = name) (List.map_filter (\<lambda>item. accessPolicyFromEnvelope (Some item)) policies))) \<and>
    (serves (rest_List (api_RouterPolicy c) api) rpolicies \<and> length rpolicies < 100 * page_budget c \<longrightarrow>
      fst (run_state (Mgmt_FindServiceEdgeRouterPolicyByName c name) s) =
        Inr (find (\<lambda>p. SERP_Name p = name) (List.map_filter serviceEdgeRouterPolicyFromDetail rpolicies))) \<and>
    ((\<forall>offset w. 0 \<le> offset \<longrightarrow> fst (api_EdgeRouters c api page_limit offset w) = Inr (Some (page routers offset))) \<and>
      length routers < 100 * page_budget c \<longrightarrow>
      fst (run_state (Mgmt_FindEdgeRouterByName c name) s) =
        Inr (find (\<lambda>r. EdgeRouter_Name r = name) (List.map_filter edgeRouterFromDetail routers))) \<and>
    (serves (rest_List (api_Identity c) api) identities \<and> length identities < 100 * page_budget c \<and>
      map (\<lambda>item. identityFromEnvelope (Some item)) identities = map Inr found \<longrightarrow>
      fst (run_state (Mgmt_ListIdentities c) s) = Inr found \<and>
      fst (run_state (Mgmt_FindIdentityByName c name) s) = Inr (find (\<lambda>i. Identity_Name i = name) found)) \<and>
    ((\<forall>w. fst (api_Services c api w) = Inr (Some first_page)) \<longrightarrow>
      fst (run_state (Mgmt_FindServiceByName c name) s) =
        Inr (find (\<lambda>v. Service_Name v = name) (List.map_filter (\<lambda>item. serviceFromEnvelope (Some item)) first_page)))"
  using assms
  by (intro conjI impI; (elim conjE)?)
     (auto intro: FindAccessPolicyByName_all FindServiceEdgeRouterPolicyByName_all FindEdgeRouterByName_all
        ListIdentities_all FindIdentityByName_all FindServiceByName_page)

end
