(* ===== verification/Management_Store.thy ===== *)
theory Management_Store
  imports Management_Paging
begin

text \<open>
  The operations of the management client refine operations on a map from ids to objects: the
  abstract store is a step relation, and each operation, with its session, its status codes and
  its read-back, is one step of it. What differs between the five kinds of objects is the
  contract of a locale, interpreted for each of them.
\<close>

section \<open>The abstract store\<close>

datatype 'x store_op = Op_Get string | Op_Create 'x | Op_Update 'x | Op_Delete string

text \<open>
  \<open>made ident v\<close> is what the store holds of a new object \<open>v\<close>, \<open>replaced old v\<close> what an update
  with \<open>v\<close> makes of \<open>old\<close>.
\<close>

inductive store_step ::
  "('x \<Rightarrow> string) \<Rightarrow> (string \<Rightarrow> 'x \<Rightarrow> 'x) \<Rightarrow> ('x \<Rightarrow> 'x \<Rightarrow> 'x) \<Rightarrow> (string \<rightharpoonup> 'x) \<Rightarrow> 'x store_op \<Rightarrow> 'x option \<Rightarrow> (string \<rightharpoonup> 'x) \<Rightarrow> bool"
  for idOf made replaced where
  get: "store_step idOf made replaced st (Op_Get ident) (st ident) st"
| create: "st ident = None \<Longrightarrow> store_step idOf made replaced st (Op_Create v) (Some (made ident v)) (st(ident \<mapsto> made ident v))"
| update: "st (idOf v) = Some old \<Longrightarrow>
    store_step idOf made replaced st (Op_Update v) (Some (replaced old v)) (st(idOf v \<mapsto> replaced old v))"
| update_missing: "st (idOf v) = None \<Longrightarrow> st ident = None \<Longrightarrow>
    store_step idOf made replaced st (Op_Update v) (Some (made ident v)) (st(ident \<mapsto> made ident v))"
| delete: "store_step idOf made replaced st (Op_Delete ident) None (st(ident := None))"

inductive store_steps ::
  "('x \<Rightarrow> string) \<Rightarrow> (string \<Rightarrow> 'x \<Rightarrow> 'x) \<Rightarrow> ('x \<Rightarrow> 'x \<Rightarrow> 'x) \<Rightarrow> (string \<rightharpoonup> 'x) \<Rightarrow> ('x store_op \<times> 'x option) list \<Rightarrow> (string \<rightharpoonup> 'x) \<Rightarrow> bool"
  for idOf made replaced where
  finished: "store_steps idOf made replaced st [] st"
| step: "store_step idOf made replaced st op r st' \<Longrightarrow> store_steps idOf made replaced st' rs st'' \<Longrightarrow>
    store_steps idOf made replaced st ((op, r) # rs) st''"

section \<open>The controller\<close>

text \<open>
  What is relied on: loading credentials and logging in succeed and leave the objects alone; the
  calls of the REST interface answer 404 for an unknown id and otherwise read, replace or remove
  the object of that id; a create of a valid object chooses a new id.
\<close>

definition online :: "('a, 'w) ManagementClient \<Rightarrow> ('w \<Rightarrow> 's) \<Rightarrow> bool" where
  "online c store \<longleftrightarrow>
     (\<exists>load. loadConfig c = Some load \<and> (\<forall>w. \<exists>cfg w'. load w = (Inr cfg, w') \<and> store w' = store w)) \<and>
     (\<forall>cfg w. \<exists>api w'. authenticate c cfg w = (Inr api, w') \<and> store w' = store w)"

definition reads :: "('a, 'w, 'cr, 'up, 'd) crud \<Rightarrow> ('w \<Rightarrow> string \<rightharpoonup> 'd) \<Rightarrow> (string \<Rightarrow> 'd \<Rightarrow> bool) \<Rightarrow> bool" where
  "reads R store well \<longleftrightarrow> (\<forall>api ident w. \<exists>w'. store w' = store w \<and>
     (case store w ident of
        None \<Rightarrow> \<exists>msg. rest_Detail R api ident w = (Inl (Coded 404 msg), w')
      | Some d \<Rightarrow> rest_Detail R api ident w = (Inr (Some (Some d)), w') \<and> well ident d))"

definition creates ::
  "('a, 'w, 'cr, 'up, 'd) crud \<Rightarrow> ('w \<Rightarrow> string \<rightharpoonup> 'd) \<Rightarrow> ('x \<Rightarrow> bool) \<Rightarrow> ('x \<Rightarrow> 'cr) \<Rightarrow> (string \<Rightarrow> 'cr \<Rightarrow> 'd \<Rightarrow> bool) \<Rightarrow> bool" where
  "creates R store valid toCreate shows_made \<longleftrightarrow> (\<forall>api v w. valid v \<longrightarrow>
     (\<exists>ident d w'. rest_Create R api (toCreate v) w = (Inr (Some (Some ident)), w') \<and>
        store w ident = None \<and> shows_made ident (toCreate v) d \<and> store w' = (store w)(ident \<mapsto> d)))"

definition updates ::
  "('a, 'w, 'cr, 'up, 'd) crud \<Rightarrow> ('w \<Rightarrow> string \<rightharpoonup> 'd) \<Rightarrow> ('x \<Rightarrow> bool) \<Rightarrow> ('x \<Rightarrow> string) \<Rightarrow> ('x \<Rightarrow> 'up) \<Rightarrow> ('d \<Rightarrow> 'up \<Rightarrow> 'd \<Rightarrow> bool) \<Rightarrow> bool" where
  "updates R store valid idOf toUpdate shows_replaced \<longleftrightarrow> (\<forall>api v w. valid v \<longrightarrow> (\<exists>w'.
     (case store w (idOf v) of
        None \<Rightarrow> (\<exists>msg. rest_Update R api (idOf v) (toUpdate v) w = (Some (Coded 404 msg), w')) \<and> store w' = store w
      | Some old \<Rightarrow> (\<exists>d. rest_Update R api (idOf v) (toUpdate v) w = (None, w') \<and> shows_replaced old (toUpdate v) d \<and>
          store w' = (store w)(idOf v \<mapsto> d)))))"

definition deletes :: "('a, 'w, 'cr, 'up, 'd) crud \<Rightarrow> ('w \<Rightarrow> string \<rightharpoonup> 'd) \<Rightarrow> bool" where
  "deletes R store \<longleftrightarrow> (\<forall>api ident w. \<exists>w'.
     (case store w ident of
        None \<Rightarrow> (\<exists>msg. rest_Delete R api ident w = (Some (Coded 404 msg), w')) \<and> store w' = store w
      | Some _ \<Rightarrow> rest_Delete R api ident w = (None, w') \<and> store w' = (store w)(ident := None)))"

text \<open>The laws, instance by instance.\<close>

lemma readsD:
  "reads R store well \<Longrightarrow> store w ident = None \<Longrightarrow> \<exists>msg w'. rest_Detail R api ident w = (Inl (Coded 404 msg), w') \<and> store w' = store w"
  "reads R store well \<Longrightarrow> store w ident = Some d \<Longrightarrow>
     \<exists>w'. rest_Detail R api ident w = (Inr (Some (Some d)), w') \<and> store w' = store w \<and> well ident d"
  unfolding reads_def by (erule allE [where x = api], erule allE [where x = ident], erule allE [where x = w], fastforce)+

lemma updatesD:
  "updates R store valid idOf toUpdate shows_replaced \<Longrightarrow> valid v \<Longrightarrow> store w (idOf v) = None \<Longrightarrow>
     \<exists>msg w'. rest_Update R api (idOf v) (toUpdate v) w = (Some (Coded 404 msg), w') \<and> store w' = store w"
  "updates R store valid idOf toUpdate shows_replaced \<Longrightarrow> valid v \<Longrightarrow> store w (idOf v) = Some old \<Longrightarrow>
     \<exists>d w'. rest_Update R api (idOf v) (toUpdate v) w = (None, w') \<and> shows_replaced old (toUpdate v) d \<and> store w' = (store w)(idOf v \<mapsto> d)"
  unfolding updates_def by (erule allE [where x = api], erule allE [where x = v], erule allE [where x = w], fastforce)+

lemma deletesD:
  "deletes R store \<Longrightarrow> store w ident = None \<Longrightarrow>
     \<exists>msg w'. rest_Delete R api ident w = (Some (Coded 404 msg), w') \<and> store w' = store w"
  "deletes R store \<Longrightarrow> store w ident = Some old \<Longrightarrow>
     \<exists>w'. rest_Delete R api ident w = (None, w') \<and> store w' = (store w)(ident := None)"
  unfolding deletes_def by (erule allE [where x = api], erule allE [where x = ident], erule allE [where x = w], fastforce)+

text \<open>The objects as the program sees them.\<close>

definition objects_of :: "('d envelope \<Rightarrow> error + 'x option) \<Rightarrow> (string \<rightharpoonup> 'd) \<Rightarrow> string \<rightharpoonup> 'x" where
  "objects_of conv store = (\<lambda>ident. Option.bind (store ident) (\<lambda>d. case conv (Some (Some d)) of Inl _ \<Rightarrow> None | Inr v \<Rightarrow> v))"

lemma objects_of_upd [simp]:
  "conv (Some (Some d)) = Inr v \<Longrightarrow> objects_of conv (st(ident \<mapsto> d)) = (objects_of conv st)(ident := v)"
  "objects_of conv (st(ident := None)) = (objects_of conv st)(ident := None)"
  "st ident = None \<Longrightarrow> objects_of conv st ident = None"
  by (auto simp: objects_of_def)

section \<open>One operation on a session\<close>

abbreviation stored :: "('w \<Rightarrow> 's) \<Rightarrow> (('a, 'w) mgmt, 'c) sys \<Rightarrow> 's" where
  "stored store s \<equiv> store (outside (world s))"

lemma getOrAuthenticate_online:
  assumes "online c store"
  shows "\<exists>api s'. run_state (getOrAuthenticate c (loadCurrentConfig c) force) s = (Inr api, s') \<and> stored store s' = stored store s"
proof -
  from assms obtain load where load: "loadConfig c = Some load"
    "\<And>w. \<exists>cfg w'. load w = (Inr cfg, w') \<and> store w' = store w"
    and auth: "\<And>cfg w. \<exists>api w'. authenticate c cfg w = (Inr api, w') \<and> store w' = store w"
    unfolding online_def by blast
  obtain cfg w' where w': "load (outside (world s)) = (Inr cfg, w')" "store w' = stored store s" using load(2) by blast
  obtain api w'' where w'': "authenticate c cfg w' = (Inr api, w'')" "store w'' = store w'" using auth by blast
  show ?thesis using load(1) w' w''
    by (auto simp: getOrAuthenticate_def loadCurrentConfig_def effect_simps outer_def split: option.split)
qed

definition accepted :: "error + 'r \<Rightarrow> bool" where
  "accepted r \<longleftrightarrow> (case r of Inl err \<Rightarrow> \<not> shouldReauthenticate err | Inr _ \<Rightarrow> True)"

lemma accepted_simps [simp]: "accepted (Inr x)" "accepted (Inl (Coded 404 msg))"
  by (simp_all add: accepted_def shouldReauthenticate_def isStatusCode_def)

lemma withClient_online:
  assumes "online c store"
    and fn: "\<And>api s1. stored store s1 = stored store s \<Longrightarrow>
      \<exists>r s'. run_state (fn api) s1 = (r, s') \<and> accepted r \<and> Q r (stored store s')"
  shows "\<exists>r s'. run_state (withClient c fn) s = (r, s') \<and> accepted r \<and> Q r (stored store s')"
proof -
  obtain api s1 where "run_state (getOrAuthenticate c (loadCurrentConfig c) False) s = (Inr api, s1)" "stored store s1 = stored store s"
    using getOrAuthenticate_online [OF assms(1)] by blast
  moreover from fn [OF this(2)] obtain r s' where "run_state (fn api) s1 = (r, s')" "accepted r" "Q r (stored store s')" by blast
  ultimately show ?thesis by (cases r) (simp_all add: useAuthenticatedClient_def accepted_def)
qed

lemma deleteOp_online:
  assumes "deletes R store"
  shows "\<exists>s'. run_state (deleteOp R emb action ident api) s = (Inr (), s') \<and> stored store s' = (stored store s)(ident := None)"
proof (cases "stored store s ident")
  case None
  from deletesD(1) [OF assms None, of api] obtain msg w' where
    "rest_Delete R api ident (outside (world s)) = (Some (Coded 404 msg), w')" "store w' = stored store s" by blast
  with None show ?thesis
    by (auto simp: deleteOp_def effect_simps outer_def isStatusCode_def fun_upd_idem)
next
  case (Some old)
  from deletesD(2) [OF assms Some, of api] obtain w' where
    "rest_Delete R api ident (outside (world s)) = (None, w')" "store w' = (stored store s)(ident := None)" by blast
  then show ?thesis by (simp add: deleteOp_def effect_simps outer_def)
qed

lemma orCreate_missing: "run_state update s = (Inl (Coded 404 msg), s1) \<Longrightarrow> run_state (orCreate update create) s = run_state create s1"
  by (simp add: orCreate_def isStatusCode_def)

lemma orCreate_Inr: "run_state update s = (Inr x, s1) \<Longrightarrow> run_state (orCreate update create) s = (Inr x, s1)"
  by (simp add: orCreate_def)

section \<open>Sequences of operations\<close>

record ('a, 'w, 'x) operations =
  op_Get :: "string \<Rightarrow> ('a, 'w, error + 'x option) mio"
  op_Create :: "'x \<Rightarrow> ('a, 'w, error + 'x option) mio"
  op_Update :: "'x \<Rightarrow> ('a, 'w, error + 'x option) mio"
  op_Delete :: "string \<Rightarrow> ('a, 'w, error + unit) mio"

definition object_op :: "('a, 'w, 'x) operations \<Rightarrow> 'x store_op \<Rightarrow> ('a, 'w, error + 'x option) mio" where
  "object_op ops op = (case op of
       Op_Get ident \<Rightarrow> op_Get ops ident
     | Op_Create v \<Rightarrow> op_Create ops v
     | Op_Update v \<Rightarrow> op_Update ops v
     | Op_Delete ident \<Rightarrow> do { r \<leftarrow> op_Delete ops ident; State_Monad.return (map_sum id (\<lambda>_. None) r) })"

fun object_ops :: "('a, 'w, 'x) operations \<Rightarrow> 'x store_op list \<Rightarrow> ('a, 'w, ('x store_op \<times> (error + 'x option)) list) mio" where
  "object_ops ops [] = State_Monad.return []"
| "object_ops ops (op # rest) = do {
     r \<leftarrow> object_op ops op;
     rs \<leftarrow> object_ops ops rest;
     State_Monad.return ((op, r) # rs)
   }"

definition valid_op :: "('x \<Rightarrow> bool) \<Rightarrow> 'x store_op \<Rightarrow> bool" where
  "valid_op valid op \<longleftrightarrow> (case op of Op_Create v \<Rightarrow> valid v | Op_Update v \<Rightarrow> valid v | _ \<Rightarrow> True)"

definition simulates ::
  "('x \<Rightarrow> string) \<Rightarrow> (string \<Rightarrow> 'x \<Rightarrow> 'x) \<Rightarrow> ('x \<Rightarrow> 'x \<Rightarrow> 'x) \<Rightarrow> ('x \<Rightarrow> bool) \<Rightarrow> ('w \<Rightarrow> string \<rightharpoonup> 'x) \<Rightarrow> ('a, 'w, 'x) operations \<Rightarrow> bool" where
  "simulates idOf made replaced valid objects ops \<longleftrightarrow> (\<forall>op s. valid_op valid op \<longrightarrow>
     (\<exists>r s'. run_state (object_op ops op) s = (Inr r, s') \<and>
        store_step idOf made replaced (stored objects s) op r (stored objects s')))"

text \<open>A run whose results are those of the abstract store.\<close>

definition refines ::
  "('x \<Rightarrow> string) \<Rightarrow> (string \<Rightarrow> 'x \<Rightarrow> 'x) \<Rightarrow> ('x \<Rightarrow> 'x \<Rightarrow> 'x) \<Rightarrow> ('x \<Rightarrow> bool) \<Rightarrow> ('w \<Rightarrow> string \<rightharpoonup> 'x) \<Rightarrow> ('a, 'w, 'x) operations \<Rightarrow> bool" where
  "refines idOf made replaced valid objects ops \<longleftrightarrow> (\<forall>todo s rs s'. list_all (valid_op valid) todo \<longrightarrow>
     run_state (object_ops ops todo) s = (rs, s') \<longrightarrow>
     (\<exists>results. rs = map (\<lambda>(op, r). (op, Inr r)) results \<and> map fst results = todo \<and>
        store_steps idOf made replaced (stored objects s) results (stored objects s')))"

lemma simulates_refines:
  assumes "simulates idOf made replaced valid objects ops"
  shows "refines idOf made replaced valid objects ops"
  unfolding refines_def
proof (intro allI impI)
  fix todo s rs s'
  assume "list_all (valid_op valid) todo" "run_state (object_ops ops todo) s = (rs, s')"
  then show "\<exists>results. rs = map (\<lambda>(op, r). (op, Inr r)) results \<and> map fst results = todo \<and>
        store_steps idOf made replaced (stored objects s) results (stored objects s')"
  proof (induction todo arbitrary: s rs)
    case Nil
    then show ?case by (auto intro: store_steps.finished)
  next
    case (Cons op todo)
    obtain r s1 where op: "run_state (object_op ops op) s = (Inr r, s1)"
      "store_step idOf made replaced (stored objects s) op r (stored objects s1)"
      using assms Cons.prems(1) unfolding simulates_def by (metis list.pred_inject(2))
    obtain rs1 where rest: "run_state (object_ops ops todo) s1 = (rs1, s')" and rs: "rs = (op, Inr r) # rs1"
      using Cons.prems(2) op(1) by (auto split: prod.splits)
    from Cons.IH [OF _ rest] Cons.prems(1) obtain results where "rs1 = map (\<lambda>(op, r). (op, Inr r)) results" "map fst results = todo"
      "store_steps idOf made replaced (stored objects s1) results (stored objects s')" by auto
    with op(2) rs show ?case by (intro exI [of _ "(op, r) # results"]) (auto intro: store_steps.step)
  qed
qed

lemma refinesD:
  "refines idOf made replaced valid objects ops \<Longrightarrow> list_all (valid_op valid) todo \<Longrightarrow> run_state (object_ops ops todo) s = (rs, s') \<Longrightarrow>
   \<exists>results. rs = map (\<lambda>(op, r). (op, Inr r)) results \<and> map fst results = todo \<and>
     store_steps idOf made replaced (stored objects s) results (stored objects s')"
  unfolding refines_def by blast

section \<open>A kind of object\<close>

text \<open>
  What the conversions of a kind promise: a stored detail can be read, and the detail of a new or
  an updated object reads as the object that was written. \<open>well\<close> says of a detail that it can be
  stored under an id, \<open>shows_made\<close> and \<open>shows_replaced\<close> say what the controller shows of a body.
\<close>

locale object_kind =
  fixes conv :: "'d envelope \<Rightarrow> error + 'x option" and toCreate :: "'x \<Rightarrow> 'cr" and toUpdate :: "'x \<Rightarrow> 'up"
    and idOf :: "'x \<Rightarrow> string" and clear :: "'x \<Rightarrow> 'x" and made :: "string \<Rightarrow> 'x \<Rightarrow> 'x" and replaced :: "'x \<Rightarrow> 'x \<Rightarrow> 'x" and valid :: "'x \<Rightarrow> bool"
    and well :: "string \<Rightarrow> 'd \<Rightarrow> bool" and shows_made :: "string \<Rightarrow> 'cr \<Rightarrow> 'd \<Rightarrow> bool" and shows_replaced :: "'d \<Rightarrow> 'up \<Rightarrow> 'd \<Rightarrow> bool"
  assumes wf_id: "well ident d \<Longrightarrow> TrimSpace ident = ident \<and> ident \<noteq> []"
    and conv_stored: "well ident d \<Longrightarrow> \<exists>v. conv (Some (Some d)) = Inr (Some v)"
    and conv_made: "valid v \<Longrightarrow> well ident d \<Longrightarrow> shows_made ident (toCreate v) d \<Longrightarrow> conv (Some (Some d)) = Inr (Some (made ident v))"
    and conv_replaced: "valid v \<Longrightarrow> well (idOf v) old \<Longrightarrow> well (idOf v) d \<Longrightarrow> shows_replaced old (toUpdate v) d \<Longrightarrow>
      conv (Some (Some old)) = Inr (Some u) \<Longrightarrow> conv (Some (Some d)) = Inr (Some (replaced u v))"
    and valid_clear: "valid v \<Longrightarrow> valid (clear v)" and made_clear: "made ident (clear v) = made ident v"
begin

lemma wf_stored: "reads R store well \<Longrightarrow> store w ident = Some d \<Longrightarrow> well ident d"
  using readsD(2) by fast

lemma getByID_online:
  assumes "reads R store well" "stored store s ident = Some d"
  shows "\<exists>s'. run_state (getByIDWithAPI R emb action conv api (Some (Some ident))) s = (conv (Some (Some d)), s') \<and>
    stored store s' = stored store s"
proof -
  from readsD(2) [OF assms, of api] obtain w' where
    "rest_Detail R api ident (outside (world s)) = (Inr (Some (Some d)), w')" "store w' = stored store s" "well ident d" by blast
  with wf_id show ?thesis by (simp add: getByIDWithAPI_def extractCreatedID_def effect_simps outer_def)
qed

lemma getOp_online:
  assumes "reads R store well"
  shows "\<exists>s'. run_state (getOp R emb action conv ident api) s = (Inr (objects_of conv (stored store s) ident), s') \<and>
     stored store s' = stored store s"
proof (cases "stored store s ident")
  case None
  from readsD(1) [OF assms None, of api] obtain msg w' where
    "rest_Detail R api ident (outside (world s)) = (Inl (Coded 404 msg), w')" "store w' = stored store s" by blast
  with None show ?thesis by (simp add: getOp_def effect_simps outer_def isStatusCode_def)
next
  case (Some d)
  from readsD(2) [OF assms Some, of api] obtain w' where
    "rest_Detail R api ident (outside (world s)) = (Inr (Some (Some d)), w')" "store w' = stored store s" "well ident d" by blast
  moreover from conv_stored [OF this(3)] obtain v where "conv (Some (Some d)) = Inr (Some v)" ..
  ultimately show ?thesis using Some by (simp add: getOp_def effect_simps outer_def objects_of_def)
qed

lemma createOp_online:
  assumes laws: "reads R store well" "creates R store valid toCreate shows_made" and v: "valid v"
  shows "\<exists>r s'. run_state (createOp R emb action getAction conv (toCreate v) api) s = (Inr r, s') \<and>
     store_step idOf made replaced (objects_of conv (stored store s)) (Op_Create v) r (objects_of conv (stored store s'))"
proof -
  from laws(2) v obtain ident d w' where create: "rest_Create R api (toCreate v) (outside (world s)) = (Inr (Some (Some ident)), w')"
    and new: "stored store s ident = None" and d: "shows_made ident (toCreate v) d" and w': "store w' = (stored store s)(ident \<mapsto> d)"
    unfolding creates_def by metis
  define s1 where "s1 = snd (run_state (call (\<lambda>r. emb (R_Create api (toCreate v) r)) (outer (rest_Create R api (toCreate v)))) s)"
  have s1: "stored store s1 = (stored store s)(ident \<mapsto> d)" using create w' by (simp add: s1_def effect_simps outer_def)
  then have some: "stored store s1 ident = Some d" by simp
  have conv: "conv (Some (Some d)) = Inr (Some (made ident v))" by (rule conv_made [OF v wf_stored [OF laws(1) some] d])
  from getByID_online [OF laws(1) some, of emb getAction api] conv obtain s' where
    "run_state (getByIDWithAPI R emb getAction conv api (Some (Some ident))) s1 = (Inr (Some (made ident v)), s')"
    "stored store s' = stored store s1" by auto
  moreover have "store_step idOf made replaced (objects_of conv (stored store s)) (Op_Create v) (Some (made ident v))
      (objects_of conv (stored store s1))"
    using s1 conv new by (auto intro!: store_step.create)
  ultimately show ?thesis using create by (auto simp: createOp_def s1_def effect_simps outer_def)
qed

lemma updateOp_missing:
  assumes "updates R store valid idOf toUpdate shows_replaced" "valid v" "stored store s (idOf v) = None"
  shows "\<exists>msg s'. run_state (updateOp R emb action getAction conv (idOf v) (toUpdate v) api) s = (Inl (Coded 404 msg), s') \<and>
     stored store s' = stored store s"
proof -
  from updatesD(1) [OF assms, of api] obtain msg w' where
    "rest_Update R api (idOf v) (toUpdate v) (outside (world s)) = (Some (Coded 404 msg), w')" "store w' = stored store s" by blast
  then show ?thesis by (simp add: updateOp_def effect_simps outer_def isStatusCode_def)
qed

lemma updateOp_online:
  assumes laws: "reads R store well" "updates R store valid idOf toUpdate shows_replaced" and v: "valid v"
    and old: "stored store s (idOf v) = Some old"
  shows "\<exists>r s'. run_state (updateOp R emb action getAction conv (idOf v) (toUpdate v) api) s = (Inr r, s') \<and>
     store_step idOf made replaced (objects_of conv (stored store s)) (Op_Update v) r (objects_of conv (stored store s'))"
proof -
  from updatesD(2) [OF laws(2) v old, of api] obtain d w' where
    update: "rest_Update R api (idOf v) (toUpdate v) (outside (world s)) = (None, w')"
    and d: "shows_replaced old (toUpdate v) d" and w': "store w' = (stored store s)(idOf v \<mapsto> d)" by blast
  define s1 where "s1 = snd (run_state (call (\<lambda>r. emb (R_Update api (idOf v) (toUpdate v) r)) (outer (rest_Update R api (idOf v) (toUpdate v)))) s)"
  have s1: "stored store s1 = (stored store s)(idOf v \<mapsto> d)" using update w' by (simp add: s1_def effect_simps outer_def)
  then have some: "stored store s1 (idOf v) = Some d" by simp
  note wfs = wf_stored [OF laws(1) old] wf_stored [OF laws(1) some]
  from conv_stored [OF wfs(1)] obtain u where u: "conv (Some (Some old)) = Inr (Some u)" ..
  with old have seen: "objects_of conv (stored store s) (idOf v) = Some u" by (simp add: objects_of_def)
  have conv: "conv (Some (Some d)) = Inr (Some (replaced u v))" by (rule conv_replaced [OF v wfs d u])
  from getByID_online [OF laws(1) some, of emb getAction api] conv obtain s' where
    "run_state (getByIDWithAPI R emb getAction conv api (Some (Some (idOf v)))) s1 = (Inr (Some (replaced u v)), s')"
    "stored store s' = stored store s1" by auto
  moreover have "store_step idOf made replaced (objects_of conv (stored store s)) (Op_Update v) (Some (replaced u v))
      (objects_of conv (stored store s1))"
    using s1 conv seen by (auto intro!: store_step.update)
  ultimately show ?thesis using update by (auto simp: updateOp_def s1_def effect_simps outer_def)
qed

lemma get_step:
  assumes "online c store" "reads R store well"
  shows "\<exists>s'. run_state (withClient c (getOp R emb action conv ident)) s = (Inr (objects_of conv (stored store s) ident), s') \<and>
    stored store s' = stored store s"
  using withClient_online [OF assms(1), of s "getOp R emb action conv ident"
      "\<lambda>r st. r = Inr (objects_of conv (stored store s) ident) \<and> st = stored store s"]
    getOp_online [OF assms(2), of emb action ident] by fastforce

lemma delete_step:
  assumes "online c store" "deletes R store"
  shows "\<exists>s'. run_state (withClient c (deleteOp R emb action ident)) s = (Inr (), s') \<and>
    stored store s' = (stored store s)(ident := None)"
  using withClient_online [OF assms(1), of s "deleteOp R emb action ident" "\<lambda>r st. r = Inr () \<and> st = (stored store s)(ident := None)"]
    deleteOp_online [OF assms(2), of emb action ident] by fastforce

lemma create_step:
  fixes c :: "('a, 'w) ManagementClient"
  assumes "online c store"
    and fn: "\<And>api (s1 :: (('a, 'w) mgmt, 'a mcall) sys). \<exists>r s'. run_state (fn api) s1 = (Inr r, s') \<and>
      store_step idOf made replaced (objects_of conv (stored store s1)) (Op_Create v) r (objects_of conv (stored store s'))"
  shows "\<exists>r s'. run_state (withClient c fn) s = (Inr r, s') \<and>
    store_step idOf made replaced (objects_of conv (stored store s)) (Op_Create v) r (objects_of conv (stored store s'))"
  using withClient_online [OF assms(1), of s fn
      "\<lambda>r st. \<exists>x. r = Inr x \<and> store_step idOf made replaced (objects_of conv (stored store s)) (Op_Create v) x (objects_of conv st)"] fn
  by (metis accepted_simps(1))

lemma update_missing:
  fixes c :: "('a, 'w) ManagementClient" and s :: "(('a, 'w) mgmt, 'a mcall) sys"
  assumes "online c store" "updates R store valid idOf toUpdate shows_replaced" "valid v" "stored store s (idOf v) = None"
  shows "\<exists>msg s1. run_state (withClient c (updateOp R emb action getAction conv (idOf v) (toUpdate v))) s = (Inl (Coded 404 msg), s1) \<and>
    stored store s1 = stored store s"
  using withClient_online [OF assms(1), of s "updateOp R emb action getAction conv (idOf v) (toUpdate v)"
      "\<lambda>r st. (\<exists>msg. r = Inl (Coded 404 msg)) \<and> st = stored store s"]
    updateOp_missing [OF assms(2,3), of _ emb action getAction] assms(4) by (metis accepted_simps(2))

lemma update_found:
  fixes c :: "('a, 'w) ManagementClient" and s :: "(('a, 'w) mgmt, 'a mcall) sys"
  assumes "online c store" "reads R store well" "updates R store valid idOf toUpdate shows_replaced" "valid v"
    "stored store s (idOf v) = Some old"
  shows "\<exists>r s1. run_state (withClient c (updateOp R emb action getAction conv (idOf v) (toUpdate v))) s = (Inr r, s1) \<and>
    store_step idOf made replaced (objects_of conv (stored store s)) (Op_Update v) r (objects_of conv (stored store s1))"
  using withClient_online [OF assms(1), of s "updateOp R emb action getAction conv (idOf v) (toUpdate v)"
      "\<lambda>r st. \<exists>x. r = Inr x \<and> store_step idOf made replaced (objects_of conv (stored store s)) (Op_Update v) x (objects_of conv st)"]
    updateOp_online [OF assms(2-4), of _ old emb action getAction] assms(5) by (metis accepted_simps(1))

text \<open>Operations of this shape simulate the store.\<close>

lemma operations_simulate:
  fixes c :: "('a, 'w) ManagementClient"
  assumes laws: "online c store" "reads R store well" "updates R store valid idOf toUpdate shows_replaced" "deletes R store"
    and get: "\<And>ident. op_Get ops ident = withClient c (getOp R emb a1 conv ident)"
    and update: "\<And>v. op_Update ops v =
      orCreate (withClient c (updateOp R emb a2 a3 conv (idOf v) (toUpdate v))) (op_Create ops (clear v))"
    and delete: "\<And>ident. op_Delete ops ident = withClient c (deleteOp R emb a4 ident)"
    and create: "\<And>v s. valid v \<Longrightarrow> \<exists>r s'. run_state (op_Create ops v) s = (Inr r, s') \<and>
      store_step idOf made replaced (objects_of conv (stored store s)) (Op_Create v) r (objects_of conv (stored store s'))"
  shows "simulates idOf made replaced valid (\<lambda>w. objects_of conv (store w)) ops"
  unfolding simulates_def
proof (intro allI impI)
  fix op and s :: "(('a, 'w) mgmt, 'a mcall) sys" assume op: "valid_op valid op"
  let ?step = "\<lambda>op r s'. store_step idOf made replaced (objects_of conv (stored store s)) op r (objects_of conv (stored store s'))"
  show "\<exists>r s'. run_state (object_op ops op) s = (Inr r, s') \<and> ?step op r s'"
  proof (cases op)
    case (Op_Get ident)
    with get_step [OF laws(1,2), of emb a1 ident s] show ?thesis by (auto simp: object_op_def get intro: store_step.get)
  next
    case (Op_Create v)
    with op create show ?thesis by (simp add: object_op_def valid_op_def)
  next
    case (Op_Update v)
    with op have v: "valid v" by (simp add: valid_op_def)
    show ?thesis
    proof (cases "stored store s (idOf v)")
      case None
      from update_missing [OF laws(1,3) v None, of emb a2 a3] obtain msg s1 where
        "run_state (withClient c (updateOp R emb a2 a3 conv (idOf v) (toUpdate v))) s = (Inl (Coded 404 msg), s1)"
        "stored store s1 = stored store s" by blast
      moreover from create [OF valid_clear [OF v], of s1] obtain r s2 where "run_state (op_Create ops (clear v)) s1 = (Inr r, s2)"
        "store_step idOf made replaced (objects_of conv (stored store s1)) (Op_Create (clear v)) r (objects_of conv (stored store s2))"
        by blast
      ultimately have "run_state (op_Update ops v) s = (Inr r, s2)" "?step (Op_Update v) r s2"
        using None by (auto simp: update orCreate_missing made_clear elim!: store_step.cases intro!: store_step.update_missing)
      with Op_Update show ?thesis by (auto simp: object_op_def)
    next
      case (Some old)
      from update_found [OF laws(1-3) v Some, of emb a2 a3] obtain r s1 where
        "run_state (withClient c (updateOp R emb a2 a3 conv (idOf v) (toUpdate v))) s = (Inr r, s1)" "?step (Op_Update v) r s1" by blast
      with Op_Update show ?thesis by (auto simp: object_op_def update orCreate_Inr)
    qed
  next
    case (Op_Delete ident)
    with delete_step [OF laws(1,4), of emb a4 ident s] show ?thesis
      by (auto simp: object_op_def delete intro: store_step.delete)
  qed
qed

end

end
