(* ===== verification/Management_Kinds.thy ===== *)
theory Management_Kinds
  imports Management_Store
begin

text \<open>
  The five kinds of objects the management client keeps on the controller. Each kind says what
  the controller shows of its bodies, is an instance of the contract \<open>object_kind\<close>, and so its
  operations refine the abstract store.
\<close>

section \<open>What the controller keeps\<close>

text \<open>
  \<open>stored_...\<close>: a detail has the id it is stored under and the fields the program needs. An
  update shows what its body says under the id the object has.
\<close>

definition usable_id :: "string \<Rightarrow> bool" where
  "usable_id ident \<longleftrightarrow> TrimSpace ident = ident \<and> ident \<noteq> []"

definition updated :: "('d \<Rightarrow> string option) \<Rightarrow> (string \<Rightarrow> 'up \<Rightarrow> 'd \<Rightarrow> bool) \<Rightarrow> 'd \<Rightarrow> 'up \<Rightarrow> 'd \<Rightarrow> bool" where
  "updated getID shows old b d \<longleftrightarrow> (\<exists>ident. getID old = Some ident \<and> shows ident b d)"

lemma updated_Some [simp]: "getID old = Some ident \<Longrightarrow> updated getID shows old b d \<longleftrightarrow> shows ident b d"
  by (simp add: updated_def)

definition stored_identity :: "string \<Rightarrow> IdentityDetail \<Rightarrow> bool" where
  "stored_identity ident d \<longleftrightarrow> usable_id ident \<and> ID_ID d = Some ident \<and>
     (\<exists>n ty. ID_Name d = Some n \<and> ID_TypeName d = Some ty \<and> TrimSpace n \<noteq> [] \<and> TrimSpace ty \<noteq> [])"

definition stored_service :: "string \<Rightarrow> ServiceDetail \<Rightarrow> bool" where
  "stored_service ident d \<longleftrightarrow> usable_id ident \<and> SD_ID d = Some ident \<and> (\<exists>n. SD_Name d = Some n)"

definition stored_config :: "string \<Rightarrow> ConfigDetail \<Rightarrow> bool" where
  "stored_config ident d \<longleftrightarrow> usable_id ident \<and> CD_ID d = Some ident \<and>
     (\<exists>n ty. CD_Name d = Some n \<and> CD_TypeName d = Some ty \<and> TrimSpace ty \<noteq> [])"

definition stored_policy :: "string \<Rightarrow> PolicyDetail \<Rightarrow> bool" where
  "stored_policy ident d \<longleftrightarrow> usable_id ident \<and> PD_ID d = Some ident \<and>
     (\<exists>n ty sem. PD_Name d = Some n \<and> PD_Type d = Some ty \<and> PD_Semantic d = Some sem)"

definition stored_router_policy :: "string \<Rightarrow> RouterPolicyDetail \<Rightarrow> bool" where
  "stored_router_policy ident d \<longleftrightarrow> usable_id ident \<and> RPD_ID d = Some ident \<and>
     (\<exists>n sem. RPD_Name d = Some n \<and> RPD_Semantic d = Some sem)"

section \<open>Identities\<close>

text \<open>
  The bodies do not carry the external id: a new identity has none, and \<open>ext\<close> is what an update
  makes of it (the program relies on neither answer).
\<close>

definition external_id :: "IdentityDetail \<Rightarrow> string" where
  "external_id d = (case ID_ExternalID d of None \<Rightarrow> [] | Some x \<Rightarrow> x)"

definition updated_identity :: "(string \<Rightarrow> string) \<Rightarrow> IdentityDetail \<Rightarrow> IdentityBody \<Rightarrow> IdentityDetail \<Rightarrow> bool" where
  "updated_identity ext old b d \<longleftrightarrow> ID_ID d = ID_ID old \<and> ID_Name d = Some (IB_Name b) \<and> ID_TypeName d = Some (IB_Type b) \<and>
     ID_RoleAttributes d = Some (IB_RoleAttributes b) \<and> external_id d = ext (external_id old)"

definition valid_identity :: "Identity \<Rightarrow> bool" where
  "valid_identity v \<longleftrightarrow> TrimSpace (Identity_Name v) \<noteq> [] \<and> TrimSpace (Identity_Type v) \<noteq> []"

definition made_identity :: "string \<Rightarrow> Identity \<Rightarrow> Identity" where
  "made_identity ident v = v\<lparr>Identity_ID := ident, CreateOTT := False, ExternalID := []\<rparr>"

definition replaced_identity :: "(string \<Rightarrow> string) \<Rightarrow> Identity \<Rightarrow> Identity \<Rightarrow> Identity" where
  "replaced_identity ext old v = v\<lparr>CreateOTT := False, ExternalID := ext (ExternalID old)\<rparr>"

lemma conv_identity_stored:
  "stored_identity ident d \<Longrightarrow> conv_identity (Some (Some d)) = Inr (Some \<lparr>Identity_ID = ident, Identity_Name = the (ID_Name d),
     Identity_Type = the (ID_TypeName d), RoleAttributes = (case ID_RoleAttributes d of None \<Rightarrow> [] | Some xs \<Rightarrow> xs), CreateOTT = False,
     ExternalID = external_id d\<rparr>)"
  by (auto simp: stored_identity_def usable_id_def conv_identity_def identityFromEnvelope_def external_id_def)

interpretation identity_kind: object_kind conv_identity toIdentityCreate toIdentityUpdate Identity_ID
  "\<lambda>v. v\<lparr>Identity_ID := []\<rparr>" made_identity "replaced_identity ext" valid_identity stored_identity shows_identity "updated_identity ext"
  for ext
proof unfold_locales
  fix ident d assume "stored_identity ident d"
  then show "TrimSpace ident = ident \<and> ident \<noteq> []" by (simp add: stored_identity_def usable_id_def)
qed (auto simp: conv_identity_stored shows_identity_def updated_identity_def toIdentityCreate_def toIdentityUpdate_def made_identity_def
    replaced_identity_def valid_identity_def external_id_def [of d for d])

section \<open>Services\<close>

definition made_service :: "string \<Rightarrow> Service \<Rightarrow> Service" where
  "made_service ident v = v\<lparr>Service_ID := ident\<rparr>"

lemma conv_service_stored:
  "stored_service ident d \<Longrightarrow> conv_service (Some (Some d)) = Inr (Some \<lparr>Service_ID = ident, Service_Name = the (SD_Name d),
     Service_RoleAttributes = (case SD_RoleAttributes d of None \<Rightarrow> [] | Some xs \<Rightarrow> xs), Service_ConfigIDs = SD_Configs d\<rparr>)"
  by (auto simp: stored_service_def conv_service_def serviceFromEnvelope_def)

interpretation service_kind: object_kind conv_service toServiceCreate toServiceUpdate Service_ID
  "\<lambda>v. v\<lparr>Service_ID := []\<rparr>" made_service "\<lambda>old v. v" "\<lambda>_. True" stored_service shows_service "updated SD_ID shows_service"
proof unfold_locales
  fix ident d assume "stored_service ident d"
  then show "TrimSpace ident = ident \<and> ident \<noteq> []" by (simp add: stored_service_def usable_id_def)
next
  fix v d old u assume stored: "stored_service (Service_ID v) old" "stored_service (Service_ID v) d"
    and d: "updated SD_ID shows_service old (toServiceUpdate v) d"
  from stored(1) have "SD_ID old = Some (Service_ID v)" by (simp add: stored_service_def)
  with stored d show "conv_service (Some (Some d)) = Inr (Some v)"
    by (simp add: conv_service_stored shows_service_def toServiceUpdate_def)
qed (auto simp: conv_service_stored shows_service_def toServiceCreate_def made_service_def)

section \<open>Access policies and router policies\<close>

definition made_policy :: "string \<Rightarrow> AccessPolicy \<Rightarrow> AccessPolicy" where
  "made_policy ident v = v\<lparr>AccessPolicy_ID := ident, AccessPolicy_IdentityRoles := IdentityRolesRaw v,
     AccessPolicy_ServiceRoles := ServiceRolesRaw v\<rparr>"

lemma conv_policy_stored:
  "stored_policy ident d \<Longrightarrow> conv_policy (Some (Some d)) = Inr (Some \<lparr>AccessPolicy_ID = ident, AccessPolicy_Name = the (PD_Name d),
     AccessPolicy_Type = the (PD_Type d), AccessPolicy_IdentityRoles = PD_IdentityRoles d, AccessPolicy_ServiceRoles = PD_ServiceRoles d,
     IdentityRolesRaw = PD_IdentityRoles d, ServiceRolesRaw = PD_ServiceRoles d, AccessPolicy_Semantic = the (PD_Semantic d)\<rparr>)"
  by (auto simp: stored_policy_def conv_policy_def accessPolicyFromEnvelope_def)

interpretation policy_kind: object_kind conv_policy toAccessPolicyCreate toAccessPolicyUpdate AccessPolicy_ID
  "\<lambda>v. v\<lparr>AccessPolicy_ID := []\<rparr>" made_policy "\<lambda>old v. made_policy (AccessPolicy_ID v) v" "\<lambda>_. True" stored_policy shows_policy
  "updated PD_ID shows_policy"
proof unfold_locales
  fix ident d assume "stored_policy ident d"
  then show "TrimSpace ident = ident \<and> ident \<noteq> []" by (simp add: stored_policy_def usable_id_def)
next
  fix v d old u assume stored: "stored_policy (AccessPolicy_ID v) old" "stored_policy (AccessPolicy_ID v) d"
    and d: "updated PD_ID shows_policy old (toAccessPolicyUpdate v) d"
  from stored(1) have "PD_ID old = Some (AccessPolicy_ID v)" by (simp add: stored_policy_def)
  with stored d show "conv_policy (Some (Some d)) = Inr (Some (made_policy (AccessPolicy_ID v) v))"
    by (simp add: conv_policy_stored shows_policy_def toAccessPolicyUpdate_def made_policy_def)
qed (auto simp: conv_policy_stored shows_policy_def toAccessPolicyCreate_def made_policy_def)

text \<open>The name of a router policy is read without the space around it.\<close>

definition valid_router_policy :: "ServiceEdgeRouterPolicy \<Rightarrow> bool" where
  "valid_router_policy v \<longleftrightarrow> TrimSpace (SERP_Name v) = SERP_Name v"

definition made_router_policy :: "string \<Rightarrow> ServiceEdgeRouterPolicy \<Rightarrow> ServiceEdgeRouterPolicy" where
  "made_router_policy ident v = v\<lparr>SERP_ID := ident\<rparr>"

lemma conv_router_policy_stored:
  "stored_router_policy ident d \<Longrightarrow> conv_router_policy (Some (Some d)) = Inr (Some \<lparr>SERP_ID = ident,
     SERP_Name = TrimSpace (the (RPD_Name d)), EdgeRouterRoles = RPD_EdgeRouterRoles d, SERP_ServiceRoles = RPD_ServiceRoles d,
     SERP_Semantic = the (RPD_Semantic d)\<rparr>)"
  by (auto simp: stored_router_policy_def usable_id_def conv_router_policy_def serviceEdgeRouterPolicyFromEnvelope_def
      serviceEdgeRouterPolicyFromDetail_def)

interpretation router_policy_kind: object_kind conv_router_policy toServiceEdgeRouterPolicyCreate toServiceEdgeRouterPolicyUpdate SERP_ID
  "\<lambda>v. v\<lparr>SERP_ID := []\<rparr>" made_router_policy "\<lambda>old v. v" valid_router_policy stored_router_policy shows_router_policy
  "updated RPD_ID shows_router_policy"
proof unfold_locales
  fix ident d assume "stored_router_policy ident d"
  then show "TrimSpace ident = ident \<and> ident \<noteq> []" by (simp add: stored_router_policy_def usable_id_def)
next
  fix v d old u assume v: "valid_router_policy v" and stored: "stored_router_policy (SERP_ID v) old" "stored_router_policy (SERP_ID v) d"
    and d: "updated RPD_ID shows_router_policy old (toServiceEdgeRouterPolicyUpdate v) d"
  from stored(1) have "RPD_ID old = Some (SERP_ID v)" by (simp add: stored_router_policy_def)
  with v stored d show "conv_router_policy (Some (Some d)) = Inr (Some v)"
    by (simp add: conv_router_policy_stored shows_router_policy_def toServiceEdgeRouterPolicyUpdate_def valid_router_policy_def)
qed (auto simp: conv_router_policy_stored shows_router_policy_def toServiceEdgeRouterPolicyCreate_def made_router_policy_def
    valid_router_policy_def)

section \<open>Configs\<close>

text \<open>
  The controller has a list of config types, each with an id and a name. A create needs the id
  of the type, which the client looks up by name; an update does not send the type.
\<close>

type_synonym config_types = "(string \<times> string) list"

definition type_detail :: "string \<times> string \<Rightarrow> NamedDetail option" where
  "type_detail t = Some \<lparr>ND_ID = Some (fst t), ND_Name = Some (snd t)\<rparr>"

definition type_id :: "config_types \<Rightarrow> string \<Rightarrow> string option" where
  "type_id types name = map_option (\<lambda>t. TrimSpace (fst t)) (find (\<lambda>t. TrimSpace (snd t) = name) types)"

definition valid_config :: "config_types \<Rightarrow> ServiceConfig \<Rightarrow> bool" where
  "valid_config types v \<longleftrightarrow> TrimSpace (Config_Type v) = Config_Type v \<and> Config_Type v \<noteq> [] \<and>
     (\<exists>i. type_id types (Config_Type v) = Some i \<and> map_of types i = Some (Config_Type v))"

definition create_config :: "config_types \<Rightarrow> ServiceConfig \<Rightarrow> ConfigCreate" where
  "create_config types v = toConfigCreate v (the (type_id types (Config_Type v)))"

definition made_config :: "string \<Rightarrow> ServiceConfig \<Rightarrow> ServiceConfig" where
  "made_config ident v = v\<lparr>Config_ID := ident\<rparr>"

definition replaced_config :: "ServiceConfig \<Rightarrow> ServiceConfig \<Rightarrow> ServiceConfig" where
  "replaced_config old v = v\<lparr>Config_Type := Config_Type old\<rparr>"

definition updated_config :: "ConfigDetail \<Rightarrow> ConfigBody \<Rightarrow> ConfigDetail \<Rightarrow> bool" where
  "updated_config old b d \<longleftrightarrow> CD_ID d = CD_ID old \<and> CD_Name d = Some (CB_Name b) \<and> CD_TypeName d = CD_TypeName old \<and>
     CD_Data d = Some (CB_Data b)"

lemma conv_config_stored:
  "stored_config ident d \<Longrightarrow> conv_config (Some (Some d)) = Inr (Some \<lparr>Config_ID = ident, Config_Name = the (CD_Name d),
     Config_Type = the (CD_TypeName d), Config_Payload = (case CD_Data d of None \<Rightarrow> [] | Some typed \<Rightarrow> typed)\<rparr>)"
  by (auto simp: stored_config_def conv_config_def configFromEnvelope_def)

interpretation config_kind: object_kind conv_config "create_config types" toConfigUpdate Config_ID
  "\<lambda>v. v\<lparr>Config_ID := []\<rparr>" made_config replaced_config "valid_config types" stored_config
  "\<lambda>ident. shows_config ident (\<lambda>i. the (map_of types i))" updated_config
  for types
proof unfold_locales
  fix ident d assume "stored_config ident d"
  then show "TrimSpace ident = ident \<and> ident \<noteq> []" by (simp add: stored_config_def usable_id_def)
qed (auto simp: conv_config_stored shows_config_def create_config_def toConfigCreate_def toConfigUpdate_def made_config_def
    replaced_config_def updated_config_def valid_config_def)


text \<open>The lookup of a type reads the pages of the list and leaves the controller as it is.\<close>

definition lists_types :: "('a, 'w) ManagementClient \<Rightarrow> config_types \<Rightarrow> ('w \<Rightarrow> 's) \<Rightarrow> bool" where
  "lists_types c types store \<longleftrightarrow> length types < 100 * page_budget c \<and>
     (\<forall>api offset w. 0 \<le> offset \<longrightarrow>
        (\<exists>w'. api_ConfigTypes c api page_limit offset w = (Inr (Some (map type_detail (page types offset))), w') \<and> store w' = store w))"

lemma type_id_append: "type_id (xs @ ys) name = (case type_id xs name of Some i \<Rightarrow> Some i | None \<Rightarrow> type_id ys name)"
  by (simp add: type_id_def find_append split: option.split)

lemma configTypeOnPage_types:
  "type_id ts name = None \<Longrightarrow> configTypeOnPage name count (map type_detail ts) = (count + length ts, None)"
  "type_id ts name = Some i \<Longrightarrow> \<exists>n. configTypeOnPage name count (map type_detail ts) = (n, Some i)"
  by (induction ts arbitrary: count) (auto simp: type_id_def type_detail_def split: if_splits)

lemma configTypePages_online:
  fixes c :: "('a, 'w) ManagementClient" and s :: "(('a, 'w) mgmt, 'a mcall) sys"
  assumes types: "lists_types c types store"
    and "0 \<le> offset" "length (drop (nat offset) types) < 100 * pages" "type_id (drop (nat offset) types) name = Some i"
  shows "\<exists>s'. run_state (configTypePages pages c api name offset) s = (Inr i, s') \<and> stored store s' = stored store s"
  using assms(2-4)
proof (induction pages arbitrary: offset s)
  case (Suc pages)
  let ?page = "page types offset"
  let ?next = "offset + int (length ?page)"
  obtain w' where answer: "api_ConfigTypes c api page_limit offset (outside (world s)) = (Inr (Some (map type_detail ?page)), w')"
    and w': "store w' = stored store s" using types Suc.prems(1) unfolding lists_types_def by blast
  define s1 where "s1 = snd (run_state (call (M_ConfigTypes api page_limit offset) (outer (api_ConfigTypes c api page_limit offset))) s)"
  have s1: "run_state (call (M_ConfigTypes api page_limit offset) (outer (api_ConfigTypes c api page_limit offset))) s =
      (Inr (Some (map type_detail ?page)), s1)" "stored store s1 = stored store s"
    using answer w' by (simp_all add: s1_def effect_simps outer_def)
  note split = arg_cong [OF page_split [OF Suc.prems(1), of types], of "\<lambda>ts. type_id ts name"]
  show ?case
  proof (cases "type_id ?page name")
    case (Some j)
    with split Suc.prems(3) have "j = i" by (simp add: type_id_append)
    with Some configTypeOnPage_types(2) [of ?page name i 0] obtain n where
      "configTypeOnPage name 0 (map type_detail ?page) = (n, Some i)" by auto
    with s1 show ?thesis by simp
  next
    case None
    with split Suc.prems(3) have later: "type_id (drop (nat ?next) types) name = Some i" by (simp add: type_id_append)
    have full: "\<not> length ?page < 100" using None Suc.prems(3) page_last [of types offset] by auto
    have "0 \<le> ?next" using Suc.prems(1) by simp
    from Suc.IH [OF this page_rest [OF Suc.prems(1) full Suc.prems(2)] later, of s1] obtain s' where
      "run_state (configTypePages pages c api name ?next) s1 = (Inr i, s')" "stored store s' = stored store s" using s1(2) by auto
    moreover have "configTypeOnPage name 0 (map type_detail ?page) = (length ?page, None)"
      using configTypeOnPage_types(1) [OF None, of 0] by simp
    ultimately show ?thesis using s1(1) full by (auto simp: page_limit_def)
  qed
qed simp

lemma resolveConfigTypeID_online:
  fixes c :: "('a, 'w) ManagementClient" and s :: "(('a, 'w) mgmt, 'a mcall) sys"
  assumes "lists_types c types store" "valid_config types v"
  shows "\<exists>s'. run_state (resolveConfigTypeIDWithAPI c api (Config_Type v)) s = (Inr (the (type_id types (Config_Type v))), s') \<and>
    stored store s' = stored store s"
  using configTypePages_online [OF assms(1), of 0 "page_budget c" "Config_Type v"] assms
  by (auto simp: resolveConfigTypeIDWithAPI_def lists_types_def valid_config_def Let_def)

section \<open>The operations\<close>

definition identity_operations :: "('a, 'w) ManagementClient \<Rightarrow> ('a, 'w, Identity) operations" where
  "identity_operations c = \<lparr>op_Get = Mgmt_GetIdentity c, op_Create = Mgmt_CreateIdentity c, op_Update = Mgmt_UpdateIdentity c,
     op_Delete = Mgmt_DeleteIdentity c\<rparr>"

definition service_operations :: "('a, 'w) ManagementClient \<Rightarrow> ('a, 'w, Service) operations" where
  "service_operations c = \<lparr>op_Get = Mgmt_GetService c, op_Create = Mgmt_CreateService c, op_Update = Mgmt_UpdateService c,
     op_Delete = Mgmt_DeleteService c\<rparr>"

definition config_operations :: "('a, 'w) ManagementClient \<Rightarrow> ('a, 'w, ServiceConfig) operations" where
  "config_operations c = \<lparr>op_Get = Mgmt_GetConfig c, op_Create = Mgmt_CreateConfig c, op_Update = Mgmt_UpdateConfig c,
     op_Delete = Mgmt_DeleteConfig c\<rparr>"

definition policy_operations :: "('a, 'w) ManagementClient \<Rightarrow> ('a, 'w, AccessPolicy) operations" where
  "policy_operations c = \<lparr>op_Get = Mgmt_GetAccessPolicy c, op_Create = Mgmt_CreateAccessPolicy c, op_Update = Mgmt_UpdateAccessPolicy c,
     op_Delete = Mgmt_DeleteAccessPolicy c\<rparr>"

definition router_policy_operations :: "('a, 'w) ManagementClient \<Rightarrow> ('a, 'w, ServiceEdgeRouterPolicy) operations" where
  "router_policy_operations c = \<lparr>op_Get = Mgmt_GetServiceEdgeRouterPolicy c, op_Create = Mgmt_CreateServiceEdgeRouterPolicy c,
     op_Update = Mgmt_UpdateServiceEdgeRouterPolicy c, op_Delete = Mgmt_DeleteServiceEdgeRouterPolicy c\<rparr>"

definition keeps_identities :: "('a, 'w) ManagementClient \<Rightarrow> (string \<Rightarrow> string) \<Rightarrow> ('w \<Rightarrow> string \<rightharpoonup> IdentityDetail) \<Rightarrow> bool" where
  "keeps_identities c ext store \<longleftrightarrow> online c store \<and> reads (api_Identity c) store stored_identity \<and>
     creates (api_Identity c) store valid_identity toIdentityCreate shows_identity \<and>
     updates (api_Identity c) store valid_identity Identity_ID toIdentityUpdate (updated_identity ext) \<and> deletes (api_Identity c) store"

definition keeps_services :: "('a, 'w) ManagementClient \<Rightarrow> ('w \<Rightarrow> string \<rightharpoonup> ServiceDetail) \<Rightarrow> bool" where
  "keeps_services c store \<longleftrightarrow> online c store \<and> reads (api_Service c) store stored_service \<and>
     creates (api_Service c) store (\<lambda>_. True) toServiceCreate shows_service \<and>
     updates (api_Service c) store (\<lambda>_. True) Service_ID toServiceUpdate (updated SD_ID shows_service) \<and> deletes (api_Service c) store"

definition keeps_configs :: "('a, 'w) ManagementClient \<Rightarrow> config_types \<Rightarrow> ('w \<Rightarrow> string \<rightharpoonup> ConfigDetail) \<Rightarrow> bool" where
  "keeps_configs c types store \<longleftrightarrow> online c store \<and> lists_types c types store \<and> reads (api_Config c) store stored_config \<and>
     creates (api_Config c) store (valid_config types) (create_config types) (\<lambda>ident. shows_config ident (\<lambda>i. the (map_of types i))) \<and>
     updates (api_Config c) store (valid_config types) Config_ID toConfigUpdate updated_config \<and> deletes (api_Config c) store"

definition keeps_policies :: "('a, 'w) ManagementClient \<Rightarrow> ('w \<Rightarrow> string \<rightharpoonup> PolicyDetail) \<Rightarrow> bool" where
  "keeps_policies c store \<longleftrightarrow> online c store \<and> reads (api_Policy c) store stored_policy \<and>
     creates (api_Policy c) store (\<lambda>_. True) toAccessPolicyCreate shows_policy \<and>
     updates (api_Policy c) store (\<lambda>_. True) AccessPolicy_ID toAccessPolicyUpdate (updated PD_ID shows_policy) \<and> deletes (api_Policy c) store"

definition keeps_router_policies :: "('a, 'w) ManagementClient \<Rightarrow> ('w \<Rightarrow> string \<rightharpoonup> RouterPolicyDetail) \<Rightarrow> bool" where
  "keeps_router_policies c store \<longleftrightarrow> online c store \<and> reads (api_RouterPolicy c) store stored_router_policy \<and>
     creates (api_RouterPolicy c) store valid_router_policy toServiceEdgeRouterPolicyCreate shows_router_policy \<and>
     updates (api_RouterPolicy c) store valid_router_policy SERP_ID toServiceEdgeRouterPolicyUpdate (updated RPD_ID shows_router_policy) \<and>
     deletes (api_RouterPolicy c) store"

section \<open>Refinement\<close>

lemma identities_refine:
  assumes "keeps_identities c ext store"
  shows "refines Identity_ID made_identity (replaced_identity ext) valid_identity (\<lambda>w. objects_of conv_identity (store w)) (identity_operations c)"
  using assms unfolding keeps_identities_def
  by (intro simulates_refines identity_kind.operations_simulate [of c store "api_Identity c" ext _ M_Identity])
     (auto simp: identity_operations_def Mgmt_GetIdentity_def Mgmt_UpdateIdentity_def Mgmt_CreateIdentity_def Mgmt_DeleteIdentity_def
        intro!: identity_kind.create_step identity_kind.createOp_online)

lemma services_refine:
  assumes "keeps_services c store"
  shows "refines Service_ID made_service (\<lambda>old v. v) (\<lambda>_. True) (\<lambda>w. objects_of conv_service (store w)) (service_operations c)"
  using assms unfolding keeps_services_def
  by (intro simulates_refines service_kind.operations_simulate [of c store "api_Service c" _ M_Service])
     (auto simp: service_operations_def Mgmt_GetService_def Mgmt_UpdateService_def Mgmt_CreateService_def Mgmt_DeleteService_def
        intro!: service_kind.create_step service_kind.createOp_online)

lemma createConfig_online:
  fixes c :: "('a, 'w) ManagementClient" and s :: "(('a, 'w) mgmt, 'a mcall) sys"
  assumes "keeps_configs c types store" "valid_config types v"
  shows "\<exists>r s'. run_state (Mgmt_CreateConfig c v) s = (Inr r, s') \<and>
    store_step Config_ID made_config replaced_config (objects_of conv_config (stored store s)) (Op_Create v) r
      (objects_of conv_config (stored store s'))"
  unfolding Mgmt_CreateConfig_def
proof (rule config_kind.create_step)
  show "online c store" using assms(1) by (simp add: keeps_configs_def)
next
  fix api and s1 :: "(('a, 'w) mgmt, 'a mcall) sys"
  from assms have laws: "lists_types c types store" "reads (api_Config c) store stored_config"
    "creates (api_Config c) store (valid_config types) (create_config types) (\<lambda>ident. shows_config ident (\<lambda>i. the (map_of types i)))"
    by (simp_all add: keeps_configs_def)
  obtain s2 where "run_state (resolveConfigTypeIDWithAPI c api (Config_Type v)) s1 = (Inr (the (type_id types (Config_Type v))), s2)"
    and s2: "stored store s2 = stored store s1" using resolveConfigTypeID_online [OF laws(1) assms(2), of api s1] by auto
  with config_kind.createOp_online [OF laws(2,3) assms(2), of M_Config "''create config''" "''get config''" api s2]
  show "\<exists>r s'. run_state (do {
       configTypeID \<leftarrow> resolveConfigTypeIDWithAPI c api (Config_Type v);
       case configTypeID of
         Inl err \<Rightarrow> State_Monad.return (Inl err)
       | Inr configTypeID \<Rightarrow> createOp (api_Config c) M_Config ''create config'' ''get config'' conv_config (toConfigCreate v configTypeID) api
     }) s1 = (Inr r, s') \<and>
    store_step Config_ID made_config replaced_config (objects_of conv_config (stored store s1)) (Op_Create v) r
      (objects_of conv_config (stored store s'))"
    by (simp add: create_config_def)
qed

lemma configs_refine:
  assumes "keeps_configs c types store"
  shows "refines Config_ID made_config replaced_config (valid_config types) (\<lambda>w. objects_of conv_config (store w)) (config_operations c)"
  using assms createConfig_online [OF assms] unfolding keeps_configs_def
  by (intro simulates_refines config_kind.operations_simulate [of c store "api_Config c" types _ M_Config])
     (auto simp: config_operations_def Mgmt_GetConfig_def Mgmt_UpdateConfig_def Mgmt_DeleteConfig_def)

lemma policies_refine:
  assumes "keeps_policies c store"
  shows "refines AccessPolicy_ID made_policy (\<lambda>old v. made_policy (AccessPolicy_ID v) v) (\<lambda>_. True)
    (\<lambda>w. objects_of conv_policy (store w)) (policy_operations c)"
  using assms unfolding keeps_policies_def
  by (intro simulates_refines policy_kind.operations_simulate [of c store "api_Policy c" _ M_Policy])
     (auto simp: policy_operations_def Mgmt_GetAccessPolicy_def Mgmt_UpdateAccessPolicy_def Mgmt_CreateAccessPolicy_def
        Mgmt_DeleteAccessPolicy_def intro!: policy_kind.create_step policy_kind.createOp_online)

lemma router_policies_refine:
  assumes "keeps_router_policies c store"
  shows "refines SERP_ID made_router_policy (\<lambda>old v. v) valid_router_policy
    (\<lambda>w. objects_of conv_router_policy (store w)) (router_policy_operations c)"
  using assms unfolding keeps_router_policies_def
  by (intro simulates_refines router_policy_kind.operations_simulate [of c store "api_RouterPolicy c" _ M_RouterPolicy])
     (auto simp: router_policy_operations_def Mgmt_GetServiceEdgeRouterPolicy_def Mgmt_UpdateServiceEdgeRouterPolicy_def
        Mgmt_CreateServiceEdgeRouterPolicy_def Mgmt_DeleteServiceEdgeRouterPolicy_def
        intro!: router_policy_kind.create_step router_policy_kind.createOp_online)


end
