(* ===== verification/Management_Tables.thy ===== *)
theory Management_Tables
  imports Management_Kinds
begin

text \<open>
  A sample controller that keeps the five kinds of objects in tables, on which the refinement of
  the abstract store is applied. A table is the list of the objects created so far, a deleted
  one being \<open>None\<close>; the id of the object at place \<open>n\<close> is the word of \<open>n + 1\<close> letters a.
\<close>

section \<open>Ids\<close>

definition id_of :: "nat \<Rightarrow> string" where
  "id_of n = replicate (Suc n) (CHR ''a'')"

definition place_of :: "string \<Rightarrow> nat option" where
  "place_of ident = (if ident \<noteq> [] \<and> id_of (length ident - 1) = ident then Some (length ident - 1) else None)"

lemma leading_a: "\<forall>r \<in> set rs. r = [] \<or> hd r \<noteq> CHR ''a'' \<Longrightarrow> leading rs (id_of n) = 0"
  by (auto simp: leading_eq_0_iff id_of_def neq_Nil_conv)

lemma space_runes_a: "\<forall>r \<in> set space_runes. r = [] \<or> hd r \<noteq> CHR ''a''" "\<forall>r \<in> set (map rev space_runes). r = [] \<or> hd r \<noteq> CHR ''a''"
  by code_simp+

lemma TrimSpace_id_of [simp]: "TrimSpace (id_of n) = id_of n"
proof -
  have rev: "rev (id_of n) = id_of n" by (simp only: id_of_def rev_replicate)
  show ?thesis
    unfolding TrimSpace_def using space_runes_a
    by (simp add: trim_leading_fixpoint leading_a rev del: set_map)
qed

lemma id_of_simps [simp]: "id_of n \<noteq> []" "place_of (id_of n) = Some n" "usable_id (id_of n)"
  by (simp_all add: usable_id_def) (simp_all add: id_of_def place_of_def)

lemma id_of_eq [simp]: "id_of m = id_of n \<longleftrightarrow> m = n"
  by (metis id_of_simps(2) option.inject)

lemma place_of_Some: "place_of ident = Some n \<longleftrightarrow> ident = id_of n"
  by (auto simp: place_of_def id_of_def split: if_splits)

section \<open>Tables\<close>

type_synonym 'd table = "'d option list"

text \<open>Only details that can be stored are shown.\<close>

definition look :: "(string \<Rightarrow> 'd \<Rightarrow> bool) \<Rightarrow> 'd table \<Rightarrow> string \<rightharpoonup> 'd" where
  "look well t ident = (case place_of ident of
       None \<Rightarrow> None
     | Some n \<Rightarrow> if n < length t then (case t ! n of None \<Rightarrow> None | Some d \<Rightarrow> if well ident d then Some d else None) else None)"

definition table_crud ::
  "(string \<Rightarrow> 'd \<Rightarrow> bool) \<Rightarrow> (string \<Rightarrow> 'cr \<Rightarrow> 'd) \<Rightarrow> ('d \<Rightarrow> 'up \<Rightarrow> 'd) \<Rightarrow> ('a, 'd table, 'cr, 'up, 'd) crud" where
  "table_crud well made upd = \<lparr>
     rest_Detail = (\<lambda>api ident t. (case look well t ident of None \<Rightarrow> Inl (Coded 404 ''not found'') | Some d \<Rightarrow> Inr (Some (Some d)), t)),
     rest_List = (\<lambda>api limit offset t. (Inr (Some (Some (take (nat limit) (drop (nat offset) t)))), t)),
     rest_Create = (\<lambda>api b t. (Inr (Some (Some (id_of (length t)))), t @ [Some (made (id_of (length t)) b)])),
     rest_Update = (\<lambda>api ident b t. case look well t ident of
         None \<Rightarrow> (Some (Coded 404 ''not found''), t)
       | Some d \<Rightarrow> (None, t[length ident - 1 := Some (upd d b)])),
     rest_Delete = (\<lambda>api ident t. case look well t ident of
         None \<Rightarrow> (Some (Coded 404 ''not found''), t)
       | Some d \<Rightarrow> (None, t[length ident - 1 := None]))\<rparr>"

lemma look_id_of: "look well t (id_of n) =
    (if n < length t then (case t ! n of None \<Rightarrow> None | Some d \<Rightarrow> if well (id_of n) d then Some d else None) else None)"
  by (simp add: look_def)

lemma look_Some: "look well t ident = Some d \<Longrightarrow> \<exists>n. ident = id_of n \<and> n < length t \<and> well ident d"
  by (auto simp: look_def place_of_Some split: option.splits if_splits)

lemma look_upd:
  "n < length t \<Longrightarrow> well (id_of n) d \<Longrightarrow> look well (t[n := Some d]) = (look well t)(id_of n \<mapsto> d)"
  "n < length t \<Longrightarrow> look well (t[n := None]) = (look well t)(id_of n := None)"
  "well (id_of (length t)) d \<Longrightarrow> look well (t @ [Some d]) = (look well t)(id_of (length t) \<mapsto> d)"
  by (auto simp: fun_eq_iff look_def place_of_Some nth_list_update nth_append less_Suc_eq split: option.split)

lemma length_id_of [simp]: "length (id_of n) = Suc n"
  by (simp add: id_of_def)

lemma table_reads: "reads (table_crud well made upd) (look well) well"
  unfolding reads_def
proof (intro allI)
  fix api ident t
  show "\<exists>t'. look well t' = look well t \<and> (case look well t ident of
      None \<Rightarrow> \<exists>msg. rest_Detail (table_crud well made upd) api ident t = (Inl (Coded 404 msg), t')
    | Some d \<Rightarrow> rest_Detail (table_crud well made upd) api ident t = (Inr (Some (Some d)), t') \<and> well ident d)"
    by (intro exI [of _ t]) (auto simp: table_crud_def dest: look_Some split: option.split)
qed

lemma table_creates:
  assumes "\<And>v n. valid v \<Longrightarrow> well (id_of n) (made (id_of n) (toCreate v)) \<and> shows_made (id_of n) (toCreate v) (made (id_of n) (toCreate v))"
  shows "creates (table_crud well made upd) (look well) valid toCreate shows_made"
  unfolding creates_def
proof (intro allI impI)
  fix api v and t assume "valid v"
  with assms [of v "length t"] look_upd(3) [of well t "made (id_of (length t)) (toCreate v)"]
  show "\<exists>ident d t'. rest_Create (table_crud well made upd) api (toCreate v) t = (Inr (Some (Some ident)), t') \<and> look well t ident = None \<and>
      shows_made ident (toCreate v) d \<and> look well t' = (look well t)(ident \<mapsto> d)"
    by (auto simp: table_crud_def look_id_of intro!: exI [of _ "made (id_of (length t)) (toCreate v)"])
qed

lemma table_updates:
  assumes "\<And>v old. valid v \<Longrightarrow> well (idOf v) old \<Longrightarrow> well (idOf v) (upd old (toUpdate v)) \<and> shows_replaced old (toUpdate v) (upd old (toUpdate v))"
  shows "updates (table_crud well made upd) (look well) valid idOf toUpdate shows_replaced"
  unfolding updates_def
proof (intro allI impI)
  fix api v and t assume v: "valid v"
  show "\<exists>t'. (case look well t (idOf v) of
      None \<Rightarrow> (\<exists>msg. rest_Update (table_crud well made upd) api (idOf v) (toUpdate v) t = (Some (Coded 404 msg), t')) \<and> look well t' = look well t
    | Some old \<Rightarrow> \<exists>d. rest_Update (table_crud well made upd) api (idOf v) (toUpdate v) t = (None, t') \<and> shows_replaced old (toUpdate v) d \<and>
        look well t' = (look well t)(idOf v \<mapsto> d))"
  proof (cases "look well t (idOf v)")
    case None
    then show ?thesis by (simp add: table_crud_def)
  next
    case (Some old)
    from look_Some [OF this] obtain n where n: "idOf v = id_of n" "n < length t" "well (idOf v) old" by blast
    with assms [OF v n(3)] Some look_upd(1) [of n t well "upd old (toUpdate v)"] show ?thesis by (auto simp: table_crud_def)
  qed
qed

lemma table_deletes: "deletes (table_crud well made upd) (look well)"
  unfolding deletes_def
proof (intro allI)
  fix api ident t
  show "\<exists>t'. (case look well t ident of
      None \<Rightarrow> (\<exists>msg. rest_Delete (table_crud well made upd) api ident t = (Some (Coded 404 msg), t')) \<and> look well t' = look well t
    | Some _ \<Rightarrow> rest_Delete (table_crud well made upd) api ident t = (None, t') \<and> look well t' = (look well t)(ident := None))"
    by (cases "look well t ident") (auto simp: table_crud_def look_upd dest!: look_Some)
qed

section \<open>A table of a larger world\<close>

definition at_table :: "('w \<Rightarrow> 't) \<Rightarrow> ('t \<Rightarrow> 'w \<Rightarrow> 'w) \<Rightarrow> ('t \<Rightarrow> 'r \<times> 't) \<Rightarrow> 'w \<Rightarrow> 'r \<times> 'w" where
  "at_table get put f w = (case f (get w) of (r, t) \<Rightarrow> (r, put t w))"

definition within :: "('w \<Rightarrow> 't) \<Rightarrow> ('t \<Rightarrow> 'w \<Rightarrow> 'w) \<Rightarrow> ('a, 't, 'cr, 'up, 'd) crud \<Rightarrow> ('a, 'w, 'cr, 'up, 'd) crud" where
  "within get put R = \<lparr>
     rest_Detail = (\<lambda>api ident. at_table get put (rest_Detail R api ident)),
     rest_List = (\<lambda>api limit offset. at_table get put (rest_List R api limit offset)),
     rest_Create = (\<lambda>api b. at_table get put (rest_Create R api b)),
     rest_Update = (\<lambda>api ident b. at_table get put (rest_Update R api ident b)),
     rest_Delete = (\<lambda>api ident. at_table get put (rest_Delete R api ident))\<rparr>"

lemma at_table_run: "f (get w) = (r, t) \<Longrightarrow> at_table get put f w = (r, put t w)"
  by (simp add: at_table_def)

lemmas within_simps = within_def at_table_run

lemma within_reads:
  assumes "\<And>t w. get (put t w) = t" "reads R store well"
  shows "reads (within get put R) (\<lambda>w. store (get w)) well"
  unfolding reads_def
proof (intro allI)
  fix api ident w
  show "\<exists>w'. store (get w') = store (get w) \<and> (case store (get w) ident of
      None \<Rightarrow> \<exists>msg. rest_Detail (within get put R) api ident w = (Inl (Coded 404 msg), w')
    | Some d \<Rightarrow> rest_Detail (within get put R) api ident w = (Inr (Some (Some d)), w') \<and> well ident d)"
  proof (cases "store (get w) ident")
    case None
    with readsD(1) [OF assms(2), of "get w" ident api] obtain msg t where
      "rest_Detail R api ident (get w) = (Inl (Coded 404 msg), t)" "store t = store (get w)" by blast
    with None show ?thesis by (intro exI [of _ "put t w"]) (simp add: within_simps assms(1))
  next
    case (Some d)
    with readsD(2) [OF assms(2), of "get w" ident d api] obtain t where
      "rest_Detail R api ident (get w) = (Inr (Some (Some d)), t)" "store t = store (get w)" "well ident d" by blast
    with Some show ?thesis by (intro exI [of _ "put t w"]) (simp add: within_simps assms(1))
  qed
qed

lemma within_creates:
  assumes "\<And>t w. get (put t w) = t" "creates R store valid toCreate shows_made"
  shows "creates (within get put R) (\<lambda>w. store (get w)) valid toCreate shows_made"
  unfolding creates_def
proof (intro allI impI)
  fix api v w assume "valid v"
  with assms(2) obtain ident d t where "rest_Create R api (toCreate v) (get w) = (Inr (Some (Some ident)), t)"
    "store (get w) ident = None" "shows_made ident (toCreate v) d" "store t = (store (get w))(ident \<mapsto> d)"
    unfolding creates_def by metis
  then show "\<exists>ident d w'. rest_Create (within get put R) api (toCreate v) w = (Inr (Some (Some ident)), w') \<and>
      store (get w) ident = None \<and> shows_made ident (toCreate v) d \<and> store (get w') = (store (get w))(ident \<mapsto> d)"
    by (intro exI [of _ ident] exI [of _ d] exI [of _ "put t w"]) (simp add: within_simps assms(1))
qed

lemma within_updates:
  assumes "\<And>t w. get (put t w) = t" "updates R store valid idOf toUpdate shows_replaced"
  shows "updates (within get put R) (\<lambda>w. store (get w)) valid idOf toUpdate shows_replaced"
  unfolding updates_def
proof (intro allI impI)
  fix api v w assume v: "valid v"
  show "\<exists>w'. (case store (get w) (idOf v) of
      None \<Rightarrow> (\<exists>msg. rest_Update (within get put R) api (idOf v) (toUpdate v) w = (Some (Coded 404 msg), w')) \<and>
        store (get w') = store (get w)
    | Some old \<Rightarrow> \<exists>d. rest_Update (within get put R) api (idOf v) (toUpdate v) w = (None, w') \<and> shows_replaced old (toUpdate v) d \<and>
        store (get w') = (store (get w))(idOf v \<mapsto> d))"
  proof (cases "store (get w) (idOf v)")
    case None
    with updatesD(1) [OF assms(2) v, of "get w" api] obtain msg t where
      "rest_Update R api (idOf v) (toUpdate v) (get w) = (Some (Coded 404 msg), t)" "store t = store (get w)" by blast
    with None show ?thesis by (intro exI [of _ "put t w"]) (simp add: within_simps assms(1))
  next
    case (Some old)
    with updatesD(2) [OF assms(2) v, of "get w" old api] obtain d t where "rest_Update R api (idOf v) (toUpdate v) (get w) = (None, t)"
      "shows_replaced old (toUpdate v) d" "store t = (store (get w))(idOf v \<mapsto> d)" by blast
    with Some show ?thesis by (intro exI [of _ "put t w"]) (auto simp: within_simps assms(1))
  qed
qed

lemma within_deletes:
  assumes "\<And>t w. get (put t w) = t" "deletes R store"
  shows "deletes (within get put R) (\<lambda>w. store (get w))"
  unfolding deletes_def
proof (intro allI)
  fix api ident w
  show "\<exists>w'. (case store (get w) ident of
      None \<Rightarrow> (\<exists>msg. rest_Delete (within get put R) api ident w = (Some (Coded 404 msg), w')) \<and> store (get w') = store (get w)
    | Some _ \<Rightarrow> rest_Delete (within get put R) api ident w = (None, w') \<and> store (get w') = (store (get w))(ident := None))"
  proof (cases "store (get w) ident")
    case None
    with deletesD(1) [OF assms(2), of "get w" ident api] obtain msg t where
      "rest_Delete R api ident (get w) = (Some (Coded 404 msg), t)" "store t = store (get w)" by blast
    with None show ?thesis by (intro exI [of _ "put t w"]) (simp add: within_simps assms(1))
  next
    case (Some old)
    with deletesD(2) [OF assms(2), of "get w" ident old api] obtain t where
      "rest_Delete R api ident (get w) = (None, t)" "store t = (store (get w))(ident := None)" by blast
    with Some show ?thesis by (intro exI [of _ "put t w"]) (simp add: within_simps assms(1))
  qed
qed

end
