(* ===== verification/Management_Retries.thy ===== *)
theory Management_Retries
  imports Management_Sessions
begin

text \<open>
  How often the management client sends a creating call. An operation is repeated once after
  the controller rejected its session, so a create can be sent twice, and it is sent twice even
  if the rejected call is the read-back after a create that succeeded.
\<close>

section \<open>Creating and rejected calls\<close>

fun rest_creating :: "('a, 'cr, 'up, 'd) rest_call \<Rightarrow> bool" where
  "rest_creating (R_Create _ _ _) = True"
| "rest_creating _ = False"

fun creating :: "'a mcall \<Rightarrow> bool" where
  "creating (M_Identity r) = rest_creating r"
| "creating (M_Service r) = rest_creating r"
| "creating (M_Config r) = rest_creating r"
| "creating (M_Policy r) = rest_creating r"
| "creating (M_RouterPolicy r) = rest_creating r"
| "creating (M_CreateEnrollment _ _ _ _) = True"
| "creating _ = False"

definition sum_error :: "error + 'r \<Rightarrow> error option" where
  "sum_error r = (case r of Inl err \<Rightarrow> Some err | Inr _ \<Rightarrow> None)"

lemma sum_error_simps [simp]: "sum_error (Inl err) = Some err" "sum_error (Inr x) = None"
  by (simp_all add: sum_error_def)

fun rest_error :: "('a, 'cr, 'up, 'd) rest_call \<Rightarrow> error option" where
  "rest_error (R_Detail _ _ r) = sum_error r"
| "rest_error (R_List _ _ _ r) = sum_error r"
| "rest_error (R_Create _ _ r) = sum_error r"
| "rest_error (R_Update _ _ _ r) = r"
| "rest_error (R_Delete _ _ r) = r"

fun call_error :: "'a mcall \<Rightarrow> error option" where
  "call_error (M_Load r) = sum_error r"
| "call_error (M_Auth _ r) = sum_error r"
| "call_error (M_Identity r) = rest_error r"
| "call_error (M_Service r) = rest_error r"
| "call_error (M_Config r) = rest_error r"
| "call_error (M_Policy r) = rest_error r"
| "call_error (M_RouterPolicy r) = rest_error r"
| "call_error (M_Patch _ _ _ r) = r"
| "call_error (M_Enrollments _ _ r) = sum_error r"
| "call_error (M_CreateEnrollment _ _ _ r) = sum_error r"
| "call_error (M_DetailEnrollment _ _ r) = sum_error r"
| "call_error (M_Services _ r) = sum_error r"
| "call_error (M_ConfigTypes _ _ _ r) = sum_error r"
| "call_error (M_EdgeRouters _ _ _ r) = sum_error r"

text \<open>A call on a session that the controller refused.\<close>

definition rejected :: "'a mcall \<Rightarrow> bool" where
  "rejected x \<longleftrightarrow> (\<exists>api err. call_session x = Some api \<and> call_error x = Some err \<and> shouldReauthenticate err)"

definition creations :: "'a mcall list \<Rightarrow> nat" where
  "creations xs = length (filter creating xs)"

lemma creations_simps [simp]:
  "creations [] = 0" "creations (x # xs) = (if creating x then Suc (creations xs) else creations xs)"
  "creations (xs @ ys) = creations xs + creations ys"
  by (simp_all add: creations_def)

definition asks_retry :: "error + 'r \<Rightarrow> bool" where
  "asks_retry r \<longleftrightarrow> (\<exists>err. r = Inl err \<and> shouldReauthenticate err)"

lemma asks_retry_simps [simp]:
  "\<not> asks_retry (Inr x)" "asks_retry (Inl err) \<longleftrightarrow> shouldReauthenticate err"
  by (simp_all add: asks_retry_def)

lemma shouldReauthenticate_simps [simp]:
  "shouldReauthenticate (wrapAPICallError action err) \<longleftrightarrow> shouldReauthenticate err"
  "shouldReauthenticate (Errorf_w action err) \<longleftrightarrow> shouldReauthenticate err"
  "\<not> shouldReauthenticate (New msg)" "\<not> shouldReauthenticate (Panic msg)" "\<not> shouldReauthenticate Diverges"
  by (simp_all add: shouldReauthenticate_def isStatusCode_def wrapAPICallError_def)

text \<open>
  \<open>sends n m\<close>: at most \<open>n\<close> creating calls, and an error that makes the client log in again comes
  from a rejected call.
\<close>

definition sends :: "nat \<Rightarrow> ('a, 'w, error + 'r) mio \<Rightarrow> bool" where
  "sends n m \<longleftrightarrow> yields m (\<lambda>xs r. creations xs \<le> n \<and> (asks_retry r \<longrightarrow> (\<exists>x \<in> set xs. rejected x)))"

lemma sends_return: "\<not> asks_retry r \<Longrightarrow> sends n (State_Monad.return r)"
  unfolding sends_def by (rule yields_return) simp

lemma extractCreatedID_no_retry: "extractCreatedID envelope = Inl err \<Longrightarrow> \<not> shouldReauthenticate err"
  by (auto simp: extractCreatedID_def split: option.splits if_splits)

lemma identityFromEnvelope_no_retry: "identityFromEnvelope envelope = Inl err \<Longrightarrow> \<not> shouldReauthenticate err"
  by (auto simp: identityFromEnvelope_def split: option.splits if_splits)

lemma readIdentities_no_retry: "readIdentities items = Inl err \<Longrightarrow> \<not> shouldReauthenticate err"
  by (induction items arbitrary: err)
     (auto split: sum.splits dest: identityFromEnvelope_no_retry simp: map_sum_def)

section \<open>Operations on one session\<close>

text \<open>The answers and the kinds of the calls of one kind of object.\<close>

locale rest_calls = rest_interface emb
  for emb :: "('a, 'cr, 'up, 'd) rest_call \<Rightarrow> 'a mcall" +
  assumes emb_creating [simp]: "creating (emb r) = rest_creating r"
    and emb_error [simp]: "call_error (emb r) = rest_error r"
begin

lemma rejected_emb [simp]: "rejected (emb r) \<longleftrightarrow> (\<exists>err. rest_error r = Some err \<and> shouldReauthenticate err)"
  by (simp add: rejected_def)

lemma getOp_sends:
  "(\<And>d. \<not> asks_retry (conv d)) \<Longrightarrow> sends 0 (getOp R emb action conv ident api)"
  unfolding sends_def getOp_def by (intro yields_intros) (auto split: sum.splits)

lemma getByIDWithAPI_sends:
  "(\<And>d. \<not> asks_retry (conv d)) \<Longrightarrow> sends 0 (getByIDWithAPI R emb action conv api envelope)"
  unfolding sends_def getByIDWithAPI_def
  by (intro yields_intros) (auto split: sum.splits dest: extractCreatedID_no_retry)

lemma createOp_sends:
  "(\<And>d. \<not> asks_retry (conv d)) \<Longrightarrow> sends 1 (createOp R emb action getAction conv body api)"
  unfolding sends_def createOp_def
  by (intro yields_intros yields_mono [OF getByIDWithAPI_sends [unfolded sends_def]]) auto

lemma updateOp_sends:
  "(\<And>d. \<not> asks_retry (conv d)) \<Longrightarrow> sends 0 (updateOp R emb action getAction conv ident body api)"
  unfolding sends_def updateOp_def
  by (intro yields_intros yields_mono [OF getByIDWithAPI_sends [unfolded sends_def]]) (auto split: if_splits)

lemma deleteOp_sends: "sends 0 (deleteOp R emb action ident api)"
  unfolding sends_def deleteOp_def by (intro yields_intros) (auto split: option.splits)

lemma listPage_sends: "sends 0 (listPage R emb api offset)"
  unfolding sends_def listPage_def
  by (intro yields_intros) (auto simp: asks_retry_def map_sum_def split: sum.splits)

end

interpretation identity_calls: rest_calls M_Identity by unfold_locales simp_all
interpretation service_calls: rest_calls M_Service by unfold_locales simp_all
interpretation config_calls: rest_calls M_Config by unfold_locales simp_all
interpretation policy_calls: rest_calls M_Policy by unfold_locales simp_all
interpretation router_policy_calls: rest_calls M_RouterPolicy by unfold_locales simp_all

lemma conv_no_retry [simp]:
  "\<not> asks_retry (conv_identity d)" "\<not> asks_retry (conv_service e)" "\<not> asks_retry (conv_config f)"
  "\<not> asks_retry (conv_policy g)" "\<not> asks_retry (conv_router_policy h)"
  by (auto simp: conv_identity_def conv_service_def conv_config_def conv_policy_def conv_router_policy_def asks_retry_def
      map_sum_def dest: identityFromEnvelope_no_retry split: sum.splits)

lemma findPages_sends:
  "(\<And>offset. sends 0 (list offset)) \<Longrightarrow> sends 0 (findPages pages list action conv nameOf name offset)"
proof (induction pages arbitrary: offset)
  case (Suc pages)
  then show ?case
    unfolding sends_def findPages.simps
    by (intro yields_intros yields_mono [OF Suc.prems [unfolded sends_def]] yields_mono [OF Suc.IH [unfolded sends_def]]) auto
qed (simp add: sends_return)

lemma listIdentityPages_sends: "sends 0 (listIdentityPages pages c api offset identities)"
proof (induction pages arbitrary: offset identities)
  case (Suc pages)
  then show ?case
    unfolding sends_def listIdentityPages.simps
    by (intro yields_intros yields_mono [OF Suc.IH [unfolded sends_def]]) (auto dest: readIdentities_no_retry)
qed (simp add: sends_return)

lemma configTypePages_sends: "sends 0 (configTypePages pages c api name offset)"
proof (induction pages arbitrary: offset)
  case (Suc pages)
  then show ?case
    unfolding sends_def configTypePages.simps
    by (intro yields_intros yields_mono [OF Suc.IH [unfolded sends_def]]) (auto simp: rejected_def)
qed (simp add: sends_return)

lemma resolveConfigTypeID_sends: "sends 0 (resolveConfigTypeIDWithAPI c api name)"
  unfolding resolveConfigTypeIDWithAPI_def by (auto simp: Let_def sends_return configTypePages_sends)

lemma createOTTEnrollment_sends: "sends 1 (createOTTEnrollmentWithAPI c api ident)"
  unfolding sends_def createOTTEnrollmentWithAPI_def
  by (intro yields_intros) (auto simp: rejected_def split: sum.splits dest: extractCreatedID_no_retry)

lemma enrollmentAfterConflict_sends:
  "yields (enrollmentAfterConflict c api ident err) (\<lambda>xs r. creations xs = 0 \<and>
     (asks_retry r \<longrightarrow> shouldReauthenticate err \<or> (\<exists>x \<in> set xs. rejected x)))"
  unfolding enrollmentAfterConflict_def Let_def
  by (intro yields_intros) (auto simp: rejected_def split: sum.splits)

lemma GetEnrollmentJWT_sends:
  "sends 1 (do {
     enrollments \<leftarrow> call (M_Enrollments api ident) (outer (api_Enrollments c api ident));
     case enrollments of
       Inl err \<Rightarrow> State_Monad.return (Inl (wrapAPICallError action err))
     | Inr payload \<Rightarrow> (
         let jwt = enrollmentJWTFromList (mc_uc c) payload
         in if TrimSpace jwt \<noteq> [] then State_Monad.return (Inr jwt)
            else do {
              created \<leftarrow> createOTTEnrollmentWithAPI c api ident;
              case created of
                Inl err \<Rightarrow> enrollmentAfterConflict c api ident err
              | Inr (Some (Some detail)) \<Rightarrow> State_Monad.return (
                  if TrimSpace (ED_JWT detail) \<noteq> [] then Inr (TrimSpace (ED_JWT detail)) else Inl (New msg))
              | Inr _ \<Rightarrow> State_Monad.return (Inl (New msg))
            })
   })"
  unfolding sends_def
  by (intro yields_intros yields_mono [OF createOTTEnrollment_sends [unfolded sends_def]]
        yields_mono [OF enrollmentAfterConflict_sends])
     (auto simp: rejected_def)

lemma CreateConfig_sends:
  "sends 1 (do {
     configTypeID \<leftarrow> resolveConfigTypeIDWithAPI c api ty;
     case configTypeID of
       Inl err \<Rightarrow> State_Monad.return (Inl err)
     | Inr configTypeID \<Rightarrow> createOp (api_Config c) M_Config action getAction conv_config (body configTypeID) api
   })"
  unfolding sends_def
  by (intro yields_intros yields_mono [OF resolveConfigTypeID_sends [unfolded sends_def]]
        yields_mono [OF config_calls.createOp_sends [unfolded sends_def]])
     auto

lemma sends_mono: "sends n m \<Longrightarrow> n \<le> k \<Longrightarrow> sends k m"
  unfolding sends_def by (elim yields_mono) auto

section \<open>Operations of the interface\<close>

definition bounded :: "nat \<Rightarrow> ('a, 'w, 'r) mio \<Rightarrow> bool" where
  "bounded n m \<longleftrightarrow> yields m (\<lambda>xs _. creations xs \<le> 2 * n \<and> (n < creations xs \<longrightarrow> (\<exists>x \<in> set xs. rejected x)))"

lemma getOrAuthenticate_creations: "yields (getOrAuthenticate c load force) (\<lambda>xs _. creations xs = 0)"
  unfolding getOrAuthenticate_def by (intro yields_intros) auto

lemma bounded_useAuthenticatedClient:
  assumes "\<And>api. sends n (fn api)"
  shows "bounded n (useAuthenticatedClient c load fn)"
  unfolding bounded_def useAuthenticatedClient_def invalidate_def
  by (intro yields_intros yields_mono [OF getOrAuthenticate_creations] yields_mono [OF assms [unfolded sends_def]]) auto

lemma bounded_bind_return: "bounded n m \<Longrightarrow> bounded n (State_Monad.bind m (\<lambda>r. State_Monad.return (f r)))"
  unfolding bounded_def by (intro yields_bind, elim yields_mono) (auto intro: yields_return)

lemma bounded_ignore: "bounded n m \<Longrightarrow> bounded n (ignore m)"
  unfolding ignore_def by (rule bounded_bind_return)

lemma bounded_orCreate: "bounded 0 update \<Longrightarrow> bounded n create \<Longrightarrow> bounded n (orCreate update create)"
  unfolding bounded_def orCreate_def
  by (intro yields_bind, elim yields_mono) (auto intro!: yields_intros elim: yields_mono)

lemma bounded_mono: "bounded 0 m \<Longrightarrow> bounded n m"
  unfolding bounded_def by (elim yields_mono) auto

lemma sends_call:
  "(\<And>r. \<not> creating (mk r)) \<Longrightarrow> (\<And>r. asks_retry (f r) \<Longrightarrow> rejected (mk r)) \<Longrightarrow>
   sends 0 (do { r \<leftarrow> call mk g; State_Monad.return (f r) })"
  unfolding sends_def by (intro yields_intros) auto

lemma EdgeRouters_sends: "sends 0 (call (M_EdgeRouters api limit offset) g)"
  unfolding sends_def by (intro yields_intros) (auto simp: asks_retry_def rejected_def)

lemmas sends_operations =
  identity_calls.getOp_sends identity_calls.deleteOp_sends listIdentityPages_sends
  service_calls.getOp_sends service_calls.deleteOp_sends config_calls.getOp_sends config_calls.deleteOp_sends
  policy_calls.getOp_sends policy_calls.deleteOp_sends router_policy_calls.getOp_sends router_policy_calls.deleteOp_sends
  findPages_sends policy_calls.listPage_sends router_policy_calls.listPage_sends EdgeRouters_sends sends_call

lemma bounded_read:
  "bounded 0 (Mgmt_Authenticate c cfg)"
  "bounded 0 (Mgmt_GetIdentity c ident)" "bounded 0 (Mgmt_ListIdentities c)"
  "bounded 0 (Mgmt_PatchIdentityRoleAttributes c ident attrs)" "bounded 0 (Mgmt_DeleteIdentity c ident)"
  "bounded 0 (Mgmt_GetService c ident)" "bounded 0 (Mgmt_FindServiceByName c name)" "bounded 0 (Mgmt_DeleteService c ident)"
  "bounded 0 (Mgmt_GetConfig c ident)" "bounded 0 (Mgmt_DeleteConfig c ident)" "bounded 0 (Mgmt_FindEdgeRouterByName c name)"
  "bounded 0 (Mgmt_GetAccessPolicy c ident)" "bounded 0 (Mgmt_FindAccessPolicyByName c name)" "bounded 0 (Mgmt_DeleteAccessPolicy c ident)"
  "bounded 0 (Mgmt_GetServiceEdgeRouterPolicy c ident)" "bounded 0 (Mgmt_FindServiceEdgeRouterPolicyByName c name)"
  "bounded 0 (Mgmt_DeleteServiceEdgeRouterPolicy c ident)"
  by (simp_all only: simple_requests Mgmt_Authenticate_def; intro bounded_useAuthenticatedClient sends_operations sends_return;
      auto simp: rejected_def split: sum.splits option.splits)+

lemma bounded_create:
  "bounded 1 (Mgmt_CreateIdentity c identity)" "bounded 1 (Mgmt_CreateService c service)" "bounded 1 (Mgmt_CreateConfig c cfg)"
  "bounded 1 (Mgmt_CreateAccessPolicy c policy)" "bounded 1 (Mgmt_CreateServiceEdgeRouterPolicy c rpolicy)"
  "bounded 1 (Mgmt_GetEnrollmentJWT c ident)"
  by (simp_all only: simple_requests; intro bounded_useAuthenticatedClient identity_calls.createOp_sends service_calls.createOp_sends
        CreateConfig_sends policy_calls.createOp_sends router_policy_calls.createOp_sends GetEnrollmentJWT_sends; simp)+

lemma bounded_update:
  "bounded 1 (Mgmt_UpdateIdentity c identity)" "bounded 1 (Mgmt_UpdateService c service)" "bounded 1 (Mgmt_UpdateConfig c cfg)"
  "bounded 1 (Mgmt_UpdateAccessPolicy c policy)" "bounded 1 (Mgmt_UpdateServiceEdgeRouterPolicy c rpolicy)"
  by (simp_all only: update_requests; intro bounded_orCreate bounded_create bounded_useAuthenticatedClient
        identity_calls.updateOp_sends service_calls.updateOp_sends config_calls.updateOp_sends
        policy_calls.updateOp_sends router_policy_calls.updateOp_sends; simp)+

text \<open>
  C23: An operation of the management client sends at most two creating calls, whatever the
  controller answers, and two only if in between it rejected a call of the operation with 401
  or 403: an update that turns into a create, a conflict on an enrollment or a paged lookup
  never adds one.
\<close>

theorem perform_creations:
  "\<exists>xs. trace (snd (run_state (perform c req) s)) = trace s @ xs \<and> creations xs \<le> 2 \<and>
     (creations xs = 2 \<longrightarrow> (\<exists>x \<in> set xs. rejected x))"
proof -
  have "bounded 1 (perform c req)"
    by (cases req) (simp_all add: bounded_ignore bounded_mono bounded_read bounded_create bounded_update
      bounded_bind_return Mgmt_FindIdentityByName_def del: One_nat_def)
  then show ?thesis unfolding bounded_def yields_def by fastforce
qed

section \<open>A create that is repeated although it succeeded\<close>

lemma getOrAuthenticate_succeeds:
  assumes "loadConfig c = Some load" "\<And>w. \<exists>cfg w'. load w = (Inr cfg, w')" "\<And>cfg w. \<exists>api w'. authenticate c cfg w = (Inr api, w')"
  shows "\<exists>api s' xs. run_state (getOrAuthenticate c (loadCurrentConfig c) force) s = (Inr api, s') \<and> trace s' = trace s @ xs \<and>
    creations xs = 0"
proof -
  obtain cfg w' where w': "load (outside (world s)) = (Inr cfg, w')" using assms(2) by blast
  obtain api w'' where w'': "authenticate c cfg w' = (Inr api, w'')" using assms(3) by blast
  show ?thesis using assms(1) w' w''
    by (auto simp: getOrAuthenticate_def loadCurrentConfig_def effect_simps outer_def split: option.split)
qed

lemma createOp_rejected:
  assumes "\<And>w. \<exists>ident w'. rest_Create R api body w = (Inr (Some (Some ident)), w') \<and> TrimSpace ident \<noteq> []"
    and "\<And>ident w. \<exists>w'. rest_Detail R api ident w = (Inl (Coded 403 msg), w')"
  shows "\<exists>s' ident r. run_state (createOp R M_Identity action getAction conv body api) s = (Inl (wrapAPICallError getAction (Coded 403 msg)), s') \<and>
    trace s' = trace s @ [M_Identity (R_Create api body (Inr (Some (Some ident)))), M_Identity (R_Detail api (TrimSpace ident) r)]"
proof -
  obtain ident w' where w': "rest_Create R api body (outside (world s)) = (Inr (Some (Some ident)), w')" "TrimSpace ident \<noteq> []"
    using assms(1) by blast
  obtain w'' where "rest_Detail R api (TrimSpace ident) w' = (Inl (Coded 403 msg), w'')" using assms(2) by blast
  with w' show ?thesis by (simp add: createOp_def getByIDWithAPI_def extractCreatedID_def effect_simps outer_def)
qed

text \<open>
  When the login and the create succeed and the read-back is answered with 403, the identity is
  created a second time before the operation reports the failure.
\<close>

lemma create_repeated:
  assumes login: "loadConfig c = Some load" "\<And>w. \<exists>cfg w'. load w = (Inr cfg, w')" "\<And>cfg w. \<exists>api w'. authenticate c cfg w = (Inr api, w')"
    and answers: "\<And>api w. \<exists>ident w'. rest_Create (api_Identity c) api (toIdentityCreate i) w = (Inr (Some (Some ident)), w') \<and> TrimSpace ident \<noteq> []"
      "\<And>api ident w. \<exists>w'. rest_Detail (api_Identity c) api ident w = (Inl (Coded 403 msg), w')"
  shows "\<exists>xs. trace (snd (run_state (Mgmt_CreateIdentity c i) s)) = trace s @ xs \<and> creations xs = 2"
proof -
  let ?op = "createOp (api_Identity c) M_Identity ''create identity'' ''get identity'' conv_identity (toIdentityCreate i)"
  obtain api s1 xs1 where 1: "run_state (getOrAuthenticate c (loadCurrentConfig c) False) s = (Inr api, s1)"
    "trace s1 = trace s @ xs1" "creations xs1 = 0" using getOrAuthenticate_succeeds [OF login] by blast
  from createOp_rejected [of "api_Identity c" api "toIdentityCreate i" msg _ _ conv_identity s1, OF answers] obtain s2 ident r where
    2: "run_state (?op api) s1 = (Inl (wrapAPICallError ''get identity'' (Coded 403 msg)), s2)"
    "trace s2 = trace s1 @ [M_Identity (R_Create api (toIdentityCreate i) (Inr (Some (Some ident)))), M_Identity (R_Detail api (TrimSpace ident) r)]"
    by blast
  let ?s2 = "snd (run_state invalidate s2)"
  obtain api' s3 xs3 where 3: "run_state (getOrAuthenticate c (loadCurrentConfig c) True) ?s2 = (Inr api', s3)"
    "trace s3 = trace ?s2 @ xs3" "creations xs3 = 0" using getOrAuthenticate_succeeds [OF login] by blast
  from createOp_rejected [of "api_Identity c" api' "toIdentityCreate i" msg _ _ conv_identity s3, OF answers] obtain s4 ident' r' where
    4: "run_state (?op api') s3 = (Inl (wrapAPICallError ''get identity'' (Coded 403 msg)), s4)"
    "trace s4 = trace s3 @ [M_Identity (R_Create api' (toIdentityCreate i) (Inr (Some (Some ident')))), M_Identity (R_Detail api' (TrimSpace ident') r')]"
    by blast
  have "shouldReauthenticate (Coded 403 msg)" by (simp add: shouldReauthenticate_def isStatusCode_def)
  with 1 2 3 4 show ?thesis
    by (simp add: Mgmt_CreateIdentity_def useAuthenticatedClient_def invalidate_def effect_simps)
qed

end
