(* ===== verification/Management_Samples.thy ===== *)
theory Management_Samples
  imports Management_Tables Management_Retries
begin

text \<open>
  A sample client on which the theorems about the management client are applied: its controller
  keeps the five kinds of objects in tables.
\<close>

section \<open>The controller\<close>

record tables =
  t_identities :: "IdentityDetail table"
  t_services :: "ServiceDetail table"
  t_configs :: "ConfigDetail table"
  t_policies :: "PolicyDetail table"
  t_rpolicies :: "RouterPolicyDetail table"

text \<open>How the tables show a body; an update of an identity keeps the external id.\<close>

definition identity_shown :: "string \<Rightarrow> 'x IdentityBody_scheme \<Rightarrow> IdentityDetail" where
  "identity_shown ident b = \<lparr>ID_ID = Some ident, ID_Name = Some (IB_Name b), ID_TypeName = Some (IB_Type b),
     ID_RoleAttributes = Some (IB_RoleAttributes b), ID_ExternalID = None\<rparr>"

definition service_shown :: "string \<Rightarrow> 'x ServiceBody_scheme \<Rightarrow> ServiceDetail" where
  "service_shown ident b = \<lparr>SD_ID = Some ident, SD_Name = Some (SB_Name b), SD_RoleAttributes = Some (SB_RoleAttributes b),
     SD_Configs = SB_Configs b\<rparr>"

definition config_shown :: "config_types \<Rightarrow> string \<Rightarrow> ConfigCreate \<Rightarrow> ConfigDetail" where
  "config_shown types ident b = \<lparr>CD_ID = Some ident, CD_Name = Some (CB_Name b), CD_TypeName = Some (the (map_of types (CB_TypeID b))),
     CD_Data = Some (CB_Data b)\<rparr>"

definition policy_shown :: "string \<Rightarrow> PolicyBody \<Rightarrow> PolicyDetail" where
  "policy_shown ident b = \<lparr>PD_ID = Some ident, PD_Name = Some (PB_Name b), PD_Type = Some (PB_Type b), PD_Semantic = Some (PB_Semantic b),
     PD_IdentityRoles = PB_IdentityRoles b, PD_ServiceRoles = PB_ServiceRoles b\<rparr>"

definition rpolicy_shown :: "string \<Rightarrow> RouterPolicyBody \<Rightarrow> RouterPolicyDetail" where
  "rpolicy_shown ident b = \<lparr>RPD_ID = Some ident, RPD_Name = Some (RPB_Name b), RPD_Semantic = Some (RPB_Semantic b),
     RPD_EdgeRouterRoles = RPB_EdgeRouterRoles b, RPD_ServiceRoles = RPB_ServiceRoles b\<rparr>"

lemmas shown_defs = identity_shown_def service_shown_def config_shown_def policy_shown_def rpolicy_shown_def

definition types1 :: config_types where
  "types1 = [(''t1'', ''intercept.v1''), (''t2'', ''host.v1'')]"

definition identities1 :: "(string, tables, IdentityCreate, IdentityBody, IdentityDetail) crud" where
  "identities1 = within t_identities (\<lambda>t w. w\<lparr>t_identities := t\<rparr>)
     (table_crud stored_identity identity_shown (\<lambda>d b. (identity_shown (the (ID_ID d)) b)\<lparr>ID_ExternalID := ID_ExternalID d\<rparr>))"

definition services1 :: "(string, tables, ServiceCreate, ServiceBody, ServiceDetail) crud" where
  "services1 = within t_services (\<lambda>t w. w\<lparr>t_services := t\<rparr>)
     (table_crud stored_service service_shown (\<lambda>d. service_shown (the (SD_ID d))))"

definition configs1 :: "(string, tables, ConfigCreate, ConfigBody, ConfigDetail) crud" where
  "configs1 = within t_configs (\<lambda>t w. w\<lparr>t_configs := t\<rparr>)
     (table_crud stored_config (config_shown types1) (\<lambda>d b. d\<lparr>CD_Name := Some (CB_Name b), CD_Data := Some (CB_Data b)\<rparr>))"

definition policies1 :: "(string, tables, PolicyBody, PolicyBody, PolicyDetail) crud" where
  "policies1 = within t_policies (\<lambda>t w. w\<lparr>t_policies := t\<rparr>)
     (table_crud stored_policy policy_shown (\<lambda>d. policy_shown (the (PD_ID d))))"

definition rpolicies1 :: "(string, tables, RouterPolicyBody, RouterPolicyBody, RouterPolicyDetail) crud" where
  "rpolicies1 = within t_rpolicies (\<lambda>t w. w\<lparr>t_rpolicies := t\<rparr>)
     (table_crud stored_router_policy rpolicy_shown (\<lambda>d. rpolicy_shown (the (RPD_ID d))))"

section \<open>The client\<close>

definition cred_lib0 :: cred_lib where
  "cred_lib0 = \<lparr>Parse_URL = (\<lambda>_. Inr \<lparr>URL_Scheme = ''https'', URL_Host = ''ctrl'', URL_User = False, URL_Fragment = []\<rparr>),
     AppendCertsFromPEM = (\<lambda>_. True),
     cred_uc = \<lparr>Map_ToLower = id, Simple_Fold = (=), Quote_Unicode = id\<rparr>\<rparr>"

definition secret0 :: mgmt_secret where
  "secret0 = \<lparr>MSecret_Namespace = ''ziti'', MSecret_Name = ''mgmt'', MSecret_Data =
     [(ControllerURLKey, ''https://ctrl ''), (UsernameKey, ''admin''), (PasswordKey, ''pw'')]\<rparr>"

definition cfg0 :: ManagementConfig where
  "cfg0 = \<lparr>ControllerURL = ''https://ctrl'', Username = ''admin'', Password = ''pw'', CABundlePEM = []\<rparr>"

definition ref0 :: SecretRef where "ref0 = \<lparr>Ref_Namespace = ''ziti'', Ref_Name = ''mgmt''\<rparr>"

definition reader0 :: "SecretRef \<Rightarrow> tables \<Rightarrow> (error + mgmt_secret) \<times> tables" where
  "reader0 ref w = (Inr secret0, w)"

text \<open>A session is named by its user.\<close>

definition connect0 :: "string \<Rightarrow> string \<Rightarrow> string \<Rightarrow> string option \<Rightarrow> tables \<Rightarrow> (error + string) \<times> tables" where
  "connect0 user pass url roots w = (Inr user, w)"

definition routers0 :: "NamedDetail option list" where
  "routers0 = replicate 100 None @ [Some \<lparr>ND_ID = Some ''r1'', ND_Name = Some ''edge''\<rparr>]"

definition c1 :: "(string, tables) ManagementClient" where
  "c1 = \<lparr>loadConfig = Some (SecretConfigLoader_Load cred_lib0 reader0 ref0), authenticate = authenticateWithUPDB cred_lib0 connect0,
     api_Identity = identities1, api_Service = services1, api_Config = configs1, api_Policy = policies1, api_RouterPolicy = rpolicies1,
     api_Patch = (\<lambda>_ _ _ w. (None, w)), api_Enrollments = (\<lambda>_ _ w. (Inr None, w)),
     api_CreateEnrollment = (\<lambda>_ _ _ w. (Inr None, w)), api_DetailEnrollment = (\<lambda>_ _ w. (Inr None, w)),
     api_Services = (\<lambda>_ w. (Inr (Some []), w)),
     api_ConfigTypes = (\<lambda>_ limit offset w. (Inr (Some (map type_detail (take (nat limit) (drop (nat offset) types1)))), w)),
     api_EdgeRouters = (\<lambda>_ limit offset w. (Inr (Some (take (nat limit) (drop (nat offset) routers0))), w)),
     mc_Now = (\<lambda>w. (0, w)), mc_uc = \<lparr>Map_ToLower = id, Simple_Fold = (=), Quote_Unicode = id\<rparr>, page_budget = 2\<rparr>"

lemma load0: "SecretConfigLoader_Load cred_lib0 reader0 ref0 w = (Inr cfg0, w)"
proof -
  have "LoadManagementConfig cred_lib0 (Some secret0) = Inr cfg0" by code_simp
  then show ?thesis by (simp add: SecretConfigLoader_Load_def reader0_def)
qed

lemma authenticate0: "authenticateWithUPDB cred_lib0 connect0 cfg w = (Inr (Username cfg), w)"
  by (simp add: authenticateWithUPDB_def connect0_def rootCAsFromConfig_def cred_lib0_def)

lemma online1: "online c1 store"
  by (auto simp: online_def c1_def load0 authenticate0)

lemma types_listed: "lists_types c1 types1 store"
proof -
  have "length types1 < 100 * page_budget c1" by (simp add: types1_def c1_def)
  moreover have "\<exists>w'. api_ConfigTypes c1 api page_limit offset w = (Inr (Some (map type_detail (page types1 offset))), w') \<and> store w' = store w"
    for api offset w by (intro exI [of _ w]) (simp add: c1_def page_def page_limit_def)
  ultimately show ?thesis by (simp add: lists_types_def)
qed

section \<open>The stores\<close>

lemma identities_kept: "keeps_identities c1 id (\<lambda>w. look stored_identity (t_identities w))"
  unfolding keeps_identities_def
  by (intro conjI online1; simp add: c1_def identities1_def)
     (intro within_reads within_creates within_updates within_deletes table_reads table_creates table_updates table_deletes;
      auto simp: shown_defs stored_identity_def shows_identity_def updated_identity_def external_id_def toIdentityCreate_def
        toIdentityUpdate_def valid_identity_def)+

lemma services_kept: "keeps_services c1 (\<lambda>w. look stored_service (t_services w))"
  unfolding keeps_services_def
  by (intro conjI online1; simp add: c1_def services1_def)
     (intro within_reads within_creates within_updates within_deletes table_reads table_creates table_updates table_deletes;
      auto simp: shown_defs stored_service_def shows_service_def)+

lemma configs_kept: "keeps_configs c1 types1 (\<lambda>w. look stored_config (t_configs w))"
  unfolding keeps_configs_def
  by (intro conjI online1 types_listed; simp add: c1_def configs1_def)
     (intro within_reads within_creates within_updates within_deletes table_reads table_creates table_updates table_deletes;
      auto simp: shown_defs stored_config_def shows_config_def updated_config_def create_config_def toConfigCreate_def
        toConfigUpdate_def valid_config_def)+

lemma policies_kept: "keeps_policies c1 (\<lambda>w. look stored_policy (t_policies w))"
  unfolding keeps_policies_def
  by (intro conjI online1; simp add: c1_def policies1_def)
     (intro within_reads within_creates within_updates within_deletes table_reads table_creates table_updates table_deletes;
      auto simp: shown_defs stored_policy_def shows_policy_def)+

lemma rpolicies_kept: "keeps_router_policies c1 (\<lambda>w. look stored_router_policy (t_rpolicies w))"
  unfolding keeps_router_policies_def
  by (intro conjI online1; simp add: c1_def rpolicies1_def)
     (intro within_reads within_creates within_updates within_deletes table_reads table_creates table_updates table_deletes;
      auto simp: shown_defs stored_router_policy_def shows_router_policy_def)+

definition config0 :: ServiceConfig where
  "config0 = \<lparr>Config_ID = [], Config_Name = ''web-host'', Config_Type = ''host.v1'', Config_Payload = []\<rparr>"

definition empty_tables :: tables where
  "empty_tables = \<lparr>t_identities = [], t_services = [], t_configs = [], t_policies = [], t_rpolicies = []\<rparr>"

definition start0 :: "((string, tables) mgmt, string mcall) sys" where
  "start0 = \<lparr>world = New_client empty_tables, trace = []\<rparr>"

definition ops0 :: "ServiceConfig store_op list" where
  "ops0 = [Op_Create config0, Op_Get ''a'', Op_Update (config0\<lparr>Config_ID := ''a'', Config_Name := ''www-host''\<rparr>), Op_Delete ''a'', Op_Delete ''b'']"

lemma ops0_valid: "list_all (valid_op (valid_config types1)) ops0"
proof -
  have "TrimSpace ''host.v1'' = ''host.v1''" "TrimSpace ''intercept.v1'' = ''intercept.v1''" "TrimSpace ''t2'' = ''t2''" by code_simp+
  then show ?thesis by (simp add: ops0_def valid_op_def valid_config_def type_id_def types1_def config0_def)
qed


text \<open>
  A second client: the identities of its controller can be created, but the session is refused
  when they are read back.
\<close>

definition absent :: "('a, 'w, 'cr, 'up, 'd) crud" where
  "absent = \<lparr>rest_Detail = (\<lambda>_ _ w. (Inl (Coded 404 []), w)), rest_List = (\<lambda>_ _ _ w. (Inr (Some (Some [])), w)),
     rest_Create = (\<lambda>_ _ w. (Inl (Coded 500 []), w)), rest_Update = (\<lambda>_ _ _ w. (Some (Coded 404 []), w)),
     rest_Delete = (\<lambda>_ _ w. (Some (Coded 404 []), w))\<rparr>"

definition identities0 :: "(string, tables, IdentityCreate, IdentityBody, IdentityDetail) crud" where
  "identities0 = absent\<lparr>rest_Create := (\<lambda>_ _ w. (Inr (Some (Some ''id1'')), w)), rest_Detail := (\<lambda>_ _ w. (Inl (Coded 403 []), w))\<rparr>"

definition c0 :: "(string, tables) ManagementClient" where
  "c0 = c1\<lparr>api_Identity := identities0\<rparr>"

lemmas c0_simps = c0_def c1_def load0 authenticate0

section \<open>Sessions\<close>

lemma TrimSpace_id1: "TrimSpace ''id1'' = ''id1''"
  by code_simp

definition identity0 :: Identity where
  "identity0 = \<lparr>Identity_ID = [], Identity_Name = ''laptop'', Identity_Type = ''User'', RoleAttributes = [''dev''], CreateOTT = True,
     ExternalID = []\<rparr>"

text \<open>The identity is created on one session, and again on the next.\<close>

definition trace0 :: "string mcall list" where
  "trace0 = [M_Load (Inr cfg0), M_Auth cfg0 (Inr ''admin''),
     M_Identity (R_Create ''admin'' (toIdentityCreate identity0) (Inr (Some (Some ''id1'')))),
     M_Identity (R_Detail ''admin'' ''id1'' (Inl (Coded 403 []))),
     M_Load (Inr cfg0), M_Auth cfg0 (Inr ''admin''),
     M_Identity (R_Create ''admin'' (toIdentityCreate identity0) (Inr (Some (Some ''id1'')))),
     M_Identity (R_Detail ''admin'' ''id1'' (Inl (Coded 403 [])))]"

definition world0 :: "(string, tables) mgmt" where
  "world0 = \<lparr>cachedClient = Some ''admin'', cachedConfig = cfg0, meanwhile = [], outside = empty_tables\<rparr>"

lemma Username_cfg0: "Username cfg0 = ''admin''"
  by (simp add: cfg0_def)

lemma run0: "snd (run_state (perform c0 (Do_CreateIdentity identity0)) start0) = \<lparr>world = world0, trace = trace0\<rparr>"
  by (simp add: ignore_def Mgmt_CreateIdentity_def useAuthenticatedClient_def getOrAuthenticate_def invalidate_def createOp_def
      getByIDWithAPI_def extractCreatedID_def loadCurrentConfig_def effect_simps outer_def c0_simps identities0_def absent_def
      start0_def New_client_def TrimSpace_id1 Username_cfg0 wrapAPICallError_def shouldReauthenticate_def isStatusCode_def
      trace0_def world0_def settle.simps)

lemma client_run0: "client_run c0 P (\<lambda>req. \<forall>cfg. req \<noteq> Do_Authenticate cfg) world0 trace0"
  using client_run.request [OF client_run.start [of c0 P], of "\<lambda>req. \<forall>cfg. req \<noteq> Do_Authenticate cfg" "Do_CreateIdentity identity0" empty_tables] run0
  by (simp add: start0_def)

theorem client_run_sessions_witness:
  "client_run c0 (\<lambda>_. True) (\<lambda>req. \<forall>cfg. req \<noteq> Do_Authenticate cfg) world0 trace0 \<and> logged_in c0 cfg0 ''admin''"
  using client_run_sessions [OF client_run0] client_run0 by (simp add: world0_def)

theorem client_run_credentials_witness:
  "usable cred_lib0 cfg0 \<and> (\<exists>w w'. connect0 ''admin'' ''pw'' ''https://ctrl'' None w = (Inr ''admin'', w'))"
proof -
  have "trace0 = [M_Load (Inr cfg0), M_Auth cfg0 (Inr ''admin'')] @
      M_Identity (R_Create ''admin'' (toIdentityCreate identity0) (Inr (Some (Some ''id1'')))) # drop 3 trace0"
    by (simp add: trace0_def)
  from guardedD [OF conjunct2 [OF client_run_credentials [OF _ _ client_run0, of cred_lib0 reader0 ref0 connect0]] this] show ?thesis
    by (simp add: c0_def c1_def current_config_def current_step_def bundle_roots_def) (simp add: cfg0_def)
qed

theorem perform_creations_witness:
  "creations trace0 = 2 \<and> (\<exists>x \<in> set trace0. rejected x)"
proof -
  have "creations trace0 = 2" by (simp add: trace0_def)
  moreover have "\<exists>xs. trace0 = [] @ xs \<and> creations xs \<le> 2 \<and> (creations xs = 2 \<longrightarrow> (\<exists>x \<in> set xs. rejected x))"
    using perform_creations [of c0 "Do_CreateIdentity identity0" start0] run0 by (simp add: start0_def)
  ultimately show ?thesis by auto
qed

section \<open>Searches\<close>

lemma opens0: "opens c0 start0 ''admin''"
  by (simp add: opens_def getOrAuthenticate_def loadCurrentConfig_def effect_simps outer_def c0_simps start0_def New_client_def
      Username_cfg0 settle.simps)

lemma routers0_served: "fst (api_EdgeRouters c0 ''admin'' page_limit offset w) = Inr (Some (page routers0 offset))"
  by (simp add: c0_def c1_def page_def page_limit_def)

lemma routers0_edge: "List.map_filter edgeRouterFromDetail routers0 = [\<lparr>EdgeRouter_ID = ''r1'', EdgeRouter_Name = ''edge''\<rparr>]"
proof -
  have "edgeRouterFromDetail None = None" by (simp add: edgeRouterFromDetail_def)
  then have "List.map_filter edgeRouterFromDetail (replicate n None) = []" for n
    by (induction n) (simp_all add: List.map_filter_simps)
  moreover have "edgeRouterFromDetail (Some \<lparr>ND_ID = Some ''r1'', ND_Name = Some ''edge''\<rparr>) =
      Some \<lparr>EdgeRouter_ID = ''r1'', EdgeRouter_Name = ''edge''\<rparr>" by code_simp
  ultimately show ?thesis by (simp add: routers0_def map_filter_append List.map_filter_simps)
qed

theorem searches_reference_witness:
  "opens c0 start0 ''admin'' \<and> length routers0 < 100 * page_budget c0 \<and>
   fst (run_state (Mgmt_FindEdgeRouterByName c0 ''edge'') start0) = Inr (Some \<lparr>EdgeRouter_ID = ''r1'', EdgeRouter_Name = ''edge''\<rparr>)"
proof -
  have "length routers0 < 100 * page_budget c0" by (simp add: routers0_def c0_def c1_def)
  with searches_reference [OF opens0, of _ "''edge''" _ routers0] opens0 show ?thesis
    by (auto simp: routers0_served routers0_edge)
qed

section \<open>Bodies\<close>

definition service0 :: Service where
  "service0 = \<lparr>Service_ID = [], Service_Name = ''web'', Service_RoleAttributes = [''public''], Service_ConfigIDs = []\<rparr>"


end
