(* ===== verification/Operator_Sync.thy ===== *)
theory Operator_Sync
  imports Operator Sync_Convergence Management_Kinds
begin

text \<open>
  The role sync of the operator, down to the controller: the reconciler calls the management
  client, the client keeps sessions and reads pages, and the controller holds the identities.
  What the trace of the reconciler shows is what happens to the identities of the controller.
\<close>

section \<open>A controller that holds identities\<close>

text \<open>
  What is relied on: an answer of the controller tells the truth, an identity is listed once and
  in an order that depends on the identities alone, a patch that succeeds replaces the
  attributes, and nothing else changes the identities. Any call may fail.
\<close>

definition sessions_spare :: "('a, 'w) ManagementClient \<Rightarrow> ('w \<Rightarrow> 's) \<Rightarrow> bool" where
  "sessions_spare c store \<longleftrightarrow> (\<forall>load w. loadConfig c = Some load \<longrightarrow> store (snd (load w)) = store w) \<and>
     (\<forall>cfg w. store (snd (authenticate c cfg w)) = store w)"

definition tells_identity :: "('a, 'w, 'cr, 'up, IdentityDetail) crud \<Rightarrow> ('w \<Rightarrow> string \<rightharpoonup> IdentityDetail) \<Rightarrow> bool" where
  "tells_identity R store \<longleftrightarrow> (\<forall>api ident w. store (snd (rest_Detail R api ident w)) = store w \<and>
     (\<forall>d. fst (rest_Detail R api ident w) = Inr (Some (Some d)) \<longrightarrow> store w ident = Some d) \<and>
     (\<forall>err. fst (rest_Detail R api ident w) = Inl err \<and> isStatusCode err 404 \<longrightarrow> store w ident = None))"

definition tells_identities ::
  "('a, 'w, 'cr, 'up, IdentityDetail) crud \<Rightarrow> ('w \<Rightarrow> string \<rightharpoonup> IdentityDetail) \<Rightarrow> ((string \<rightharpoonup> IdentityDetail) \<Rightarrow> IdentityDetail list) \<Rightarrow> bool" where
  "tells_identities R store listing \<longleftrightarrow> (\<forall>api offset w. 0 \<le> offset \<longrightarrow> store (snd (rest_List R api page_limit offset w)) = store w \<and>
     (\<forall>items. fst (rest_List R api page_limit offset w) = Inr (Some (Some items)) \<longrightarrow> items = map Some (page (listing (store w)) offset)))"

definition listed_once :: "(string \<rightharpoonup> IdentityDetail) \<Rightarrow> IdentityDetail list \<Rightarrow> bool" where
  "listed_once st details \<longleftrightarrow> distinct (map ID_ID details) \<and> (\<forall>d \<in> set details. \<exists>ident. ID_ID d = Some ident \<and> stored_identity ident d) \<and>
     st = map_of (map (\<lambda>d. (the (ID_ID d), d)) details)"

definition patches_identity ::
  "('a \<Rightarrow> string \<Rightarrow> string list \<Rightarrow> 'w \<Rightarrow> error option \<times> 'w) \<Rightarrow> ('w \<Rightarrow> string \<rightharpoonup> IdentityDetail) \<Rightarrow> bool" where
  "patches_identity patch store \<longleftrightarrow> (\<forall>api ident attrs w.
     (case fst (patch api ident attrs w) of
        Some err \<Rightarrow> store (snd (patch api ident attrs w)) = store w
      | None \<Rightarrow> (\<exists>d. store w ident = Some d \<and>
          store (snd (patch api ident attrs w)) = (store w)(ident \<mapsto> d\<lparr>ID_RoleAttributes := Some attrs\<rparr>))))"

definition holds_identities ::
  "('a, 'w) ManagementClient \<Rightarrow> ('w \<Rightarrow> string \<rightharpoonup> IdentityDetail) \<Rightarrow> ((string \<rightharpoonup> IdentityDetail) \<Rightarrow> IdentityDetail list) \<Rightarrow> bool" where
  "holds_identities c store listing \<longleftrightarrow> sessions_spare c store \<and> tells_identity (api_Identity c) store \<and>
     tells_identities (api_Identity c) store listing \<and> (\<forall>w. listed_once (store w) (listing (store w))) \<and> patches_identity (api_Patch c) store"

section \<open>What the operations do\<close>

definition does :: "('w \<Rightarrow> 's) \<Rightarrow> ('a, 'w, 'r) mio \<Rightarrow> ('s \<Rightarrow> 'r \<Rightarrow> 's \<Rightarrow> bool) \<Rightarrow> bool" where
  "does store m Q \<longleftrightarrow> (\<forall>s. Q (stored store s) (fst (run_state m s)) (stored store (snd (run_state m s))))"

lemma doesD: "does store m Q \<Longrightarrow> run_state m s = (r, s') \<Longrightarrow> Q (stored store s) r (stored store s')"
  unfolding does_def by (metis fst_conv snd_conv)

lemma getOrAuthenticate_does:
  assumes "sessions_spare c store"
  shows "does store (getOrAuthenticate c (loadCurrentConfig c) force) (\<lambda>st r st'. st' = st)"
  using assms unfolding does_def sessions_spare_def
  by (auto simp: getOrAuthenticate_def loadCurrentConfig_def effect_simps outer_def split_beta split: option.splits sum.splits)

text \<open>A failed call that changes nothing may be repeated on a new session.\<close>

lemma withClient_does:
  assumes sess: "sessions_spare c store" and fn: "\<And>api. does store (fn api) Q"
    and failed: "\<And>st err st'. Q st (Inl err) st' \<Longrightarrow> st' = st" "\<And>st err. Q st (Inl err) st"
  shows "does store (withClient c fn) Q"
  unfolding does_def
proof
  fix s
  obtain a s1 where a: "run_state (getOrAuthenticate c (loadCurrentConfig c) False) s = (a, s1)" "stored store s1 = stored store s"
    using doesD [OF getOrAuthenticate_does [OF sess]] by (metis prod.exhaust)
  show "Q (stored store s) (fst (run_state (withClient c fn) s)) (stored store (snd (run_state (withClient c fn) s)))"
  proof (cases a)
    case (Inl err)
    with a failed(2) show ?thesis by (simp add: useAuthenticatedClient_def)
  next
    case (Inr api)
    obtain r s2 where r: "run_state (fn api) s1 = (r, s2)" by fastforce
    have q: "Q (stored store s) r (stored store s2)" using doesD [OF fn r] a(2) by simp
    let ?s3 = "snd (run_state invalidate s2)"
    have s3: "stored store ?s3 = stored store s2" by (simp add: invalidate_def effect_simps)
    obtain b s4 where b: "run_state (getOrAuthenticate c (loadCurrentConfig c) True) ?s3 = (b, s4)" "stored store s4 = stored store ?s3"
      using doesD [OF getOrAuthenticate_does [OF sess]] by (metis prod.exhaust)
    have again: "Q (stored store s4) (fst (run_state (fn api2) s4)) (stored store (snd (run_state (fn api2) s4)))" for api2
      using fn [of api2] unfolding does_def by blast
    show ?thesis
    proof (cases r)
      case (Inl err)
      with q failed(1) have "stored store s2 = stored store s" by blast
      with a Inr r q Inl b s3 again failed(2) show ?thesis
        by (cases b) (auto simp: useAuthenticatedClient_def split_beta)
    next
      case (Inr x)
      with a \<open>a = Inr api\<close> r q show ?thesis by (simp add: useAuthenticatedClient_def)
    qed
  qed
qed

text \<open>The identities as the program sees them.\<close>

abbreviation seen :: "(string \<rightharpoonup> IdentityDetail) \<Rightarrow> identities" where
  "seen st \<equiv> objects_of conv_identity st"

lemma GetIdentity_does:
  assumes "holds_identities c store listing"
  shows "does store (Mgmt_GetIdentity c ident) (\<lambda>st r st'. st' = st \<and> (\<forall>got. r = Inr got \<longrightarrow> got = seen st ident))"
  unfolding Mgmt_GetIdentity_def
proof (rule withClient_does)
  show "sessions_spare c store" using assms by (simp add: holds_identities_def)
next
  fix api
  let ?op = "getOp (api_Identity c) M_Identity ''get identity'' conv_identity ident api"
  show "does store ?op (\<lambda>st r st'. st' = st \<and> (\<forall>got. r = Inr got \<longrightarrow> got = seen st ident))"
    unfolding does_def
  proof (intro allI conjI impI)
    fix s :: "(('a, 'b) mgmt, 'a mcall) sys"
    from assms have law: "store (snd (rest_Detail (api_Identity c) api ident w)) = store w"
      "fst (rest_Detail (api_Identity c) api ident w) = Inr (Some (Some d)) \<Longrightarrow> store w ident = Some d"
      "fst (rest_Detail (api_Identity c) api ident w) = Inl err \<Longrightarrow> isStatusCode err 404 \<Longrightarrow> store w ident = None" for w d err
      by (auto simp: holds_identities_def tells_identity_def)
    show "stored store (snd (run_state ?op s)) = stored store s" by (simp add: getOp_def effect_simps outer_def split_beta law(1))
    fix got assume "fst (run_state ?op s) = Inr got"
    then show "got = seen (stored store s) ident"
      by (auto simp: getOp_def effect_simps outer_def split_beta law(2,3) objects_of_def conv_identity_def identityFromEnvelope_def
          split: sum.splits if_splits option.splits)
  qed
qed auto

lemma readIdentities_details:
  "readIdentities (map Some ds) = Inr found \<Longrightarrow> found = map (\<lambda>d. projr (identityFromEnvelope (Some (Some d)))) ds"
proof (induction ds arbitrary: found)
  case (Cons d ds)
  then show ?case by (cases "readIdentities (map Some ds)") (auto split: sum.splits)
qed simp

lemma listIdentityPages_does:
  assumes law: "tells_identities (api_Identity c) store listing" and "0 \<le> offset"
  shows "does store (listIdentityPages pages c api offset acc) (\<lambda>st r st'. st' = st \<and>
    (\<forall>is. r = Inr is \<longrightarrow> is = acc @ map (\<lambda>d. projr (identityFromEnvelope (Some (Some d)))) (drop (nat offset) (listing st))))"
  using assms(2)
proof (induction pages arbitrary: offset acc)
  case 0
  then show ?case by (simp add: does_def)
next
  case (Suc pages)
  let ?read = "map (\<lambda>d. projr (identityFromEnvelope (Some (Some d))))"
  show ?case
    unfolding does_def
  proof
    fix s :: "(('a, 'b) mgmt, 'a mcall) sys"
    define st where "st = stored store s"
    define ans where "ans = fst (rest_List (api_Identity c) api page_limit offset (outside (world s)))"
    define s1 where "s1 = snd (run_state (call (\<lambda>r. M_Identity (R_List api page_limit offset r))
      (outer (rest_List (api_Identity c) api page_limit offset))) s)"
    have s1: "stored store s1 = st" and items: "\<And>items. ans = Inr (Some (Some items)) \<Longrightarrow> items = map Some (page (listing st) offset)"
      using law Suc.prems by (auto simp: s1_def ans_def st_def tells_identities_def effect_simps outer_def)
    have first: "run_state (call (\<lambda>r. M_Identity (R_List api page_limit offset r))
        (outer (rest_List (api_Identity c) api page_limit offset))) s = (ans, s1)"
      by (simp add: ans_def s1_def effect_simps outer_def)
    let ?page = "page (listing st) offset" and ?op = "listIdentityPages (Suc pages) c api offset acc"
    let ?next = "offset + int (length ?page)" and ?acc = "acc @ ?read (page (listing st) offset)"
    have "stored store (snd (run_state ?op s)) = st \<and>
      (\<forall>is. fst (run_state ?op s) = Inr is \<longrightarrow> is = acc @ ?read (drop (nat offset) (listing st)))"
    proof (cases "ans = Inr (Some (Some (map Some ?page)))")
      case False
      with items have "\<And>items. ans \<noteq> Inr (Some (Some items))" by metis
      with first s1 show ?thesis by (auto split: sum.split option.split)
    next
      case True
      show ?thesis
      proof (cases "readIdentities (map Some ?page)")
        case (Inl err)
        with True first s1 show ?thesis by simp
      next
        case (Inr found)
        note found = readIdentities_details [OF this]
        show ?thesis
        proof (cases "length ?page < 100")
          case short: True
          with True Inr first s1 found page_last [OF short] show ?thesis by (simp add: page_limit_def)
        next
          case False
          with True Inr first found have op: "run_state ?op s = run_state (listIdentityPages pages c api ?next ?acc) s1"
            by (auto simp: page_limit_def)
          have "does store (listIdentityPages pages c api ?next ?acc) (\<lambda>st r st'. st' = st \<and>
              (\<forall>is. r = Inr is \<longrightarrow> is = ?acc @ ?read (drop (nat ?next) (listing st))))"
            using Suc.prems by (intro Suc.IH) simp
          from doesD [OF this prod.collapse [symmetric], of s1] op s1 show ?thesis
            by (subst page_split [OF Suc.prems]) simp
        qed
      qed
    qed
    then show "stored store (snd (run_state ?op s)) = stored store s \<and>
      (\<forall>is. fst (run_state ?op s) = Inr is \<longrightarrow> is = acc @ ?read (drop (nat offset) (listing (stored store s))))"
      unfolding st_def .
  qed
qed

lemma listed_stored: "listed_once st details \<Longrightarrow> st ident = Some d \<Longrightarrow> stored_identity ident d"
  by (fastforce simp: listed_once_def dest!: map_of_SomeD)

lemma listed_once_seen:
  assumes "listed_once st details"
  shows "distinct (map Identity_ID (map (\<lambda>d. projr (identityFromEnvelope (Some (Some d)))) details)) \<and>
    seen st = by_id (map (\<lambda>d. projr (identityFromEnvelope (Some (Some d)))) details)"
proof -
  let ?read = "\<lambda>d. projr (identityFromEnvelope (Some (Some d)))"
  have read: "identityFromEnvelope (Some (Some d)) = Inr (?read d) \<and> ID_ID d = Some (Identity_ID (?read d))" if "d \<in> set details" for d
    using that assms by (auto simp: listed_once_def stored_identity_def usable_id_def identityFromEnvelope_def)
  then have ids: "map ID_ID details = map Some (map Identity_ID (map ?read details))" by simp
  have "distinct (map Identity_ID (map ?read details))"
    using assms distinct_map [of Some "map Identity_ID (map ?read details)"] ids by (simp only: listed_once_def)
  moreover have "seen (map_of (map (\<lambda>d. (the (ID_ID d), d)) ds)) = map_of (map (\<lambda>i. (Identity_ID i, i)) (map ?read ds))"
    if "set ds \<subseteq> set details" for ds
    using that
  proof (induction ds)
    case (Cons d ds)
    then obtain v where v: "identityFromEnvelope (Some (Some d)) = Inr v" "ID_ID d = Some (Identity_ID v)"
      using read [of d] by (metis list.set_intros(1) subsetD sum.sel(2))
    then have "conv_identity (Some (Some d)) = Inr (Some v)" by (simp add: conv_identity_def)
    then have "seen (m(Identity_ID v \<mapsto> d)) = (seen m)(Identity_ID v \<mapsto> v)" for m by simp
    with Cons v show ?case by (simp del: objects_of_upd fun_upd_apply)
  qed (simp add: objects_of_def fun_eq_iff)
  ultimately show ?thesis using assms by (simp add: listed_once_def by_id_def)
qed

lemma ListIdentities_does:
  assumes "holds_identities c store listing"
  shows "does store (Mgmt_ListIdentities c) (\<lambda>st r st'. st' = st \<and>
    (\<forall>is. r = Inr is \<longrightarrow> distinct (map Identity_ID is) \<and> seen st = by_id is))"
  unfolding Mgmt_ListIdentities_def
proof (rule withClient_does)
  show "sessions_spare c store" using assms by (simp add: holds_identities_def)
next
  fix api
  let ?op = "listIdentityPages (page_budget c) c api 0 []" and ?read = "map (\<lambda>d. projr (identityFromEnvelope (Some (Some d))))"
  have law: "tells_identities (api_Identity c) store listing" "\<And>w. listed_once (store w) (listing (store w))"
    using assms by (simp_all add: holds_identities_def)
  show "does store ?op (\<lambda>st r st'. st' = st \<and> (\<forall>is. r = Inr is \<longrightarrow> distinct (map Identity_ID is) \<and> seen st = by_id is))"
    unfolding does_def
  proof
    fix s :: "(('a, 'b) mgmt, 'a mcall) sys"
    have "stored store (snd (run_state ?op s)) = stored store s \<and>
      (\<forall>is. fst (run_state ?op s) = Inr is \<longrightarrow> is = ?read (listing (stored store s)))"
      using listIdentityPages_does [OF law(1), of 0 "page_budget c" api "[]"] unfolding does_def by simp
    with listed_once_seen [OF law(2)] show "stored store (snd (run_state ?op s)) = stored store s \<and>
      (\<forall>is. fst (run_state ?op s) = Inr is \<longrightarrow> distinct (map Identity_ID is) \<and> seen (stored store s) = by_id is)" by blast
  qed
qed auto

lemma PatchIdentity_does:
  assumes "holds_identities c store listing"
  shows "does store (Mgmt_PatchIdentityRoleAttributes c ident attrs)
    (\<lambda>st r st'. case r of Inl _ \<Rightarrow> st' = st | Inr _ \<Rightarrow> seen st' = ziti_effect (seen st) (Ziti_Patch ident attrs None))"
  unfolding Mgmt_PatchIdentityRoleAttributes_def
proof (rule withClient_does)
  show "sessions_spare c store" using assms by (simp add: holds_identities_def)
next
  fix api
  let ?op = "do {
     err \<leftarrow> call (M_Patch api ident attrs) (outer (api_Patch c api ident attrs));
     State_Monad.return (case err of Some err \<Rightarrow> Inl (wrapAPICallError ''patch identity role attributes'' err) | None \<Rightarrow> Inr ())
   }"
  have seen: "seen (st(ident \<mapsto> d\<lparr>ID_RoleAttributes := Some attrs\<rparr>)) = ziti_effect (seen st) (Ziti_Patch ident attrs None)"
    if "st ident = Some d" "stored_identity ident d" for st d
  proof -
    have "stored_identity ident (d\<lparr>ID_RoleAttributes := Some attrs\<rparr>)" using that(2) by (simp add: stored_identity_def)
    moreover from that have "seen st ident = Some (case conv_identity (Some (Some d)) of Inr (Some v) \<Rightarrow> v)"
      by (simp add: conv_identity_stored objects_of_def)
    ultimately show ?thesis using that(2) by (simp add: conv_identity_stored external_id_def)
  qed
  show "does store ?op (\<lambda>st r st'. case r of Inl _ \<Rightarrow> st' = st | Inr _ \<Rightarrow> seen st' = ziti_effect (seen st) (Ziti_Patch ident attrs None))"
    unfolding does_def
  proof
    fix s :: "(('a, 'b) mgmt, 'a mcall) sys"
    let ?patched = "api_Patch c api ident attrs (outside (world s))"
    have wf: "stored_identity ident d" if "stored store s ident = Some d" for d
      using that assms listed_stored [of "stored store s" _ ident d] unfolding holds_identities_def by blast
    have law: "case fst ?patched of Some err \<Rightarrow> store (snd ?patched) = stored store s
      | None \<Rightarrow> \<exists>d. stored store s ident = Some d \<and> store (snd ?patched) = (stored store s)(ident \<mapsto> d\<lparr>ID_RoleAttributes := Some attrs\<rparr>)"
      using assms by (simp add: holds_identities_def patches_identity_def)
    then show "case fst (run_state ?op s) of Inl _ \<Rightarrow> stored store (snd (run_state ?op s)) = stored store s
      | Inr _ \<Rightarrow> seen (stored store (snd (run_state ?op s))) = ziti_effect (seen (stored store s)) (Ziti_Patch ident attrs None)"
      using seen [of "stored store s", OF _ wf]
      by (cases "fst ?patched") (auto simp: effect_simps outer_def split_beta simp del: ziti_effect.simps)
  qed
qed auto

section \<open>The reconciler on the controller\<close>

text \<open>
  The identities of the controller are those of the trace. Whatever else the reconciler calls
  (Kubernetes, the directory, the clock) leaves the identities alone.
\<close>

definition identities_of :: "('w \<Rightarrow> string \<rightharpoonup> IdentityDetail) \<Rightarrow> ('a, 'w) opw \<Rightarrow> identities" where
  "identities_of store s = seen (stored store s)"

definition in_step :: "('w \<Rightarrow> string \<rightharpoonup> IdentityDetail) \<Rightarrow> identities \<Rightarrow> ('a, 'w) opw \<Rightarrow> rcall list \<Rightarrow> bool" where
  "in_step store st s xs \<longleftrightarrow> undisturbed st xs \<and> identities_of store s = ziti_after st xs"

definition spares :: "('w \<Rightarrow> 's) \<Rightarrow> ('w \<Rightarrow> 'r \<times> 'w) \<Rightarrow> bool" where
  "spares store f \<longleftrightarrow> (\<forall>w. store (snd (f w)) = store w)"

definition directory_spares :: "('w \<Rightarrow> 's) \<Rightarrow> 'w Directory \<Rightarrow> bool" where
  "directory_spares store d \<longleftrightarrow> (\<forall>x. spares store (GetServicePrincipal d x) \<and> spares store (ListAppRoleAssignedTo d x) \<and>
     spares store (ListGroupUsers d x))"

definition sync_spares :: "('w \<Rightarrow> 's) \<Rightarrow> 'w ZitiEntraRoleSyncReconciler \<Rightarrow> bool" where
  "sync_spares store r \<longleftrightarrow> (\<forall>key. spares store (Get (Sync_Client r) key)) \<and> (\<forall>obj. spares store (Status_Update (Sync_Client r) obj)) \<and>
     (\<forall>ty reason msg. spares store (Recorder_Event (Sync_Client r) ty reason msg)) \<and> spares store (Now (Sync_Client r)) \<and>
     spares store (ctx_Err r) \<and> (\<forall>key. spares store (Get_Secret r key)) \<and> (\<forall>key. spares store (APIReader_Get r key)) \<and>
     spares store (APIReader_List_Syncs r) \<and> spares store (APIReader_List_Identities r) \<and>
     (\<forall>tenant ident secret. directory_spares store (DirectoryFactory r tenant ident secret))"

lemma aside_follows:
  "spares store f \<Longrightarrow> (\<And>st a. ziti_answers st (mk a) \<and> ziti_effect st (mk a) = st) \<Longrightarrow> follows (in_step store st) mk (aside f)"
  by (simp add: follows_def in_step_def identities_of_def aside_def spares_def outer_def)

lemma aside_silent: "spares store f \<Longrightarrow> silent (in_step store st) (aside f)"
  by (simp add: silent_def in_step_def identities_of_def aside_def spares_def outer_def)

lemma directory_aside_follows: "directory_spares store d \<Longrightarrow> directory_follows (in_step store st) (aside_directory d)"
  by (simp add: directory_follows_def directory_spares_def aside_directory_def aside_follows)

lemma ziti_calls:
  "ziti_answers st (Ziti_List r) \<longleftrightarrow> (\<forall>is. r = Inr is \<longrightarrow> distinct (map Identity_ID is) \<and> st = by_id is)"
  "ziti_answers st (Ziti_Get ident g) \<longleftrightarrow> (\<forall>got. g = Inr got \<longrightarrow> got = st ident)"
  by (cases r; simp) (cases g; simp)

lemma client_follows:
  assumes "holds_identities c store listing"
  shows "follows (in_step store st) Ziti_List (ListIdentities (management_client c))"
    "follows (in_step store st) (Ziti_Get ident) (GetIdentity (management_client c) ident)"
    "follows (in_step store st) (Ziti_Patch ident attrs) (PatchIdentityRoleAttributes (management_client c) ident attrs)"
proof -
  show "follows (in_step store st) Ziti_List (ListIdentities (management_client c))"
    using doesD [OF ListIdentities_does [OF assms] prod.collapse [symmetric]]
    by (simp add: follows_def in_step_def identities_of_def management_client_def ziti_calls) metis
  show "follows (in_step store st) (Ziti_Get ident) (GetIdentity (management_client c) ident)"
    using doesD [OF GetIdentity_does [OF assms, of ident] prod.collapse [symmetric]]
    by (simp add: follows_def in_step_def identities_of_def management_client_def ziti_calls) metis
  show "follows (in_step store st) (Ziti_Patch ident attrs) (PatchIdentityRoleAttributes (management_client c) ident attrs)"
    unfolding follows_def
  proof (intro allI impI)
    fix s :: "('a, 'b) opw" and xs assume s: "in_step store st s xs"
    obtain r s' where run: "run_state (Mgmt_PatchIdentityRoleAttributes c ident attrs) s = (r, s')" by fastforce
    from doesD [OF PatchIdentity_does [OF assms, of ident attrs] run] s
    show "in_step store st (snd (PatchIdentityRoleAttributes (management_client c) ident attrs s))
        (xs @ [Ziti_Patch ident attrs (fst (PatchIdentityRoleAttributes (management_client c) ident attrs s))])"
      by (cases r) (simp_all add: in_step_def identities_of_def management_client_def as_error_def run)
  qed
qed

text \<open>The reconciler of the operator meets the contract of a tracked reconciler.\<close>

lemma sync_in_step:
  assumes "holds_identities (openZitiClient d ref) store listing" "sync_spares store (dep_sync d)"
  shows "sync_tracked (in_step store st) (syncReconciler d ref)"
  using assms(2)
  by unfold_locales (simp_all add: syncReconciler_def Let_def aside_kube_def sync_spares_def client_follows [OF assms(1)]
      aside_follows aside_silent directory_aside_follows)

lemma Sync_Reconcile_in_step:
  assumes "holds_identities (openZitiClient d ref) store listing" "sync_spares store (dep_sync d)"
    and run: "run_state (Sync_Reconcile (syncReconciler d ref) key) \<lparr>world = s, trace = []\<rparr> = (res, \<lparr>world = s', trace = xs\<rparr>)"
  shows "undisturbed (identities_of store s) xs \<and> identities_of store s' = ziti_after (identities_of store s) xs"
proof -
  have "in_step store (identities_of store s) s []" by (simp add: in_step_def)
  with tracksD [OF sync_tracked.tracks_Sync_Reconcile [OF sync_in_step [OF assms(1,2)]] run] show ?thesis
    by (simp add: in_step_def)
qed

text \<open>
  C6: The last sync time tells the truth about the controller. The operator's role sync
  reconciler works through the management client, with its sessions and pages, on a controller
  whose answers are true and whose identities nothing else changes meanwhile; any call may fail.
  If the run advances the last sync time, then it had read all the identities of the controller,
  and when it returns every eligible identity of the controller that no \<^verbatim>\<open>ZitiIdentity\<close> was seen
  to own meanwhile has of the managed attributes exactly those the directory grants, and keeps
  the others, and every other identity is as it was.
\<close>

theorem operator_sync_establishes:
  assumes "holds_identities (openZitiClient d ref) store listing" "sync_spares store (dep_sync d)"
    and lib: "apimeta_ok (k_lib (Sync_Client (dep_sync d)))" and fold: "\<And>x. EqualFold (Sync_uc (dep_sync d)) x x"
    and run: "run_state (Sync_Reconcile (syncReconciler d ref) key) \<lparr>world = s, trace = []\<rparr> =
      (res, \<lparr>world = s', trace = pre @ Sync_Kube (KStatus obj reply) # post\<rparr>)"
    and advanced: "\<And>k current. Reader_Get k (Inr current) \<in> set pre \<Longrightarrow>
      LastSyncTime (ZERS_Status obj) \<noteq> LastSyncTime (ZERS_Status current)"
  shows "\<exists>resource snap input rest. pre = Sync_Kube (KGet key (Inr resource)) # snap @ rest \<and> snapshot_calls resource snap input \<and>
    identities_of store s = by_id (Identities input) \<and>
    established (Sync_uc (dep_sync d)) resource input rest (identities_of store s')"
proof -
  have r: "k_lib (Sync_Client (syncReconciler d ref)) = k_lib (Sync_Client (dep_sync d))"
    "Sync_uc (syncReconciler d ref) = Sync_uc (dep_sync d)"
    by (simp_all add: syncReconciler_def Let_def aside_kube_def)
  from Sync_Reconcile_in_step [OF assms(1,2) run] have st: "undisturbed (identities_of store s) pre"
    "identities_of store s' = ziti_after (identities_of store s) (pre @ Sync_Kube (KStatus obj reply) # post)" by auto
  from advanced_established [OF _ run _ advanced st(1)] lib fold show ?thesis unfolding r st(2) by auto
qed

end
