(* ===== verification/Sync_Graph.thy ===== *)
theory Sync_Graph
  imports Sync_Tracking Entra_Client
begin

text \<open>
  The role sync reconciler with the Entra client as its directory, as \<^verbatim>\<open>main\<close> puts them
  together: the world of the reconciler holds the trace of the client's calls.
\<close>

section \<open>The Entra client as a directory\<close>

text \<open>A list that is read for ever has no result; the model gives it the error \<open>Diverges\<close>.\<close>

definition returning :: "('s \<Rightarrow> ((error + 'a) \<times> 's) option) \<Rightarrow> 's \<Rightarrow> (error + 'a) \<times> 's" where
  "returning f s = (case f s of None \<Rightarrow> (Inl Diverges, s) | Some result \<Rightarrow> result)"

definition NewDirectory :: "'v platform \<Rightarrow> string \<Rightarrow> string \<Rightarrow> string \<Rightarrow> ('v, gcall) sys Directory" where
  "NewDirectory g tenantID clientID clientSecret = (let d = newDirectory tenantID clientID clientSecret [] [] in \<lparr>
     GetServicePrincipal = (\<lambda>appID s. map_prod (map_sum id Some) id (run_state (Graph_GetServicePrincipal g d appID) s)),
     ListAppRoleAssignedTo = (\<lambda>ident. returning (Graph_ListAppRoleAssignedTo g d ident)),
     ListGroupUsers = (\<lambda>ident. returning (Graph_ListGroupUsers g d ident))\<rparr>)"

section \<open>Where the secrets go\<close>

definition loginURL :: string where "loginURL = ''https://login.microsoftonline.com''"

definition graph_origin :: "'v platform \<Rightarrow> string \<Rightarrow> bool" where
  "graph_origin g endpoint \<longleftrightarrow> (\<exists>u base. url_Parse g endpoint = Some u \<and> url_Parse g graphURL = Some base \<and>
     URL_Scheme u = URL_Scheme base \<and> URL_Host u = URL_Host base \<and> \<not> URL_User u \<and> URL_Fragment u = [])"

definition login_origin :: "clientcredentials \<Rightarrow> bool" where
  "login_origin cfg \<longleftrightarrow> (\<exists>tenant. Config_TokenURL cfg = loginURL @ ''/'' @ PathEscape tenant @ ''/oauth2/v2.0/token'')"

fun guarded_call :: "'v platform \<Rightarrow> gcall \<Rightarrow> bool" where
  "guarded_call g (G_Do endpoint access resp) = graph_origin g endpoint"
| "guarded_call g (G_Token cfg answer) = login_origin cfg"

text \<open>The calls of an operation on the directory.\<close>

abbreviation extends :: "'v platform \<Rightarrow> ('v, gcall) sys \<Rightarrow> ('v, gcall) sys \<Rightarrow> bool" where
  "extends g s s' \<equiv> \<exists>xs. trace s' = trace s @ xs \<and> list_all (guarded_call g) xs"

lemma extends_refl: "extends g s s"
  by (intro exI [of _ "[]"]) simp

lemma extends_trans: "extends g s s1 \<Longrightarrow> extends g s1 s' \<Longrightarrow> extends g s s'"
  by (metis append.assoc list_all_append)

lemma newDirectory_base [simp]: "directory_baseURL (newDirectory tenant ident secret [] []) = graphURL"
  by (simp add: newDirectory_def Let_def) code_simp

lemma newDirectory_login: "login_origin (directory_config (newDirectory tenant ident secret [] []))"
  by (auto simp: login_origin_def newDirectory_def Let_def loginURL_def)

lemma graph_get_guarded:
  assumes "directory_baseURL d = graphURL" "login_origin (directory_config d)"
  shows "yields (graph_get g d decode endpoint) (\<lambda>xs res. list_all (guarded_call g) xs)"
  unfolding graph_get_def token_def
  by (intro yields_intros) (auto simp: assms graph_origin_def dest: validEndpointD)

lemma readPages_guarded:
  assumes base: "directory_baseURL d = graphURL" "login_origin (directory_config d)"
    and "readPages (\<lambda>endpoint. run_state (graph_get g d decode endpoint)) seen result endpoint s = Some (r, s')"
  shows "extends g s s'"
  using assms(3)
proof (induction "\<lambda>endpoint. run_state (graph_get g d decode endpoint)" seen result endpoint s "(r, s')" arbitrary: r s'
    rule: readPages.raw_induct [rotated, consumes 1, case_names step])
  case (step rp seen result endpoint s)
  let ?get = "\<lambda>endpoint. run_state (graph_get g d decode endpoint)"
  obtain x s1 where x: "?get endpoint s = (x, s1)" by force
  then have first: "extends g s s1" using yieldsD [OF graph_get_guarded [OF base]] by blast
  have "s' = s \<or> s' = s1 \<or> (\<exists>seen result endpoint. rp ?get seen result endpoint s1 = Some (r, s'))"
    using step(2) x by (auto split: if_splits sum.splits option.splits)
  with step(1) have "s' = s \<or> s' = s1 \<or> extends g s1 s'" by blast
  then show ?case
  proof (elim disjE)
    assume "extends g s1 s'"
    then show ?thesis by (rule extends_trans [OF first])
  qed (use first extends_refl in simp_all)
qed

lemma NewDirectory_guarded:
  "extends g s (snd (GetServicePrincipal (NewDirectory g tenant ident secret) x s))"
  "extends g s (snd (ListAppRoleAssignedTo (NewDirectory g tenant ident secret) x s))"
  "extends g s (snd (ListGroupUsers (NewDirectory g tenant ident secret) x s))"
proof -
  let ?d = "newDirectory tenant ident secret [] []"
  note base = newDirectory_base [of tenant ident secret] newDirectory_login [of tenant ident secret]
  have "yields (Graph_GetServicePrincipal g ?d x) (\<lambda>xs res. list_all (guarded_call g) xs)"
    unfolding Graph_GetServicePrincipal_def by (intro yields_intros yields_mono [OF graph_get_guarded [OF base]]) simp
  from yieldsD [OF this] show "extends g s (snd (GetServicePrincipal (NewDirectory g tenant ident secret) x s))"
    by (simp add: NewDirectory_def Let_def) (metis prod.collapse)
  have pages: "extends g s (snd (returning (\<lambda>s. map_option (map_prod f id)
      (readPages (\<lambda>endpoint. run_state (graph_get g ?d decode endpoint)) [] [] endpoint s)) s))" for f decode endpoint
    using readPages_guarded [OF base] extends_refl
    by (auto simp: returning_def split: option.split)
  show "extends g s (snd (ListAppRoleAssignedTo (NewDirectory g tenant ident secret) x s))"
    "extends g s (snd (ListGroupUsers (NewDirectory g tenant ident secret) x s))"
    using pages by (simp_all add: NewDirectory_def Let_def Graph_ListAppRoleAssignedTo_def [abs_def] Graph_ListGroupUsers_def [abs_def])
qed

section \<open>A reconciliation\<close>

text \<open>Everything but the directory leaves the trace of the Entra client alone.\<close>

definition leaves_graph :: "(('v, gcall) sys \<Rightarrow> 'r \<times> ('v, gcall) sys) \<Rightarrow> bool" where
  "leaves_graph f \<longleftrightarrow> (\<forall>s. trace (snd (f s)) = trace s)"

definition sync_leaves_graph :: "('v, gcall) sys ZitiEntraRoleSyncReconciler \<Rightarrow> bool" where
  "sync_leaves_graph r \<longleftrightarrow> (\<forall>key. leaves_graph (Get (Sync_Client r) key)) \<and> (\<forall>obj. leaves_graph (Status_Update (Sync_Client r) obj)) \<and>
     (\<forall>ty reason msg. leaves_graph (Recorder_Event (Sync_Client r) ty reason msg)) \<and> leaves_graph (Now (Sync_Client r)) \<and>
     leaves_graph (ctx_Err r) \<and> (\<forall>key. leaves_graph (Get_Secret r key)) \<and> (\<forall>key. leaves_graph (APIReader_Get r key)) \<and>
     leaves_graph (APIReader_List_Syncs r) \<and> leaves_graph (APIReader_List_Identities r) \<and>
     leaves_graph (ListIdentities (Sync_ZitiClient r)) \<and> (\<forall>ident. leaves_graph (GetIdentity (Sync_ZitiClient r) ident)) \<and>
     (\<forall>ident attrs. leaves_graph (PatchIdentityRoleAttributes (Sync_ZitiClient r) ident attrs))"

definition graph_guarded :: "'v platform \<Rightarrow> gcall list \<Rightarrow> ('v, gcall) sys \<Rightarrow> rcall list \<Rightarrow> bool" where
  "graph_guarded g ys s xs \<longleftrightarrow> (\<exists>zs. trace s = ys @ zs \<and> list_all (guarded_call g) zs)"

lemma leaves_graph_follows:
  "leaves_graph f \<Longrightarrow> follows (graph_guarded g ys) mk f" "leaves_graph f \<Longrightarrow> silent (graph_guarded g ys) f"
  by (simp_all add: leaves_graph_def follows_def silent_def graph_guarded_def)

lemma extends_follows: "(\<And>s. extends g s (snd (f s))) \<Longrightarrow> follows (graph_guarded g ys) mk f"
  unfolding follows_def graph_guarded_def by (metis append.assoc list_all_append)

lemma sync_graph_guarded:
  assumes "DirectoryFactory r = NewDirectory g" "sync_leaves_graph r"
  shows "sync_tracked (graph_guarded g ys) r"
  using assms
  by unfold_locales (simp_all add: sync_leaves_graph_def leaves_graph_follows directory_follows_def
      extends_follows NewDirectory_guarded)


end
