(* ===== verification/Operator_Samples.thy ===== *)
theory Operator_Samples
  imports Startup Resource_Samples Management_Samples Operator_Sync Sync_Graph Entra_Samples
begin

text \<open>
  A sample deployment: the environment names a Secret, and the identity that is reconciled is
  being deleted, so the operator logs in and deletes it at the controller.
\<close>

definition getenv1 :: "string \<Rightarrow> string" where
  "getenv1 key = (if key = ManagementSecretNameEnv then ''mgmt'' else if key = ManagementSecretNamespaceEnv then '' ziti'' else [])"

definition api1 :: "(string, 'w) ManagementClient" where
  "api1 = \<lparr>loadConfig = None, authenticate = (\<lambda>_ w. (Inl Canceled, w)),
     api_Identity = absent, api_Service = absent, api_Config = absent, api_Policy = absent, api_RouterPolicy = absent,
     api_Patch = (\<lambda>_ _ _ w. (None, w)), api_Enrollments = (\<lambda>_ _ w. (Inr None, w)),
     api_CreateEnrollment = (\<lambda>_ _ _ w. (Inr None, w)), api_DetailEnrollment = (\<lambda>_ _ w. (Inr None, w)),
     api_Services = (\<lambda>_ w. (Inr (Some []), w)), api_ConfigTypes = (\<lambda>_ _ _ w. (Inr None, w)),
     api_EdgeRouters = (\<lambda>_ _ _ w. (Inr None, w)),
     mc_Now = (\<lambda>w. (0, w)), mc_uc = cred_uc cred_lib0, page_budget = 1\<rparr>"

definition deployment1 :: "(string, unit) deployment" where
  "deployment1 = \<lparr>dep_Getenv = getenv1, dep_cred = cred_lib0, dep_reader = (\<lambda>_ w. (Inr secret0, w)),
     dep_connect = (\<lambda>user _ _ _ w. (Inr user, w)), dep_api = api1,
     dep_identity = irec identity1, dep_service = srec Resource_Samples.service0, dep_policy = arec policy0, dep_sync = rec0\<rparr>"

lemma ref1: "SecretRefFromEnv (dep_Getenv deployment1) = Inr ref0"
  by code_simp

text \<open>Beside the reconciler another one, whose session was rejected, drops the cached session.\<close>

definition others1 :: "(string option \<times> ManagementConfig) option list" where
  "others1 = [None, None, Some (None, cfg0)]"

definition start1 :: "(string, unit) opw" where
  "start1 = \<lparr>world = (New_client ())\<lparr>outside := (), meanwhile := others1\<rparr>, trace = []\<rparr>"

lemma secret1: "LoadManagementConfig cred_lib0 (Some secret0) = Inr cfg0"
  by code_simp

lemma others1_valid: "others_valid (openZitiClient deployment1 ref0) (from_secret deployment1 ref0) others1"
  using secret1 by (simp add: others_valid_def others1_def from_secret_def deployment1_def)

lemma start1_run: "operator_run deployment1 ref0 start1"
  using operator_run.environment [OF operator_run.start [OF ref1] others1_valid] by (simp add: start1_def)

definition run1 :: "(string, unit) opw" where
  "run1 = reconciled (Identity_Reconcile (identityReconciler deployment1 ref0) key0) start1"

lemma operator_run1: "operator_run deployment1 ref0 run1"
  unfolding run1_def by (intro operator_run.identity start1_run)

lemma trace1: "trace run1 = [M_Load (Inr cfg0), M_Auth cfg0 (Inr ''admin''), M_Identity (R_Delete ''admin'' ''b1'' (Some (Coded 404 [])))]"
  by code_simp

theorem operator_run_credentials_witness:
  "operator_run deployment1 ref0 run1 \<and> M_Identity (R_Delete ''admin'' ''b1'' (Some (Coded 404 []))) \<in> set (trace run1) \<and>
   from_secret deployment1 ref0 cfg0 \<and> usable cred_lib0 cfg0"
proof -
  have "trace run1 = [M_Load (Inr cfg0), M_Auth cfg0 (Inr ''admin'')] @ M_Identity (R_Delete ''admin'' ''b1'' (Some (Coded 404 []))) # []"
    by (simp add: trace1)
  from guardedD [OF conjunct2 [OF operator_run_credentials [OF operator_run1]] this]
  have "from_secret deployment1 ref0 cfg0 \<and> usable (dep_cred deployment1) cfg0"
    by (simp add: current_config_def current_step_def)
  with operator_run1 trace1 show ?thesis by (simp add: deployment1_def)
qed

section \<open>A role sync\<close>

text \<open>A controller with one identity: its world is the attributes of the identity.\<close>

definition detail2 :: "string list \<Rightarrow> IdentityDetail" where
  "detail2 attrs = \<lparr>ID_ID = Some ''i1'', ID_Name = Some ''alice'', ID_TypeName = Some ''User'', ID_RoleAttributes = Some attrs,
     ID_ExternalID = Some ''alice@X''\<rparr>"

definition store2 :: "string list \<Rightarrow> string \<rightharpoonup> IdentityDetail" where
  "store2 w = [''i1'' \<mapsto> detail2 w]"

definition listing2 :: "(string \<rightharpoonup> IdentityDetail) \<Rightarrow> IdentityDetail list" where
  "listing2 st = (case st ''i1'' of None \<Rightarrow> [] | Some d \<Rightarrow> [d])"

definition identities2 :: "(string, string list, IdentityCreate, IdentityBody, IdentityDetail) crud" where
  "identities2 = absent\<lparr>
     rest_Detail := (\<lambda>_ ident w. (if ident = ''i1'' then Inr (Some (Some (detail2 w))) else Inl (Coded 404 []), w)),
     rest_List := (\<lambda>_ limit offset w. (Inr (Some (Some (take (nat limit) (drop (nat offset) [Some (detail2 w)])))), w))\<rparr>"

definition patch2 :: "string \<Rightarrow> string \<Rightarrow> string list \<Rightarrow> string list \<Rightarrow> error option \<times> string list" where
  "patch2 api ident attrs w = (if ident = ''i1'' then (None, attrs) else (Some (Coded 404 []), w))"

definition deployment2 :: "(string, string list) deployment" where
  "deployment2 = \<lparr>dep_Getenv = getenv1, dep_cred = cred_lib0, dep_reader = (\<lambda>_ w. (Inr secret0, w)),
     dep_connect = (\<lambda>user _ _ _ w. (Inr user, w)), dep_api = api1\<lparr>api_Identity := identities2, api_Patch := patch2\<rparr>,
     dep_identity = irec identity1, dep_service = srec Resource_Samples.service0, dep_policy = arec policy0, dep_sync = rec0\<rparr>"

lemma TrimSpace2: "TrimSpace ''i1'' = ''i1''" "TrimSpace ''alice'' = ''alice''" "TrimSpace ''User'' = ''User''"
  by code_simp+

lemma stored2: "stored_identity ''i1'' (detail2 attrs)"
  by (simp add: stored_identity_def usable_id_def detail2_def TrimSpace2)

lemma client2:
  "loadConfig (openZitiClient deployment2 ref0) = Some (SecretConfigLoader_Load cred_lib0 (\<lambda>_ w. (Inr secret0, w)) ref0)"
  "authenticate (openZitiClient deployment2 ref0) = authenticateWithUPDB cred_lib0 (\<lambda>user _ _ _ w. (Inr user, w))"
  "api_Identity (openZitiClient deployment2 ref0) = identities2" "api_Patch (openZitiClient deployment2 ref0) = patch2"
  "page_budget (openZitiClient deployment2 ref0) = 1"
  by (simp_all add: openZitiClient_def deployment2_def api1_def)

lemma load2: "SecretConfigLoader_Load cred_lib0 (\<lambda>_ w. (Inr secret0, w)) ref0 w = (Inr cfg0, w)"
  by (simp add: SecretConfigLoader_Load_def secret1)

lemma authenticate2: "authenticateWithUPDB cred_lib0 (\<lambda>user _ _ _ w. (Inr user, w)) cfg w = (Inr (Username cfg), w)"
  by (simp add: authenticateWithUPDB_def rootCAsFromConfig_def cred_lib0_def)

lemma page2: "0 \<le> offset \<Longrightarrow> map Some (page [d] offset) = take 100 (drop (nat offset) [Some d])"
  by (cases "nat offset") (simp_all add: page_def)

lemma holds2: "holds_identities (openZitiClient deployment2 ref0) store2 listing2"
proof -
  have "sessions_spare (openZitiClient deployment2 ref0) store2"
    by (simp add: sessions_spare_def client2 load2 authenticate2)
  moreover have "tells_identity identities2 store2"
    by (auto simp: tells_identity_def identities2_def store2_def split: if_splits)
  moreover have "tells_identities identities2 store2 listing2"
    by (simp add: tells_identities_def identities2_def store2_def listing2_def page2 page_limit_def)
  moreover have "listed_once (store2 w) (listing2 (store2 w))" for w
    using stored2 [of w] by (simp add: listed_once_def listing2_def store2_def) (simp add: detail2_def)
  moreover have "patches_identity patch2 store2"
    by (simp add: patches_identity_def patch2_def store2_def detail2_def)
  ultimately show ?thesis by (simp add: holds_identities_def client2)
qed

lemma spares2: "sync_spares store2 (dep_sync deployment2)"
  by (simp add: sync_spares_def spares_def directory_spares_def deployment2_def)

text \<open>The world of the operator after the calls of the client.\<close>

definition start2 :: "(string, string list) opw" where
  "start2 = \<lparr>world = New_client [''vpn'', ''stale''], trace = []\<rparr>"

definition listed2 :: "(string, string list) opw" where
  "listed2 = snd (run_state (Mgmt_ListIdentities (openZitiClient deployment2 ref0)) start2)"

definition got2 :: "(string, string list) opw" where
  "got2 = snd (run_state (Mgmt_GetIdentity (openZitiClient deployment2 ref0) ''i1'') listed2)"

definition patched2 :: "(string, string list) opw" where
  "patched2 = snd (run_state (Mgmt_PatchIdentityRoleAttributes (openZitiClient deployment2 ref0) ''i1'' [''vpn'', ''admin'']) got2)"

definition quiet :: "(string, string list) opw \<Rightarrow> bool" where
  "quiet s \<longleftrightarrow> meanwhile (world s) = []"

lemma quiet_aside:
  "quiet s \<Longrightarrow> snd (f (outside (world s))) = outside (world s) \<Longrightarrow> aside f s = (fst (f (outside (world s))), s)"
  by (simp add: aside_def outer_def quiet_def settle.simps)

lemma plays2: "plays quiet (syncReconciler deployment2 ref0)"
  by (simp add: plays_def syncReconciler_def aside_kube_def aside_directory_def deployment2_def Let_def quiet_aside)

lemma ident2: "identityFromEnvelope (Some (Some (detail2 [''vpn'', ''stale'']))) = Inr ident0"
  by (simp add: identityFromEnvelope_def detail2_def TrimSpace2 ident0_def)

lemmas client2_run = useAuthenticatedClient_def getOrAuthenticate_def loadCurrentConfig_def effect_simps outer_def client2 load2
  authenticate2 settle.simps sameManagementConfig_def

lemma listed2_run:
  "run_state (Mgmt_ListIdentities (openZitiClient deployment2 ref0)) start2 = (Inr [ident0], listed2)"
  "cachedClient (world listed2) = Some ''admin''" "cachedConfig (world listed2) = cfg0" "meanwhile (world listed2) = []"
  "outside (world listed2) = [''vpn'', ''stale'']"
proof -
  have user: "Username cfg0 = ''admin''" by (simp add: cfg0_def)
  note run = Mgmt_ListIdentities_def client2_run start2_def New_client_def identities2_def page_limit_def ident2 user
  show "run_state (Mgmt_ListIdentities (openZitiClient deployment2 ref0)) start2 = (Inr [ident0], listed2)"
    unfolding listed2_def by (simp add: run)
  show "cachedClient (world listed2) = Some ''admin''" "cachedConfig (world listed2) = cfg0" "meanwhile (world listed2) = []"
    "outside (world listed2) = [''vpn'', ''stale'']"
    unfolding listed2_def by (simp_all add: run)
qed

lemma got2_run:
  "run_state (Mgmt_GetIdentity (openZitiClient deployment2 ref0) ''i1'') listed2 = (Inr (Some ident0), got2)"
  "cachedClient (world got2) = Some ''admin''" "cachedConfig (world got2) = cfg0" "meanwhile (world got2) = []"
  "outside (world got2) = [''vpn'', ''stale'']"
proof -
  note run = Mgmt_GetIdentity_def client2_run getOp_def identities2_def conv_identity_def ident2 listed2_run(2-5)
  show "run_state (Mgmt_GetIdentity (openZitiClient deployment2 ref0) ''i1'') listed2 = (Inr (Some ident0), got2)"
    unfolding got2_def by (simp add: run)
  show "cachedClient (world got2) = Some ''admin''" "cachedConfig (world got2) = cfg0" "meanwhile (world got2) = []"
    "outside (world got2) = [''vpn'', ''stale'']"
    unfolding got2_def by (simp_all add: run)
qed

lemma patched2_run:
  "run_state (Mgmt_PatchIdentityRoleAttributes (openZitiClient deployment2 ref0) ''i1'' [''vpn'', ''admin'']) got2 = (Inr (), patched2)"
  "meanwhile (world patched2) = []" "outside (world patched2) = [''vpn'', ''admin'']"
proof -
  note run = Mgmt_PatchIdentityRoleAttributes_def client2_run patch2_def got2_run(2-5)
  show "run_state (Mgmt_PatchIdentityRoleAttributes (openZitiClient deployment2 ref0) ''i1'' [''vpn'', ''admin'']) got2 = (Inr (), patched2)"
    unfolding patched2_def by (simp add: run)
  show "meanwhile (world patched2) = []" "outside (world patched2) = [''vpn'', ''admin'']"
    unfolding patched2_def by (simp_all add: run)
qed

lemma serves2: "serves0 quiet (syncReconciler deployment2 ref0) start2 listed2 got2 patched2"
proof -
  have "Sync_ZitiClient (syncReconciler deployment2 ref0) = management_client (openZitiClient deployment2 ref0)"
    by (simp add: syncReconciler_def Let_def)
  moreover have "quiet start2" "quiet listed2" "quiet got2" "quiet patched2"
    by (simp_all add: quiet_def start2_def New_client_def listed2_run got2_run patched2_run)
  ultimately show ?thesis
    by (simp add: serves0_def plays2 management_client_def as_error_def listed2_run(1) got2_run(1) patched2_run(1))
qed

theorem operator_sync_establishes_witness:
  "\<exists>res msg obj resource snap input rest. run_state (Sync_Reconcile (syncReconciler deployment2 ref0) key0) \<lparr>world = start2, trace = []\<rparr> =
      (res, \<lparr>world = patched2, trace = finish0 msg @ [Sync_Kube (KStatus obj (Inr obj))]\<rparr>) \<and>
     LastSyncTime (ZERS_Status obj) = Some 100 \<and> snapshot_calls resource snap input \<and>
     identities_of store2 start2 = by_id (Identities input) \<and>
     established uc0 resource input rest (identities_of store2 patched2)"
proof -
  obtain res msg obj where run: "run_state (Sync_Reconcile (syncReconciler deployment2 ref0) key0) \<lparr>world = start2, trace = []\<rparr> =
      (res, \<lparr>world = patched2, trace = finish0 msg @ Sync_Kube (KStatus obj (Inr obj)) # []\<rparr>)" "LastSyncTime (ZERS_Status obj) = Some 100"
    using reconciled0 [OF serves2] by blast
  have advanced: "LastSyncTime (ZERS_Status obj) \<noteq> LastSyncTime (ZERS_Status current)"
    if "Reader_Get k (Inr current) \<in> set (finish0 msg)" for k current
    using finish0_readers [OF that] run(2) by simp
  have r: "k_lib (Sync_Client (dep_sync deployment2)) = lib0" "Sync_uc (dep_sync deployment2) = uc0" by (simp_all add: deployment2_def)
  have fold: "EqualFold uc0 x x" for x by (simp add: EqualFold_def uc0_def)
  have "\<exists>resource snap input rest. finish0 msg = Sync_Kube (KGet key0 (Inr resource)) # snap @ rest \<and> snapshot_calls resource snap input \<and>
      identities_of store2 start2 = by_id (Identities input) \<and>
      established (Sync_uc (dep_sync deployment2)) resource input rest (identities_of store2 patched2)"
    by (rule operator_sync_establishes [OF holds2 spares2 _ _ run(1)]) (simp_all add: r fold advanced)
  with run show ?thesis unfolding r by auto
qed

section \<open>A role sync on the Entra client\<close>

definition rec3 :: "(unit, gcall) sys ZitiEntraRoleSyncReconciler" where
  "rec3 = rec0\<lparr>DirectoryFactory := NewDirectory platform0\<rparr>"

definition start3 :: "((unit, gcall) sys, rcall) sys" where
  "start3 = \<lparr>world = \<lparr>world = (), trace = []\<rparr>, trace = []\<rparr>"

definition calls3 :: "gcall list" where
  "calls3 = trace (world (snd (run_state (Sync_Reconcile rec3 key0) start3)))"

lemma principal3:
  "\<exists>err endpoint resp. GetServicePrincipal (NewDirectory platform0 tenant ident secret) x s = (Inl err, s\<lparr>trace := trace s @
     [G_Token (directory_config (newDirectory tenant ident secret [] [])) (Inr ''t''), G_Do endpoint ''t'' (Some resp)]\<rparr>)"
  by (cases s) (simp add: NewDirectory_def Let_def Graph_GetServicePrincipal_def graph_get_def token_def validEndpoint_def
      platform0_def effect_simps)

lemma rec0_still: "sync_tracked (\<lambda>w _. w = u) rec0"
  by unfold_locales (simp_all add: carries_def directory_carries_def)

lemma persisted3: "world (snd (run_state (persistSyncResult rec3 resource result) s)) = world s"
proof -
  have "Sync_Client rec3 = Sync_Client rec0" "APIReader_Get rec3 = APIReader_Get rec0" by (simp_all add: rec3_def)
  then have "persistSyncResult rec3 resource result = persistSyncResult rec0 resource result"
    by (simp only: persistSyncResult_def readRoleSync_def setRoleSyncConditions_def)
  moreover have "preserves (\<lambda>w. w = world s) (persistSyncResult rec0 resource result)"
    by (rule sync_tracked.tracks_persistSyncResult [OF rec0_still])
  from preservesD [OF this refl] have "world (snd (run_state (persistSyncResult rec0 resource result) s)) = world s" .
  ultimately show ?thesis by (simp only:)
qed

lemma calls3_made: "\<exists>cfg endpoint resp. calls3 = [G_Token cfg (Inr ''t''), G_Do endpoint ''t'' (Some resp)]"
proof -
  obtain err endpoint resp where sp: "GetServicePrincipal (NewDirectory platform0 guid0 ''c'' ''k'') guid0 (world start3) =
      (Inl err, (world start3)\<lparr>trace := trace (world start3) @
        [G_Token (directory_config (newDirectory guid0 ''c'' ''k'' [] [])) (Inr ''t''), G_Do endpoint ''t'' (Some resp)]\<rparr>)"
    using principal3 by blast
  have "TenantID (ZERS_Spec sync0) = guid0" "AppID (ZERS_Spec sync0) = guid0" by (simp_all add: sync0_def)
  with sp show ?thesis
    unfolding calls3_def
    by (simp add: Sync_Reconcile_def runSync_def readDirectory_def readGraph_def valid0 effect_simps Let_def mget_def rec3_def
        persisted3 [unfolded rec3_def] start3_def split_beta split: option.split)
qed

lemma leaves3: "sync_leaves_graph rec3"
  by (simp add: sync_leaves_graph_def leaves_graph_def rec3_def)


section \<open>Start-up\<close>

definition manager1 :: "(unit, unit) manager" where
  "manager1 = \<lparr>GetConfigOrDie = (\<lambda>w. (True, w)), NewManager = (\<lambda>_ w. (None, w)), Complete_controller = (\<lambda>_ _ w. (None, w)),
     AddHealthzCheck = (\<lambda>_ w. (None, w)), AddReadyzCheck = (\<lambda>_ w. (None, w)), Start = (\<lambda>w. (None, w))\<rparr>"

lemma main1:
  "run_state (main flag_defaults getenv1 manager1) \<lparr>world = (), trace = []\<rparr> =
     (Returned, \<lparr>world = (), trace = prepared flag_defaults ref0 @ [Main_Start None]\<rparr>)"
  using ref1 by (simp add: main_def or_exit_def register_def effect_simps manager1_def prepared_def deployment1_def)

theorem main_starts_witness:
  "SecretRefFromEnv getenv1 = Inr ref0 \<and>
   FilterProvider (Opt_Metrics (managerOptions flag_defaults :: unit ctrl_Options)) = Some WithAuthenticationAndAuthorization \<and>
   NextProtos (fold (\<lambda>opt. opt) (Metrics_TLSOpts (Opt_Metrics (managerOptions flag_defaults)))
     \<lparr>NextProtos = [''h2''], \<dots> = ()\<rparr>) = [''http/1.1'']"
proof -
  note run = main_starts [OF main1]
  have new: "Main_NewManager (managerOptions flag_defaults :: unit ctrl_Options) None
      \<in> set (trace \<lparr>world = (), trace = prepared flag_defaults ref0 @ [Main_Start None]\<rparr>)"
    by (simp add: prepared_def)
  have "\<exists>ref. SecretRefFromEnv getenv1 = Inr ref \<and> (prepared flag_defaults ref0 :: unit main_call list) = prepared flag_defaults ref"
    using guardedD [OF conjunct1 [OF run], of "prepared flag_defaults ref0" "Main_Start None" "[]"] by simp
  moreover from run new have "serving flag_defaults (managerOptions flag_defaults :: unit ctrl_Options)"
    unfolding serving_def by blast
  ultimately show ?thesis by (auto simp: prepared_def serving_def flag_defaults_def)
qed

end
