(* ===== verification/Spec2Isabelle.thy ===== *)
theory Spec2Isabelle
  imports Entra_Samples Operator_Samples
begin

text \<open>
  A verification development of the miniziti operator, the Go program under \<^verbatim>\<open>src/\<close>.

  \<^bold>\<open>The program.\<close> The operator runs in Kubernetes and keeps an OpenZiti network in line with
  custom resources. Four reconcilers (\<^verbatim>\<open>internal/controller\<close>) handle one resource kind each:
  \<^verbatim>\<open>ZitiIdentity\<close> (an identity and a Secret with its enrollment token), \<^verbatim>\<open>ZitiService\<close> (a service,
  its two configs and its router policies), \<^verbatim>\<open>ZitiAccessPolicy\<close> (a policy compiled from selectors)
  and \<^verbatim>\<open>ZitiEntraRoleSync\<close> (role attributes of identities, granted from the app role assignments
  of a Microsoft Entra application). They share one client of the OpenZiti management API
  (\<^verbatim>\<open>internal/openziti/client\<close>), which logs in with credentials from a Secret
  (\<^verbatim>\<open>internal/credentials\<close>) and caches its session. The role sync reads Entra through a Graph
  client (\<^verbatim>\<open>internal/entra\<close>) and decides what to write in pure code (\<^verbatim>\<open>internal/rolesync\<close>).
  \<^verbatim>\<open>cmd/main.go\<close> puts the parts together.

  \<^bold>\<open>How it is modelled.\<close> Go structs are records and enums are datatypes with the names of the
  source, prefixed where two structs share a field name. A pointer that may be nil is an option.
  Strings are byte lists, as in Go, so \<^verbatim>\<open>TrimSpace\<close> works on UTF-8 encodings. An error is a value of
  \<open>error\<close> (\<open>Errors\<close>), with the chain that \<^verbatim>\<open>errors.As\<close> and \<^verbatim>\<open>errors.Is\<close> walk; a Go result with an
  error is a sum. A dereference of nil that the code does not guard gives the error
  \<open>Panic\<close>, as the recovery of controller-runtime does. A function that talks to a service is a state transformer over an opaque
  world and a trace of its calls with their answers (\<open>Prelude\<close>): each call is a parameter that maps
  the world to an answer and a next world, so the services may answer anything and change between
  any two calls. \<open>yields m Q\<close> says that whatever the services answer, the calls of \<open>m\<close> and its
  result satisfy \<open>Q\<close>; \<open>keeps I m Q\<close> adds an invariant of the world; \<open>guarded P xs\<close> says that \<open>P\<close>
  holds of every call of \<open>xs\<close> and the calls before it. The rules of these predicates follow the
  program text and are collected in named theorems, so a property of a handler is proved by
  applying them and discharging what is left.

  \<^bold>\<open>Theories, in the order of their imports.\<close>

  \<^item> \<open>Prelude\<close>, \<open>Errors\<close>: slices, maps, strings, URLs, the effect layer; Go errors.
  \<^item> \<open>Directory\<close>, \<open>Ziti_Types\<close>, \<open>Api_Types\<close>: the data of \<^verbatim>\<open>entra/directory.go\<close>,
    \<^verbatim>\<open>openziti/client/client.go\<close> and \<^verbatim>\<open>api/v1alpha1\<close>, and the interfaces \<^verbatim>\<open>Directory\<close> and \<^verbatim>\<open>Client\<close>.
  \<^item> \<open>Entra_Errors\<close>, \<open>Entra_Client\<close>: the Graph client. Error texts never contain the client secret
    or the token; a \<^verbatim>\<open>Retry-After\<close> header gives a bounded, non-negative delay; paging ends because a
    next link is followed once; the token goes to the origin of the Graph endpoint only; a snapshot
    is accepted exactly when every item of it is valid.
  \<^item> \<open>Role_Sets\<close>, \<open>Ownership\<close>, \<open>Scope\<close>, \<open>Planner\<close>, \<open>Retirement\<close>: \<^verbatim>\<open>internal/rolesync\<close>, one theory per
    file (\<^verbatim>\<open>matching.go\<close> is in \<open>Planner\<close>). Each value has one owner; grants are exactly those of
    enabled roles; a patch touches managed values only and leaves exactly the granted ones, every
    eligible identity that differs is patched, and a plan made after the patches is empty; a
    claim is given up only when no identity can still carry the value.
  \<^item> \<open>Reconcile_Helpers\<close>, \<open>Status_Marks\<close>: \<^verbatim>\<open>reconcile_helpers.go\<close>, the status writers and the
    finalizer frame that three reconcilers repeat, written once over the accessors of a resource.
  \<^item> \<open>Sync_Reads\<close>, \<open>Sync_Writes\<close>, \<open>Sync_Status\<close>, \<open>Sync_Controller\<close>: the four files of the role-sync
    reconciler. The calls of a run are a relation (\<open>snapshot_calls\<close>, \<open>run_calls\<close>, \<open>sync_calls\<close>); from
    it: every patch was planned from a complete snapshot and checked against a fresh read, claims
    are recorded before the first patch, no claim is forgotten while an identity may carry it, a
    live sync stays in the queue, and one failure is reported once. \<open>Sync_Convergence\<close> replays the calls
    on a map of identities: a run that advances the last sync time made every eligible identity
    right, if nobody else changed the identities meanwhile. \<open>Sync_Tracking\<close>: a relation of world and
    calls that each call keeps is kept by the reconciliation. \<open>Sync_Graph\<close>: with the Entra client as
    its directory, a reconciliation sends tokens to Graph and the client secret to the login
    service only.
  \<^item> \<open>Identity_Controller\<close>, \<open>Service_Controller\<close>, \<open>Policy_Controller\<close>: the other reconcilers with the
    service packages \<^verbatim>\<open>openziti/identity\<close>, \<^verbatim>\<open>openziti/service\<close>, \<^verbatim>\<open>openziti/policy\<close> and the enrollment Secrets. A finalizer
    goes only after the backend objects did; an identity is created at most once and after a search
    that found none; Ready is reported of what was stored; router policies are complete or not
    written; a policy grants what its selectors match.
  \<^item> \<open>Rest_Models\<close>, \<open>Credentials\<close>, \<open>Management_Client\<close>: the bodies of the management API, the
    credentials and the client with its session cache and all operations. \<open>Management_Sessions\<close>:
    a call uses a session of the credentials loaded last. \<open>Management_Paging\<close>: searches equal a search
    of the whole list. \<open>Management_Store\<close>, \<open>Management_Kinds\<close>: the operations on each of the five kinds
    of objects refine a map from ids to objects. \<open>Management_Retries\<close>: how often a creating call is sent.
  \<^item> \<open>Preservation\<close>, \<open>Operator\<close>, \<open>Startup\<close>: an invariant that every provider keeps is kept by the
    reconcilers; the operator assembled from one client and four reconcilers; \<^verbatim>\<open>main\<close> from its flags
    to the start of the manager. \<open>Operator_Sync\<close>: what \<open>Sync_Convergence\<close> says of the trace holds of the
    identities in the controller, through the sessions and pages of the management client.
  \<^item> \<open>Sync_Samples\<close>, \<open>Sync_Run_Samples\<close>, \<open>Resource_Samples\<close>, \<open>Entra_Samples\<close>, \<open>Management_Tables\<close>,
    \<open>Management_Samples\<close>, \<open>Operator_Samples\<close>: concrete inputs and providers, on which the theorems are applied.

  \<^bold>\<open>Interfaces.\<close> \<open>claim_order\<close> is what arbitration needs of the order of claims; \<open>canonical\<close> is what
  both routines promise that make a slice a set; \<open>status_resource\<close> and \<open>finalizing\<close> are the contract
  of a resource with a status and a finalizer, interpreted for the three reconcilers;
  \<open>rest_interface\<close> and \<open>rest_calls\<close> are the contract of the REST interface of one kind of object,
  interpreted for the five kinds; \<open>object_kind\<close> is what the conversions of a kind promise to the
  store, interpreted for the five kinds; \<open>sync_tracked\<close> is a provider of the role sync whose calls
  keep a relation, and \<open>sync_host\<close> is an instance of it; \<open>kube_host\<close>, \<open>client_host\<close> and the four hosts built on them are
  the providers of a reconciler with an invariant, interpreted for the assembled operator.

  \<^bold>\<open>Concurrency.\<close> The reconcilers run at the same time. Every call of a reconciler may find the
  services changed by the others, because the world after a call is any world. The one state they
  share in memory is the session cache of the management client. Its mutex is held only while the
  cache is read or written, so others are seen after calls: the field \<open>meanwhile\<close> of \<open>mgmt\<close> lists what
  they leave in the cache. A run relies on these caches being valid (\<open>others_valid\<close>), and what it
  leaves is proved valid in the same sense. A role sync never runs beside itself
  (\<open>Sync_SetupWithManager\<close>).

  \<^bold>\<open>Bounds.\<close> Loops over slices are structural recursions and loops over strings shorten their
  input. Two loops follow pages. \<open>Entra_Client.readPages\<close> is a \<open>partial_function\<close> in the option
  type, and it is proved to return whenever the next links come from a finite set. The
  pages of the management API are read with a budget (\<open>page_budget\<close>) that stands for the loop's
  freedom to go on: any budget of more than a hundredth of the list's length gives the result of a
  search of the whole list, since each page but the last has 100 items. A directory list that never
  ends and a budget that runs out give the error \<open>Diverges\<close>, which is no value of the program. Numbers are unbounded
  except where the code converts or multiplies: durations are 64-bit, with the wrap-around written
  out (\<open>int64\<close>), and the counts in a policy's status are 32-bit (\<open>int32\<close>).

  \<^bold>\<open>Parameters.\<close> Code that is not in the repository is an argument: the Kubernetes client and the
  condition helpers of apimachinery (with their documented behaviour as \<open>apimeta_ok\<close>), the
  generated REST client of edge-api, the HTTP transport and token source of the Graph client, the
  parsers of JSON, URLs and PEM, Unicode case folding, the clock, and the manager of
  controller-runtime.

  \<^bold>\<open>Not modelled.\<close> The generated deep copies (values here are immutable), the registration of types
  with a scheme, the command line parser, log output, the client for tests
  (\<^verbatim>\<open>openziti/client/fake_client.go\<close>), \<^verbatim>\<open>hack/tools.go\<close> and the helpers of the end-to-end tests. Contexts
  appear where the code asks for their error; a context that expires makes a call fail, which
  every call may.
\<close>

end
